(* ===== verification/Prelude.thy ===== *)
theory Prelude
  imports Complex_Main "HOL-Library.Multiset" "HOL-Library.Sublist"
begin

text \<open>
  Shared vocabulary of the development: JavaScript strings as lists of UTF-16 code units,
  the string and array methods the sources call (\<open>split\<close>, \<open>join\<close>, \<open>trim\<close>, \<open>lastIndexOf\<close>,
  \<open>includes\<close>, \<open>startsWith\<close>, \<open>endsWith\<close>, \<open>toLowerCase\<close>, \<open>find\<close>, \<open>sort\<close>) with the lemmas the
  component theories use, the error values of failing calls, and the contract (a locale) of
  handlers that a \<open>finally\<close> block closes.
\<close>

named_theorems page_defs "definitions of the page handlers, unfolded together"
named_theorems msg_defs "string constants of the user interface"

section \<open>Strings\<close>

type_synonym jstring = "nat list"

text \<open>An ASCII literal of the source as a list of code units.\<close>

definition js :: "string \<Rightarrow> jstring" where
  "js s = map of_char s"

lemma js_Nil [simp]: "js [] = []"
  by (simp add: js_def)

lemma js_Cons [simp]: "js (c # cs) = of_char c # js cs"
  by (simp add: js_def)

text \<open>The operator \<open>a || b\<close> on strings: the empty string is falsy.\<close>

definition or_str :: "jstring \<Rightarrow> jstring \<Rightarrow> jstring" where
  "or_str a b = (if a = [] then b else a)"

lemma or_str_Nil [simp]: "or_str [] b = b"
  by (simp add: or_str_def)

lemma or_str_nonempty [simp]: "a \<noteq> [] \<Longrightarrow> or_str a b = a"
  by (simp add: or_str_def)

lemma or_str_eq_Nil [simp]: "or_str a b = [] \<longleftrightarrow> a = [] \<and> b = []"
  by (simp add: or_str_def)

text \<open>An optional string member, read as \<open>a?.m || b\<close>: a missing member is falsy too.\<close>

definition opt_str :: "jstring option \<Rightarrow> jstring" where
  "opt_str m = (case m of None \<Rightarrow> [] | Some s \<Rightarrow> s)"

lemma opt_str_simps [simp]: "opt_str None = []" "opt_str (Some s) = s"
  by (simp_all add: opt_str_def)

text \<open>An optional list, read as \<open>m || []\<close>.\<close>

definition opt_items :: "'a list option \<Rightarrow> 'a list" where
  "opt_items m = (case m of None \<Rightarrow> [] | Some xs \<Rightarrow> xs)"

subsection \<open>Splitting and joining\<close>

text \<open>A list without the element at an index.\<close>

definition drop_nth :: "nat \<Rightarrow> 'a list \<Rightarrow> 'a list" where
  "drop_nth i xs = take i xs @ drop (Suc i) xs"

lemma drop_nth_member: "x \<in> set (drop_nth i xs) \<Longrightarrow> x \<in> set xs"
  by (auto simp: drop_nth_def dest: in_set_takeD in_set_dropD)

text \<open>\<open>s.split(c)\<close> for a separator of one code unit: the empty string has one part.\<close>

fun split_on :: "'a \<Rightarrow> 'a list \<Rightarrow> 'a list list" where
  "split_on c [] = [[]]"
| "split_on c (x # xs) =
     (if x = c then [] # split_on c xs
      else (case split_on c xs of [] \<Rightarrow> [[x]] | y # ys \<Rightarrow> (x # y) # ys))"

fun join_with :: "'a list \<Rightarrow> 'a list list \<Rightarrow> 'a list" where
  "join_with c [] = []"
| "join_with c [x] = x"
| "join_with c (x # y # zs) = x @ c @ join_with c (y # zs)"

lemma split_on_nonempty [simp]: "split_on c s \<noteq> []"
  by (induction s) (auto split: list.splits)

lemma join_split_on: "join_with [c] (split_on c s) = s"
proof (induction s)
  case (Cons x xs)
  obtain y ys where "split_on c xs = y # ys"
    by (cases "split_on c xs") auto
  with Cons show ?case
    by (cases ys) auto
qed simp

lemma split_on_free: "c \<notin> set x \<Longrightarrow> split_on c x = [x]"
  by (induction x) auto

lemma split_on_append: "c \<notin> set x \<Longrightarrow> split_on c (x @ c # s) = x # split_on c s"
  by (induction x) auto

lemma split_on_append_sep: "split_on c (x @ c # y) = split_on c x @ split_on c y"
  by (induction x) (auto split: list.splits)

lemma split_on_replicate: "split_on c (replicate k c) = replicate (Suc k) []"
  by (induction k) auto

lemma split_join_with:
  "xs \<noteq> [] \<Longrightarrow> \<forall>x \<in> set xs. c \<notin> set x \<Longrightarrow> split_on c (join_with [c] xs) = xs"
  by (induction "[c]" xs rule: join_with.induct) (auto simp: split_on_free split_on_append)

lemma split_on_parts_free: "x \<in> set (split_on c s) \<Longrightarrow> c \<notin> set x"
  by (induction s arbitrary: x) (auto split: list.splits if_splits)

lemma set_split_on: "x \<in> set (split_on c s) \<Longrightarrow> set x \<subseteq> set s"
  by (induction s arbitrary: x) (fastforce split: list.splits if_splits)+

subsection \<open>White space and trimming\<close>

text \<open>ECMAScript WhiteSpace and LineTerminator code units, which \<open>trim\<close> removes.\<close>

definition is_ws :: "nat \<Rightarrow> bool" where
  "is_ws c \<longleftrightarrow> c \<in> {9, 10, 11, 12, 13, 32, 0xA0, 0x1680, 0x2028, 0x2029, 0x202F, 0x205F, 0x3000, 0xFEFF}
     \<or> 0x2000 \<le> c \<and> c \<le> 0x200A"

definition trim :: "jstring \<Rightarrow> jstring" where
  "trim s = rev (dropWhile is_ws (rev (dropWhile is_ws s)))"

lemma trim_id: "s = [] \<or> \<not> is_ws (hd s) \<and> \<not> is_ws (last s) \<Longrightarrow> trim s = s"
proof -
  assume a: "s = [] \<or> \<not> is_ws (hd s) \<and> \<not> is_ws (last s)"
  then have "dropWhile is_ws s = s"
    by (cases s) auto
  moreover from a have "dropWhile is_ws (rev s) = rev s"
    by (cases s rule: rev_cases) auto
  ultimately show ?thesis
    by (simp add: trim_def)
qed

lemma trim_idem [simp]: "trim (trim s) = trim s"
proof (cases "trim s = []")
  case False
  define d where "d = dropWhile is_ws s"
  have "last (trim s) = hd (dropWhile is_ws (rev d))"
    by (simp add: trim_def d_def last_rev)
  moreover have "dropWhile is_ws (rev d) \<noteq> []"
    using False by (simp add: trim_def d_def)
  ultimately have l: "\<not> is_ws (last (trim s))"
    by (simp add: hd_dropWhile)
  have "d \<noteq> []"
    using False by (auto simp: trim_def simp flip: d_def)
  then have hd: "\<not> is_ws (hd d)"
    unfolding d_def by (rule hd_dropWhile)
  obtain p where "d = trim s @ p"
    by (metis d_def rev_append rev_rev_ident takeWhile_dropWhile_id trim_def)
  with False hd have "\<not> is_ws (hd (trim s))"
    by (metis hd_append2)
  with l show ?thesis
    by (simp add: trim_id)
next
  case True
  then show ?thesis
    by (simp only: trim_id simp_thms)
qed

lemma set_trim: "set (trim s) \<subseteq> set s"
  by (auto simp: trim_def dest!: set_dropWhileD)

subsection \<open>Searching\<close>

text \<open>\<open>s.lastIndexOf(c)\<close> for one code unit, with \<open>None\<close> for the result \<open>-1\<close>.\<close>

fun last_index_of :: "'a \<Rightarrow> 'a list \<Rightarrow> nat option" where
  "last_index_of c [] = None"
| "last_index_of c (x # xs) =
     (case last_index_of c xs of
        Some i \<Rightarrow> Some (Suc i)
      | None \<Rightarrow> if x = c then Some 0 else None)"

lemma last_index_of_None: "last_index_of c s = None \<longleftrightarrow> c \<notin> set s"
  by (induction s) (auto split: option.splits)

lemma last_index_of_append: "c \<notin> set ys \<Longrightarrow> last_index_of c (xs @ c # ys) = Some (length xs)"
  by (induction xs) (auto simp: last_index_of_None split: option.splits)

lemma last_index_of_Some:
  "last_index_of c s = Some i \<Longrightarrow> \<exists>xs ys. s = xs @ c # ys \<and> length xs = i \<and> c \<notin> set ys"
proof (induction s arbitrary: i)
  case (Cons x xs)
  show ?case
  proof (cases "last_index_of c xs")
    case None
    with Cons.prems have "s = [] \<or> x = c" and "i = 0" and "c \<notin> set xs"
      by (auto simp: last_index_of_None split: if_splits)
    with None Cons.prems show ?thesis
      by (auto split: if_splits)
  next
    case (Some j)
    with Cons.IH obtain us vs where "xs = us @ c # vs" "length us = j" "c \<notin> set vs"
      by blast
    with Some Cons.prems have "x # xs = (x # us) @ c # vs" "length (x # us) = i"
      by auto
    with \<open>c \<notin> set vs\<close> show ?thesis by blast
  qed
qed simp

definition starts_with :: "'a list \<Rightarrow> 'a list \<Rightarrow> bool" where
  "starts_with s p \<longleftrightarrow> take (length p) s = p"

definition ends_with :: "'a list \<Rightarrow> 'a list \<Rightarrow> bool" where
  "ends_with s p \<longleftrightarrow> starts_with (rev s) (rev p)"

fun str_includes :: "'a list \<Rightarrow> 'a list \<Rightarrow> bool" where
  "str_includes [] p = (p = [])"
| "str_includes (x # xs) p = (starts_with (x # xs) p \<or> str_includes xs p)"

lemma starts_with_iff: "starts_with s p \<longleftrightarrow> prefix p s"
  by (auto simp: starts_with_def prefix_def) (metis append_take_drop_id)

lemma ends_with_iff: "ends_with s p \<longleftrightarrow> suffix p s"
  by (simp add: ends_with_def starts_with_iff suffix_to_prefix)

lemma str_includes_iff: "str_includes s p \<longleftrightarrow> sublist p s"
  by (induction s) (auto simp: starts_with_iff sublist_Cons_right)

lemma str_includes_Nil [simp]: "str_includes s []"
  by (simp add: str_includes_iff)

subsection \<open>Lower case\<close>

text \<open>
  \<open>toLowerCase\<close> on the code units that decide a comparison with an ASCII string: the
  letters A to Z, the Kelvin sign (the only other unit whose lower case is one ASCII letter)
  and the dotted capital I (which becomes \<open>i\<close> and a combining dot). Case pairs outside ASCII
  are left alone: the sources only compare the result with ASCII literals, and such units
  are never equal to one, before or after the mapping.
\<close>

definition lower_unit :: "nat \<Rightarrow> jstring" where
  "lower_unit c =
     (if 65 \<le> c \<and> c \<le> 90 then [c + 32]
      else if c = 0x212A then [107]
      else if c = 0x130 then [105, 0x307]
      else [c])"

definition to_lower :: "jstring \<Rightarrow> jstring" where
  "to_lower s = concat (map lower_unit s)"

lemma to_lower_idem: "to_lower (to_lower s) = to_lower s"
  by (induction s) (auto simp: to_lower_def lower_unit_def)

lemma div_interval: "0 < u \<Longrightarrow> d div u * u \<le> d \<and> d < (d div u + 1) * u" for d u :: int
proof -
  assume "0 < u"
  then have "0 \<le> d mod u" and "d mod u < u"
    by simp_all
  moreover have "d = d div u * u + d mod u"
    by simp
  ultimately show ?thesis
    by (simp only: distrib_right) linarith
qed

section \<open>Arrays\<close>

text \<open>\<open>xs.find(p)\<close>; the library's \<open>List.find\<close> has the same order and result.\<close>

lemma find_append: "List.find p (xs @ ys) = (case List.find p xs of None \<Rightarrow> List.find p ys | r \<Rightarrow> r)"
  by (induction xs) auto

lemma find_Some_set: "List.find p xs = Some x \<Longrightarrow> x \<in> set xs \<and> p x"
  by (auto simp: find_Some_iff)

lemma find_filter: "List.find p xs = (case filter p xs of [] \<Rightarrow> None | x # _ \<Rightarrow> Some x)"
  by (induction xs) auto

text \<open>
  \<open>xs.sort((a, b) => k(b) - k(a))\<close>: the stable insertion sort by descending key. Since
  ECMAScript 2019 the built-in sort is stable, so its result is determined by the keys.
\<close>

definition sort_desc :: "('a \<Rightarrow> 'k::linordered_idom) \<Rightarrow> 'a list \<Rightarrow> 'a list" where
  "sort_desc k xs = sort_key (\<lambda>x. - k x) xs"

lemma mset_sort_desc [simp]: "mset (sort_desc k xs) = mset xs"
  by (simp add: sort_desc_def)

lemma set_sort_desc [simp]: "set (sort_desc k xs) = set xs"
  by (simp add: sort_desc_def)

lemma length_sort_desc [simp]: "length (sort_desc k xs) = length xs"
  by (simp add: sort_desc_def)

lemma sorted_sort_desc: "sorted_wrt (\<lambda>a b. k a \<ge> k b) (sort_desc k xs)"
proof -
  have "sorted (map (\<lambda>x. - k x) (sort_desc k xs))"
    by (simp add: sort_desc_def)
  then show ?thesis
    by (simp add: sorted_wrt_map)
qed

section \<open>Records of string-keyed values\<close>

text \<open>\<open>{ ...prev, [k]: v }\<close> on an association list: overwrite in place, else append.\<close>

fun alist_put :: "'k \<Rightarrow> 'v \<Rightarrow> ('k \<times> 'v) list \<Rightarrow> ('k \<times> 'v) list" where
  "alist_put k v [] = [(k, v)]"
| "alist_put k v ((k', v') # kvs) =
     (if k = k' then (k, v) # kvs else (k', v') # alist_put k v kvs)"

definition alist_del :: "'k \<Rightarrow> ('k \<times> 'v) list \<Rightarrow> ('k \<times> 'v) list" where
  "alist_del k kvs = filter (\<lambda>kv. fst kv \<noteq> k) kvs"

text \<open>The laws every keyed store of the pages keeps: what a lookup returns after a change.\<close>

locale keyed_store =
  fixes put :: "'k \<Rightarrow> 'v \<Rightarrow> 's \<Rightarrow> 's"
    and del :: "'k \<Rightarrow> 's \<Rightarrow> 's"
    and look :: "'s \<Rightarrow> 'k \<Rightarrow> 'v option"
  assumes look_put: "look (put k v s) k' = (if k' = k then Some v else look s k')"
    and look_del: "look (del k s) k' = (if k' = k then None else look s k')"
begin

lemma put_put: "look (put k v (put k w s)) = look (put k v s)"
  by (rule ext) (simp add: look_put)

lemma put_comm: "k \<noteq> l \<Longrightarrow> look (put k v (put l w s)) = look (put l w (put k v s))"
  by (rule ext) (simp add: look_put)

lemma del_put: "look (del k (put k v s)) = look (del k s)"
  by (rule ext) (simp add: look_put look_del)

lemma look_fold_put:
  "look (fold (\<lambda>kv. put (fst kv) (snd kv)) kvs s) k =
     (case map_of (rev kvs) k of Some v \<Rightarrow> Some v | None \<Rightarrow> look s k)"
proof (induction kvs arbitrary: s)
  case (Cons kv kvs)
  obtain a b where "kv = (a, b)" by (cases kv)
  then show ?case
    unfolding fold_Cons comp_apply Cons.IH
    by (auto simp: look_put map_add_def map_of_append split: option.splits)
qed simp

end

lemma map_of_alist_put [simp]: "map_of (alist_put k v kvs) = (map_of kvs)(k \<mapsto> v)"
  by (induction kvs) (auto simp: fun_eq_iff)

lemma map_of_alist_del [simp]: "map_of (alist_del k kvs) = (map_of kvs)(k := None)"
  by (induction kvs) (auto simp: alist_del_def fun_eq_iff)

lemma keys_alist_put: "fst ` set (alist_put k v kvs) = insert k (fst ` set kvs)"
  by (simp flip: dom_map_of_conv_image_fst)

lemma distinct_alist_put: "distinct (map fst kvs) \<Longrightarrow> distinct (map fst (alist_put k v kvs))"
proof (induction kvs)
  case (Cons kv kvs)
  have "set (map fst (alist_put k v kvs)) = insert k (set (map fst kvs))"
    by (simp only: set_map keys_alist_put)
  with Cons show ?case
    by (cases kv) auto
qed simp

interpretation alist: keyed_store alist_put alist_del map_of
  by unfold_locales simp_all

section \<open>Failing calls\<close>

text \<open>
  What a rejected API call carries, as the \<open>catch (e: any)\<close> blocks read it: the message of
  the response body (\<open>e?.response?.data?.message\<close>) and the message of the error itself
  (\<open>e?.message\<close>). Either may be missing.
\<close>

record api_exn =
  exn_body_message :: "jstring option"
  exn_message :: "jstring option"

definition err_text :: "api_exn \<Rightarrow> jstring \<Rightarrow> jstring" where
  "err_text e fallback = or_str (opt_str (exn_body_message e)) (or_str (opt_str (exn_message e)) fallback)"

lemma err_text_nonempty: "fallback \<noteq> [] \<Longrightarrow> err_text e fallback \<noteq> []"
  by (simp add: err_text_def)

text \<open>\<open>new Error(msg)\<close>.\<close>

definition mk_error :: "jstring \<Rightarrow> api_exn" where
  "mk_error m = \<lparr>exn_body_message = None, exn_message = Some m\<rparr>"

lemma err_text_mk_error [simp]: "err_text (mk_error m) f = or_str m f"
  by (simp add: err_text_def mk_error_def)

text \<open>Code that can raise: the next part runs on the value of the first, or not at all.\<close>

fun and_then :: "'e + 'a \<Rightarrow> ('a \<Rightarrow> 'e + 'b) \<Rightarrow> 'e + 'b" where
  "and_then (Inl e) f = Inl e"
| "and_then (Inr x) f = f x"

lemma and_then_Inr: "and_then r f = Inr y \<longleftrightarrow> (\<exists>x. r = Inr x \<and> f x = Inr y)"
  by (cases r) auto

lemma and_then_isl: "isl (and_then r f) \<longleftrightarrow> isl r \<or> isl (f (projr r))"
  by (cases r) auto

section \<open>Handlers closed by a finally block\<close>

text \<open>
  A machine with an invariant: the states it starts in, its steps, and what they keep. Every component that is a state
  machine is an instance.
\<close>

locale machine =
  fixes start :: "'s \<Rightarrow> bool"
    and step :: "'s \<Rightarrow> 's \<Rightarrow> bool"
    and inv :: "'s \<Rightarrow> bool"
  assumes init: "start s \<Longrightarrow> inv s"
    and keeps: "step s t \<Longrightarrow> inv s \<Longrightarrow> inv t"
begin

lemma run: "step\<^sup>*\<^sup>* s t \<Longrightarrow> inv s \<Longrightarrow> inv t"
  by (induction rule: rtranclp_induct) (auto intro: keeps)

lemma reachable: "start s \<Longrightarrow> step\<^sup>*\<^sup>* s t \<Longrightarrow> inv t"
  using init run by blast

lemma counted_run: "(step ^^ n) s t \<Longrightarrow> inv s \<Longrightarrow> inv t"
  using run by (auto dest: relpowp_imp_rtranclp)

end

text \<open>
  A handler of a page runs on an outcome of its API calls and a state. Its contract: it does
  nothing when its guard is closed; otherwise the busy flag is off when it is done, whatever
  the outcome, and it leaves an error text exactly when the outcome is a failure. What follows
  for every sequence of runs is proved once here and reused by every page that interprets the
  locale.
\<close>

locale guarded_handler =
  fixes run :: "'o \<Rightarrow> 's \<Rightarrow> 's"
    and busy :: "'s \<Rightarrow> bool"
    and err :: "'s \<Rightarrow> jstring"
    and enabled :: "'s \<Rightarrow> bool"
    and failed :: "'o \<Rightarrow> 's \<Rightarrow> bool"
  assumes skip: "\<not> enabled s \<Longrightarrow> run out s = s"
    and settles: "enabled s \<Longrightarrow> \<not> busy (run out s)"
    and reports: "enabled s \<Longrightarrow> err (run out s) \<noteq> [] \<longleftrightarrow> failed out s"
begin

lemma run_idle: "\<not> busy s \<Longrightarrow> \<not> busy (run out s)"
  by (cases "enabled s") (simp_all add: skip settles)

lemma runs_idle: "\<not> busy s \<Longrightarrow> \<not> busy (fold run outs s)"
  by (induction outs arbitrary: s) (simp_all add: run_idle)

lemma runs_report:
  "enabled (fold run outs s) \<Longrightarrow>
     \<not> busy (fold run (outs @ [out]) s) \<and>
     (err (fold run (outs @ [out]) s) \<noteq> [] \<longleftrightarrow> failed out (fold run outs s))"
  by (simp add: settles reports)

end

section \<open>Lists on screen\<close>

text \<open>
  A list of a page is made of four conditional parts: the note while it loads, the error, the note
  that it is empty, and its rows. The parts do not exclude each other by themselves.
\<close>

datatype 'r part = Busy jstring | Failed jstring | Nothing jstring | Row 'r

definition shown_if :: "bool \<Rightarrow> 'a \<Rightarrow> 'a list" where
  "shown_if c x = (if c then [x] else [])"

definition list_parts :: "jstring \<Rightarrow> jstring \<Rightarrow> bool \<Rightarrow> jstring \<Rightarrow> 'r list \<Rightarrow> 'r part list" where
  "list_parts busy_text empty_text loading error rows =
     shown_if loading (Busy busy_text) @ shown_if (\<not> loading \<and> error \<noteq> []) (Failed error) @
     shown_if (\<not> loading \<and> error = [] \<and> rows = []) (Nothing empty_text) @
     (if loading then [] else map Row rows)"

text \<open>A handler that loads a list and clears it when it fails: its list is one thing at a time.\<close>

locale list_handler = guarded_handler run busy err enabled failed
  for run :: "'o \<Rightarrow> 's \<Rightarrow> 's" and busy :: "'s \<Rightarrow> bool" and err :: "'s \<Rightarrow> jstring"
    and enabled :: "'s \<Rightarrow> bool" and failed :: "'o \<Rightarrow> 's \<Rightarrow> bool" +
  fixes rows :: "'s \<Rightarrow> 'r list"
  assumes clears: "enabled s \<Longrightarrow> failed out s \<Longrightarrow> rows (run out s) = []"
begin

lemma parts_exclusive:
  assumes "enabled s"
  shows "list_parts t u (busy (run out s)) (err (run out s)) (rows (run out s)) =
    (if failed out s then [Failed (err (run out s))]
     else if rows (run out s) = [] then [Nothing u] else map Row (rows (run out s)))"
  using assms settles [OF assms] reports [OF assms] clears [OF assms]
  by (auto simp: list_parts_def shown_if_def)

lemma parts_after_runs:
  assumes "enabled (fold run outs s)"
  shows "list_parts t u (busy (fold run (outs @ [out]) s)) (err (fold run (outs @ [out]) s)) (rows (fold run (outs @ [out]) s)) =
    (if failed out (fold run outs s) then [Failed (err (fold run (outs @ [out]) s))]
     else if rows (fold run (outs @ [out]) s) = [] then [Nothing u]
     else map Row (rows (fold run (outs @ [out]) s)))"
  using parts_exclusive [OF assms] by simp

end

end
