(* ===== verification/Js_Number.thy ===== *)
theory Js_Number
  imports Prelude
begin

text \<open>
  JavaScript numbers. A finite number is a rational: every finite binary64 value is one, and
  the operations below (comparison, floor, round, division by a power of two, \<open>toFixed\<close>) are
  exact on them; the rounding of inexact binary64 sums and quotients, the sign of zero and
  overflow to infinity are not modelled. NaN and the infinities are values of the type, because
  the form handlers can produce and must reject them.
\<close>

datatype jsnum = NaN | Infinity | NegInfinity | Fin rat

section \<open>Arithmetic\<close>

definition num_truthy :: "jsnum \<Rightarrow> bool" where
  "num_truthy x \<longleftrightarrow> x \<noteq> NaN \<and> x \<noteq> Fin 0"

text \<open>\<open>x || d\<close> on numbers.\<close>

definition num_or :: "jsnum \<Rightarrow> jsnum \<Rightarrow> jsnum" where
  "num_or x d = (if num_truthy x then x else d)"

fun num_le :: "jsnum \<Rightarrow> jsnum \<Rightarrow> bool" where
  "num_le NaN y = False"
| "num_le x NaN = False"
| "num_le NegInfinity y = True"
| "num_le x Infinity = True"
| "num_le Infinity y = False"
| "num_le x NegInfinity = False"
| "num_le (Fin a) (Fin b) = (a \<le> b)"

definition num_lt :: "jsnum \<Rightarrow> jsnum \<Rightarrow> bool" where
  "num_lt x y \<longleftrightarrow> num_le x y \<and> x \<noteq> y"

fun is_finite_num :: "jsnum \<Rightarrow> bool" where
  "is_finite_num (Fin a) = True"
| "is_finite_num x = False"

text \<open>\<open>Number.isInteger\<close>.\<close>

fun is_integer :: "jsnum \<Rightarrow> bool" where
  "is_integer (Fin a) = (of_int \<lfloor>a\<rfloor> = a)"
| "is_integer x = False"

fun math_floor :: "jsnum \<Rightarrow> jsnum" where
  "math_floor (Fin a) = Fin (of_int \<lfloor>a\<rfloor>)"
| "math_floor x = x"

text \<open>\<open>Math.round\<close>: ties go up.\<close>

fun math_round :: "jsnum \<Rightarrow> jsnum" where
  "math_round (Fin a) = Fin (of_int \<lfloor>a + 1 / 2\<rfloor>)"
| "math_round x = x"

fun math_abs :: "jsnum \<Rightarrow> jsnum" where
  "math_abs (Fin a) = Fin \<bar>a\<bar>"
| "math_abs NegInfinity = Infinity"
| "math_abs x = x"

definition math_max :: "jsnum \<Rightarrow> jsnum \<Rightarrow> jsnum" where
  "math_max x y = (if x = NaN \<or> y = NaN then NaN else if num_le x y then y else x)"

definition math_min :: "jsnum \<Rightarrow> jsnum \<Rightarrow> jsnum" where
  "math_min x y = (if x = NaN \<or> y = NaN then NaN else if num_le x y then x else y)"

lemma num_le_refl: "num_le x x \<longleftrightarrow> x \<noteq> NaN"
  by (cases x) auto

fun num_add :: "jsnum \<Rightarrow> jsnum \<Rightarrow> jsnum" where
  "num_add NaN y = NaN"
| "num_add x NaN = NaN"
| "num_add Infinity NegInfinity = NaN"
| "num_add NegInfinity Infinity = NaN"
| "num_add Infinity y = Infinity"
| "num_add x Infinity = Infinity"
| "num_add NegInfinity y = NegInfinity"
| "num_add x NegInfinity = NegInfinity"
| "num_add (Fin a) (Fin b) = Fin (a + b)"

text \<open>\<open>x / d\<close> for a positive constant \<open>d\<close>.\<close>

definition num_div :: "jsnum \<Rightarrow> rat \<Rightarrow> jsnum" where
  "num_div x d = (case x of Fin a \<Rightarrow> Fin (a / d) | _ \<Rightarrow> x)"

text \<open>\<open>x / y\<close>; a zero divisor is taken as the positive zero.\<close>

fun num_quot :: "jsnum \<Rightarrow> jsnum \<Rightarrow> jsnum" where
  "num_quot NaN y = NaN"
| "num_quot x NaN = NaN"
| "num_quot (Fin a) (Fin b) =
     (if b \<noteq> 0 then Fin (a / b) else if a = 0 then NaN else if a > 0 then Infinity else NegInfinity)"
| "num_quot (Fin a) y = Fin 0"
| "num_quot Infinity (Fin b) = (if b < 0 then NegInfinity else Infinity)"
| "num_quot NegInfinity (Fin b) = (if b < 0 then Infinity else NegInfinity)"
| "num_quot x y = NaN"

text \<open>\<open>x * c\<close> for a positive constant \<open>c\<close>.\<close>

definition num_times :: "jsnum \<Rightarrow> rat \<Rightarrow> jsnum" where
  "num_times x c = (case x of Fin a \<Rightarrow> Fin (a * c) | _ \<Rightarrow> x)"

text \<open>The rational of a finite number, 0 for the others.\<close>

fun rat_of :: "jsnum \<Rightarrow> rat" where
  "rat_of (Fin a) = a"
| "rat_of x = 0"

lemma is_finite_num_iff: "is_finite_num x \<longleftrightarrow> x = Fin (rat_of x)"
  by (cases x) auto

text \<open>
  \<open>xs.sort((a, b) => k(b) - k(a))\<close> for keys that are not NaN: infinite keys come first and last
  (the difference of two equal infinities is NaN, which the sort reads as equal), the finite
  ones in descending order between them, and equal keys keep their order.
\<close>

definition sort_num_desc :: "('a \<Rightarrow> jsnum) \<Rightarrow> 'a list \<Rightarrow> 'a list" where
  "sort_num_desc k xs =
     filter (\<lambda>x. k x = Infinity) xs @
     sort_desc (\<lambda>x. rat_of (k x)) (filter (\<lambda>x. is_finite_num (k x)) xs) @
     filter (\<lambda>x. k x = NegInfinity) xs"

lemma mset_sort_num_desc:
  assumes "\<And>x. x \<in> set xs \<Longrightarrow> k x \<noteq> NaN"
  shows "mset (sort_num_desc k xs) = mset xs"
  using assms
proof (induction xs)
  case (Cons x xs)
  then have "k x \<noteq> NaN" and IH: "mset (sort_num_desc k xs) = mset xs"
    by simp_all
  then show ?case
    unfolding IH [symmetric] mset.simps by (cases "k x") (simp_all add: sort_num_desc_def)
qed (simp add: sort_num_desc_def sort_desc_def)

lemma sorted_sort_num_desc: "sorted_wrt (\<lambda>a b. num_le (k b) (k a)) (sort_num_desc k xs)"
proof -
  have "sorted_wrt (\<lambda>a b. num_le (k b) (k a))
      (sort_desc (\<lambda>x. rat_of (k x)) (filter (\<lambda>x. is_finite_num (k x)) xs))"
    by (rule sorted_wrt_mono_rel [OF _ sorted_sort_desc])
       (auto elim!: is_finite_num.elims)
  moreover have "sorted_wrt (\<lambda>a b. num_le (k b) (k a)) (filter (\<lambda>x. k x = c) xs)" if "c \<noteq> NaN" for c
    using that by (induction xs) (auto simp: num_le_refl)
  ultimately show ?thesis
    by (auto simp: sort_num_desc_def sorted_wrt_append num_le_refl elim!: is_finite_num.elims)
qed

lemma num_le_linear: "x \<noteq> NaN \<Longrightarrow> y \<noteq> NaN \<Longrightarrow> num_le x y \<or> num_le y x"
  by (cases x; cases y) auto

lemma num_le_trans: "num_le x y \<Longrightarrow> num_le y z \<Longrightarrow> num_le x z"
  by (cases x; cases y; cases z) auto

lemma num_le_not_NaN: "num_le x y \<Longrightarrow> x \<noteq> NaN \<and> y \<noteq> NaN"
  by (cases x; cases y) auto

lemma math_floor_NaN [simp]: "math_floor x = NaN \<longleftrightarrow> x = NaN"
  by (cases x) auto

lemma math_floor_integer: "is_finite_num x \<Longrightarrow> is_integer (math_floor x)"
  by (cases x) auto

text \<open>
  \<open>Math.max(lo, Math.min(hi, Math.floor(x)))\<close>, the clamp of every numeric field of the task
  forms. It is in range for every argument but NaN, which it passes on.
\<close>

definition clamp_floor :: "rat \<Rightarrow> rat \<Rightarrow> jsnum \<Rightarrow> jsnum" where
  "clamp_floor lo hi x = math_max (Fin lo) (math_min (Fin hi) (math_floor x))"

lemma clamp_floor_cases:
  assumes "lo \<le> hi"
  shows "clamp_floor lo hi x =
    (case x of NaN \<Rightarrow> NaN | Infinity \<Rightarrow> Fin hi | NegInfinity \<Rightarrow> Fin lo
       | Fin a \<Rightarrow> Fin (max lo (min hi (of_int \<lfloor>a\<rfloor>))))"
  using assms by (cases x) (auto simp: clamp_floor_def math_max_def math_min_def)

lemma clamp_floor_range:
  assumes "x \<noteq> NaN" and "lo \<le> hi"
  shows "\<exists>q. clamp_floor lo hi x = Fin q \<and> lo \<le> q \<and> q \<le> hi"
  using assms by (cases x) (auto simp: clamp_floor_cases)

lemma clamp_floor_integer:
  assumes "x \<noteq> NaN" and "lo \<le> hi" and "lo \<in> \<int>" and "hi \<in> \<int>"
  shows "is_integer (clamp_floor lo hi x)"
  using assms by (cases x) (auto simp: clamp_floor_cases max_def min_def elim!: Ints_cases)

lemma clamp_floor_fixed:
  "lo \<le> q \<Longrightarrow> q \<le> hi \<Longrightarrow> is_integer (Fin q) \<Longrightarrow> clamp_floor lo hi (Fin q) = Fin q"
  by (auto simp: clamp_floor_cases)

section \<open>Decimal digits\<close>

definition is_digit :: "nat \<Rightarrow> bool" where
  "is_digit c \<longleftrightarrow> 48 \<le> c \<and> c \<le> 57"

fun nat_str :: "nat \<Rightarrow> jstring" where
  "nat_str n = (if n < 10 then [48 + n] else nat_str (n div 10) @ [48 + n mod 10])"

declare nat_str.simps [simp del]

definition str_nat :: "jstring \<Rightarrow> nat" where
  "str_nat ds = foldl (\<lambda>a d. 10 * a + (d - 48)) 0 ds"

lemma str_nat_snoc [simp]: "str_nat (ds @ [d]) = 10 * str_nat ds + (d - 48)"
  by (simp add: str_nat_def)

lemma str_nat_str [simp]: "str_nat (nat_str n) = n"
proof (induction n rule: nat_str.induct)
  case (1 n)
  then show ?case
    by (cases "n < 10") (simp_all add: nat_str.simps [of n] str_nat_def)
qed

lemma nat_str_digits: "c \<in> set (nat_str n) \<Longrightarrow> is_digit c"
proof (induction n rule: nat_str.induct)
  case (1 n)
  then show ?case
    by (cases "n < 10") (auto simp: nat_str.simps [of n] is_digit_def)
qed

lemma nat_str_nonempty [simp]: "nat_str n \<noteq> []"
  by (simp add: nat_str.simps [of n])

lemma takeWhile_nat_str [simp]: "takeWhile is_digit (nat_str n) = nat_str n"
  using nat_str_digits by (simp add: takeWhile_eq_all_conv)

lemma dropWhile_nat_str [simp]: "dropWhile is_digit (nat_str n) = []"
  using nat_str_digits by simp

lemma nat_str_inject: "nat_str m = nat_str n \<longleftrightarrow> m = n"
  by (metis str_nat_str)

lemma digit_not_ws: "is_digit c \<Longrightarrow> \<not> is_ws c"
  by (auto simp: is_digit_def is_ws_def)

definition int_str :: "int \<Rightarrow> jstring" where
  "int_str i = (if i < 0 then 45 # nat_str (nat (- i)) else nat_str (nat i))"

lemma int_str_nonempty [simp]: "int_str i \<noteq> []"
  by (simp add: int_str_def)

section \<open>Parsing numbers\<close>

text \<open>An optional sign: whether it is a minus, and the rest.\<close>

definition take_sign :: "jstring \<Rightarrow> bool \<times> jstring" where
  "take_sign s =
     (case s of [] \<Rightarrow> (False, [])
      | c # r \<Rightarrow> if c = 45 then (True, r) else if c = 43 then (False, r) else (False, s))"

text \<open>\<open>parseInt(s, 10)\<close>: leading white space, a sign, the longest run of digits; no digit is NaN.\<close>

definition parse_int :: "jstring \<Rightarrow> int option" where
  "parse_int s =
     (let (neg, r) = take_sign (dropWhile is_ws s); ds = takeWhile is_digit r
      in if ds = [] then None
         else Some (if neg then - int (str_nat ds) else int (str_nat ds)))"

lemma parse_int_nat_str: "parse_int (nat_str n) = Some (int n)"
proof -
  obtain d ds where d: "nat_str n = d # ds"
    by (cases "nat_str n") auto
  have all: "\<forall>c \<in> set (nat_str n). is_digit c"
    using nat_str_digits by blast
  then have "is_digit d"
    using d by simp
  then have "take_sign (dropWhile is_ws (nat_str n)) = (False, nat_str n)"
    using d digit_not_ws by (auto simp: take_sign_def is_digit_def)
  then show ?thesis
    by (simp add: parse_int_def)
qed

lemma parse_int_str: "parse_int (int_str i) = Some i"
proof (cases "i < 0")
  case False
  then show ?thesis
    by (simp add: int_str_def parse_int_nat_str)
next
  case True
  then show ?thesis
    by (simp add: int_str_def parse_int_def take_sign_def is_ws_def)
qed

definition pow10 :: "int \<Rightarrow> rat" where
  "pow10 e = (if e \<ge> 0 then 10 ^ nat e else 1 / 10 ^ nat (- e))"

definition decimal_value :: "jstring \<Rightarrow> jstring \<Rightarrow> int \<Rightarrow> rat" where
  "decimal_value ip fp e = of_nat (str_nat (ip @ fp)) * pow10 (e - int (length fp))"

text \<open>An exponent part, or nothing: the exponent and the rest, \<open>None\<close> when it is malformed.\<close>

definition take_exponent :: "jstring \<Rightarrow> (int \<times> jstring) option" where
  "take_exponent s =
     (case s of [] \<Rightarrow> Some (0, [])
      | c # r \<Rightarrow>
        if c = 101 \<or> c = 69 then
          (let (neg, r') = take_sign r; ds = takeWhile is_digit r'
           in if ds = [] then None
              else Some ((if neg then - int (str_nat ds) else int (str_nat ds)), dropWhile is_digit r'))
        else Some (0, s))"

definition digit_value :: "nat \<Rightarrow> nat option" where
  "digit_value c =
     (if is_digit c then Some (c - 48)
      else if 97 \<le> c \<and> c \<le> 102 then Some (c - 87)
      else if 65 \<le> c \<and> c \<le> 70 then Some (c - 55)
      else None)"

fun radix_value :: "nat \<Rightarrow> nat \<Rightarrow> jstring \<Rightarrow> nat option" where
  "radix_value b acc [] = Some acc"
| "radix_value b acc (c # s) =
     (case digit_value c of
        Some d \<Rightarrow> if d < b then radix_value b (b * acc + d) s else None
      | None \<Rightarrow> None)"

text \<open>The unsigned part of a StrDecimalLiteral.\<close>

definition str_unsigned :: "jstring \<Rightarrow> jsnum" where
  "str_unsigned t =
     (if t = js ''Infinity'' then Infinity
      else
       (let ip = takeWhile is_digit t; r = dropWhile is_digit t;
            fp = (case r of c # r' \<Rightarrow> if c = 46 then takeWhile is_digit r' else [] | [] \<Rightarrow> []);
            r2 = (case r of c # r' \<Rightarrow> if c = 46 then dropWhile is_digit r' else r | [] \<Rightarrow> [])
        in if ip = [] \<and> fp = [] then NaN
           else (case take_exponent r2 of
                   Some (e, []) \<Rightarrow> Fin (decimal_value ip fp e)
                 | _ \<Rightarrow> NaN)))"

definition num_neg :: "jsnum \<Rightarrow> jsnum" where
  "num_neg x = (case x of NaN \<Rightarrow> NaN | Infinity \<Rightarrow> NegInfinity | NegInfinity \<Rightarrow> Infinity | Fin a \<Rightarrow> Fin (- a))"

text \<open>\<open>Number(s)\<close> of a string (StringToNumber).\<close>

definition str_number :: "jstring \<Rightarrow> jsnum" where
  "str_number s =
     (let t = trim s; p = take 2 t; ds = drop 2 t;
          radix = (\<lambda>b. if ds = [] then NaN
                       else (case radix_value b 0 ds of Some n \<Rightarrow> Fin (of_nat n) | None \<Rightarrow> NaN))
      in if t = [] then Fin 0
         else if p = js ''0x'' \<or> p = js ''0X'' then radix 16
         else if p = js ''0o'' \<or> p = js ''0O'' then radix 8
         else if p = js ''0b'' \<or> p = js ''0B'' then radix 2
         else (let (neg, r) = take_sign t
               in if neg then num_neg (str_unsigned r) else str_unsigned r))"

lemma str_unsigned_nat_str: "str_unsigned (nat_str n) = Fin (of_nat n)"
proof -
  have all: "\<forall>c \<in> set (nat_str n). is_digit c"
    using nat_str_digits by blast
  have "nat_str n \<noteq> js ''Infinity''"
    using all by (auto simp: is_digit_def dest: sym)
  then show ?thesis
    by (simp add: str_unsigned_def take_exponent_def decimal_value_def pow10_def)
qed

text \<open>Reading back a printed non-negative integer: what a number input hands to \<open>Number\<close>.\<close>

lemma str_number_nat_str: "str_number (nat_str n) = Fin (of_nat n)"
proof -
  have all: "\<forall>c \<in> set (nat_str n). is_digit c"
    using nat_str_digits by blast
  have tr: "trim (nat_str n) = nat_str n"
    using all digit_not_ws by (intro trim_id) auto
  have p: "take 2 (nat_str n) \<noteq> [a, b]" if "\<not> is_digit b" for a b
    using all that by (metis in_set_takeD list.set_intros(1,2))
  have "take_sign (nat_str n) = (False, nat_str n)"
    using all by (cases "nat_str n") (auto simp: take_sign_def is_digit_def)
  then show ?thesis
    using p by (simp add: str_number_def tr str_unsigned_nat_str is_digit_def)
qed

section \<open>Printing numbers\<close>

text \<open>\<open>x.toFixed(d)\<close>: the integer nearest to \<open>x * 10^d\<close> (ties go up), with \<open>d\<close> decimals.\<close>

definition fixed_digits :: "nat \<Rightarrow> nat \<Rightarrow> jstring" where
  "fixed_digits d n =
     (if d = 0 then nat_str n
      else (let m = nat_str n; m' = replicate (Suc d - length m) 48 @ m
            in take (length m' - d) m' @ 46 # drop (length m' - d) m'))"

text \<open>The digits of a fraction by long division, at most \<open>k\<close> of them.\<close>

fun frac_digits :: "nat \<Rightarrow> rat \<Rightarrow> jstring" where
  "frac_digits 0 r = []"
| "frac_digits (Suc k) r =
     (if r = 0 then [] else (48 + nat \<lfloor>10 * r\<rfloor>) # frac_digits k (10 * r - of_int \<lfloor>10 * r\<rfloor>))"

text \<open>
  \<open>String(x)\<close>: exact on integers below \<open>10^21\<close> and on decimals of at most 17 fractional digits,
  the numbers that occur in the API's JSON; exponent notation is not modelled.
\<close>

definition num_str :: "jsnum \<Rightarrow> jstring" where
  "num_str x =
     (case x of NaN \<Rightarrow> js ''NaN'' | Infinity \<Rightarrow> js ''Infinity'' | NegInfinity \<Rightarrow> js ''-Infinity''
      | Fin a \<Rightarrow>
        if of_int \<lfloor>a\<rfloor> = a then int_str \<lfloor>a\<rfloor>
        else (if a < 0 then [45] else []) @ int_str \<lfloor>\<bar>a\<bar>\<rfloor> @ 46 # frac_digits 17 (\<bar>a\<bar> - of_int \<lfloor>\<bar>a\<bar>\<rfloor>))"

definition to_fixed :: "nat \<Rightarrow> jsnum \<Rightarrow> jstring" where
  "to_fixed d x =
     (case x of
        Fin a \<Rightarrow>
          if \<bar>a\<bar> \<ge> 10 ^ 21 then num_str x
          else (if a < 0 then [45] else []) @ fixed_digits d (nat \<lfloor>\<bar>a\<bar> * 10 ^ d + 1 / 2\<rfloor>)
      | _ \<Rightarrow> num_str x)"

lemma num_str_int [simp]: "num_str (Fin (of_int i)) = int_str i"
  by (simp add: num_str_def)

lemma num_str_nonempty [simp]: "num_str x \<noteq> []"
  by (cases x) (simp_all add: num_str_def)

end
