(* ===== verification/Js_Value.thy ===== *)
theory Js_Value
  imports Js_Number
begin

text \<open>
  Dynamically typed JavaScript data: the values that JSON responses and artifacts hold, the
  member accesses of the sources (plain, which raises on a nullish receiver, and optional
  chaining, which does not), truthiness, \<open>||\<close>, \<open>??\<close>, \<open>Number\<close>, \<open>String\<close>, and \<open>JSON.parse\<close>.
\<close>

datatype jsval =
    Undef
  | Null
  | JBool bool
  | JNum jsnum
  | JStr jstring
  | JArr "jsval list"
  | JObj "(jstring \<times> jsval) list"

text \<open>The errors of the language that the sources can run into.\<close>

datatype js_error = TypeError | SyntaxError | URIError | RangeError

section \<open>Access and conversion\<close>

fun truthy :: "jsval \<Rightarrow> bool" where
  "truthy Undef = False"
| "truthy Null = False"
| "truthy (JBool b) = b"
| "truthy (JNum x) = num_truthy x"
| "truthy (JStr s) = (s \<noteq> [])"
| "truthy (JArr xs) = True"
| "truthy (JObj kvs) = True"

fun nullish :: "jsval \<Rightarrow> bool" where
  "nullish Undef = True"
| "nullish Null = True"
| "nullish v = False"

definition val_or :: "jsval \<Rightarrow> jsval \<Rightarrow> jsval" where
  "val_or a b = (if truthy a then a else b)"

definition val_nullish :: "jsval \<Rightarrow> jsval \<Rightarrow> jsval" where
  "val_nullish a b = (if nullish a then b else a)"

text \<open>Own members; the sources never read \<open>length\<close> or an index through an untyped value.\<close>

fun own_prop :: "jsval \<Rightarrow> jstring \<Rightarrow> jsval" where
  "own_prop (JObj kvs) k = (case map_of kvs k of Some v \<Rightarrow> v | None \<Rightarrow> Undef)"
| "own_prop v k = Undef"

text \<open>\<open>v.k\<close> and \<open>v?.k\<close>.\<close>

definition get_prop :: "jsval \<Rightarrow> jstring \<Rightarrow> js_error + jsval" where
  "get_prop v k = (if nullish v then Inl TypeError else Inr (own_prop v k))"

definition opt_prop :: "jsval \<Rightarrow> jstring \<Rightarrow> jsval" where
  "opt_prop v k = own_prop v k"

lemma get_prop_opt_prop: "\<not> nullish v \<Longrightarrow> get_prop v k = Inr (opt_prop v k)"
  by (simp add: get_prop_def opt_prop_def)

lemma opt_prop_nullish: "nullish v \<Longrightarrow> opt_prop v k = Undef"
  by (cases v) (simp_all add: opt_prop_def)

fun is_array :: "jsval \<Rightarrow> bool" where
  "is_array (JArr xs) = True"
| "is_array v = False"

fun elems :: "jsval \<Rightarrow> jsval list" where
  "elems (JArr xs) = xs"
| "elems v = []"

text \<open>\<open>typeof v === 'object'\<close> (true of \<open>null\<close> as well).\<close>

fun typeof_object :: "jsval \<Rightarrow> bool" where
  "typeof_object Null = True"
| "typeof_object (JArr xs) = True"
| "typeof_object (JObj kvs) = True"
| "typeof_object v = False"

fun is_string :: "jsval \<Rightarrow> bool" where
  "is_string (JStr s) = True"
| "is_string v = False"

fun str_of :: "jsval \<Rightarrow> jstring" where
  "str_of (JStr s) = s"
| "str_of v = []"

text \<open>\<open>String(v)\<close> and template interpolation.\<close>

fun val_str :: "jsval \<Rightarrow> jstring" where
  "val_str Undef = js ''undefined''"
| "val_str Null = js ''null''"
| "val_str (JBool b) = (if b then js ''true'' else js ''false'')"
| "val_str (JNum x) = num_str x"
| "val_str (JStr s) = s"
| "val_str (JArr xs) = join_with [44] (map (\<lambda>v. if nullish v then [] else val_str v) xs)"
| "val_str (JObj kvs) = js ''[object Object]''"

text \<open>\<open>Number(v)\<close>; an array or object goes through its string.\<close>

definition val_num :: "jsval \<Rightarrow> jsnum" where
  "val_num v =
     (case v of
        Undef \<Rightarrow> NaN
      | Null \<Rightarrow> Fin 0
      | JBool b \<Rightarrow> Fin (if b then 1 else 0)
      | JNum x \<Rightarrow> x
      | _ \<Rightarrow> str_number (val_str v))"

text \<open>\<open>a + b\<close>: a concatenation when either operand is a string or becomes one.\<close>

fun string_like :: "jsval \<Rightarrow> bool" where
  "string_like (JStr s) = True"
| "string_like (JArr xs) = True"
| "string_like (JObj kvs) = True"
| "string_like v = False"

definition val_plus :: "jsval \<Rightarrow> jsval \<Rightarrow> jsval" where
  "val_plus a b =
     (if string_like a \<or> string_like b then JStr (val_str a @ val_str b)
      else JNum (num_add (val_num a) (val_num b)))"

text \<open>\<open>Number(v) || 0\<close>.\<close>

definition num_or_zero :: "jsval \<Rightarrow> jsnum" where
  "num_or_zero v = num_or (val_num v) (Fin 0)"

lemma num_or_zero_not_NaN [simp]: "num_or_zero v \<noteq> NaN"
  by (simp add: num_or_zero_def num_or_def num_truthy_def)

section \<open>JSON.parse\<close>

definition json_ws :: "nat \<Rightarrow> bool" where
  "json_ws c \<longleftrightarrow> c \<in> {9, 10, 13, 32}"

abbreviation skip_ws :: "jstring \<Rightarrow> jstring" where
  "skip_ws \<equiv> dropWhile json_ws"

definition expect :: "nat \<Rightarrow> jstring \<Rightarrow> jstring option" where
  "expect c s = (case skip_ws s of [] \<Rightarrow> None | x # r \<Rightarrow> if x = c then Some r else None)"

definition unescape :: "nat \<Rightarrow> nat option" where
  "unescape e =
     map_of [(34, 34), (92, 92), (47, 47), (98, 8), (102, 12), (110, 10), (114, 13), (116, 9)] e"

text \<open>The characters of a string literal, up to its closing quote.\<close>

fun parse_chars :: "jstring \<Rightarrow> (jstring \<times> jstring) option" where
  "parse_chars [] = None"
| "parse_chars (c # s) =
     (if c = 34 then Some ([], s)
      else if c = 92 then
        (case s of [] \<Rightarrow> None
         | e # s' \<Rightarrow>
           if e = 117 then
             (if length s' < 4 then None
              else (case radix_value 16 0 (take 4 s') of None \<Rightarrow> None
                    | Some u \<Rightarrow> map_option (\<lambda>(t, r). (u # t, r)) (parse_chars (drop 4 s'))))
           else (case unescape e of None \<Rightarrow> None
                 | Some u \<Rightarrow> map_option (\<lambda>(t, r). (u # t, r)) (parse_chars s')))
      else if c < 32 then None
      else map_option (\<lambda>(t, r). (c # t, r)) (parse_chars s))"

definition parse_number :: "jstring \<Rightarrow> (jsval \<times> jstring) option" where
  "parse_number s =
     (let neg = (case s of c # _ \<Rightarrow> c = 45 | [] \<Rightarrow> False); s1 = (if neg then tl s else s);
          ip = takeWhile is_digit s1; r = dropWhile is_digit s1;
          dot = (case r of c # _ \<Rightarrow> c = 46 | [] \<Rightarrow> False);
          fp = (if dot then takeWhile is_digit (tl r) else []);
          r2 = (if dot then dropWhile is_digit (tl r) else r)
      in if ip = [] \<or> 1 < length ip \<and> hd ip = 48 \<or> dot \<and> fp = [] then None
         else map_option (\<lambda>(e, r3). (JNum (Fin ((if neg then -1 else 1) * decimal_value ip fp e)), r3))
                (take_exponent r2))"

definition parse_literal :: "string \<Rightarrow> jsval \<Rightarrow> jstring \<Rightarrow> (jsval \<times> jstring) option" where
  "parse_literal w v s =
     (if starts_with s (js w) then Some (v, drop (length (js w)) s) else None)"

text \<open>
  Values, elements and members, with fuel: every call spends one unit. Twice the length of the
  input is enough, since two calls in a row consume at least one code unit.
\<close>

fun parse_value :: "nat \<Rightarrow> jstring \<Rightarrow> (jsval \<times> jstring) option"
  and parse_elems :: "nat \<Rightarrow> jsval list \<Rightarrow> jstring \<Rightarrow> (jsval \<times> jstring) option"
  and parse_members :: "nat \<Rightarrow> (jstring \<times> jsval) list \<Rightarrow> jstring \<Rightarrow> (jsval \<times> jstring) option" where
  "parse_value 0 s = None"
| "parse_value (Suc n) s =
     (case skip_ws s of [] \<Rightarrow> None
      | c # r \<Rightarrow>
        if c = 123 then
          (case expect 125 r of Some r' \<Rightarrow> Some (JObj [], r') | None \<Rightarrow> parse_members n [] r)
        else if c = 91 then
          (case expect 93 r of Some r' \<Rightarrow> Some (JArr [], r') | None \<Rightarrow> parse_elems n [] r)
        else if c = 34 then map_option (\<lambda>(t, r'). (JStr t, r')) (parse_chars r)
        else if c = 116 then parse_literal ''true'' (JBool True) (c # r)
        else if c = 102 then parse_literal ''false'' (JBool False) (c # r)
        else if c = 110 then parse_literal ''null'' Null (c # r)
        else parse_number (c # r))"
| "parse_elems 0 acc s = None"
| "parse_elems (Suc n) acc s =
     (case parse_value n s of None \<Rightarrow> None
      | Some (v, r) \<Rightarrow>
        (case expect 44 r of
           Some r' \<Rightarrow> parse_elems n (acc @ [v]) r'
         | None \<Rightarrow> map_option (\<lambda>r'. (JArr (acc @ [v]), r')) (expect 93 r)))"
| "parse_members 0 acc s = None"
| "parse_members (Suc n) acc s =
     (case expect 34 s of None \<Rightarrow> None
      | Some r1 \<Rightarrow>
        (case parse_chars r1 of None \<Rightarrow> None
         | Some (k, r2) \<Rightarrow>
           (case expect 58 r2 of None \<Rightarrow> None
            | Some r3 \<Rightarrow>
              (case parse_value n r3 of None \<Rightarrow> None
               | Some (v, r4) \<Rightarrow>
                 (case expect 44 r4 of
                    Some r5 \<Rightarrow> parse_members n (alist_put k v acc) r5
                  | None \<Rightarrow> map_option (\<lambda>r5. (JObj (alist_put k v acc), r5)) (expect 125 r4))))))"

text \<open>\<open>JSON.parse(s)\<close>: \<open>None\<close> is the SyntaxError.\<close>

definition json_parse :: "jstring \<Rightarrow> jsval option" where
  "json_parse s =
     (case parse_value (2 * length s + 2) s of
        Some (v, r) \<Rightarrow> if skip_ws r = [] then Some v else None
      | None \<Rightarrow> None)"

subsection \<open>Every parser consumes input\<close>

lemma length_skip_ws: "length (skip_ws s) \<le> length s"
  by (rule length_dropWhile_le)

lemma expect_length: "expect c s = Some r \<Longrightarrow> length r < length s"
  using length_skip_ws [of s] by (auto simp: expect_def split: list.splits if_splits)

lemma parse_chars_length: "parse_chars s = Some (t, r) \<Longrightarrow> length r < length s"
  by (induction s arbitrary: t r rule: parse_chars.induct)
     (fastforce split: if_splits list.splits option.splits)+

lemma take_exponent_length: "take_exponent s = Some (e, r) \<Longrightarrow> length r \<le> length s"
proof -
  have sgn: "length (snd (take_sign u)) \<le> length u" for u
    by (auto simp: take_sign_def split: list.splits)
  assume a: "take_exponent s = Some (e, r)"
  show ?thesis
  proof (cases s)
    case (Cons c u)
    have "length (dropWhile is_digit (snd (take_sign u))) \<le> length u"
      using sgn [of u] length_dropWhile_le [of is_digit "snd (take_sign u)"] by linarith
    with a Cons show ?thesis
      by (auto simp: take_exponent_def Let_def split: if_splits prod.splits)
  qed (use a in \<open>simp add: take_exponent_def\<close>)
qed

lemma parse_number_length: "parse_number s = Some (v, r) \<Longrightarrow> length r < length s"
proof -
  define s1 where "s1 = (if (case s of c # _ \<Rightarrow> c = 45 | [] \<Rightarrow> False) then tl s else s)"
  define u where "u = dropWhile is_digit s1"
  define r2 where "r2 = (if (case u of c # _ \<Rightarrow> c = 46 | [] \<Rightarrow> False) then dropWhile is_digit (tl u) else u)"
  assume "parse_number s = Some (v, r)"
  then have ip: "takeWhile is_digit s1 \<noteq> []" and e: "\<exists>e. take_exponent r2 = Some (e, r)"
    by (auto simp: parse_number_def Let_def s1_def u_def r2_def split: if_splits)
  have "length s1 \<le> length s"
    by (simp add: s1_def)
  moreover have "length u < length s1"
    using ip by (metis u_def length_append length_greater_0_conv less_add_same_cancel2 takeWhile_dropWhile_id)
  moreover have "length r2 \<le> length u"
    using length_dropWhile_le [of is_digit "tl u"] by (auto simp: r2_def)
  moreover have "length r \<le> length r2"
    using e take_exponent_length by blast
  ultimately show ?thesis by linarith
qed

lemma parse_literal_length: "w \<noteq> [] \<Longrightarrow> parse_literal w v s = Some (x, r) \<Longrightarrow> length r < length s"
  by (cases w; cases s) (auto simp: parse_literal_def starts_with_def split: if_splits)

lemmas consume_lemmas = expect_length parse_chars_length parse_number_length parse_literal_length

lemma parse_length:
  "parse_value n s = Some (v, r) \<Longrightarrow> length r < length s"
  "parse_elems n acc s = Some (v, r) \<Longrightarrow> length r < length s"
  "parse_members n macc s = Some (v, r) \<Longrightarrow> length r < length s"
proof (induction n s and n acc s and n macc s arbitrary: v r and v r and v r
    rule: parse_value_parse_elems_parse_members.induct)
  case (2 n s)
  obtain c u where cu: "skip_ws s = c # u"
    using "2.prems" by (cases "skip_ws s") auto
  then have "Suc (length u) \<le> length s"
    using length_skip_ws [of s] by simp
  moreover have "length r < Suc (length u)"
    using "2.prems" "2.IH" cu
    by (auto split: if_splits option.splits
        dest!: expect_length parse_chars_length parse_number_length parse_literal_length [rotated])
       (fastforce dest: less_SucI)+
  ultimately show ?case by linarith
qed (fastforce split: option.splits dest!: expect_length parse_chars_length)+

subsection \<open>The fuel is enough\<close>

lemma parse_more_fuel:
  "2 * length s + 1 \<le> n \<Longrightarrow> parse_value (Suc n) s = parse_value n s"
  "2 * length s + 2 \<le> n \<Longrightarrow> parse_elems (Suc n) acc s = parse_elems n acc s"
  "2 * length s + 2 \<le> n \<Longrightarrow> parse_members (Suc n) macc s = parse_members n macc s"
proof (induction n s and n acc s and n macc s rule: parse_value_parse_elems_parse_members.induct)
  case (2 n s)
  show ?case
  proof (cases "skip_ws s")
    case (Cons c u)
    then have "2 * length u + 2 \<le> n"
      using length_skip_ws [of s] "2.prems" by simp
    then show ?thesis
      using Cons "2.IH" by (auto split: option.splits)
  next
    case Nil
    then show ?thesis by (simp only: parse_value.simps list.case)
  qed
next
  case (4 n acc s)
  have v: "parse_value (Suc n) s = parse_value n s"
    using "4.IH"(1) "4.prems" by simp
  show ?case
  proof (cases "parse_value n s")
    case (Some vr)
    obtain v r where vr: "vr = (v, r)" by (cases vr)
    have "parse_elems (Suc n) (acc @ [v]) r' = parse_elems n (acc @ [v]) r'"
      if "expect 44 r = Some r'" for r'
      using that "4.IH"(2) [OF Some vr [symmetric] that] "4.prems" parse_length(1) [OF Some [unfolded vr]]
        expect_length [OF that] by simp
    then show ?thesis
      using Some v vr by (simp del: parse_value.simps split: option.splits)
  qed (simp add: v del: parse_value.simps)
next
  case (6 n acc s)
  show ?case
  proof (cases "expect 34 s")
    case (Some r1)
    note r1 = this
    show ?thesis
    proof (cases "parse_chars r1")
      case (Some kr)
      obtain k r2 where kr: "parse_chars r1 = Some (k, r2)"
        using Some by (cases kr) auto
      show ?thesis
      proof (cases "expect 58 r2")
        case (Some r3)
        note r3 = this
        have len: "length r3 < length s"
          using expect_length [OF r1] parse_chars_length [OF kr] expect_length [OF r3] by simp
        have v: "parse_value (Suc n) r3 = parse_value n r3"
          using "6.IH"(1) [OF r1 kr refl r3] "6.prems" len by simp
        have m: "parse_members (Suc n) (alist_put k v acc) r5 = parse_members n (alist_put k v acc) r5"
          if "parse_value n r3 = Some (v, r4)" "expect 44 r4 = Some r5" for v r4 r5
          using "6.IH"(2) [OF r1 kr refl r3 that(1) refl that(2)] "6.prems" len
            parse_length(1) [OF that(1)] expect_length [OF that(2)] by simp
        show ?thesis
          using r1 kr r3 v m
          by (simp del: parse_value.simps split: option.splits prod.splits)
      qed (simp add: r1 kr)
    qed (simp add: r1)
  qed simp
qed simp_all

lemma parse_value_fuel:
  assumes "2 * length s + 2 \<le> n"
  shows "parse_value n s = parse_value (2 * length s + 2) s"
  using assms
proof (induction n rule: dec_induct)
  case (step n)
  then show ?case
    using parse_more_fuel(1) [of s n] by simp
qed simp

lemma parse_not_Undef:
  "parse_value n s = Some (v, r) \<Longrightarrow> v \<noteq> Undef"
  "parse_elems n acc s = Some (v, r) \<Longrightarrow> v \<noteq> Undef"
  "parse_members n macc s = Some (v, r) \<Longrightarrow> v \<noteq> Undef"
  by (induction n s and n acc s and n macc s arbitrary: v r and v r and v r
      rule: parse_value_parse_elems_parse_members.induct)
     (fastforce simp: parse_literal_def parse_number_def Let_def split: list.splits option.splits if_splits)+

lemma json_parse_not_Undef: "json_parse s \<noteq> Some Undef"
  by (auto simp: json_parse_def split: option.splits if_splits simp del: parse_value.simps
      dest: parse_not_Undef(1))

lemma json_parse_Nil [simp]: "json_parse [] = None"
  by (simp add: json_parse_def)

lemma json_parse_null: "json_parse (js ''null'') = Some Null"
proof -
  have "parse_value (Suc n) (js ''null'') = Some (Null, [])" for n
    by (simp add: json_ws_def parse_literal_def starts_with_def)
  from this [of 9] show ?thesis
    by (simp add: json_parse_def)
qed

end
