(* ===== verification/Domain.thy ===== *)
theory Domain
  imports Js_Value
begin

text \<open>
  The data model of the web client (\<open>src/web/src/domain.ts\<close>): the interfaces as records, the
  label tables, and the parsing and formatting helpers that every page calls. Numbers that the
  API server sends as Go integers are \<open>int\<close>; an optional member is an \<open>option\<close>. Date parsing
  and locale formatting depend on the host, so they are a record of functions the helpers take.
\<close>

section \<open>Interfaces\<close>

record 'a ApiResponse =
  res_code :: int
  res_data :: "'a option"
  res_message :: "jstring option"

record AgentInfo =
  ag_id :: int
  ag_hostname :: jstring
  ag_ip_addr :: jstring
  ag_online :: bool
  ag_uid :: jstring
  ag_gid :: int
  ag_version :: jstring
  ag_environment :: jstring
  ag_last_heartbeat :: jstring
  ag_created_at :: jstring
  ag_updated_at :: jstring

record CreateTaskParams =
  ct_name :: jstring
  ct_type :: int
  ct_profiler_type :: int
  ct_target_ip :: jstring
  ct_pid :: jsnum
  ct_duration :: jsnum
  ct_hz :: "jsnum option"
  ct_callgraph :: "jstring option"
  ct_subprocess :: "bool option"
  ct_event :: "jstring option"

text \<open>\<open>request_params\<close> is an object, a JSON string or null: kept as a dynamic value.\<close>

record HotmethodTask =
  t_id :: int
  t_tid :: jstring
  t_name :: jstring
  t_type :: int
  t_profiler_type :: int
  t_target_ip :: jstring
  t_request_params :: jsval
  t_status :: int
  t_analysis_status :: int
  t_status_info :: jstring
  t_uid :: jstring
  t_user_name :: jstring
  t_create_time :: jstring
  t_begin_time :: "jstring option"
  t_end_time :: "jstring option"
  t_created_at :: "jstring option"
  t_updated_at :: "jstring option"

record TaskListData =
  tl_total :: int
  tl_list :: "HotmethodTask list"
  tl_page :: int
  tl_size :: int

record CosFile =
  cf_key :: "jstring option"
  cf_name :: "jstring option"
  cf_url :: jstring
  cf_size :: "jsnum option"

record AnalysisSuggestion =
  sg_id :: int
  sg_tid :: jstring
  sg_func :: jstring
  sg_suggestion :: jstring
  sg_ai_suggestion :: jstring
  sg_status :: int
  sg_created_at :: jstring
  sg_updated_at :: jstring

record TaskStateHistory =
  sh_id :: int
  sh_tid :: jstring
  sh_from_state :: int
  sh_to_state :: int
  sh_reason :: jstring
  sh_change_type :: int
  sh_created_at :: jstring

record GroupInfo =
  g_gid :: int
  g_name :: jstring
  g_owner_id :: jstring
  g_created_at :: jstring
  g_updated_at :: jstring

record GroupMemberInfo =
  gm_gid :: int
  gm_uid :: jstring

record CreateScheduleTaskParams =
  cs_task_name :: jstring
  cs_type :: int
  cs_profiler_type :: int
  cs_target_ip :: jstring
  cs_pid :: jsnum
  cs_duration :: jsnum
  cs_hz :: "jsnum option"
  cs_callgraph :: "jstring option"
  cs_cron_expr :: jstring

record TaskDetailData =
  td_task :: "HotmethodTask option"
  td_suggestions :: "AnalysisSuggestion list option"
  td_cos_files :: "CosFile list option"
  td_state_history :: "TaskStateHistory list option"

record ContinuousWindow =
  w_id :: int
  w_parent_tid :: jstring
  w_window_tid :: jstring
  w_seq :: int
  w_start_time :: jstring
  w_end_time :: jstring
  w_status :: int
  w_cos_key :: jstring
  w_created_at :: jstring

record CreateContinuousParams =
  cc_name :: "jstring option"
  cc_target_ip :: jstring
  cc_pid :: jsnum
  cc_hz :: "jsnum option"
  cc_window_sec :: "jsnum option"
  cc_profiler_type :: "int option"
  cc_callgraph :: "jstring option"
  cc_event :: "jstring option"

datatype TaskCreateMode = Oneshot | Continuous | Natural

record NaturalLanguageTaskPlan =
  pl_name :: jstring
  pl_mode :: TaskCreateMode
  pl_type :: int
  pl_profiler_type :: int
  pl_target_ip :: jstring
  pl_pid :: int
  pl_duration :: int
  pl_hz :: int
  pl_window_sec :: "int option"
  pl_callgraph :: jstring
  pl_subprocess :: bool
  pl_event :: jstring
  pl_confidence :: rat
  pl_rationale :: "jstring list"
  pl_missing_fields :: "jstring list"
  pl_clarifying_question :: jstring

record NaturalLanguageTaskResult =
  nr_tid :: "jstring option"
  nr_plan :: "NaturalLanguageTaskPlan option"

record LLMSettings =
  ls_base_url :: jstring
  ls_model :: jstring
  ls_token :: "jstring option"
  ls_token_configured :: "bool option"
  ls_token_masked :: "jstring option"

text \<open>The answer of \<open>getFlameData\<close>.\<close>

record FlameData =
  fd_type :: jstring
  fd_key :: "jstring option"
  fd_url :: jstring

section \<open>Label tables\<close>

record badge =
  badge_label :: jstring
  badge_color :: jstring

definition lbl_new :: jstring where \<comment> \<open>new\<close>
  [msg_defs]: "lbl_new = [0x65B0, 0x5EFA]"
definition lbl_dispatched :: jstring where \<comment> \<open>dispatched\<close>
  [msg_defs]: "lbl_dispatched = [0x5DF2, 0x6D3E, 0x53D1]"
definition lbl_running :: jstring where \<comment> \<open>running\<close>
  [msg_defs]: "lbl_running = [0x6267, 0x884C, 0x4E2D]"
definition lbl_uploading :: jstring where \<comment> \<open>uploading\<close>
  [msg_defs]: "lbl_uploading = [0x4E0A, 0x4F20, 0x4E2D]"
definition lbl_success :: jstring where \<comment> \<open>success\<close>
  [msg_defs]: "lbl_success = [0x6210, 0x529F]"
definition lbl_failed :: jstring where \<comment> \<open>failed\<close>
  [msg_defs]: "lbl_failed = [0x5931, 0x8D25]"
definition lbl_timeout :: jstring where \<comment> \<open>timed out\<close>
  [msg_defs]: "lbl_timeout = [0x8D85, 0x65F6]"
definition lbl_to_analyze :: jstring where \<comment> \<open>waiting for analysis\<close>
  [msg_defs]: "lbl_to_analyze = [0x5F85, 0x5206, 0x6790]"
definition lbl_analyzing :: jstring where \<comment> \<open>analysing\<close>
  [msg_defs]: "lbl_analyzing = [0x5206, 0x6790, 0x4E2D]"
definition lbl_done :: jstring where \<comment> \<open>done\<close>
  [msg_defs]: "lbl_done = [0x5DF2, 0x5B8C, 0x6210]"

definition statusMap :: "int \<Rightarrow> badge option" where
  "statusMap = map_of
    [(0, \<lparr>badge_label = lbl_new, badge_color = js ''rgba(255,255,255,0.45)''\<rparr>),
     (1, \<lparr>badge_label = lbl_dispatched, badge_color = js ''#60a5fa''\<rparr>),
     (2, \<lparr>badge_label = lbl_running, badge_color = js ''#60a5fa''\<rparr>),
     (3, \<lparr>badge_label = lbl_uploading, badge_color = js ''#fbbf24''\<rparr>),
     (4, \<lparr>badge_label = lbl_success, badge_color = js ''#4ade80''\<rparr>),
     (5, \<lparr>badge_label = lbl_failed, badge_color = js ''#f87171''\<rparr>),
     (6, \<lparr>badge_label = lbl_timeout, badge_color = js ''#f87171''\<rparr>)]"

definition analysisMap :: "int \<Rightarrow> badge option" where
  "analysisMap = map_of
    [(0, \<lparr>badge_label = lbl_to_analyze, badge_color = js ''rgba(255,255,255,0.45)''\<rparr>),
     (1, \<lparr>badge_label = lbl_analyzing, badge_color = js ''#60a5fa''\<rparr>),
     (2, \<lparr>badge_label = lbl_done, badge_color = js ''#4ade80''\<rparr>),
     (3, \<lparr>badge_label = lbl_failed, badge_color = js ''#f87171''\<rparr>)]"

text \<open>\<open>map[k] || map[0]\<close>, the reading of both tables: state 0 stands in for an unknown one.\<close>

definition badge_of :: "(int \<Rightarrow> badge option) \<Rightarrow> int \<Rightarrow> badge" where
  "badge_of m k =
     (case m k of Some b \<Rightarrow> b | None \<Rightarrow> (case m 0 of Some b \<Rightarrow> b | None \<Rightarrow> \<lparr>badge_label = [], badge_color = []\<rparr>))"

definition profilerTypeMap :: "int \<Rightarrow> jstring option" where
  "profilerTypeMap = map_of
    [(0, js ''perf''), (1, js ''async-profiler''), (2, js ''pprof''), (3, js ''bpftrace''),
     (4, js ''memray''), (5, js ''java-heap''), (6, js ''resource'')]"

definition taskTypeMap :: "int \<Rightarrow> jstring option" where
  "taskTypeMap = map_of
    [(0, js ''CPU Profiling''), (1, js ''Java Profiling''), (2, js ''Continuous Profiling''),
     (4, js ''Python Memray''), (5, js ''Resource Analysis''), (6, js ''Biosnoop (eBPF)''),
     (7, js ''BW Sync''), (8, js ''Namespace''), (9, js ''Assembly''), (10, js ''pprof CPU''),
     (11, js ''pprof Heap''), (12, js ''Java Heap'')]"

section \<open>Task parameters\<close>

definition parseTaskParams :: "jsval \<Rightarrow> jsval" where
  "parseTaskParams params =
     (if \<not> truthy params then JObj []
      else (case params of
              JStr s \<Rightarrow> (case json_parse s of Some v \<Rightarrow> v | None \<Rightarrow> JObj [])
            | _ \<Rightarrow> params))"

section \<open>Dates\<close>

text \<open>
  The host's date functions: \<open>new Date(s).getTime()\<close> (\<open>None\<close> is NaN), \<open>toLocaleString()\<close> of a
  valid date, and \<open>Date.now()\<close>, in milliseconds.
\<close>

record date_env =
  date_parse :: "jstring \<Rightarrow> int option"
  to_locale_string :: "int \<Rightarrow> jstring"
  date_now :: int

definition dash :: jstring where
  "dash = js ''-''"

definition formatDate :: "date_env \<Rightarrow> jstring option \<Rightarrow> jstring" where
  "formatDate env value =
     (if opt_str value = [] then dash
      else (case date_parse env (opt_str value) of
              None \<Rightarrow> dash
            | Some time \<Rightarrow> to_locale_string env time))"

definition txt_sec_ago :: jstring where \<comment> \<open>seconds ago\<close>
  [msg_defs]: "txt_sec_ago = [32, 0x79D2, 0x524D]"
definition txt_min_ago :: jstring where \<comment> \<open>minutes ago\<close>
  [msg_defs]: "txt_min_ago = [32, 0x5206, 0x949F, 0x524D]"
definition txt_hour_ago :: jstring where \<comment> \<open>hours ago\<close>
  [msg_defs]: "txt_hour_ago = [32, 0x5C0F, 0x65F6, 0x524D]"
definition txt_day_ago :: jstring where \<comment> \<open>days ago\<close>
  [msg_defs]: "txt_day_ago = [32, 0x5929, 0x524D]"

definition deltaSec :: "int \<Rightarrow> int \<Rightarrow> int" where
  "deltaSec now time = max 0 ((now - time) div 1000)"

definition formatRelativeTime :: "date_env \<Rightarrow> jstring option \<Rightarrow> jstring" where
  "formatRelativeTime env value =
     (if opt_str value = [] then dash
      else (case date_parse env (opt_str value) of
              None \<Rightarrow> dash
            | Some time \<Rightarrow>
              (let d = deltaSec (date_now env) time
               in if d < 60 then int_str d @ txt_sec_ago
                  else if d < 3600 then int_str (d div 60) @ txt_min_ago
                  else if d < 86400 then int_str (d div 3600) @ txt_hour_ago
                  else int_str (d div 86400) @ txt_day_ago)))"

text \<open>The member access \<open>params.duration\<close> raises when the parameters are \<open>null\<close>.\<close>

definition formatDuration :: "date_env \<Rightarrow> HotmethodTask \<Rightarrow> js_error + jstring" where
  "formatDuration env task =
     (case get_prop (parseTaskParams (t_request_params task)) (js ''duration'') of
        Inl e \<Rightarrow> Inl e
      | Inr duration \<Rightarrow>
        if truthy duration then Inr (val_str duration @ js ''s'')
        else if opt_str (t_begin_time task) \<noteq> [] \<and> opt_str (t_end_time task) \<noteq> [] then
          (case (date_parse env (opt_str (t_begin_time task)), date_parse env (opt_str (t_end_time task))) of
             (Some begin, Some end) \<Rightarrow>
               if end \<ge> begin then Inr (int_str ((end - begin + 500) div 1000) @ js ''s'') else Inr dash
           | _ \<Rightarrow> Inr dash)
        else Inr dash)"

section \<open>Paths\<close>

definition basename :: "jstring option \<Rightarrow> jstring" where
  "basename path =
     (if opt_str path = [] then dash
      else (let parts = filter (\<lambda>p. p \<noteq> []) (split_on 47 (opt_str path))
            in if parts = [] then opt_str path else or_str (last parts) (opt_str path)))"

section \<open>Properties\<close>

text \<open>The parameters are always usable as an object, except when a string holds JSON \<open>null\<close>.\<close>

lemma parseTaskParams_nullish:
  "nullish (parseTaskParams v) \<longleftrightarrow> (\<exists>s. v = JStr s \<and> json_parse s = Some Null)"
proof (cases v)
  case (JStr s)
  have "nullish w \<longleftrightarrow> w = Null" if "json_parse s = Some w" for w
    using that json_parse_not_Undef by (cases w) auto
  with JStr show ?thesis
    by (cases "s = []") (auto simp: parseTaskParams_def split: option.splits)
qed (auto simp: parseTaskParams_def)

lemma formatDuration_isl: "isl (formatDuration env task) \<longleftrightarrow> nullish (parseTaskParams (t_request_params task))"
  by (auto simp: formatDuration_def get_prop_def split: option.splits)

text \<open>
  \<open>formatDuration\<close> (domain.ts) returns a text for every task but one whose
  \<open>request_params\<close> is a string that holds the JSON value \<open>null\<close>: there \<open>parseTaskParams\<close> returns
  \<open>null\<close> and the member access raises a TypeError.
\<close>

theorem formatDuration_raises:
  "formatDuration env task = Inl e \<longleftrightarrow>
     e = TypeError \<and> (\<exists>s. t_request_params task = JStr s \<and> json_parse s = Some Null)"
proof (cases "nullish (parseTaskParams (t_request_params task))")
  case True
  then show ?thesis
    using parseTaskParams_nullish [of "t_request_params task"]
    by (auto simp: formatDuration_def get_prop_def)
next
  case False
  then show ?thesis
    using parseTaskParams_nullish [of "t_request_params task"]
    by (auto simp: formatDuration_def get_prop_def split: option.splits)
qed

text \<open>
  For a timestamp that is not in the future, \<open>formatRelativeTime\<close> (domain.ts)
  prints a number and a unit (seconds, minutes, hours or days) such that the elapsed whole
  seconds lie in exactly that unit's interval, and the number is at least one for every unit
  but seconds.
\<close>

theorem formatRelativeTime_bounds:
  assumes "value \<noteq> []" and "date_parse env value = Some time" and "time \<le> date_now env"
  shows "\<exists>n unit suffix. (unit, suffix) \<in>
           {(1, txt_sec_ago), (60, txt_min_ago), (3600, txt_hour_ago), (86400, txt_day_ago)} \<and>
         formatRelativeTime env (Some value) = int_str n @ suffix \<and>
         n * unit \<le> (date_now env - time) div 1000 \<and> (date_now env - time) div 1000 < (n + 1) * unit \<and>
         (unit = 1 \<or> 1 \<le> n)"
proof -
  define d where "d = (date_now env - time) div 1000"
  have d: "deltaSec (date_now env) time = d" and "0 \<le> d"
    using assms(3) by (auto simp: deltaSec_def d_def pos_imp_zdiv_nonneg_iff)
  have fmt: "formatRelativeTime env (Some value) =
     (if d < 60 then int_str d @ txt_sec_ago
      else if d < 3600 then int_str (d div 60) @ txt_min_ago
      else if d < 86400 then int_str (d div 3600) @ txt_hour_ago
      else int_str (d div 86400) @ txt_day_ago)"
    using assms(1,2) by (simp add: formatRelativeTime_def d)
  have div: "d div u * u \<le> d \<and> d < (d div u + 1) * u" if "0 < u" for u
    using that by (rule div_interval)
  have "\<exists>n unit suffix. (unit, suffix) \<in>
           {(1, txt_sec_ago), (60, txt_min_ago), (3600, txt_hour_ago), (86400, txt_day_ago)} \<and>
         formatRelativeTime env (Some value) = int_str n @ suffix \<and>
         n * unit \<le> d \<and> d < (n + 1) * unit \<and> (unit = 1 \<or> 1 \<le> n)"
  proof -
    consider "d < 60" | "60 \<le> d" "d < 3600" | "3600 \<le> d" "d < 86400" | "86400 \<le> d"
      by linarith
    then show ?thesis
    proof cases
      case 1
      then show ?thesis
        by (intro exI [of _ d] exI [of _ 1] exI [of _ txt_sec_ago]) (simp add: fmt)
    next
      case 2
      then show ?thesis using div [of 60]
        by (intro exI [of _ "d div 60"] exI [of _ 60] exI [of _ txt_min_ago]) (auto simp: fmt)
    next
      case 3
      then show ?thesis using div [of 3600]
        by (intro exI [of _ "d div 3600"] exI [of _ 3600] exI [of _ txt_hour_ago]) (auto simp: fmt)
    next
      case 4
      then show ?thesis using div [of 86400]
        by (intro exI [of _ "d div 86400"] exI [of _ 86400] exI [of _ txt_day_ago]) (auto simp: fmt)
    qed
  qed
  then show ?thesis by (simp add: d_def)
qed

definition sample_env :: date_env where
  "sample_env = \<lparr>date_parse = parse_int, to_locale_string = int_str, date_now = 10000000\<rparr>"

lemma formatRelativeTime_bounds_witness:
  "\<exists>n unit suffix. (unit, suffix) \<in>
           {(1, txt_sec_ago), (60, txt_min_ago), (3600, txt_hour_ago), (86400, txt_day_ago)} \<and>
         formatRelativeTime sample_env (Some (js ''5000'')) = int_str n @ suffix \<and>
         n * unit \<le> 9995 \<and> 9995 < (n + 1) * unit \<and> (unit = 1 \<or> 1 \<le> n)"
proof -
  have "date_parse sample_env (js ''5000'') = Some 5000"
    by (simp add: sample_env_def parse_int_def take_sign_def is_ws_def is_digit_def str_nat_def)
  from formatRelativeTime_bounds [OF _ this] show ?thesis
    by (simp add: sample_env_def)
qed

lemma basename_no_slash: "name \<noteq> [] \<Longrightarrow> 47 \<notin> set name \<Longrightarrow> basename (Some name) = name"
  by (simp add: basename_def split_on_free)

text \<open>
  \<open>basename\<close> (domain.ts) returns the last non-empty component of a path, also when the
  path ends in slashes; every artifact of a task is recognised through it.
\<close>

theorem basename_component:
  assumes "name \<noteq> []" and "47 \<notin> set name"
  shows "basename (Some (dir @ 47 # name @ replicate k 47)) = name"
proof (cases k)
  case 0
  with assms show ?thesis
    by (simp add: basename_def split_on_append_sep split_on_free)
next
  case (Suc j)
  have "split_on 47 (dir @ 47 # name @ 47 # replicate j 47) =
      split_on 47 dir @ name # split_on 47 (replicate j 47)"
    using assms by (simp add: split_on_append_sep split_on_free)
  with Suc assms show ?thesis
    by (simp add: basename_def split_on_replicate)
qed

lemma basename_component_witness:
  "basename (Some (js ''profiler/t1/top.json//'')) = js ''top.json''"
proof -
  have "js ''top.json'' \<noteq> []" and "47 \<notin> set (js ''top.json'')"
    by simp_all
  from basename_component [OF this, of "js ''profiler/t1''" "Suc (Suc 0)"] show ?thesis
    by simp
qed

lemma basename_nonempty: "basename p \<noteq> []"
  by (auto simp: basename_def dash_def Let_def)

end
