(* ===== verification/Polling.thy ===== *)
theory Polling
  imports Domain
begin

text \<open>
  The task poller (\<open>src/web/src/taskPolling.ts\<close>). A run is determined by what the environment
  answers: the response of the \<open>i\<close>-th status request, the outcome of the analysis request, and
  whether the abort signal is set when the \<open>i\<close>-th round looks at it (at the loop head, or while
  it waits). The loop returns its trace of requests, callbacks and waits with its result.
\<close>

definition POLL_INTERVAL_MS :: nat where
  "POLL_INTERVAL_MS = 3000"

definition MAX_POLL_COUNT :: nat where
  "MAX_POLL_COUNT = 120"

datatype TaskPollPhase = Collecting | Analyzing

datatype poll_exn = AbortError | PollFailed api_exn

datatype poll_event =
    GetTaskDetail jstring
  | TriggerAnalysis jstring
  | OnUpdate HotmethodTask TaskPollPhase
  | WaitFor nat

type_synonym poll_run = "poll_event list \<times> (poll_exn + HotmethodTask)"

record poll_env =
  pe_detail :: "nat \<Rightarrow> api_exn + TaskDetailData ApiResponse"
  pe_trigger :: "api_exn + unit"
  pe_aborted :: "nat \<Rightarrow> bool"
  pe_abort_wait :: "nat \<Rightarrow> bool"

definition msg_load_failed :: jstring where \<comment> \<open>task status could not be loaded\<close>
  [msg_defs]: "msg_load_failed = [0x4EFB, 0x52A1, 0x72B6, 0x6001, 0x52A0, 0x8F7D, 0x5931, 0x8D25]"
definition msg_task_timeout :: jstring where \<comment> \<open>task timed out\<close>
  [msg_defs]: "msg_task_timeout = [0x4EFB, 0x52A1, 0x8D85, 0x65F6]"
definition msg_task_failed :: jstring where \<comment> \<open>task failed\<close>
  [msg_defs]: "msg_task_failed = [0x4EFB, 0x52A1, 0x6267, 0x884C, 0x5931, 0x8D25]"
definition msg_poll_timeout :: jstring where \<comment> \<open>task polling timed out\<close>
  [msg_defs]: "msg_poll_timeout = [0x4EFB, 0x52A1, 0x8F6E, 0x8BE2, 0x8D85, 0x65F6]"

text \<open>\<open>wait(ms, signal)\<close>: rejects when the signal is set before or during the wait.\<close>

definition wait :: "nat \<Rightarrow> bool \<Rightarrow> poll_run \<Rightarrow> poll_run" where
  "wait ms aborted rest =
     (if aborted then ([WaitFor ms], Inl AbortError) else (WaitFor ms # fst rest, snd rest))"

definition loadTask :: "(api_exn + TaskDetailData ApiResponse) \<Rightarrow> api_exn + HotmethodTask" where
  "loadTask answer =
     (case answer of Inl e \<Rightarrow> Inl e
      | Inr res \<Rightarrow>
        (case Option.bind (res_data res) td_task of
           Some task \<Rightarrow>
             if res_code res \<noteq> 0 then Inl (mk_error (or_str (opt_str (res_message res)) msg_load_failed))
             else Inr task
         | None \<Rightarrow> Inl (mk_error (or_str (opt_str (res_message res)) msg_load_failed))))"

definition failure_text :: "HotmethodTask \<Rightarrow> jstring" where
  "failure_text task =
     or_str (t_status_info task) (if t_status task = 6 then msg_task_timeout else msg_task_failed)"

definition before :: "poll_event list \<Rightarrow> poll_run \<Rightarrow> poll_run" where
  "before es r = (es @ fst r, snd r)"

text \<open>
  The for loop at round \<open>i\<close>, with \<open>k\<close> rounds left and the flag \<open>analysisTriggered\<close>.
\<close>

fun poll_loop :: "poll_env \<Rightarrow> jstring \<Rightarrow> nat \<Rightarrow> nat \<Rightarrow> bool \<Rightarrow> poll_run" where
  "poll_loop env tid i 0 triggered = ([], Inl (PollFailed (mk_error msg_poll_timeout)))"
| "poll_loop env tid i (Suc k) triggered =
     (if pe_aborted env i then ([], Inl AbortError)
      else before [GetTaskDetail tid]
       (case loadTask (pe_detail env i) of
          Inl e \<Rightarrow> ([], Inl (PollFailed e))
        | Inr task \<Rightarrow>
          if t_status task = 5 \<or> t_status task = 6 then
            ([], Inl (PollFailed (mk_error (failure_text task))))
          else if t_status task < 4 then
            before [OnUpdate task Collecting]
              (wait POLL_INTERVAL_MS (pe_abort_wait env i) (poll_loop env tid (Suc i) k triggered))
          else
            (let fire = (\<not> triggered \<and> t_analysis_status task = 0);
                 rest = before [OnUpdate task Analyzing]
                   (if t_analysis_status task = 2 \<or> t_analysis_status task = 3 then ([], Inr task)
                    else wait POLL_INTERVAL_MS (pe_abort_wait env i)
                           (poll_loop env tid (Suc i) k (triggered \<or> fire)))
             in if fire then
                  before [TriggerAnalysis tid]
                    (case pe_trigger env of Inl e \<Rightarrow> ([], Inl (PollFailed e)) | Inr _ \<Rightarrow> rest)
                else rest)))"

definition waitForTaskResult :: "poll_env \<Rightarrow> jstring \<Rightarrow> poll_run" where
  "waitForTaskResult env tid = poll_loop env tid 0 MAX_POLL_COUNT False"

text \<open>
  \<open>createTaskPoller\<close>: the promise runs under the poller's own signal; \<open>abort()\<close> called during
  round \<open>n\<close> is seen by that round's wait and by every later look at the signal.
\<close>

definition with_abort_at :: "nat \<Rightarrow> poll_env \<Rightarrow> poll_env" where
  "with_abort_at n env = env\<lparr>pe_aborted := (\<lambda>i. n < i), pe_abort_wait := (\<lambda>i. n \<le> i)\<rparr>"

definition createTaskPoller :: "poll_env \<Rightarrow> jstring \<Rightarrow> nat option \<Rightarrow> poll_run" where
  "createTaskPoller env tid abort_round =
     waitForTaskResult
       (case abort_round of
          None \<Rightarrow> env\<lparr>pe_aborted := (\<lambda>_. False), pe_abort_wait := (\<lambda>_. False)\<rparr>
        | Some n \<Rightarrow> with_abort_at n env) tid"

section \<open>Counting events\<close>

fun is_detail :: "poll_event \<Rightarrow> bool" where
  "is_detail (GetTaskDetail tid) = True"
| "is_detail e = False"

fun is_trigger :: "poll_event \<Rightarrow> bool" where
  "is_trigger (TriggerAnalysis tid) = True"
| "is_trigger e = False"

fun wait_ms :: "poll_event \<Rightarrow> nat" where
  "wait_ms (WaitFor ms) = ms"
| "wait_ms e = 0"

abbreviation details :: "poll_event list \<Rightarrow> nat" where
  "details es \<equiv> length (filter is_detail es)"

abbreviation triggers :: "poll_event list \<Rightarrow> nat" where
  "triggers es \<equiv> length (filter is_trigger es)"

abbreviation waited :: "poll_event list \<Rightarrow> nat" where
  "waited es \<equiv> sum_list (map wait_ms es)"

lemma before_simps [simp]: "fst (before es r) = es @ fst r" "snd (before es r) = snd r"
  by (simp_all add: before_def)

lemma wait_simps [simp]:
  "snd (wait ms a r) = (if a then Inl AbortError else snd r)"
  "fst (wait ms a r) = WaitFor ms # (if a then [] else fst r)"
  by (simp_all add: wait_def)

lemma loadTask_Inr:
  "loadTask ans = Inr task \<longleftrightarrow>
     (\<exists>res d. ans = Inr res \<and> res_code res = 0 \<and> res_data res = Some d \<and> td_task d = Some task)"
  by (auto simp: loadTask_def Option.bind_eq_Some_conv split: sum.splits option.splits)

lemma poll_loop_bounds:
  "details (fst (poll_loop env tid i k b)) \<le> k \<and>
   waited (fst (poll_loop env tid i k b)) \<le> k * POLL_INTERVAL_MS"
proof (induction k arbitrary: i b)
  case (Suc k)
  have "details (fst (poll_loop env tid (Suc i) k c)) \<le> k"
    and "waited (fst (poll_loop env tid (Suc i) k c)) \<le> k * POLL_INTERVAL_MS" for c
    using Suc.IH by blast+
  then show ?case
    by (auto simp: Let_def split: sum.splits intro: le_SucI trans_le_add2)
qed simp

lemma poll_loop_triggers: "triggers (fst (poll_loop env tid i k b)) \<le> (if b then 0 else 1)"
proof (induction k arbitrary: i b)
  case (Suc k)
  have "triggers (fst (poll_loop env tid (Suc i) k True)) = 0"
    and "triggers (fst (poll_loop env tid (Suc i) k False)) \<le> 1"
    using Suc.IH [of "Suc i" True] Suc.IH [of "Suc i" False] by simp_all
  then show ?case
    by (cases b) (auto simp: Let_def split: sum.splits)
qed simp

text \<open>
  C27: one polling run sends at most 120 status requests, starts the analysis at most
  once, and spends at most 120 times 3 s waiting.
\<close>

theorem waitForTaskResult_bounded:
  "details (fst (waitForTaskResult env tid)) \<le> 120 \<and>
   triggers (fst (waitForTaskResult env tid)) \<le> 1 \<and>
   waited (fst (waitForTaskResult env tid)) \<le> 360000"
  using poll_loop_bounds [of env tid 0 120 False] poll_loop_triggers [of env tid 0 120 False]
  by (simp add: waitForTaskResult_def MAX_POLL_COUNT_def POLL_INTERVAL_MS_def)

section \<open>What a run returns\<close>

lemma poll_loop_returns:
  assumes "snd (poll_loop env tid i k b) = Inr task"
  shows "\<exists>j. i \<le> j \<and> j < i + k \<and> loadTask (pe_detail env j) = Inr task \<and>
     4 \<le> t_status task \<and> t_status task \<noteq> 5 \<and> t_status task \<noteq> 6 \<and>
     (t_analysis_status task = 2 \<or> t_analysis_status task = 3)"
  using assms
proof (induction k arbitrary: i b)
  case (Suc k)
  show ?case
  proof (cases "\<exists>c. snd (poll_loop env tid (Suc i) k c) = Inr task")
    case True
    then show ?thesis
      using Suc.IH by (metis add_Suc add_Suc_right le_SucI Suc_le_lessD le_less)
  next
    case False
    obtain u where u: "loadTask (pe_detail env i) = Inr u"
      using Suc.prems by (auto split: if_splits sum.splits)
    have "u = task \<and> 4 \<le> t_status u \<and> t_status u \<noteq> 5 \<and> t_status u \<noteq> 6 \<and>
        (t_analysis_status u = 2 \<or> t_analysis_status u = 3)"
      using Suc.prems False u by (auto simp: Let_def split: if_splits sum.splits)
    with u show ?thesis
      by (intro exI [of _ i]) auto
  qed
qed simp

text \<open>
  C26: a task that the poller returns was reported by one of its 120 status requests
  as collected (its status is neither below 4 nor failed nor timed out) and with its analysis
  finished or failed.
\<close>

theorem waitForTaskResult_sound:
  assumes "snd (waitForTaskResult env tid) = Inr task"
  shows "\<exists>j < 120. loadTask (pe_detail env j) = Inr task \<and>
     4 \<le> t_status task \<and> t_status task \<notin> {5, 6} \<and> t_analysis_status task \<in> {2, 3}"
  using poll_loop_returns [of env tid 0 120 False task] assms
  by (auto simp: waitForTaskResult_def MAX_POLL_COUNT_def)

text \<open>A round that goes on: the task is still collected or analysed, and nobody aborts.\<close>

definition pending :: "HotmethodTask \<Rightarrow> bool" where
  "pending task \<longleftrightarrow>
     t_status task < 4 \<or> t_status task \<notin> {5, 6} \<and> t_analysis_status task \<notin> {2, 3}"

lemma poll_loop_pending:
  assumes "\<not> pe_aborted env i" and "\<not> pe_abort_wait env i" and "pe_trigger env = Inr ()"
    and "loadTask (pe_detail env i) = Inr u" and "pending u"
  shows "\<exists>c. snd (poll_loop env tid i (Suc k) b) = snd (poll_loop env tid (Suc i) k c)"
  using assms by (cases "t_status u < 4") (auto simp: pending_def Let_def)

lemma poll_loop_reaches:
  assumes "\<forall>j. i \<le> j \<and> j \<le> i + n \<longrightarrow> \<not> pe_aborted env j \<and> \<not> pe_abort_wait env j"
    and "pe_trigger env = Inr ()"
    and "\<forall>j. i \<le> j \<and> j < i + n \<longrightarrow> (\<exists>u. loadTask (pe_detail env j) = Inr u \<and> pending u)"
    and "loadTask (pe_detail env (i + n)) = Inr task"
    and "t_status task = 4" and "t_analysis_status task \<in> {2, 3}" and "n < k"
  shows "snd (poll_loop env tid i k b) = Inr task"
  using assms
proof (induction n arbitrary: i k b)
  case 0
  then show ?case
    by (cases k) (auto simp: Let_def)
next
  case (Suc n)
  then obtain m where k: "k = Suc m" and "n < m"
    by (cases k) auto
  obtain u where u: "loadTask (pe_detail env i) = Inr u" "pending u"
    using Suc.prems(3) [rule_format, of i] by auto
  have na: "\<not> pe_aborted env i" "\<not> pe_abort_wait env i"
    using Suc.prems(1) [rule_format, of i] by simp_all
  obtain c where c: "snd (poll_loop env tid i (Suc m) b) = snd (poll_loop env tid (Suc i) m c)"
    using poll_loop_pending [OF na Suc.prems(2) u] by blast
  have "snd (poll_loop env tid (Suc i) m c) = Inr task"
    using Suc.prems \<open>n < m\<close> by (intro Suc.IH) auto
  then show ?case
    using c k by simp
qed

text \<open>
  C6: when nobody aborts, the analysis request is accepted, and the server reports the
  task as pending for \<open>n\<close> rounds and then as collected with a finished (or failed) analysis,
  the poller returns that task, for every \<open>n\<close> below its limit of 120 rounds.
\<close>

theorem waitForTaskResult_complete:
  assumes "\<forall>j \<le> n. \<not> pe_aborted env j \<and> \<not> pe_abort_wait env j"
    and "pe_trigger env = Inr ()"
    and "\<forall>j < n. \<exists>u. loadTask (pe_detail env j) = Inr u \<and> pending u"
    and "loadTask (pe_detail env n) = Inr task"
    and "t_status task = 4" and "t_analysis_status task \<in> {2, 3}" and "n < 120"
  shows "snd (waitForTaskResult env tid) = Inr task"
  unfolding waitForTaskResult_def MAX_POLL_COUNT_def
  using assms by (intro poll_loop_reaches [where n = n]) auto

section \<open>Failures and aborts\<close>

text \<open>
  When the first report says that the task failed or timed out, the poller raises an
  error with the task's own status text, or a default text when there is none, after a single
  request and without starting an analysis.
\<close>

theorem waitForTaskResult_failure:
  assumes "\<not> pe_aborted env 0" and "loadTask (pe_detail env 0) = Inr task" and "t_status task \<in> {5, 6}"
  shows "waitForTaskResult env tid =
     ([GetTaskDetail tid],
      Inl (PollFailed (mk_error
        (if t_status_info task \<noteq> [] then t_status_info task
         else if t_status task = 6 then msg_task_timeout else msg_task_failed))))"
proof -
  have "poll_loop env tid 0 (Suc k) False =
     ([GetTaskDetail tid], Inl (PollFailed (mk_error (failure_text task))))" for k
    using assms by (auto simp: before_def)
  from this [of 119] show ?thesis
    by (simp add: waitForTaskResult_def MAX_POLL_COUNT_def failure_text_def or_str_def)
qed

lemma poll_loop_aborted:
  assumes "\<And>j. pe_aborted env j \<longleftrightarrow> n < j" and "\<And>j. pe_abort_wait env j \<longleftrightarrow> n \<le> j" and "i \<le> n"
  shows "details (fst (poll_loop env tid i k b)) \<le> Suc (n - i)"
  using assms(3)
proof (induction k arbitrary: i b)
  case (Suc k)
  show ?case
  proof (cases "i = n")
    case True
    then show ?thesis
      using assms(1,2) by (auto simp: Let_def split: sum.splits)
  next
    case False
    with Suc.prems have "Suc i \<le> n" and "\<not> pe_abort_wait env i"
      using assms(2) by auto
    then have "details (fst (poll_loop env tid (Suc i) k c)) \<le> n - i" for c
      using Suc.IH [of "Suc i" c] by (simp add: Suc_diff_Suc)
    then show ?thesis
      using assms(1,2) by (auto simp: Let_def split: sum.splits intro: le_SucI)
  qed
qed simp

text \<open>
  After \<open>abort()\<close> in round \<open>n\<close> (a page is left while its poller runs) the poller of
  \<open>createTaskPoller\<close> sends no further request: at most the \<open>n + 1\<close> requests of rounds 0 to \<open>n\<close>.
\<close>

theorem createTaskPoller_abort:
  "details (fst (createTaskPoller env tid (Some n))) \<le> Suc n"
  unfolding createTaskPoller_def waitForTaskResult_def
  using poll_loop_aborted [of "with_abort_at n env" n 0 tid] by (simp add: with_abort_at_def)

section \<open>A concrete run\<close>

definition sample_task :: "int \<Rightarrow> int \<Rightarrow> HotmethodTask" where
  "sample_task st an =
     \<lparr>t_id = 1, t_tid = js ''t1'', t_name = js ''demo'', t_type = 0, t_profiler_type = 0,
      t_target_ip = js ''10.0.0.1'', t_request_params = Null, t_status = st,
      t_analysis_status = an, t_status_info = [], t_uid = js ''u'', t_user_name = js ''u'',
      t_create_time = [], t_begin_time = None, t_end_time = None, t_created_at = None, t_updated_at = None\<rparr>"

definition sample_answer :: "HotmethodTask \<Rightarrow> api_exn + TaskDetailData ApiResponse" where
  "sample_answer task =
     Inr \<lparr>res_code = 0,
          res_data = Some \<lparr>td_task = Some task, td_suggestions = None, td_cos_files = None,
                           td_state_history = None\<rparr>,
          res_message = None\<rparr>"

text \<open>Two rounds of collection, one of analysis, then the finished task.\<close>

definition sample_poll_env :: poll_env where
  "sample_poll_env =
     \<lparr>pe_detail = (\<lambda>i. sample_answer (if i < 2 then sample_task 2 0
                                      else if i = 2 then sample_task 4 0 else sample_task 4 2)),
      pe_trigger = Inr (), pe_aborted = (\<lambda>_. False), pe_abort_wait = (\<lambda>_. False)\<rparr>"

lemma loadTask_sample [simp]: "loadTask (sample_answer t) = Inr t"
  by (simp add: loadTask_def sample_answer_def)

lemma waitForTaskResult_complete_witness:
  "snd (waitForTaskResult sample_poll_env (js ''t1'')) = Inr (sample_task 4 2)"
proof (rule waitForTaskResult_complete [where n = 3])
  show "\<forall>j < 3. \<exists>u. loadTask (pe_detail sample_poll_env j) = Inr u \<and> pending u"
    by (auto simp: sample_poll_env_def sample_task_def pending_def)
qed (simp_all add: sample_poll_env_def sample_task_def)

lemma waitForTaskResult_sound_witness:
  "\<exists>j < 120. loadTask (pe_detail sample_poll_env j) = Inr (sample_task 4 2) \<and>
     4 \<le> t_status (sample_task 4 2) \<and> t_status (sample_task 4 2) \<notin> {5, 6} \<and>
     t_analysis_status (sample_task 4 2) \<in> {2, 3}"
proof (rule waitForTaskResult_sound)
  show "snd (waitForTaskResult sample_poll_env (js ''t1'')) = Inr (sample_task 4 2)"
    unfolding waitForTaskResult_def MAX_POLL_COUNT_def
    by (rule poll_loop_reaches [where n = 3])
       (auto simp: sample_poll_env_def sample_task_def pending_def)
qed

lemma waitForTaskResult_failure_witness:
  "waitForTaskResult (sample_poll_env\<lparr>pe_detail := \<lambda>_. sample_answer (sample_task 6 0)\<rparr>) (js ''t1'') =
     ([GetTaskDetail (js ''t1'')], Inl (PollFailed (mk_error msg_task_timeout)))"
  using waitForTaskResult_failure
    [of "sample_poll_env\<lparr>pe_detail := \<lambda>_. sample_answer (sample_task 6 0)\<rparr>" "sample_task 6 0" "js ''t1''"]
  by (simp add: sample_poll_env_def sample_task_def)

end
