(* ===== verification/Flame.thy ===== *)
theory Flame
  imports Js_Value
begin

text \<open>
  The flame graph component (\<open>src/web/src/components/FlameGraph.tsx\<close>): the parser that turns
  collapsed stacks into the tree that d3-flame-graph draws, the fallback from a flat list of
  functions, and the choice between them. The chart library itself is third-party code.
\<close>

datatype FlameNode =
  FlameNode (node_name: jstring) (node_value: jsnum) (node_children: "FlameNode list option")

definition kids :: "FlameNode list option \<Rightarrow> FlameNode list" where
  "kids cs = (case cs of None \<Rightarrow> [] | Some l \<Rightarrow> l)"

lemma kids_simps [simp]: "kids None = []" "kids (Some l) = l"
  by (simp_all add: kids_def)

section \<open>Parsing collapsed stacks\<close>

text \<open>One line \<open>f1;f2;f3 count\<close>; \<open>None\<close> is a line the loop skips.\<close>

definition parse_line :: "jstring \<Rightarrow> (jstring list \<times> int) option" where
  "parse_line rawLine =
     (let line = trim rawLine
      in if line = [] then None
         else (case last_index_of 32 line of
                 None \<Rightarrow> None
               | Some lastSpace \<Rightarrow>
                 if lastSpace = 0 then None
                 else (case parse_int (drop (Suc lastSpace) line) of
                         None \<Rightarrow> None
                       | Some cnt \<Rightarrow>
                         if cnt \<le> 0 then None
                         else Some (split_on 59 (take lastSpace line), cnt))))"

text \<open>
  \<open>current.children.find(c => c.name === frame)\<close>, then the descent into that child (or into a
  new one that is pushed at the end): the first child of that name is replaced.
\<close>

fun update_child :: "jstring \<Rightarrow> (FlameNode \<Rightarrow> FlameNode) \<Rightarrow> FlameNode list \<Rightarrow> FlameNode list" where
  "update_child frame g [] = [g (FlameNode frame (Fin 0) None)]"
| "update_child frame g (c # cs) =
     (if node_name c = frame then g c # cs else c # update_child frame g cs)"

text \<open>The inner loop over the frames of one stack, and the addition at the node it ends in.\<close>

fun add_stack :: "jstring list \<Rightarrow> int \<Rightarrow> FlameNode \<Rightarrow> FlameNode" where
  "add_stack [] cnt (FlameNode n v cs) = FlameNode n (num_add (num_or v (Fin 0)) (Fin (of_int cnt))) cs"
| "add_stack (frame # frames) cnt (FlameNode n v cs) =
     FlameNode n v (Some (update_child frame (add_stack frames cnt) (kids cs)))"

definition add_line :: "jstring \<Rightarrow> FlameNode \<Rightarrow> FlameNode" where
  "add_line rawLine tree_root =
     (case parse_line rawLine of None \<Rightarrow> tree_root | Some (frames, cnt) \<Rightarrow> add_stack frames cnt tree_root)"

definition empty_root :: FlameNode where
  "empty_root = FlameNode (js ''all'') (Fin 0) (Some [])"

definition parseCollapsedToTree :: "jstring \<Rightarrow> FlameNode option" where
  "parseCollapsedToTree text =
     (let tree_root = fold add_line (split_on 10 text) empty_root
      in if kids (node_children tree_root) \<noteq> [] then Some tree_root else None)"

section \<open>The flat fallback\<close>

text \<open>An entry of top.json; its self count is untyped data.\<close>

record TopItem =
  ti_func :: jstring
  ti_self :: jsval

definition flat_items :: "TopItem list \<Rightarrow> (jstring \<times> jsnum) list" where
  "flat_items data =
     sort_num_desc snd
       (filter (\<lambda>item. num_lt (Fin 0) (snd item))
         (map (\<lambda>item. (ti_func item, num_or_zero (ti_self item))) data))"

definition flatDataToTree :: "TopItem list \<Rightarrow> FlameNode" where
  "flatDataToTree data =
     FlameNode (js ''all'') (Fin 0)
       (Some (map (\<lambda>item. FlameNode (fst item) (snd item) None) (flat_items data)))"

text \<open>The memo \<open>root\<close> of the component; a missing \<open>data\<close> is \<open>None\<close>.\<close>

definition flame_root :: "TopItem list option \<Rightarrow> jstring \<Rightarrow> FlameNode option" where
  "flame_root data collapsedText =
     (let parsedRoot = (if collapsedText \<noteq> [] then parseCollapsedToTree collapsedText else None)
      in case parsedRoot of
           Some r \<Rightarrow> Some r
         | None \<Rightarrow>
           (case data of
              Some d \<Rightarrow> if d \<noteq> [] then Some (flatDataToTree d) else None
            | None \<Rightarrow> None))"

section \<open>The abstract contract: counts per stack\<close>

text \<open>
  The value a tree holds for a stack: descend by names, first match, and read the node. The
  interface below is what a store of counts per stack promises; it is interpreted on the tree.
\<close>

fun value_at :: "FlameNode \<Rightarrow> jstring list \<Rightarrow> jsnum" where
  "value_at (FlameNode n v cs) [] = v"
| "value_at (FlameNode n v cs) (f # fs) =
     (case List.find (\<lambda>c. node_name c = f) (kids cs) of
        None \<Rightarrow> Fin 0
      | Some c \<Rightarrow> value_at c fs)"

locale stack_counter =
  fixes add :: "'k \<Rightarrow> int \<Rightarrow> 't \<Rightarrow> 't"
    and count_of :: "'t \<Rightarrow> 'k \<Rightarrow> jsnum"
    and total :: "'t \<Rightarrow> rat"
    and invar :: "'t \<Rightarrow> bool"
  assumes invar_add: "invar t \<Longrightarrow> invar (add k c t)"
    and count_add: "invar t \<Longrightarrow> count_of (add k c t) k' =
      (if k' = k then Fin (rat_of (count_of t k) + of_int c) else count_of t k')"
    and total_add: "invar t \<Longrightarrow> total (add k c t) = total t + of_int c"
begin

definition add_all :: "('k \<times> int) list \<Rightarrow> 't \<Rightarrow> 't" where
  "add_all kcs t = fold (\<lambda>(k, c). add k c) kcs t"

lemma add_all_invar: "invar t \<Longrightarrow> invar (add_all kcs t)"
  unfolding add_all_def by (induction kcs arbitrary: t) (auto simp: invar_add)

lemma add_all_total:
  "invar t \<Longrightarrow> total (add_all kcs t) = total t + of_int (sum_list (map snd kcs))"
  unfolding add_all_def by (induction kcs arbitrary: t) (auto simp: invar_add total_add)

lemma add_all_count:
  "invar t \<Longrightarrow> count_of t k = Fin a \<Longrightarrow>
     count_of (add_all kcs t) k = Fin (a + of_int (sum_list (map snd (filter (\<lambda>kc. fst kc = k) kcs))))"
  unfolding add_all_def
proof (induction kcs arbitrary: t a)
  case (Cons kc kcs)
  obtain k' c where kc: "kc = (k', c)" by (cases kc)
  have "count_of (add k' c t) k = Fin (a + (if k' = k then of_int c else 0))"
    using Cons.prems by (auto simp: count_add)
  with Cons.prems kc show ?case
    using Cons.IH [of "add k' c t"] by (auto simp: invar_add add.assoc)
qed simp

end

text \<open>Every node of a tree built from stacks holds a finite value.\<close>

fun fin_tree :: "FlameNode \<Rightarrow> bool" where
  "fin_tree (FlameNode n v cs) =
     (is_finite_num v \<and> (case cs of None \<Rightarrow> True | Some l \<Rightarrow> \<forall>c \<in> set l. fin_tree c))"

fun weight :: "FlameNode \<Rightarrow> rat" where
  "weight (FlameNode n v cs) =
     rat_of v + (case cs of None \<Rightarrow> 0 | Some l \<Rightarrow> sum_list (map weight l))"

fun distinct_tree :: "FlameNode \<Rightarrow> bool" where
  "distinct_tree (FlameNode n v cs) =
     (case cs of None \<Rightarrow> True
      | Some l \<Rightarrow> distinct (map node_name l) \<and> (\<forall>c \<in> set l. distinct_tree c))"

lemma add_stack_name [simp]: "node_name (add_stack fs c t) = node_name t"
  by (cases t; cases fs) auto

lemma find_update_child:
  assumes "\<And>c. node_name (g c) = node_name c"
  shows "List.find (\<lambda>c. node_name c = f) (update_child frame g cs) =
    (if f = frame
     then Some (g (case List.find (\<lambda>c. node_name c = frame) cs of
                     None \<Rightarrow> FlameNode frame (Fin 0) None | Some c \<Rightarrow> c))
     else List.find (\<lambda>c. node_name c = f) cs)"
  by (induction cs) (auto simp: assms)

lemma value_at_fresh: "value_at (FlameNode f (Fin 0) None) fs = Fin 0"
  by (cases fs) auto

lemma fin_tree_kids: "fin_tree (FlameNode n v cs) \<Longrightarrow> \<forall>c \<in> set (kids cs). fin_tree c"
  by (cases cs) simp_all

lemma value_at_fin: "fin_tree t \<Longrightarrow> is_finite_num (value_at t fs)"
proof (induction fs arbitrary: t)
  case Nil
  then show ?case by (cases t) simp
next
  case (Cons f fs)
  obtain n v cs where t: "t = FlameNode n v cs" by (cases t)
  show ?case
  proof (cases "List.find (\<lambda>c. node_name c = f) (kids cs)")
    case (Some c)
    then have "c \<in> set (kids cs)"
      by (simp add: find_Some_set)
    then have "fin_tree c"
      using fin_tree_kids [OF Cons.prems [unfolded t]] by (rule bspec [rotated])
    then have "is_finite_num (value_at c fs)"
      by (rule Cons.IH)
    with Some t show ?thesis by (simp del: fin_tree.simps)
  qed (simp add: t)
qed

lemma weight_kids: "weight (FlameNode n v cs) = rat_of v + sum_list (map weight (kids cs))"
  by (cases cs) simp_all

lemma fin_update_child:
  "\<forall>c \<in> set cs. fin_tree c \<Longrightarrow> (\<And>c. fin_tree c \<Longrightarrow> fin_tree (g c)) \<Longrightarrow>
     \<forall>c \<in> set (update_child f g cs). fin_tree c"
  by (induction cs) auto

lemma fin_add_stack: "fin_tree t \<Longrightarrow> fin_tree (add_stack fs c t)"
proof (induction fs c t rule: add_stack.induct)
  case (1 cnt n v cs)
  then show ?case
    by (cases v) (simp_all add: num_or_def)
next
  case (2 frame frames cnt n v cs)
  have "\<forall>c \<in> set (kids cs). fin_tree c"
    using "2.prems" by (rule fin_tree_kids)
  then have "\<forall>c \<in> set (update_child frame (add_stack frames cnt) (kids cs)). fin_tree c"
    using "2.IH" by (rule fin_update_child)
  with "2.prems" show ?case by simp
qed

lemma num_add_or_fin: "is_finite_num v \<Longrightarrow> num_add (num_or v (Fin 0)) (Fin b) = Fin (rat_of v + b)"
  by (cases v) (auto simp: num_or_def num_truthy_def)

lemma value_at_add_stack:
  assumes "fin_tree t"
  shows "value_at (add_stack fs c t) gs =
    (if gs = fs then Fin (rat_of (value_at t fs) + of_int c) else value_at t gs)"
  using assms
proof (induction fs c t arbitrary: gs rule: add_stack.induct)
  case (1 cnt n v cs)
  then show ?case
    by (cases gs) (auto simp: num_add_or_fin)
next
  case (2 frame frames cnt n v cs)
  let ?find = "\<lambda>f. List.find (\<lambda>c. node_name c = f) (kids cs)"
  let ?child = "case ?find frame of None \<Rightarrow> FlameNode frame (Fin 0) None | Some c \<Rightarrow> c"
  have fin: "fin_tree ?child"
    using fin_tree_kids [OF "2.prems"] by (auto split: option.splits dest: find_Some_set)
  have "value_at ?child fs = (case ?find frame of None \<Rightarrow> Fin 0 | Some c \<Rightarrow> value_at c fs)" for fs
    by (simp add: value_at_fresh split: option.splits)
  then show ?case
    using "2.IH" [OF fin] by (cases gs) (auto simp: find_update_child)
qed

lemma weight_update_child:
  assumes "\<forall>c \<in> set cs. fin_tree c" and "\<And>c. fin_tree c \<Longrightarrow> weight (g c) = weight c + d"
  shows "sum_list (map weight (update_child f g cs)) = sum_list (map weight cs) + d"
  using assms by (induction cs) auto

lemma weight_add_stack: "fin_tree t \<Longrightarrow> weight (add_stack fs c t) = weight t + of_int c"
proof (induction fs c t rule: add_stack.induct)
  case (1 cnt n v cs)
  then show ?case by (simp add: num_add_or_fin)
next
  case (2 frame frames cnt n v cs)
  have "sum_list (map weight (update_child frame (add_stack frames cnt) (kids cs))) =
      sum_list (map weight (kids cs)) + of_int cnt"
    using fin_tree_kids [OF "2.prems"] "2.IH" by (rule weight_update_child)
  then show ?case
    by (simp add: weight_kids del: weight.simps)
qed

interpretation tree: stack_counter add_stack value_at weight fin_tree
  by unfold_locales (simp_all add: fin_add_stack value_at_add_stack weight_add_stack)

lemma names_update_child:
  assumes "\<And>c. node_name (g c) = node_name c"
  shows "map node_name (update_child f g cs) =
    (if f \<in> node_name ` set cs then map node_name cs else map node_name cs @ [f])"
  using assms by (induction cs) auto

lemma distinct_update_child:
  assumes "\<forall>c \<in> set cs. distinct_tree c" and "\<And>c. distinct_tree c \<Longrightarrow> distinct_tree (g c)"
  shows "\<forall>c \<in> set (update_child f g cs). distinct_tree c"
  using assms by (induction cs) auto

lemma distinct_add_stack: "distinct_tree t \<Longrightarrow> distinct_tree (add_stack fs c t)"
proof (induction fs c t rule: add_stack.induct)
  case (2 frame frames cnt n v cs)
  have "\<forall>c \<in> set (kids cs). distinct_tree c" and d: "distinct (map node_name (kids cs))"
    using "2.prems" by (cases cs; simp)+
  then have "\<forall>c \<in> set (update_child frame (add_stack frames cnt) (kids cs)). distinct_tree c"
    using "2.IH" by (intro distinct_update_child) auto
  moreover have "distinct (map node_name (update_child frame (add_stack frames cnt) (kids cs)))"
    using d by (simp add: names_update_child)
  ultimately show ?case by simp
qed simp

section \<open>Correctness of the parser\<close>

text \<open>The samples of a text: its well-formed lines in order.\<close>

definition samples :: "jstring \<Rightarrow> (jstring list \<times> int) list" where
  "samples text = List.map_filter parse_line (split_on 10 text)"

lemma fold_add_line: "fold add_line ls t = tree.add_all (List.map_filter parse_line ls) t"
  unfolding tree.add_all_def
  by (induction ls arbitrary: t)
     (auto simp: add_line_def split: option.splits)

lemma empty_root_facts:
  "fin_tree empty_root" "distinct_tree empty_root" "weight empty_root = 0"
  "value_at empty_root fs = Fin 0"
  by (cases fs; simp add: empty_root_def)+

lemma parseCollapsedToTree_Some:
  "parseCollapsedToTree text = Some t \<Longrightarrow> t = tree.add_all (samples text) empty_root"
  by (simp add: parseCollapsedToTree_def Let_def fold_add_line samples_def split: if_splits)

text \<open>
  C7: in the tree of \<open>parseCollapsedToTree\<close> (FlameGraph.tsx), the node of every call
  stack holds exactly the sum of the counts of the lines with that stack (0 when there is
  none), and the values of all nodes add up to the sum of all counts: no sample is lost,
  duplicated or given to another stack.
\<close>

theorem parseCollapsed_counts:
  assumes "parseCollapsedToTree text = Some t"
  shows "value_at t fs = Fin (of_int (sum_list (map snd (filter (\<lambda>s. fst s = fs) (samples text))))) \<and>
    weight t = of_int (sum_list (map snd (samples text)))"
proof
  have t: "t = tree.add_all (samples text) empty_root"
    using assms by (rule parseCollapsedToTree_Some)
  show "value_at t fs = Fin (of_int (sum_list (map snd (filter (\<lambda>s. fst s = fs) (samples text)))))"
    using tree.add_all_count [OF empty_root_facts(1,4), of "samples text" fs] by (simp add: t)
  show "weight t = of_int (sum_list (map snd (samples text)))"
    using tree.add_all_total [OF empty_root_facts(1), of "samples text"]
    by (simp add: t empty_root_facts(3))
qed

lemma parse_line_frames: "parse_line l = Some (fs, c) \<Longrightarrow> fs \<noteq> [] \<and> 0 < c"
  by (auto simp: parse_line_def Let_def split: if_splits option.splits)

lemma samples_frames: "s \<in> set (samples text) \<Longrightarrow> fst s \<noteq> [] \<and> 0 < snd s"
  by (cases s) (auto simp: samples_def map_filter_def dest: parse_line_frames)

lemma update_child_nonempty [simp]: "update_child f g cs \<noteq> []"
  by (cases cs) auto

lemma add_stack_kids: "fs \<noteq> [] \<Longrightarrow> kids (node_children (add_stack fs c t)) \<noteq> []"
  by (cases fs; cases t) auto

lemma add_stack_keeps_kids:
  "kids (node_children t) \<noteq> [] \<Longrightarrow> kids (node_children (add_stack fs c t)) \<noteq> []"
  by (cases fs; cases t) auto

lemma add_all_kids:
  "\<forall>s \<in> set ss. fst s \<noteq> [] \<Longrightarrow>
   kids (node_children (tree.add_all ss t)) \<noteq> [] \<longleftrightarrow> ss \<noteq> [] \<or> kids (node_children t) \<noteq> []"
proof (induction ss arbitrary: t)
  case (Cons s ss)
  obtain fs c where s: "s = (fs, c)" by (cases s)
  then have "tree.add_all (s # ss) t = tree.add_all ss (add_stack fs c t)"
    by (simp add: tree.add_all_def)
  with Cons s show ?case
    by (simp add: add_stack_kids)
qed (simp add: tree.add_all_def)

lemma parseCollapsedToTree_eq:
  "parseCollapsedToTree text =
     (if samples text = [] then None else Some (tree.add_all (samples text) empty_root))"
  using add_all_kids [of "samples text" empty_root] samples_frames
  by (auto simp: parseCollapsedToTree_def fold_add_line samples_def [symmetric] empty_root_def Let_def)

lemma distinct_add_all: "distinct_tree t \<Longrightarrow> distinct_tree (tree.add_all ss t)"
  unfolding tree.add_all_def by (induction ss arbitrary: t) (auto simp: distinct_add_stack)

text \<open>
  C36: \<open>parseCollapsedToTree\<close> returns a tree exactly when the text has a well-formed
  line, and in that tree no two siblings have the same name, so that every call stack has one node.
\<close>

theorem parseCollapsed_wellformed:
  "(parseCollapsedToTree text = None \<longleftrightarrow> samples text = []) \<and>
   (\<forall>t. parseCollapsedToTree text = Some t \<longrightarrow> distinct_tree t \<and> fin_tree t)"
  using distinct_add_all [OF empty_root_facts(2)] tree.add_all_invar [OF empty_root_facts(1)]
  by (simp add: parseCollapsedToTree_eq)

section \<open>Printing and parsing back\<close>

text \<open>A line of a collapsed file, as the analyzers write it.\<close>

definition collapsed_line :: "jstring list \<times> nat \<Rightarrow> jstring" where
  "collapsed_line s = join_with [59] (fst s) @ 32 # nat_str (snd s)"

definition collapsed_text :: "(jstring list \<times> nat) list \<Rightarrow> jstring" where
  "collapsed_text ss = join_with [10] (map collapsed_line ss)"

text \<open>Frames that survive: no separator inside, and the stack does not start with white space.\<close>

definition printable :: "jstring list \<times> nat \<Rightarrow> bool" where
  "printable s \<longleftrightarrow>
     (\<forall>f \<in> set (fst s). 59 \<notin> set f \<and> 10 \<notin> set f) \<and>
     join_with [59] (fst s) \<noteq> [] \<and> \<not> is_ws (hd (join_with [59] (fst s))) \<and> 0 < snd s"

lemma set_join_with: "set (join_with sep xs) \<subseteq> set sep \<union> \<Union> (set ` set xs)"
  by (induction sep xs rule: join_with.induct) auto

lemma digits_free: "\<not> is_digit c \<Longrightarrow> c \<notin> set (nat_str n)"
  using nat_str_digits by blast

lemma parse_collapsed_line:
  assumes "printable s"
  shows "parse_line (collapsed_line s) = Some (fst s, int (snd s))"
proof -
  let ?st = "join_with [59] (fst s)"
  have st: "?st \<noteq> []" "\<not> is_ws (hd ?st)" and pos: "0 < snd s" and "fst s \<noteq> []"
    using assms by (auto simp: printable_def)
  have dig: "is_digit (last (nat_str (snd s)))"
    by (rule nat_str_digits [where n = "snd s"]) simp
  have tr: "trim (?st @ 32 # nat_str (snd s)) = ?st @ 32 # nat_str (snd s)"
    using st digit_not_ws [OF dig] by (intro trim_id) simp
  have ix: "last_index_of 32 (?st @ 32 # nat_str (snd s)) = Some (length ?st)"
    by (rule last_index_of_append) (simp add: digits_free is_digit_def)
  have "split_on 59 ?st = fst s"
    using assms \<open>fst s \<noteq> []\<close> by (intro split_join_with) (auto simp: printable_def)
  then show ?thesis
    using st pos by (simp add: parse_line_def tr ix collapsed_line_def parse_int_nat_str)
qed

lemma collapsed_line_no_newline:
  assumes "printable s"
  shows "10 \<notin> set (collapsed_line s)"
  using assms set_join_with [of "[59]" "fst s"]
  by (auto simp: printable_def collapsed_line_def digits_free is_digit_def)

lemma collapsed_samples:
  assumes "ss \<noteq> []" and "\<forall>s \<in> set ss. printable s"
  shows "samples (collapsed_text ss) = map (\<lambda>s. (fst s, int (snd s))) ss"
proof -
  have "split_on 10 (collapsed_text ss) = map collapsed_line ss"
    unfolding collapsed_text_def
    using assms by (intro split_join_with) (auto simp: collapsed_line_no_newline)
  moreover have "List.map_filter parse_line (map collapsed_line ss) = map (\<lambda>s. (fst s, int (snd s))) ss"
    using assms(2) by (induction ss) (auto simp: parse_collapsed_line)
  ultimately show ?thesis
    by (simp add: samples_def)
qed

text \<open>
  C23: a collapsed file printed from a non-empty list of samples (frames without separators,
  positive counts) is parsed back to exactly these samples, so the tree drawn from the file
  holds the printed counts.
\<close>

theorem collapsed_roundtrip:
  assumes "ss \<noteq> []" and "\<forall>s \<in> set ss. printable s"
  shows "samples (collapsed_text ss) = map (\<lambda>s. (fst s, int (snd s))) ss \<and>
    parseCollapsedToTree (collapsed_text ss) =
      Some (fold (\<lambda>s. add_stack (fst s) (int (snd s))) ss empty_root)"
proof
  show sm: "samples (collapsed_text ss) = map (\<lambda>s. (fst s, int (snd s))) ss"
    using assms by (rule collapsed_samples)
  have "tree.add_all (map (\<lambda>s. (fst s, int (snd s))) ss) t =
      fold (\<lambda>s. add_stack (fst s) (int (snd s))) ss t" for t
    unfolding tree.add_all_def by (induction ss arbitrary: t) auto
  then show "parseCollapsedToTree (collapsed_text ss) =
      Some (fold (\<lambda>s. add_stack (fst s) (int (snd s))) ss empty_root)"
    using assms(1) by (simp add: parseCollapsedToTree_eq sm)
qed

section \<open>The flat tree and the choice of the root\<close>

text \<open>
  The children of \<open>flatDataToTree\<close> (FlameGraph.tsx) are the entries with a positive
  count, each exactly once, in descending order of their counts.
\<close>

theorem flatDataToTree_sorted:
  "sorted_wrt (\<lambda>a b. num_le (node_value b) (node_value a)) (kids (node_children (flatDataToTree data))) \<and>
   mset (map (\<lambda>c. (node_name c, node_value c)) (kids (node_children (flatDataToTree data)))) =
     filter_mset (\<lambda>item. num_lt (Fin 0) (snd item))
       (mset (map (\<lambda>item. (ti_func item, num_or_zero (ti_self item))) data))"
proof
  let ?items = "map (\<lambda>item. (ti_func item, num_or_zero (ti_self item))) data"
  show "sorted_wrt (\<lambda>a b. num_le (node_value b) (node_value a)) (kids (node_children (flatDataToTree data)))"
    using sorted_sort_num_desc [of snd "filter (\<lambda>item. num_lt (Fin 0) (snd item)) ?items"]
    by (simp add: flatDataToTree_def flat_items_def sorted_wrt_map)
  have "mset (flat_items data) = mset (filter (\<lambda>item. num_lt (Fin 0) (snd item)) ?items)"
    unfolding flat_items_def by (rule mset_sort_num_desc) auto
  then show "mset (map (\<lambda>c. (node_name c, node_value c)) (kids (node_children (flatDataToTree data)))) =
     filter_mset (\<lambda>item. num_lt (Fin 0) (snd item)) (mset ?items)"
    by (simp add: flatDataToTree_def comp_def)
qed

lemma samples_Nil: "samples [] = []"
  by (simp add: samples_def parse_line_def trim_def)

text \<open>
  The component draws the tree of the collapsed text whenever that has a sample, falls
  back to the flat list otherwise, and shows the empty state only when both are missing.
\<close>

theorem flame_root_choice:
  "flame_root data text =
     (let flat = (case data of None \<Rightarrow> [] | Some d \<Rightarrow> d)
      in if samples text \<noteq> [] then parseCollapsedToTree text
         else if flat \<noteq> [] then Some (flatDataToTree flat) else None)"
proof -
  show ?thesis
  proof (cases "samples text = []")
    case True
    then have "parseCollapsedToTree text = None"
      by (simp add: parseCollapsedToTree_eq)
    with True show ?thesis
      by (simp add: flame_root_def split: option.split)
  next
    case False
    then have "text \<noteq> []" and "parseCollapsedToTree text = Some (tree.add_all (samples text) empty_root)"
      using samples_Nil by (auto simp only: parseCollapsedToTree_eq if_False)
    with False show ?thesis
      by (simp add: flame_root_def)
  qed
qed

text \<open>A collapsed file that was printed from samples is drawn with the count of every stack.\<close>

lemma collapsed_drawn:
  assumes "ss \<noteq> []" and "\<forall>s \<in> set ss. printable s"
  shows "\<exists>tree. flame_root data (collapsed_text ss) = Some tree \<and>
    (\<forall>fs. value_at tree fs = Fin (of_nat (sum_list (map snd (filter (\<lambda>s. fst s = fs) ss)))))"
proof -
  have sm: "samples (collapsed_text ss) = map (\<lambda>s. (fst s, int (snd s))) ss"
    using assms by (rule collapsed_samples)
  let ?tree = "tree.add_all (samples (collapsed_text ss)) empty_root"
  have "sum_list (map snd (filter (\<lambda>s. fst s = fs) (map (\<lambda>s. (fst s, int (snd s))) ss))) =
      int (sum_list (map snd (filter (\<lambda>s. fst s = fs) ss)))" for fs
    by (induction ss) auto
  then have "value_at ?tree fs = Fin (of_nat (sum_list (map snd (filter (\<lambda>s. fst s = fs) ss))))" for fs
    using tree.add_all_count [OF empty_root_facts(1,4), of "samples (collapsed_text ss)" fs]
    by (simp add: sm)
  moreover have "collapsed_text ss \<noteq> []"
    using sm assms(1) samples_Nil by (metis map_is_Nil_conv)
  then have "flame_root data (collapsed_text ss) = Some ?tree"
    using sm assms(1) by (simp add: flame_root_def parseCollapsedToTree_eq)
  ultimately show ?thesis by blast
qed

section \<open>Concrete inputs\<close>

definition sample_text :: jstring where
  "sample_text = js ''main;f 3'' @ 10 # js ''main;g 2'' @ 10 # js ''main;f 4''"

lemma sample_text_samples:
  "samples sample_text = [([js ''main'', js ''f''], 3), ([js ''main'', js ''g''], 2), ([js ''main'', js ''f''], 4)]"
  by (simp add: samples_def sample_text_def parse_line_def trim_def is_ws_def parse_int_def
      take_sign_def is_digit_def str_nat_def)

lemma parseCollapsed_counts_witness:
  "\<exists>t. parseCollapsedToTree sample_text = Some t \<and> value_at t [js ''main'', js ''f''] = Fin 7 \<and> weight t = 9"
proof -
  obtain t where t: "parseCollapsedToTree sample_text = Some t"
    by (simp add: parseCollapsedToTree_eq sample_text_samples)
  with parseCollapsed_counts [OF t, of "[js ''main'', js ''f'']"] show ?thesis
    by (simp add: sample_text_samples)
qed

lemma parseCollapsed_wellformed_witness:
  "\<exists>t. parseCollapsedToTree sample_text = Some t \<and> distinct_tree t \<and> fin_tree t"
proof -
  obtain t where t: "parseCollapsedToTree sample_text = Some t"
    by (simp add: parseCollapsedToTree_eq sample_text_samples)
  with parseCollapsed_wellformed [of sample_text] show ?thesis by blast
qed

lemma collapsed_roundtrip_witness:
  "samples (collapsed_text [([js ''main'', js ''f''], 3)]) = [([js ''main'', js ''f''], 3)]"
  using collapsed_roundtrip [of "[([js ''main'', js ''f''], 3)]"] by (simp add: printable_def is_ws_def)

end
