(* ===== verification/Timeline.thy ===== *)
theory Timeline
  imports Domain
begin

text \<open>
  The timeline page of continuous profiling (\<open>src/web/src/pages/ContinuousTimeline.tsx\<close>). The
  page fetches the list of windows, selects one, and loads the flame graph of the selected
  window in two requests (which artifact, then its content). Requests overlap with clicks and
  with each other, so the page is a state machine: a state holds the page's fields and the
  requests in flight, and the step relation has one rule per event that can happen next.
\<close>

section \<open>State\<close>

text \<open>
  A flame graph load in flight: the run of the effect that started it (its \<open>cancelled\<close> flag is
  set as soon as a later run of the effect begins), its window, and what it waits for.
\<close>

datatype load_stage = AwaitFlame | AwaitCollapsed jstring | AwaitTopn jstring | AwaitSvg jstring

record flame_load =
  ld_run :: nat
  ld_window :: ContinuousWindow
  ld_stage :: load_stage

record timeline =
  tm_tid :: jstring
  tm_windows :: "ContinuousWindow list"
  tm_selected :: "ContinuousWindow option"
  tm_collapsedText :: jstring
  tm_topn :: "jsval list"
  tm_svgMarkup :: jstring
  tm_flameError :: jstring
  tm_loading :: bool
  tm_stopping :: bool
  tm_fromTime :: jstring
  tm_toTime :: jstring
  tm_isFiltering :: bool
  tm_timer :: bool
  tm_run :: nat
  tm_loads :: "flame_load list"
  tm_fetches :: "bool list"

text \<open>
  \<open>tm_timer\<close> says that the polling interval is set, \<open>tm_run\<close> is the number of the latest run of
  the flame graph effect, and \<open>tm_fetches\<close> holds, for every window request in flight, whether
  \<open>selected\<close> was null in the closure that sent it.
\<close>

text \<open>The server, as the page sees it: the answers of the requests it sends.\<close>

record server =
  srv_flame :: "jstring \<Rightarrow> api_exn + FlameData ApiResponse"
  srv_text :: "jstring \<Rightarrow> jstring \<Rightarrow> api_exn + jsval"
  srv_json :: "jstring \<Rightarrow> jstring \<Rightarrow> api_exn + jsval"

text \<open>
  The host's dates: \<open>new Date(s).toISOString()\<close> (\<open>None\<close> when it raises a RangeError), the parsed
  time of a string, and the local calendar fields of a time.
\<close>

record local_date =
  l_year :: nat
  l_month :: nat
  l_day :: nat
  l_hours :: nat
  l_minutes :: nat

record clock =
  ck_iso :: "jstring \<Rightarrow> jstring option"
  ck_parse :: "jstring \<Rightarrow> int option"
  ck_local :: "int \<Rightarrow> local_date"

definition msg_window_failed :: jstring where \<comment> \<open>collecting this window failed\<close>
  [msg_defs]: "msg_window_failed = [0x8BE5, 0x7A97, 0x53E3, 0x91C7, 0x96C6, 0x5931, 0x8D25]"
definition msg_window_running :: jstring where \<comment> \<open>this window is still being collected\<close>
  [msg_defs]: "msg_window_running = [0x8BE5, 0x7A97, 0x53E3, 0x4ECD, 0x5728, 0x91C7, 0x96C6, 0x4E2D]"
definition msg_no_flame :: jstring where \<comment> \<open>no flame graph that can be rendered\<close>
  [msg_defs]: "msg_no_flame = [0x8BE5, 0x7A97, 0x53E3, 0x6682, 0x65E0, 0x53EF, 0x6E32, 0x67D3, 0x7684, 0x706B, 0x7130, 0x56FE, 0x6570, 0x636E]"
definition msg_no_direct_flame :: jstring where \<comment> \<open>no flame graph that can be rendered directly\<close>
  [msg_defs]: "msg_no_direct_flame = [0x8BE5, 0x7A97, 0x53E3, 0x6682, 0x65E0, 0x53EF, 0x76F4, 0x63A5, 0x6E32, 0x67D3, 0x7684, 0x706B, 0x7130, 0x56FE, 0x6570, 0x636E]"
definition msg_flame_failed :: jstring where \<comment> \<open>loading the flame graph failed\<close>
  [msg_defs]: "msg_flame_failed = [0x706B, 0x7130, 0x56FE, 0x52A0, 0x8F7D, 0x5931, 0x8D25]"

section \<open>Handlers\<close>

definition clear_flame :: "timeline \<Rightarrow> timeline" where
  "clear_flame s = s\<lparr>tm_collapsedText := [], tm_topn := [], tm_svgMarkup := []\<rparr>"

text \<open>\<open>fetchWindows\<close> up to its request: a date that cannot be converted is caught and logged.\<close>

definition fetchWindows :: "clock \<Rightarrow> timeline \<Rightarrow> timeline" where
  "fetchWindows ck s =
     (if tm_tid s = [] then s
      else if tm_isFiltering s \<and> tm_fromTime s \<noteq> [] \<and> ck_iso ck (tm_fromTime s) = None then s
      else if tm_isFiltering s \<and> tm_toTime s \<noteq> [] \<and> ck_iso ck (tm_toTime s) = None then s
      else s\<lparr>tm_fetches := tm_fetches s @ [tm_selected s = None]\<rparr>)"

text \<open>The polling effect: fetch once, and set the interval unless a filter is active.\<close>

definition poll_effect :: "clock \<Rightarrow> timeline \<Rightarrow> timeline" where
  "poll_effect ck s = (fetchWindows ck s)\<lparr>tm_timer := \<not> tm_isFiltering s\<rparr>"

text \<open>The effect on \<open>selected\<close>: cancels the previous run, then clears or starts a load.\<close>

definition flame_effect :: "timeline \<Rightarrow> timeline" where
  "flame_effect s0 =
     (let s = s0\<lparr>tm_run := Suc (tm_run s0)\<rparr>
      in case tm_selected s of
           None \<Rightarrow> (clear_flame s)\<lparr>tm_flameError := []\<rparr>
         | Some w \<Rightarrow>
           if w_cos_key w = [] then (clear_flame s)\<lparr>tm_flameError := []\<rparr>
           else if w_status w \<noteq> 1 then
             (clear_flame s)\<lparr>tm_flameError := (if w_status w = 2 then msg_window_failed else msg_window_running)\<rparr>
           else
             (clear_flame (s\<lparr>tm_loading := True\<rparr>))
               \<lparr>tm_flameError := [],
                tm_loads := tm_loads s @ [\<lparr>ld_run = tm_run s, ld_window = w, ld_stage = AwaitFlame\<rparr>]\<rparr>)"

text \<open>\<open>setSelected(v)\<close> to a new value, with the effects that depend on it, in their order.\<close>

definition select :: "clock \<Rightarrow> ContinuousWindow option \<Rightarrow> timeline \<Rightarrow> timeline" where
  "select ck v s = flame_effect (poll_effect ck (s\<lparr>tm_selected := v\<rparr>))"

text \<open>The response of a window request; \<open>was_null\<close> is the captured test \<open>!selected\<close>.\<close>

definition windows_answered ::
  "clock \<Rightarrow> bool \<Rightarrow> api_exn + ContinuousWindow list ApiResponse \<Rightarrow> timeline \<Rightarrow> timeline" where
  "windows_answered ck was_null answer s =
     (case answer of
        Inl e \<Rightarrow> s
      | Inr res \<Rightarrow>
        (case res_data res of
           Some data \<Rightarrow>
             if res_code res = 0 then
               (let s' = s\<lparr>tm_windows := data\<rparr>; done = filter (\<lambda>w. w_status w = 1) data
                in if was_null \<and> done \<noteq> [] then select ck (Some (last done)) s' else s')
             else s
         | None \<Rightarrow> s))"

subsection \<open>Loading the flame graph\<close>

definition current :: "flame_load \<Rightarrow> timeline \<Rightarrow> bool" where
  "current ld s \<longleftrightarrow> ld_run ld = tm_run s"

definition finish_load :: "flame_load \<Rightarrow> timeline \<Rightarrow> timeline" where
  "finish_load ld s = s\<lparr>tm_loads := remove1 ld (tm_loads s)\<rparr>"

text \<open>The \<open>finally\<close> block of a load that ends; the updates before it apply only if not cancelled.\<close>

definition end_load :: "flame_load \<Rightarrow> (timeline \<Rightarrow> timeline) \<Rightarrow> timeline \<Rightarrow> timeline" where
  "end_load ld upd s =
     finish_load ld (if current ld s then (upd s)\<lparr>tm_loading := False\<rparr> else s)"

definition advance_load :: "flame_load \<Rightarrow> load_stage \<Rightarrow> timeline \<Rightarrow> timeline" where
  "advance_load ld st s =
     s\<lparr>tm_loads := ld\<lparr>ld_stage := st\<rparr> # remove1 ld (tm_loads s)\<rparr>"

definition flame_answered :: "server \<Rightarrow> flame_load \<Rightarrow> timeline \<Rightarrow> timeline" where
  "flame_answered srv ld s =
     (case srv_flame srv (w_window_tid (ld_window ld)) of
        Inl e \<Rightarrow> end_load ld (\<lambda>s. s\<lparr>tm_flameError := err_text e msg_flame_failed\<rparr>) s
      | Inr res \<Rightarrow>
        if \<not> current ld s then finish_load ld s
        else
          (let key = opt_str (Option.bind (res_data res) fd_key);
               type = (case res_data res of Some d \<Rightarrow> fd_type d | None \<Rightarrow> [])
           in if res_code res \<noteq> 0 \<or> key = [] then
                end_load ld (\<lambda>s. s\<lparr>tm_flameError := or_str (opt_str (res_message res)) msg_no_flame\<rparr>) s
              else if type = js ''collapsed'' then advance_load ld (AwaitCollapsed key) s
              else if type = js ''json'' then advance_load ld (AwaitTopn key) s
              else if type = js ''svg'' then advance_load ld (AwaitSvg key) s
              else end_load ld (\<lambda>s. s\<lparr>tm_flameError := msg_no_direct_flame\<rparr>) s))"

definition artifact_answered :: "server \<Rightarrow> flame_load \<Rightarrow> timeline \<Rightarrow> timeline" where
  "artifact_answered srv ld s =
     (let fail = (\<lambda>e. end_load ld (\<lambda>s. s\<lparr>tm_flameError := err_text e msg_flame_failed\<rparr>) s);
          wtid = w_window_tid (ld_window ld)
      in case ld_stage ld of
           AwaitFlame \<Rightarrow> s
         | AwaitCollapsed key \<Rightarrow>
           (case srv_text srv wtid key of Inl e \<Rightarrow> fail e
            | Inr text \<Rightarrow> end_load ld (\<lambda>s. s\<lparr>tm_collapsedText := str_of text\<rparr>) s)
         | AwaitTopn key \<Rightarrow>
           (case srv_json srv wtid key of Inl e \<Rightarrow> fail e
            | Inr data \<Rightarrow> end_load ld (\<lambda>s. s\<lparr>tm_topn := elems data\<rparr>) s)
         | AwaitSvg key \<Rightarrow>
           (case srv_text srv wtid key of Inl e \<Rightarrow> fail e
            | Inr text \<Rightarrow> end_load ld (\<lambda>s. s\<lparr>tm_svgMarkup := str_of text\<rparr>) s))"

subsection \<open>The toolbar\<close>

text \<open>\<open>handleStop\<close>: before its request, and after it (also when it fails).\<close>

definition handleStop_start :: "timeline \<Rightarrow> timeline" where
  "handleStop_start s = (if tm_tid s = [] then s else s\<lparr>tm_stopping := True\<rparr>)"

definition handleStop_end :: "timeline \<Rightarrow> timeline" where
  "handleStop_end s = s\<lparr>tm_stopping := False\<rparr>"

text \<open>
  A change of the filter fields and of the selection to null, followed by the effects whose
  dependencies changed: polling always, the flame graph only when something was selected.
\<close>

definition refilter :: "clock \<Rightarrow> jstring \<Rightarrow> jstring \<Rightarrow> bool \<Rightarrow> timeline \<Rightarrow> timeline" where
  "refilter ck from to filtering s =
     (let s' = s\<lparr>tm_fromTime := from, tm_toTime := to, tm_isFiltering := filtering, tm_selected := None\<rparr>;
          s'' = (if (tm_fromTime s, tm_toTime s, tm_isFiltering s, tm_selected s) = (from, to, filtering, None)
                 then s' else poll_effect ck s')
      in if tm_selected s = None then s'' else flame_effect s'')"

definition handleSearch :: "clock \<Rightarrow> timeline \<Rightarrow> timeline" where
  "handleSearch ck s = refilter ck (tm_fromTime s) (tm_toTime s) True s"

definition pad2 :: "nat \<Rightarrow> jstring" where
  "pad2 v = (let t = nat_str v in replicate (2 - length t) 48 @ t)"

definition toDateTimeLocalValue :: "local_date \<Rightarrow> jstring" where
  "toDateTimeLocalValue d =
     nat_str (l_year d) @ js ''-'' @ pad2 (l_month d + 1) @ js ''-'' @ pad2 (l_day d) @ js ''T'' @
     pad2 (l_hours d) @ js '':'' @ pad2 (l_minutes d)"

definition handleLastFiveMinutes :: "clock \<Rightarrow> int \<Rightarrow> timeline \<Rightarrow> timeline" where
  "handleLastFiveMinutes ck now s =
     refilter ck (toDateTimeLocalValue (ck_local ck (now - 5 * 60 * 1000)))
       (toDateTimeLocalValue (ck_local ck now)) True s"

definition handleFiveMinuteWindow :: "clock \<Rightarrow> timeline \<Rightarrow> timeline" where
  "handleFiveMinuteWindow ck s =
     (if tm_toTime s = [] then s
      else (case ck_parse ck (tm_toTime s) of
              None \<Rightarrow> s
            | Some end \<Rightarrow>
              refilter ck (toDateTimeLocalValue (ck_local ck (end - 5 * 60 * 1000))) (tm_toTime s) True s))"

definition handleReset :: "clock \<Rightarrow> timeline \<Rightarrow> timeline" where
  "handleReset ck s = refilter ck [] [] False s"

text \<open>Typing in the two time fields: the polling effect depends on both.\<close>

definition set_fromTime :: "clock \<Rightarrow> jstring \<Rightarrow> timeline \<Rightarrow> timeline" where
  "set_fromTime ck v s = (if v = tm_fromTime s then s else poll_effect ck (s\<lparr>tm_fromTime := v\<rparr>))"

definition set_toTime :: "clock \<Rightarrow> jstring \<Rightarrow> timeline \<Rightarrow> timeline" where
  "set_toTime ck v s = (if v = tm_toTime s then s else poll_effect ck (s\<lparr>tm_toTime := v\<rparr>))"

section \<open>Steps\<close>

definition initial :: "jstring \<Rightarrow> timeline" where
  "initial tid =
     \<lparr>tm_tid = tid, tm_windows = [], tm_selected = None, tm_collapsedText = [], tm_topn = [],
      tm_svgMarkup = [], tm_flameError = [], tm_loading = False, tm_stopping = False,
      tm_fromTime = [], tm_toTime = [], tm_isFiltering = False, tm_timer = False, tm_run = 0,
      tm_loads = [], tm_fetches = []\<rparr>"

text \<open>The first render runs both effects.\<close>

definition mounted :: "clock \<Rightarrow> jstring \<Rightarrow> timeline" where
  "mounted ck tid = flame_effect (poll_effect ck (initial tid))"

inductive tm_step :: "server \<Rightarrow> clock \<Rightarrow> timeline \<Rightarrow> timeline \<Rightarrow> bool"
  for srv :: server and ck :: clock where
  tick: "tm_timer s \<Longrightarrow> tm_step srv ck s (fetchWindows ck s)"
| windows: "b \<in> set (tm_fetches s) \<Longrightarrow>
    tm_step srv ck s (windows_answered ck b answer (s\<lparr>tm_fetches := remove1 b (tm_fetches s)\<rparr>))"
| click: "w \<in> set (tm_windows s) \<Longrightarrow> tm_step srv ck s (select ck (Some w) s)"
| flame: "ld \<in> set (tm_loads s) \<Longrightarrow> ld_stage ld = AwaitFlame \<Longrightarrow> tm_step srv ck s (flame_answered srv ld s)"
| artifact: "ld \<in> set (tm_loads s) \<Longrightarrow> ld_stage ld \<noteq> AwaitFlame \<Longrightarrow>
    tm_step srv ck s (artifact_answered srv ld s)"
| stop: "tm_step srv ck s (handleStop_start s)"
| stopped: "tm_stopping s \<Longrightarrow> tm_step srv ck s (handleStop_end s)"
| search: "tm_fromTime s \<noteq> [] \<or> tm_toTime s \<noteq> [] \<Longrightarrow> tm_step srv ck s (handleSearch ck s)"
| last_five: "tm_step srv ck s (handleLastFiveMinutes ck now s)"
| five_window: "tm_step srv ck s (handleFiveMinuteWindow ck s)"
| reset: "tm_isFiltering s \<Longrightarrow> tm_step srv ck s (handleReset ck s)"
| from_field: "tm_step srv ck s (set_fromTime ck v s)"
| to_field: "tm_step srv ck s (set_toTime ck v s)"

inductive tm_reachable :: "server \<Rightarrow> clock \<Rightarrow> jstring \<Rightarrow> timeline \<Rightarrow> bool"
  for srv :: server and ck :: clock and tid :: jstring where
  start: "tm_reachable srv ck tid (mounted ck tid)"
| step: "tm_reachable srv ck tid s \<Longrightarrow> tm_step srv ck s t \<Longrightarrow> tm_reachable srv ck tid t"

inductive_cases tm_step_cases: "tm_step srv ck s t"

section \<open>Invariants\<close>

text \<open>The server names the artifact \<open>key\<close> of kind \<open>type\<close> for the window.\<close>

definition flame_kind :: "server \<Rightarrow> ContinuousWindow \<Rightarrow> jstring \<Rightarrow> jstring \<Rightarrow> bool" where
  "flame_kind srv w type key \<longleftrightarrow>
     (\<exists>res d. srv_flame srv (w_window_tid w) = Inr res \<and> res_code res = 0 \<and> res_data res = Some d \<and>
        fd_type d = type \<and> fd_key d = Some key \<and> key \<noteq> [])"

definition stage_ok :: "server \<Rightarrow> flame_load \<Rightarrow> bool" where
  "stage_ok srv ld \<longleftrightarrow>
     (case ld_stage ld of
        AwaitFlame \<Rightarrow> True
      | AwaitCollapsed key \<Rightarrow> flame_kind srv (ld_window ld) (js ''collapsed'') key
      | AwaitTopn key \<Rightarrow> flame_kind srv (ld_window ld) (js ''json'') key
      | AwaitSvg key \<Rightarrow> flame_kind srv (ld_window ld) (js ''svg'') key)"

definition loadable :: "ContinuousWindow \<Rightarrow> bool" where
  "loadable w \<longleftrightarrow> w_cos_key w \<noteq> [] \<and> w_status w = 1"

text \<open>The loads in flight: at most one per run, none of a future run, each with a true stage.\<close>

definition loads_inv :: "server \<Rightarrow> timeline \<Rightarrow> bool" where
  "loads_inv srv s \<longleftrightarrow>
     distinct (map ld_run (tm_loads s)) \<and>
     (\<forall>ld \<in> set (tm_loads s). ld_run ld \<le> tm_run s \<and> stage_ok srv ld)"

text \<open>Whatever is shown is the artifact of the selected window.\<close>

definition shown_ok :: "server \<Rightarrow> timeline \<Rightarrow> bool" where
  "shown_ok srv s \<longleftrightarrow>
     (tm_collapsedText s \<noteq> [] \<longrightarrow>
       (\<exists>w key text. tm_selected s = Some w \<and> flame_kind srv w (js ''collapsed'') key \<and>
          srv_text srv (w_window_tid w) key = Inr text \<and> tm_collapsedText s = str_of text)) \<and>
     (tm_topn s \<noteq> [] \<longrightarrow>
       (\<exists>w key data. tm_selected s = Some w \<and> flame_kind srv w (js ''json'') key \<and>
          srv_json srv (w_window_tid w) key = Inr data \<and> tm_topn s = elems data)) \<and>
     (tm_svgMarkup s \<noteq> [] \<longrightarrow>
       (\<exists>w key text. tm_selected s = Some w \<and> flame_kind srv w (js ''svg'') key \<and>
          srv_text srv (w_window_tid w) key = Inr text \<and> tm_svgMarkup s = str_of text))"

text \<open>The load of the current run, if any, belongs to the selected window and is announced.\<close>

definition current_inv :: "timeline \<Rightarrow> bool" where
  "current_inv s \<longleftrightarrow>
     (\<forall>ld \<in> set (tm_loads s). current ld s \<longrightarrow> tm_selected s = Some (ld_window ld) \<and> tm_loading s) \<and>
     (\<forall>w. tm_selected s = Some w \<and> loadable w \<and> tm_loading s \<longrightarrow> (\<exists>ld \<in> set (tm_loads s). current ld s))"

definition tm_inv :: "server \<Rightarrow> timeline \<Rightarrow> bool" where
  "tm_inv srv s \<longleftrightarrow> loads_inv srv s \<and> shown_ok srv s \<and> current_inv s \<and> tm_timer s = (\<not> tm_isFiltering s)"

lemmas tm_inv_defs = tm_inv_def loads_inv_def shown_ok_def current_inv_def current_def

lemma loads_inv_frame [simp]:
  "loads_inv srv (s\<lparr>tm_selected := v\<rparr>) = loads_inv srv s"
  "loads_inv srv (s\<lparr>tm_windows := ws\<rparr>) = loads_inv srv s"
  "loads_inv srv (s\<lparr>tm_fetches := fs\<rparr>) = loads_inv srv s"
  "loads_inv srv (s\<lparr>tm_timer := b\<rparr>) = loads_inv srv s"
  "loads_inv srv (s\<lparr>tm_fromTime := x\<rparr>) = loads_inv srv s"
  "loads_inv srv (s\<lparr>tm_toTime := y\<rparr>) = loads_inv srv s"
  "loads_inv srv (s\<lparr>tm_isFiltering := z\<rparr>) = loads_inv srv s"
  by (simp_all add: loads_inv_def)

lemma loads_inv_poll: "loads_inv srv (poll_effect ck s) = loads_inv srv s"
  by (simp add: poll_effect_def fetchWindows_def)

lemma loads_inv_fresh: "loads_inv srv s \<Longrightarrow> ld \<in> set (tm_loads s) \<Longrightarrow> ld_run ld < Suc (tm_run s)"
  by (auto simp: loads_inv_def)

text \<open>The effect on the selection establishes the invariant from the loads alone.\<close>

lemma flame_effect_inv:
  assumes "loads_inv srv s" and "tm_timer s = (\<not> tm_isFiltering s)"
  shows "tm_inv srv (flame_effect s)"
proof -
  have old: "ld_run ld \<noteq> Suc (tm_run s)" "ld_run ld \<le> Suc (tm_run s)" "stage_ok srv ld"
    if "ld \<in> set (tm_loads s)" for ld
    using assms(1) that by (auto simp: loads_inv_def)
  then have "Suc (tm_run s) \<notin> ld_run ` set (tm_loads s)"
    by (metis imageE)
  with old assms show ?thesis
    by (auto simp: tm_inv_defs flame_effect_def clear_flame_def Let_def loadable_def stage_ok_def
        split: option.splits)
qed

lemma poll_effect_timer: "tm_timer (poll_effect ck s) = (\<not> tm_isFiltering (poll_effect ck s))"
  by (simp add: poll_effect_def fetchWindows_def)

lemma select_inv: "loads_inv srv s \<Longrightarrow> tm_inv srv (select ck v s)"
  unfolding select_def by (intro flame_effect_inv poll_effect_timer) (simp add: loads_inv_poll)

lemma fetchWindows_inv: "tm_inv srv (fetchWindows ck s) = tm_inv srv s"
  by (simp add: tm_inv_defs fetchWindows_def)

lemma poll_effect_inv:
  "tm_inv srv s \<Longrightarrow> tm_fromTime t = x \<Longrightarrow> t = s\<lparr>tm_fromTime := x, tm_toTime := y, tm_isFiltering := z\<rparr> \<Longrightarrow>
     tm_inv srv (poll_effect ck t)"
  by (simp add: tm_inv_defs poll_effect_def fetchWindows_def)

lemma refilter_inv: "tm_inv srv s \<Longrightarrow> tm_inv srv (refilter ck x y z s)"
proof (cases "tm_selected s")
  case None
  assume "tm_inv srv s"
  with None show ?thesis
    by (auto simp: refilter_def tm_inv_defs poll_effect_def fetchWindows_def Let_def)
next
  case (Some w)
  assume "tm_inv srv s"
  then have "loads_inv srv (s\<lparr>tm_fromTime := x, tm_toTime := y, tm_isFiltering := z, tm_selected := None\<rparr>)"
    by (simp add: tm_inv_def)
  with Some show ?thesis
    by (simp add: refilter_def Let_def loads_inv_poll flame_effect_inv poll_effect_timer)
qed

lemma windows_answered_inv:
  assumes "tm_inv srv s"
  shows "tm_inv srv (windows_answered ck b answer s)"
proof -
  have "loads_inv srv (s\<lparr>tm_windows := ws\<rparr>)" for ws
    using assms by (simp add: tm_inv_def)
  moreover have "tm_inv srv (s\<lparr>tm_windows := ws\<rparr>)" for ws
    using assms by (simp add: tm_inv_defs)
  ultimately show ?thesis
    using assms by (auto simp: windows_answered_def Let_def select_inv split: sum.splits option.splits)
qed

lemma distinct_map_remove1: "distinct (map f xs) \<Longrightarrow> distinct (map f (remove1 x xs))"
  by (induction xs) (auto dest: subsetD [OF set_remove1_subset])

text \<open>Ending a load: what the update may change, and that it must show the right artifact.\<close>

lemma end_load_inv:
  assumes "tm_inv srv s" and "ld \<in> set (tm_loads s)"
    and "\<And>s. tm_loads (upd s) = tm_loads s \<and> tm_run (upd s) = tm_run s \<and> tm_selected (upd s) = tm_selected s
        \<and> tm_timer (upd s) = tm_timer s \<and> tm_isFiltering (upd s) = tm_isFiltering s"
    and "current ld s \<Longrightarrow> shown_ok srv (upd s)"
  shows "tm_inv srv (end_load ld upd s)"
proof -
  let ?t = "end_load ld upd s"
  have li: "loads_inv srv s" and sh: "shown_ok srv s" and ci: "current_inv s"
    and ti: "tm_timer s = (\<not> tm_isFiltering s)"
    using assms(1) by (simp_all add: tm_inv_def)
  have dist: "distinct (map ld_run (tm_loads s))"
    using li by (simp add: loads_inv_def)
  then have rem: "set (remove1 ld (tm_loads s)) = set (tm_loads s) - {ld}"
    by (simp add: distinct_map set_remove1_eq)
  have uniq: "ld' = ld" if "ld' \<in> set (tm_loads s)" "ld_run ld' = ld_run ld" for ld'
    using dist assms(2) that by (auto simp: distinct_map dest: inj_onD)
  have fields: "tm_loads ?t = remove1 ld (tm_loads s)" "tm_run ?t = tm_run s"
    "tm_selected ?t = tm_selected s" "tm_timer ?t = tm_timer s" "tm_isFiltering ?t = tm_isFiltering s"
    "tm_loading ?t = (tm_loading s \<and> \<not> current ld s)"
    using assms(2,3) ci by (auto simp: end_load_def finish_load_def current_inv_def)
  have "loads_inv srv ?t"
    using li rem distinct_map_remove1 [OF dist] by (simp add: loads_inv_def fields)
  moreover have "shown_ok srv ?t"
    using assms(4) sh by (simp add: end_load_def finish_load_def shown_ok_def)
  moreover have "current_inv ?t"
  proof -
    have cur: "current x ?t = current x s" for x
      by (simp add: current_def fields)
    have "tm_selected s = Some (ld_window ld') \<and> tm_loading s \<and> \<not> current ld s"
      if "ld' \<in> set (tm_loads s) - {ld}" "current ld' s" for ld'
      using that ci uniq [of ld'] by (auto simp: current_inv_def current_def)
    moreover have "\<exists>ld' \<in> set (tm_loads s) - {ld}. current ld' s"
      if a: "tm_selected s = Some w" "loadable w" "tm_loading s" and b: "\<not> current ld s" for w
      using ci a b unfolding current_inv_def by blast
    ultimately show ?thesis
      by (simp add: current_inv_def cur fields rem)
  qed
  ultimately show ?thesis
    using ti by (simp add: tm_inv_def fields)
qed

lemma finish_load_inv:
  assumes "tm_inv srv s" and "ld \<in> set (tm_loads s)" and "\<not> current ld s"
  shows "tm_inv srv (finish_load ld s)"
proof -
  have "finish_load ld s = end_load ld (\<lambda>s. s) s"
    using assms(3) by (simp add: end_load_def)
  moreover have "tm_inv srv (end_load ld (\<lambda>s. s) s)"
    by (rule end_load_inv [OF assms(1,2)]) (simp_all add: assms(3))
  ultimately show ?thesis by simp
qed

lemma end_load_error_inv:
  "tm_inv srv s \<Longrightarrow> ld \<in> set (tm_loads s) \<Longrightarrow> tm_inv srv (end_load ld (\<lambda>s. s\<lparr>tm_flameError := m\<rparr>) s)"
  by (rule end_load_inv) (simp_all add: tm_inv_def shown_ok_def)

lemma advance_load_inv:
  assumes "tm_inv srv s" and "ld \<in> set (tm_loads s)" and "stage_ok srv (ld\<lparr>ld_stage := st\<rparr>)"
  shows "tm_inv srv (advance_load ld st s)"
proof -
  let ?t = "advance_load ld st s"
  have li: "loads_inv srv s" and ci: "current_inv s" and sh: "shown_ok srv s"
    and ti: "tm_timer s = (\<not> tm_isFiltering s)"
    using assms(1) by (simp_all add: tm_inv_def)
  have dist: "distinct (map ld_run (tm_loads s))"
    using li by (simp add: loads_inv_def)
  then have rem: "set (remove1 ld (tm_loads s)) = set (tm_loads s) - {ld}"
    by (simp add: distinct_map set_remove1_eq)
  have uniq: "ld' = ld" if "ld' \<in> set (tm_loads s)" "ld_run ld' = ld_run ld" for ld'
    using dist assms(2) that by (auto simp: distinct_map dest: inj_onD)
  then have "ld_run ld \<notin> ld_run ` (set (tm_loads s) - {ld})"
    by (metis (no_types, lifting) DiffE imageE singletonI)
  then have "loads_inv srv ?t"
    using li assms(2,3) rem distinct_map_remove1 [OF dist]
    by (simp add: loads_inv_def advance_load_def)
  moreover have "current_inv ?t"
  proof -
    have cur: "current x ?t = current x s" for x
      by (simp add: current_def advance_load_def)
    have sel: "tm_selected ?t = tm_selected s" "tm_loading ?t = tm_loading s"
      and lds: "set (tm_loads ?t) = insert (ld\<lparr>ld_stage := st\<rparr>) (set (tm_loads s) - {ld})"
      by (simp_all add: advance_load_def rem)
    have c: "current (ld\<lparr>ld_stage := st\<rparr>) s = current ld s"
      by (simp add: current_def)
    have "\<exists>x \<in> insert (ld\<lparr>ld_stage := st\<rparr>) (set (tm_loads s) - {ld}). current x s"
      if "\<exists>x \<in> set (tm_loads s). current x s"
      using that c by blast
    then show ?thesis
      using ci assms(2) by (auto simp: current_inv_def cur sel lds c)
  qed
  ultimately show ?thesis
    using sh ti by (simp add: tm_inv_def shown_ok_def advance_load_def)
qed

lemma current_selected:
  "tm_inv srv s \<Longrightarrow> ld \<in> set (tm_loads s) \<Longrightarrow> current ld s \<Longrightarrow> tm_selected s = Some (ld_window ld)"
  by (simp add: tm_inv_def current_inv_def)

lemma flame_answered_inv:
  assumes "tm_inv srv s" and "ld \<in> set (tm_loads s)"
  shows "tm_inv srv (flame_answered srv ld s)"
proof (cases "srv_flame srv (w_window_tid (ld_window ld))")
  case (Inl e)
  with assms show ?thesis
    by (simp add: flame_answered_def end_load_error_inv)
next
  case (Inr res)
  show ?thesis
  proof (cases "current ld s \<and> res_code res = 0 \<and> opt_str (Option.bind (res_data res) fd_key) \<noteq> []")
    case True
    then obtain d key where d: "res_data res = Some d" "fd_key d = Some key" "key \<noteq> []"
      by (cases "res_data res"; cases "Option.bind (res_data res) fd_key") auto
    then have "stage_ok srv (ld\<lparr>ld_stage := AwaitCollapsed key\<rparr>)" if "fd_type d = js ''collapsed''"
      using that True Inr by (auto simp: stage_ok_def flame_kind_def)
    moreover have "stage_ok srv (ld\<lparr>ld_stage := AwaitTopn key\<rparr>)" if "fd_type d = js ''json''"
      using that True Inr d by (auto simp: stage_ok_def flame_kind_def)
    moreover have "stage_ok srv (ld\<lparr>ld_stage := AwaitSvg key\<rparr>)" if "fd_type d = js ''svg''"
      using that True Inr d by (auto simp: stage_ok_def flame_kind_def)
    ultimately show ?thesis
      using assms True Inr d
      by (simp add: flame_answered_def Let_def end_load_error_inv advance_load_inv del: js_Cons)
  next
    case False
    with assms Inr show ?thesis
      by (auto simp: flame_answered_def Let_def end_load_error_inv finish_load_inv)
  qed
qed

lemma artifact_answered_inv:
  assumes "tm_inv srv s" and "ld \<in> set (tm_loads s)"
  shows "tm_inv srv (artifact_answered srv ld s)"
proof -
  have st: "stage_ok srv ld" and sh: "shown_ok srv s"
    using assms by (auto simp: tm_inv_def loads_inv_def)
  note sel = current_selected [OF assms]
  show ?thesis
  proof (cases "ld_stage ld")
    case AwaitFlame
    with assms show ?thesis by (simp add: artifact_answered_def)
  next
    case (AwaitCollapsed key)
    then have k: "flame_kind srv (ld_window ld) (js ''collapsed'') key"
      using st by (simp add: stage_ok_def)
    have "tm_inv srv (end_load ld (\<lambda>s. s\<lparr>tm_collapsedText := str_of body\<rparr>) s)"
      if "srv_text srv (w_window_tid (ld_window ld)) key = Inr body" for body
      using assms sh sel k that by (intro end_load_inv) (auto simp: shown_ok_def simp del: js_Cons)
    with AwaitCollapsed assms show ?thesis
      by (auto simp: artifact_answered_def end_load_error_inv split: sum.splits)
  next
    case (AwaitTopn key)
    then have k: "flame_kind srv (ld_window ld) (js ''json'') key"
      using st by (simp add: stage_ok_def)
    have "tm_inv srv (end_load ld (\<lambda>s. s\<lparr>tm_topn := elems data\<rparr>) s)"
      if "srv_json srv (w_window_tid (ld_window ld)) key = Inr data" for data
      using assms sh sel k that by (intro end_load_inv) (auto simp: shown_ok_def simp del: js_Cons)
    with AwaitTopn assms show ?thesis
      by (auto simp: artifact_answered_def end_load_error_inv split: sum.splits)
  next
    case (AwaitSvg key)
    then have k: "flame_kind srv (ld_window ld) (js ''svg'') key"
      using st by (simp add: stage_ok_def)
    have "tm_inv srv (end_load ld (\<lambda>s. s\<lparr>tm_svgMarkup := str_of body\<rparr>) s)"
      if "srv_text srv (w_window_tid (ld_window ld)) key = Inr body" for body
      using assms sh sel k that by (intro end_load_inv) (auto simp: shown_ok_def simp del: js_Cons)
    with AwaitSvg assms show ?thesis
      by (auto simp: artifact_answered_def end_load_error_inv split: sum.splits)
  qed
qed

lemma field_inv:
  assumes "tm_inv srv s"
  shows "tm_inv srv (s\<lparr>tm_fetches := fs\<rparr>)" "tm_inv srv (s\<lparr>tm_stopping := b\<rparr>)"
    "tm_inv srv (set_fromTime ck v s)" "tm_inv srv (set_toTime ck v s)"
  using assms by (simp_all add: tm_inv_defs set_fromTime_def set_toTime_def poll_effect_def fetchWindows_def)

lemma tm_step_inv: "tm_step srv ck s t \<Longrightarrow> tm_inv srv s \<Longrightarrow> tm_inv srv t"
proof (induction rule: tm_step.induct)
  case (windows b s answer)
  then show ?case by (intro windows_answered_inv field_inv)
next
  case (click w s)
  then show ?case by (intro select_inv) (simp add: tm_inv_def)
next
  case (stop s)
  then show ?case by (simp add: handleStop_start_def field_inv)
next
  case (stopped s)
  then show ?case by (simp add: handleStop_end_def field_inv)
next
  case (five_window s)
  then show ?case by (simp add: handleFiveMinuteWindow_def refilter_inv split: option.split)
qed (simp_all add: fetchWindows_inv flame_answered_inv artifact_answered_inv refilter_inv field_inv
    handleSearch_def handleLastFiveMinutes_def handleReset_def)

lemma mounted_inv: "tm_inv srv (mounted ck tid)"
  unfolding mounted_def
  by (intro flame_effect_inv poll_effect_timer, simp only: loads_inv_poll)
    (simp add: loads_inv_def initial_def)

lemma tm_reachable_inv: "tm_reachable srv ck tid s \<Longrightarrow> tm_inv srv s"
  by (induction rule: tm_reachable.induct) (auto intro: mounted_inv tm_step_inv)

section \<open>Properties\<close>

text \<open>A page with two completed windows and one that is still being collected.\<close>

definition sample_window :: "nat \<Rightarrow> int \<Rightarrow> ContinuousWindow" where
  "sample_window i st =
     \<lparr>w_id = int i, w_parent_tid = [77], w_window_tid = [i], w_seq = int i, w_start_time = [],
      w_end_time = [], w_status = st, w_cos_key = [99], w_created_at = []\<rparr>"

definition sample_server :: server where
  "sample_server =
     \<lparr>srv_flame = (\<lambda>w. Inr \<lparr>res_code = 0,
         res_data = Some \<lparr>fd_type = js ''collapsed'', fd_key = Some [107], fd_url = []\<rparr>, res_message = None\<rparr>),
      srv_text = (\<lambda>w k. Inr (JStr (w @ k))),
      srv_json = (\<lambda>w k. Inl (mk_error []))\<rparr>"

definition sample_clock :: clock where
  "sample_clock = \<lparr>ck_iso = (\<lambda>_. None), ck_parse = (\<lambda>_. None),
     ck_local = (\<lambda>_. \<lparr>l_year = 2025, l_month = 0, l_day = 1, l_hours = 0, l_minutes = 0\<rparr>)\<rparr>"

lemmas sample_defs =
  sample_window_def sample_server_def sample_clock_def initial_def mounted_def flame_effect_def
  poll_effect_def fetchWindows_def clear_flame_def select_def windows_answered_def flame_answered_def
  artifact_answered_def end_load_def advance_load_def finish_load_def current_def Let_def

definition two_windows :: "api_exn + ContinuousWindow list ApiResponse" where
  "two_windows =
     Inr \<lparr>res_code = 0, res_data = Some [sample_window 1 1, sample_window 2 1, sample_window 3 0],
       res_message = None\<rparr>"

text \<open>The page after its first request is answered: the newest completed window is loading.\<close>

definition opened :: timeline where
  "opened = windows_answered sample_clock True two_windows
     ((mounted sample_clock [77])\<lparr>tm_fetches := []\<rparr>)"

definition opened_load :: flame_load where
  "opened_load = \<lparr>ld_run = 2, ld_window = sample_window 2 1, ld_stage = AwaitFlame\<rparr>"

lemma opened_fields:
  "tm_selected opened = Some (sample_window 2 1)" "tm_loads opened = [opened_load]"
  "tm_loading opened" "tm_run opened = 2" "tm_fetches opened = [False]"
  "set (tm_windows opened) = {sample_window 1 1, sample_window 2 1, sample_window 3 0}"
  "tm_tid opened = [77]" "\<not> tm_isFiltering opened" "tm_collapsedText opened = []"
  by (simp_all add: opened_def opened_load_def two_windows_def sample_defs numeral_2_eq_2)

lemma opened_reachable: "tm_reachable sample_server sample_clock [77] opened"
proof -
  have f: "tm_fetches (mounted sample_clock [77]) = [True]"
    by (simp add: sample_defs)
  have "tm_step sample_server sample_clock (mounted sample_clock [77]) opened"
    using tm_step.windows [of True "mounted sample_clock [77]" sample_server sample_clock two_windows]
    by (simp add: f opened_def)
  with tm_reachable.start show ?thesis
    by (rule tm_reachable.step)
qed

definition shown :: timeline where
  "shown = artifact_answered sample_server (opened_load\<lparr>ld_stage := AwaitCollapsed [107]\<rparr>)
     (flame_answered sample_server opened_load opened)"

lemma shown_fields:
  "tm_collapsedText shown = [2, 107]" "tm_selected shown = Some (sample_window 2 1)" "\<not> tm_loading shown"
  by (simp_all add: shown_def flame_answered_def artifact_answered_def opened_fields sample_server_def
      advance_load_def end_load_def finish_load_def current_def Let_def)
    (simp_all add: opened_load_def sample_window_def)

lemma shown_reachable: "tm_reachable sample_server sample_clock [77] shown"
proof -
  let ?mid = "flame_answered sample_server opened_load opened"
  have "tm_step sample_server sample_clock opened ?mid"
    by (rule tm_step.flame) (simp_all add: opened_fields opened_load_def)
  then have "tm_reachable sample_server sample_clock [77] ?mid"
    using opened_reachable tm_reachable.step by blast
  moreover have "tm_loads ?mid = [opened_load\<lparr>ld_stage := AwaitCollapsed [107]\<rparr>]"
    by (simp add: flame_answered_def opened_fields sample_server_def advance_load_def current_def Let_def)
      (simp add: opened_load_def)
  then have "tm_step sample_server sample_clock ?mid shown"
    unfolding shown_def by (intro tm_step.artifact) simp_all
  ultimately show ?thesis
    by (rule tm_reachable.step)
qed

text \<open>
  C2: in every state the page can reach, whatever the order of clicks, ticks
  and answers, a collapsed text, a top list or an SVG on screen is the content the server gives
  for the window selected now, under the artifact the server names for it: an answer that
  arrives late for a window that is no longer selected is never shown.
\<close>

theorem timeline_shows_selected:
  assumes "tm_reachable srv ck tid s"
  shows "shown_ok srv s"
  using tm_reachable_inv [OF assms] by (simp add: tm_inv_def)

theorem timeline_shows_selected_witness:
  "tm_collapsedText shown = [2, 107] \<and> shown_ok sample_server shown"
  using timeline_shows_selected [OF shown_reachable] by (simp add: shown_fields)

text \<open>
  While the selected window is completed and has an artifact, the page says
  it is loading exactly when a request for that very window, started by the current selection,
  is still in flight.
\<close>

theorem timeline_loading_exact:
  assumes "tm_reachable srv ck tid s" and "tm_selected s = Some w" and "loadable w"
  shows "tm_loading s \<longleftrightarrow> (\<exists>ld \<in> set (tm_loads s). current ld s \<and> ld_window ld = w)"
  using tm_reachable_inv [OF assms(1)] assms(2,3) by (auto simp: tm_inv_def current_inv_def)

theorem timeline_loading_exact_witness:
  "tm_loading opened \<longleftrightarrow>
     (\<exists>ld \<in> set (tm_loads opened). current ld opened \<and> ld_window ld = sample_window 2 1)"
  by (rule timeline_loading_exact [OF opened_reachable])
    (simp_all add: opened_fields loadable_def sample_window_def)

lemma end_load_done:
  "(\<And>s. tm_selected (upd s) = tm_selected s) \<Longrightarrow> current ld s \<Longrightarrow>
     \<not> tm_loading (end_load ld upd s) \<and> tm_selected (end_load ld upd s) = tm_selected s"
  by (simp add: end_load_def finish_load_def)

lemma artifact_answered_done:
  "current ld s \<Longrightarrow> ld_stage ld \<noteq> AwaitFlame \<Longrightarrow>
     \<not> tm_loading (artifact_answered srv ld s) \<and> tm_selected (artifact_answered srv ld s) = tm_selected s"
  by (cases "ld_stage ld") (auto simp: artifact_answered_def end_load_done split: sum.split)

lemma flame_answered_next:
  assumes "current ld s"
  shows "\<not> tm_loading (flame_answered srv ld s) \<and> tm_selected (flame_answered srv ld s) = tm_selected s \<or>
    (\<exists>st. st \<noteq> AwaitFlame \<and> flame_answered srv ld s = advance_load ld st s)"
proof (cases "srv_flame srv (w_window_tid (ld_window ld))")
  case (Inr res)
  have e: "\<exists>st. st \<noteq> AwaitFlame \<and> advance_load ld x s = advance_load ld st s" if "x \<noteq> AwaitFlame" for x
    using that by blast
  show ?thesis
    using assms by (simp add: flame_answered_def Inr Let_def end_load_done e del: js_Cons)
qed (simp add: flame_answered_def end_load_done assms)

text \<open>
  C30: a load that was not superseded always comes to an end: from any reachable
  state with such a load, the server's answers to it (one, or two when an artifact has to be
  fetched) lead to a state in which the page is no longer loading and still has the same
  window selected. No other step is needed.
\<close>

theorem timeline_load_completes:
  assumes "tm_reachable srv ck tid s" and "ld \<in> set (tm_loads s)" and "current ld s"
  shows "\<exists>t. (tm_step srv ck s t \<or> (\<exists>u. tm_step srv ck s u \<and> tm_step srv ck u t)) \<and>
           \<not> tm_loading t \<and> tm_selected t = Some (ld_window ld)"
proof -
  have sel: "tm_selected s = Some (ld_window ld)"
    using current_selected [OF tm_reachable_inv [OF assms(1)] assms(2,3)] .
  show ?thesis
  proof (cases "ld_stage ld = AwaitFlame")
    case True
    with assms(2) have st: "tm_step srv ck s (flame_answered srv ld s)"
      by (rule tm_step.flame)
    show ?thesis
      using flame_answered_next [OF assms(3), of srv]
    proof (elim disjE exE conjE)
      fix stg
      assume a: "stg \<noteq> AwaitFlame" "flame_answered srv ld s = advance_load ld stg s"
      let ?ld = "ld\<lparr>ld_stage := stg\<rparr>" and ?u = "advance_load ld stg s"
      have "tm_step srv ck ?u (artifact_answered srv ?ld ?u)"
        by (rule tm_step.artifact) (simp_all add: advance_load_def a)
      moreover have "current ?ld ?u" "tm_selected ?u = tm_selected s"
        using assms(3) by (simp_all add: advance_load_def current_def)
      ultimately show ?thesis
        using st a sel artifact_answered_done [of ?ld ?u srv] by auto
    qed (use st sel in auto)
  next
    case False
    with assms(2) have "tm_step srv ck s (artifact_answered srv ld s)"
      by (rule tm_step.artifact)
    then show ?thesis
      using artifact_answered_done [OF assms(3) False] sel by metis
  qed
qed

theorem timeline_load_completes_witness:
  "\<exists>t. (tm_step sample_server sample_clock opened t \<or>
         (\<exists>u. tm_step sample_server sample_clock opened u \<and> tm_step sample_server sample_clock u t)) \<and>
       \<not> tm_loading t \<and> tm_selected t = Some (sample_window 2 1)"
  using timeline_load_completes [OF opened_reachable, of opened_load]
  by (simp add: opened_fields current_def) (simp add: opened_load_def)

text \<open>
  The page polls the window list exactly while no time filter is active, in every
  reachable state, so a filtered list is never replaced by an unfiltered poll.
\<close>

theorem timeline_timer:
  assumes "tm_reachable srv ck tid s"
  shows "tm_timer s = (\<not> tm_isFiltering s)"
  using tm_reachable_inv [OF assms] by (simp add: tm_inv_def)

theorem timeline_timer_witness: "tm_timer shown = (\<not> tm_isFiltering shown)"
  by (rule timeline_timer [OF shown_reachable])

text \<open>
  The page can say that it is loading with no request in flight. When a window
  that is still being collected is clicked while another one loads, the effect cancels the load
  without resetting the flag, and the cancelled load leaves the flag alone when it ends.
\<close>

theorem timeline_loading_stuck:
  "\<exists>s w. tm_reachable sample_server sample_clock [77] s \<and> tm_loads s = [] \<and> tm_loading s \<and>
     tm_selected s = Some w \<and> w_status w = 0"
proof -
  let ?c = "select sample_clock (Some (sample_window 3 0)) opened"
  let ?s = "flame_answered sample_server opened_load ?c"
  have c: "tm_loads ?c = [opened_load]" "tm_loading ?c" "tm_run ?c = 3"
    "tm_selected ?c = Some (sample_window 3 0)"
    by (simp_all add: select_def poll_effect_def fetchWindows_def flame_effect_def clear_flame_def
        opened_fields Let_def)
      (simp_all add: sample_window_def)
  have "tm_step sample_server sample_clock opened ?c"
    by (rule tm_step.click) (simp add: opened_fields)
  then have "tm_reachable sample_server sample_clock [77] ?c"
    using opened_reachable tm_reachable.step by blast
  moreover have "tm_step sample_server sample_clock ?c ?s"
    by (rule tm_step.flame) (simp_all add: c opened_load_def)
  ultimately have "tm_reachable sample_server sample_clock [77] ?s"
    by (rule tm_reachable.step)
  moreover have "?s = ?c\<lparr>tm_loads := []\<rparr>"
    unfolding flame_answered_def
    by (simp add: sample_server_def current_def finish_load_def c) (simp add: opened_load_def)
  ultimately show ?thesis
    by (intro exI [of _ ?s] exI [of _ "sample_window 3 0"]) (simp add: c, simp add: sample_window_def)
qed

text \<open>
  The answer of a window request that was sent before anything was
  selected replaces a selection the user made in the meantime by the newest completed window.
\<close>

theorem timeline_selection_overridden:
  "\<exists>s t. tm_reachable sample_server sample_clock [77] s \<and> tm_step sample_server sample_clock s t \<and>
     tm_selected s = Some (sample_window 1 1) \<and> tm_selected t = Some (sample_window 2 1)"
proof -
  let ?R = "tm_reachable sample_server sample_clock [77]" and ?m = "mounted sample_clock [77]"
  let ?a = "fetchWindows sample_clock ?m"
  let ?b = "windows_answered sample_clock True two_windows (?a\<lparr>tm_fetches := [True]\<rparr>)"
  let ?c = "select sample_clock (Some (sample_window 1 1)) ?b"
  let ?d = "windows_answered sample_clock True two_windows (?c\<lparr>tm_fetches := remove1 True (tm_fetches ?c)\<rparr>)"
  have "tm_step sample_server sample_clock ?m ?a"
    by (rule tm_step.tick) (simp add: sample_defs)
  with tm_reachable.start have "?R ?a"
    by (rule tm_reachable.step)
  moreover have fa: "tm_fetches ?a = [True, True]"
    by (simp add: sample_defs)
  then have "tm_step sample_server sample_clock ?a ?b"
    using tm_step.windows [of True ?a sample_server sample_clock two_windows] by simp
  ultimately have "?R ?b"
    by (rule tm_reachable.step)
  moreover have "sample_window 1 1 \<in> set (tm_windows ?b)"
    by (simp add: two_windows_def sample_defs)
  then have "tm_step sample_server sample_clock ?b ?c"
    by (rule tm_step.click)
  ultimately have "?R ?c"
    by (rule tm_reachable.step)
  moreover have "True \<in> set (tm_fetches ?c)"
    by (simp add: two_windows_def sample_defs)
  then have "tm_step sample_server sample_clock ?c ?d"
    by (rule tm_step.windows)
  moreover have "tm_selected ?c = Some (sample_window 1 1)" "tm_selected ?d = Some (sample_window 2 1)"
    by (simp_all add: two_windows_def sample_defs)
  ultimately show ?thesis
    by blast
qed

end
