(* ===== verification/Uri.thy ===== *)
theory Uri
  imports Prelude
begin

text \<open>
  \<open>encodeURIComponent\<close> and \<open>decodeURIComponent\<close>, as the ECMAScript specification defines them on
  strings of UTF-16 code units: surrogate pairs are combined to code points, code points are
  written in UTF-8, and every byte outside the unreserved set is escaped. Both raise a
  URIError, here \<open>None\<close>, on a lone surrogate and on a malformed escape. Main result: what is
  encoded is decoded to itself.
\<close>

section \<open>Code points\<close>

definition high_sur :: "nat \<Rightarrow> bool" where
  "high_sur u \<longleftrightarrow> 0xD800 \<le> u \<and> u \<le> 0xDBFF"

definition low_sur :: "nat \<Rightarrow> bool" where
  "low_sur u \<longleftrightarrow> 0xDC00 \<le> u \<and> u \<le> 0xDFFF"

fun code_points :: "jstring \<Rightarrow> nat list option" where
  "code_points [] = Some []"
| "code_points (u # us) =
     (if low_sur u then None
      else if high_sur u then
        (case us of
           [] \<Rightarrow> None
         | v # vs \<Rightarrow>
           if low_sur v then
             map_option (Cons ((u - 0xD800) * 0x400 + (v - 0xDC00) + 0x10000)) (code_points vs)
           else None)
      else map_option (Cons u) (code_points us))"

definition cp_units :: "nat \<Rightarrow> jstring" where
  "cp_units c =
     (if c < 0x10000 then [c]
      else [0xD800 + (c - 0x10000) div 0x400, 0xDC00 + (c - 0x10000) mod 0x400])"

definition scalar :: "nat \<Rightarrow> bool" where
  "scalar c \<longleftrightarrow> c < 0x110000 \<and> \<not> high_sur c \<and> \<not> low_sur c"

section \<open>UTF-8\<close>

definition utf8 :: "nat \<Rightarrow> nat list" where
  "utf8 c =
     (if c < 0x80 then [c]
      else if c < 0x800 then [0xC0 + c div 0x40, 0x80 + c mod 0x40]
      else if c < 0x10000 then [0xE0 + c div 0x1000, 0x80 + c div 0x40 mod 0x40, 0x80 + c mod 0x40]
      else [0xF0 + c div 0x40000, 0x80 + c div 0x1000 mod 0x40, 0x80 + c div 0x40 mod 0x40, 0x80 + c mod 0x40])"

definition cont :: "nat \<Rightarrow> bool" where
  "cont b \<longleftrightarrow> 0x80 \<le> b \<and> b < 0xC0"

text \<open>How many bytes follow the first byte of a code point of more than one byte.\<close>

definition follow :: "nat \<Rightarrow> nat option" where
  "follow b =
     (if 0xC0 \<le> b \<and> b < 0xE0 then Some 1
      else if 0xE0 \<le> b \<and> b < 0xF0 then Some 2
      else if 0xF0 \<le> b \<and> b < 0xF8 then Some 3
      else None)"

definition fold_cont :: "nat \<Rightarrow> nat list \<Rightarrow> nat" where
  "fold_cont a bs = foldl (\<lambda>v b. v * 0x40 + (b - 0x80)) a bs"

text \<open>The code point of a sequence: shortest form only, no surrogate, at most 0x10FFFF.\<close>

definition utf8_value :: "nat \<Rightarrow> nat list \<Rightarrow> nat option" where
  "utf8_value b bs =
     (let v = (case length bs of
                 Suc 0 \<Rightarrow> fold_cont (b - 0xC0) bs
               | Suc (Suc 0) \<Rightarrow> fold_cont (b - 0xE0) bs
               | _ \<Rightarrow> fold_cont (b - 0xF0) bs)
      in if list_all cont bs \<and> scalar v \<and> utf8 v = b # bs then Some v else None)"

section \<open>Escapes\<close>

definition hex_digit :: "nat \<Rightarrow> nat" where
  "hex_digit n = (if n < 10 then 48 + n else 55 + n)"

definition hex_val :: "nat \<Rightarrow> nat option" where
  "hex_val c =
     (if 48 \<le> c \<and> c \<le> 57 then Some (c - 48)
      else if 65 \<le> c \<and> c \<le> 70 then Some (c - 55)
      else if 97 \<le> c \<and> c \<le> 102 then Some (c - 87)
      else None)"

definition pct :: "nat \<Rightarrow> jstring" where
  "pct b = [37, hex_digit (b div 16), hex_digit (b mod 16)]"

fun pct_byte :: "jstring \<Rightarrow> (nat \<times> jstring) option" where
  "pct_byte (c # a # b # rest) =
     (if c = 37 then
        (case (hex_val a, hex_val b) of (Some x, Some y) \<Rightarrow> Some (16 * x + y, rest) | _ \<Rightarrow> None)
      else None)"
| "pct_byte _ = None"

fun pct_bytes :: "nat \<Rightarrow> jstring \<Rightarrow> (nat list \<times> jstring) option" where
  "pct_bytes 0 s = Some ([], s)"
| "pct_bytes (Suc n) s =
     (case pct_byte s of
        None \<Rightarrow> None
      | Some (b, r) \<Rightarrow> (case pct_bytes n r of None \<Rightarrow> None | Some (bs, r') \<Rightarrow> Some (b # bs, r')))"

lemma pct_byte_shorter: "pct_byte s = Some (b, r) \<Longrightarrow> length r < length s"
  by (induction s rule: pct_byte.induct) (auto split: if_splits option.splits)

lemma pct_bytes_shorter: "pct_bytes n s = Some (bs, r) \<Longrightarrow> length r \<le> length s"
  by (induction n arbitrary: s bs) (fastforce split: option.splits dest: pct_byte_shorter)+

text \<open>One escaped code point at the head of a string.\<close>

definition pct_point :: "jstring \<Rightarrow> (nat \<times> jstring) option" where
  "pct_point s =
     (case pct_byte s of
        None \<Rightarrow> None
      | Some (b, r) \<Rightarrow>
        if b < 0x80 then Some (b, r)
        else
          (case follow b of
             None \<Rightarrow> None
           | Some n \<Rightarrow>
             (case pct_bytes n r of
                None \<Rightarrow> None
              | Some (bs, r') \<Rightarrow> map_option (\<lambda>v. (v, r')) (utf8_value b bs))))"

lemma pct_point_shorter: "pct_point s = Some (v, r) \<Longrightarrow> length r < length s"
  by (auto simp: pct_point_def split: option.splits if_splits
      dest!: pct_byte_shorter pct_bytes_shorter)

function decodeURIComponent :: "jstring \<Rightarrow> jstring option" where
  "decodeURIComponent [] = Some []"
| "decodeURIComponent (c # cs) =
     (if c = 37 then
        (case pct_point (c # cs) of
           None \<Rightarrow> None
         | Some (v, r) \<Rightarrow> map_option (append (cp_units v)) (decodeURIComponent r))
      else map_option (Cons c) (decodeURIComponent cs))"
  by pat_completeness auto

termination
  by (relation "measure length") (auto dest!: pct_point_shorter)

definition unreserved :: "nat \<Rightarrow> bool" where
  "unreserved c \<longleftrightarrow> 48 \<le> c \<and> c \<le> 57 \<or> 65 \<le> c \<and> c \<le> 90 \<or> 97 \<le> c \<and> c \<le> 122 \<or>
     c \<in> {45, 95, 46, 33, 126, 42, 39, 40, 41}"

definition encode_point :: "nat \<Rightarrow> jstring" where
  "encode_point c = (if unreserved c then [c] else concat (map pct (utf8 c)))"

definition encodeURIComponent :: "jstring \<Rightarrow> jstring option" where
  "encodeURIComponent s = map_option (\<lambda>cs. concat (map encode_point cs)) (code_points s)"

section \<open>Round trip\<close>

lemma hex_val_digit [simp]: "n < 16 \<Longrightarrow> hex_val (hex_digit n) = Some n"
  by (auto simp: hex_val_def hex_digit_def)

lemma pct_byte_pct [simp]: "b < 256 \<Longrightarrow> pct_byte (pct b @ r) = Some (b, r)"
  by (simp add: pct_def)

lemma pct_bytes_pct: "\<forall>b \<in> set bs. b < 256 \<Longrightarrow> pct_bytes (length bs) (concat (map pct bs) @ r) = Some (bs, r)"
  by (induction bs) auto

lemma fold_cont_simps [simp]:
  "fold_cont a [] = a" "fold_cont a (b # bs) = fold_cont (a * 0x40 + (b - 0x80)) bs"
  by (simp_all add: fold_cont_def)


lemma recompose:
  fixes c :: nat
  shows "c div 64 * 64 + c mod 64 = c"
    and "c div 4096 * 64 + c div 64 mod 64 = c div 64"
    and "c div 262144 * 64 + c div 4096 mod 64 = c div 4096"
  using div_mult_mod_eq [of c 64] div_mult_mod_eq [of "c div 64" 64] div_mult_mod_eq [of "c div 4096" 64]
  by (simp_all add: div_mult2_eq [symmetric])

lemma utf8_value_utf8:
  assumes "scalar c" and "utf8 c = b # bs" and "bs \<noteq> []"
  shows "follow b = Some (length bs) \<and> utf8_value b bs = Some c \<and> \<not> b < 0x80 \<and> (\<forall>x \<in> set (b # bs). x < 256)"
proof -
  have c: "c < 0x110000"
    using assms(1) by (simp add: scalar_def)
  have m: "x mod 64 < 64" for x :: nat
    by simp
  consider "\<not> c < 0x80" "c < 0x800" | "\<not> c < 0x800" "c < 0x10000" | "\<not> c < 0x10000"
    using assms(2,3) by (fastforce simp: utf8_def split: if_splits)
  then show ?thesis
  proof cases
    case 1
    then have "c div 64 < 32" by simp
    with 1 assms show ?thesis
      using m by (auto simp: utf8_def utf8_value_def follow_def cont_def recompose)
  next
    case 2
    then have "c div 4096 < 16" by simp
    with 2 assms show ?thesis
      using m [of c] m [of "c div 64"] by (auto simp: utf8_def utf8_value_def follow_def cont_def recompose)
  next
    case 3
    from c have "c div 262144 < 5" by simp
    with 3 assms show ?thesis
      using m [of c] m [of "c div 64"] m [of "c div 4096"]
      by (auto simp: utf8_def utf8_value_def follow_def cont_def recompose)
  qed
qed

lemma utf8_long: "\<not> c < 0x80 \<Longrightarrow> \<exists>b bs. utf8 c = b # bs \<and> bs \<noteq> []"
  by (simp add: utf8_def)

lemma pct_point_utf8:
  assumes "scalar c"
  shows "pct_point (concat (map pct (utf8 c)) @ r) = Some (c, r)"
proof (cases "c < 0x80")
  case True
  then show ?thesis by (simp add: utf8_def pct_point_def)
next
  case False
  then obtain b bs where u: "utf8 c = b # bs" "bs \<noteq> []"
    using utf8_long by blast
  note f = utf8_value_utf8 [OF assms u]
  then have "b < 256" and "\<forall>x \<in> set bs. x < 256"
    by auto
  with f u show ?thesis
    by (simp add: pct_point_def pct_bytes_pct)
qed

lemma decode_pct_point:
  "pct_point (37 # cs) = Some (v, r) \<Longrightarrow>
     decodeURIComponent (37 # cs) = map_option (append (cp_units v)) (decodeURIComponent r)"
  by simp

lemma decode_encode_point:
  assumes "scalar c"
  shows "decodeURIComponent (encode_point c @ r) = map_option (append (cp_units c)) (decodeURIComponent r)"
proof (cases "unreserved c")
  case True
  then have "c \<noteq> 37" and "c < 0x80"
    by (auto simp: unreserved_def)
  with True show ?thesis
    by (cases "decodeURIComponent r") (simp_all add: encode_point_def cp_units_def)
next
  case False
  obtain b bs where "utf8 c = b # bs"
    by (cases "utf8 c") (simp_all add: utf8_def split: if_splits)
  then obtain cs where cs: "concat (map pct (utf8 c)) @ r = 37 # cs"
    by (simp add: pct_def)
  have "pct_point (37 # cs) = Some (c, r)"
    using pct_point_utf8 [OF assms, of r] by (simp only: cs)
  then show ?thesis
    unfolding encode_point_def if_not_P [OF False] cs by (rule decode_pct_point)
qed

lemma decode_encode_points:
  "\<forall>c \<in> set cs. scalar c \<Longrightarrow>
     decodeURIComponent (concat (map encode_point cs)) = Some (concat (map cp_units cs))"
  by (induction cs) (simp_all add: decode_encode_point)

lemma code_points_units:
  "code_points s = Some cs \<Longrightarrow> list_all (\<lambda>u. u < 0x10000) s \<Longrightarrow>
     concat (map cp_units cs) = s \<and> (\<forall>c \<in> set cs. scalar c)"
proof (induction s arbitrary: cs rule: code_points.induct)
  case (2 u us)
  show ?case
  proof (cases "high_sur u")
    case True
    with 2(3) obtain v vs ds where d: "us = v # vs" "low_sur v" "code_points vs = Some ds"
      "cs = ((u - 0xD800) * 0x400 + (v - 0xDC00) + 0x10000) # ds" "\<not> low_sur u"
      by (auto split: if_splits list.splits)
    let ?c = "(u - 0xD800) * 0x400 + (v - 0xDC00) + 0x10000"
    have lo: "v - 0xDC00 < 0x400" and hi: "u - 0xD800 < 0x400"
      using True d(2) by (auto simp: high_sur_def low_sur_def)
    have "cp_units (a * 0x400 + b + 0x10000) = [0xD800 + a, 0xDC00 + b]" if "b < 0x400" for a b
      using that by (simp add: cp_units_def)
    from this [OF lo, of "u - 0xD800"] have "cp_units ?c = [u, v]"
      using True d(2) by (simp add: high_sur_def low_sur_def)
    moreover have "scalar ?c"
      using lo hi by (auto simp: scalar_def high_sur_def low_sur_def)
    moreover have "concat (map cp_units ds) = vs \<and> (\<forall>c \<in> set ds. scalar c)"
      using 2 True d by simp
    ultimately show ?thesis
      using d by simp
  next
    case False
    with 2 show ?thesis
      by (auto simp: cp_units_def scalar_def split: if_splits)
  qed
qed simp

lemma decode_encode:
  "encodeURIComponent s = Some e \<Longrightarrow> list_all (\<lambda>u. u < 0x10000) s \<Longrightarrow> decodeURIComponent e = Some s"
  using code_points_units [of s] decode_encode_points
  by (auto simp: encodeURIComponent_def simp del: decodeURIComponent.simps)

text \<open>A string without a percent sign is its own decoding.\<close>

lemma decode_plain: "37 \<notin> set s \<Longrightarrow> decodeURIComponent s = Some s"
  by (induction s) auto

text \<open>The output is made of unreserved ASCII and escapes.\<close>

lemma hex_digit_unreserved: "n < 16 \<Longrightarrow> unreserved (hex_digit n)"
  unfolding unreserved_def by (rule disjE [of "n < 10" "\<not> n < 10"]) (simp_all add: hex_digit_def)

lemma pct_units: "u \<in> set (pct b) \<Longrightarrow> b < 256 \<Longrightarrow> unreserved u \<or> u = 37"
  using hex_digit_unreserved [of "b div 16"] hex_digit_unreserved [of "b mod 16"]
  by (auto simp: pct_def)

lemma utf8_bytes: "scalar c \<Longrightarrow> b \<in> set (utf8 c) \<Longrightarrow> b < 256"
proof -
  assume a: "scalar c" "b \<in> set (utf8 c)"
  show "b < 256"
  proof (cases "c < 0x80")
    case True
    with a show ?thesis by (simp add: utf8_def)
  next
    case False
    then obtain x xs where u: "utf8 c = x # xs" "xs \<noteq> []"
      using utf8_long by blast
    from utf8_value_utf8 [OF a(1) u] a(2) u show ?thesis by auto
  qed
qed

lemma encode_units:
  assumes "encodeURIComponent s = Some e" and "list_all (\<lambda>u. u < 0x10000) s" and "u \<in> set e"
  shows "unreserved u \<or> u = 37"
proof -
  obtain cs where cs: "code_points s = Some cs" "e = concat (map encode_point cs)"
    using assms(1) by (auto simp: encodeURIComponent_def)
  then obtain c where c: "c \<in> set cs" "u \<in> set (encode_point c)"
    using assms(3) by auto
  moreover have "scalar c"
    using code_points_units [OF cs(1) assms(2)] c(1) by simp
  ultimately show ?thesis
    using pct_units utf8_bytes by (fastforce simp: encode_point_def split: if_splits)
qed

lemma encode_point_nonempty: "encode_point c \<noteq> []"
  by (simp add: encode_point_def utf8_def pct_def)

lemma encode_nonempty: "encodeURIComponent s = Some e \<Longrightarrow> s \<noteq> [] \<Longrightarrow> e \<noteq> []"
  by (cases s) (auto simp: encodeURIComponent_def encode_point_nonempty split: if_splits list.splits)

end
