(* ===== verification/Session.thy ===== *)
theory Session
  imports Domain Uri
begin

text \<open>
  The session of a user: the cookies that carry it, the interceptors that put them on every
  request (\<open>src/web/src/api/index.ts\<close>), the authentication store (\<open>src/web/src/store/useAuth.ts\<close>), the
  login page (\<open>src/web/src/pages/Login.tsx\<close>) and the guard of the layout
  (\<open>src/web/src/layouts/AppLayout.tsx\<close>). The browser's cookie store is the list of its cookies in
  creation order, as RFC 6265 orders them for one path.
\<close>

section \<open>Cookies\<close>

type_synonym jar = "(jstring \<times> jstring) list"

text \<open>
  Assigning \<open>name=value; path=/; max-age=604800\<close> to \<open>document.cookie\<close>: the value ends at the first
  semicolon and is trimmed. An expiry date in the past deletes the cookie. Control characters
  make the browser ignore the assignment.
\<close>

definition strip_blanks :: "jstring \<Rightarrow> jstring" where
  "strip_blanks s =
     rev (dropWhile (\<lambda>c. c = 32 \<or> c = 9) (rev (dropWhile (\<lambda>c. c = 32 \<or> c = 9) s)))"

definition set_cookie :: "jstring \<Rightarrow> jstring \<Rightarrow> jar \<Rightarrow> jar" where
  "set_cookie name v j =
     (if list_ex (\<lambda>c. c < 32 \<and> c \<noteq> 9 \<or> c = 127) v then j
      else alist_put name (strip_blanks (takeWhile (\<lambda>c. c \<noteq> 59) v)) j)"

definition expire_cookie :: "jstring \<Rightarrow> jar \<Rightarrow> jar" where
  "expire_cookie = alist_del"

text \<open>Reading \<open>document.cookie\<close>.\<close>

definition cookie_pair :: "jstring \<times> jstring \<Rightarrow> jstring" where
  "cookie_pair c = fst c @ [61] @ snd c"

definition document_cookie :: "jar \<Rightarrow> jstring" where
  "document_cookie j = join_with [59, 32] (map cookie_pair j)"

text \<open>
  The leftmost match of the expression \<open>(^| )name=([^;]+)\<close>: at the start of the text or after a
  space, the name, an equals sign and the longest non-empty run without a semicolon.
\<close>

definition cookie_at :: "jstring \<Rightarrow> jstring \<Rightarrow> jstring option" where
  "cookie_at name s =
     (let v = takeWhile (\<lambda>c. c \<noteq> 59) (drop (Suc (length name)) s)
      in if starts_with s (name @ [61]) \<and> v \<noteq> [] then Some v else None)"

fun cookie_scan :: "jstring \<Rightarrow> jstring \<Rightarrow> jstring option" where
  "cookie_scan name [] = None"
| "cookie_scan name (c # cs) =
     (case (if c = 32 then cookie_at name cs else None) of
        Some v \<Rightarrow> Some v
      | None \<Rightarrow> cookie_scan name cs)"

definition cookie_match :: "jstring \<Rightarrow> jstring \<Rightarrow> jstring option" where
  "cookie_match name s = (case cookie_at name s of Some v \<Rightarrow> Some v | None \<Rightarrow> cookie_scan name s)"

definition uri_error :: api_exn where
  "uri_error = mk_error (js ''URI malformed'')"

definition type_error :: api_exn where
  "type_error = mk_error (js ''TypeError'')"

definition getCookie :: "jstring \<Rightarrow> jar \<Rightarrow> api_exn + jstring option" where
  "getCookie name j =
     (case cookie_match name (document_cookie j) of
        None \<Rightarrow> Inr None
      | Some v \<Rightarrow> (case decodeURIComponent v of None \<Rightarrow> Inl uri_error | Some d \<Rightarrow> Inr (Some d)))"

section \<open>Interceptors\<close>

record auth_headers =
  h_uid :: "jstring option"
  h_user_name :: "jstring option"
  h_token :: "jstring option"

definition uid_cookie :: jstring where
  "uid_cookie = js ''drop_user_uid''"

definition name_cookie :: jstring where
  "name_cookie = js ''drop_user_name''"

definition token_cookie :: jstring where
  "token_cookie = js ''drop_user_token''"

lemmas cookie_names = uid_cookie_def name_cookie_def token_cookie_def

definition present :: "jstring option \<Rightarrow> jstring option" where
  "present m = (case m of Some v \<Rightarrow> if v = [] then None else Some v | None \<Rightarrow> None)"

text \<open>The request interceptor; an error it raises rejects the request before it is sent.\<close>

definition request_interceptor :: "jar \<Rightarrow> api_exn + auth_headers" where
  "request_interceptor j =
     (case getCookie uid_cookie j of Inl e \<Rightarrow> Inl e | Inr uid \<Rightarrow>
     (case getCookie name_cookie j of Inl e \<Rightarrow> Inl e | Inr userName \<Rightarrow>
     (case getCookie token_cookie j of Inl e \<Rightarrow> Inl e | Inr token \<Rightarrow>
        Inr \<lparr>h_uid = present uid, h_user_name = present userName, h_token = present token\<rparr>)))"

definition send :: "jar \<Rightarrow> (auth_headers \<Rightarrow> api_exn + 'a) \<Rightarrow> api_exn + 'a" where
  "send j srv = (case request_interceptor j of Inl e \<Rightarrow> Inl e | Inr h \<Rightarrow> srv h)"

text \<open>
  The response interceptor on an error: where it sends the browser, if anywhere. The URL class
  of the host is a parameter: it sets the query parameter \<open>redirect_uri\<close> of a location resolved
  against the origin, or raises (\<open>None\<close>).
\<close>

record http_error =
  he_status :: "nat option"
  he_code :: "int option"
  he_location :: "jstring option"

definition response_error ::
  "(jstring \<Rightarrow> jstring \<Rightarrow> jstring \<Rightarrow> jstring option) \<Rightarrow> jstring \<Rightarrow> jstring \<Rightarrow> http_error \<Rightarrow> jstring option" where
  "response_error with_redirect origin href err =
     (if he_status err = Some 401 \<and> he_code err = Some 4010001 then
        (let raw = or_str (opt_str (he_location err)) (js ''/login'')
         in case with_redirect raw origin href of Some loc \<Rightarrow> Some loc | None \<Rightarrow> Some raw)
      else None)"

section \<open>The authentication store\<close>

record session =
  ss_jar :: jar
  ss_uid :: jstring
  ss_userName :: jstring
  ss_isAuth :: bool
  ss_loading :: bool

record user_data =
  ud_uid :: jstring
  ud_user_name :: jstring

record login_data = user_data +
  ud_token :: jstring

definition store_initial :: "jar \<Rightarrow> session" where
  "store_initial j = \<lparr>ss_jar = j, ss_uid = [], ss_userName = [], ss_isAuth = False, ss_loading = True\<rparr>"

text \<open>
  \<open>checkAuth\<close> up to its request (the flag says whether one is sent), and from its answer on. Its
  answer may arrive after other operations of the store.
\<close>

definition checkAuth_start :: "session \<Rightarrow> session \<times> bool" where
  "checkAuth_start s =
     (case cookie_match uid_cookie (document_cookie (ss_jar s)) of
        None \<Rightarrow> (s\<lparr>ss_isAuth := False, ss_loading := False\<rparr>, False)
      | Some uid \<Rightarrow> (s\<lparr>ss_loading := True\<rparr>, True))"

definition checkAuth_end :: "api_exn + user_data ApiResponse \<Rightarrow> session \<Rightarrow> session" where
  "checkAuth_end answer s =
     (case answer of
        Inl e \<Rightarrow> s\<lparr>ss_isAuth := False, ss_loading := False\<rparr>
      | Inr res \<Rightarrow>
        if res_code res = 0 then
          (case res_data res of
             None \<Rightarrow> s\<lparr>ss_isAuth := False, ss_loading := False\<rparr>
           | Some d \<Rightarrow>
             s\<lparr>ss_uid := ud_uid d, ss_userName := ud_user_name d, ss_isAuth := True, ss_loading := False\<rparr>)
        else s\<lparr>ss_isAuth := False, ss_loading := False\<rparr>)"

definition checkAuth :: "(auth_headers \<Rightarrow> api_exn + user_data ApiResponse) \<Rightarrow> session \<Rightarrow> session" where
  "checkAuth authCheck s =
     (case checkAuth_start s of
        (s', False) \<Rightarrow> s'
      | (s', True) \<Rightarrow> checkAuth_end (send (ss_jar s') authCheck) s')"

text \<open>
  The common tail of \<open>login\<close> and \<open>register\<close>: the cookies are written one by one, and the encoding of
  the name can raise after the first two.
\<close>

definition sign_in :: "jstring \<Rightarrow> api_exn + login_data ApiResponse \<Rightarrow> session \<Rightarrow> (api_exn + unit) \<times> session" where
  "sign_in failed answer s =
     (case answer of
        Inl e \<Rightarrow> (Inl e, s)
      | Inr res \<Rightarrow>
        if res_code res \<noteq> 0 then (Inl (mk_error (or_str (opt_str (res_message res)) failed)), s)
        else
          (case res_data res of
             None \<Rightarrow> (Inl type_error, s)
           | Some d \<Rightarrow>
             (let j = set_cookie uid_cookie (ud_uid d) (set_cookie token_cookie (ud_token d) (ss_jar s))
              in case encodeURIComponent (ud_user_name d) of
                   None \<Rightarrow> (Inl uri_error, s\<lparr>ss_jar := j\<rparr>)
                 | Some n \<Rightarrow>
                   (Inr (), s\<lparr>ss_jar := set_cookie name_cookie n j, ss_uid := ud_uid d,
                      ss_userName := ud_user_name d, ss_isAuth := True, ss_loading := False\<rparr>))))"

type_synonym login_api = "jstring \<Rightarrow> jstring \<Rightarrow> auth_headers \<Rightarrow> api_exn + login_data ApiResponse"

definition login :: "login_api \<Rightarrow> jstring \<Rightarrow> jstring \<Rightarrow> session \<Rightarrow> (api_exn + unit) \<times> session" where
  "login loginApi username password s =
     sign_in (js ''login failed'') (send (ss_jar s) (loginApi username password)) s"

definition register :: "login_api \<Rightarrow> jstring \<Rightarrow> jstring \<Rightarrow> session \<Rightarrow> (api_exn + unit) \<times> session" where
  "register registerApi username password s =
     sign_in (js ''register failed'') (send (ss_jar s) (registerApi username password)) s"

definition logout :: "session \<Rightarrow> session" where
  "logout s =
     s\<lparr>ss_jar := expire_cookie token_cookie (expire_cookie name_cookie (expire_cookie uid_cookie (ss_jar s))),
       ss_uid := [], ss_userName := [], ss_isAuth := False\<rparr>"

section \<open>The login page and the guard\<close>

datatype login_mode = LoginMode | RegisterMode

record login_page =
  lp_username :: jstring
  lp_password :: jstring
  lp_mode :: login_mode
  lp_showPassword :: bool
  lp_loading :: bool
  lp_error :: jstring
  lp_navigated :: bool
  lp_session :: session

definition msg_login_failed :: jstring where \<comment> \<open>login failed\<close>
  [msg_defs]: "msg_login_failed = [0x767B, 0x5F55, 0x5931, 0x8D25]"
definition msg_register_failed :: jstring where \<comment> \<open>registration failed\<close>
  [msg_defs]: "msg_register_failed = [0x6CE8, 0x518C, 0x5931, 0x8D25]"

definition login_failed_text :: "login_mode \<Rightarrow> jstring" where
  "login_failed_text m = (case m of LoginMode \<Rightarrow> msg_login_failed | RegisterMode \<Rightarrow> msg_register_failed)"

definition authenticate :: "login_api \<times> login_api \<Rightarrow> login_page \<Rightarrow> (api_exn + unit) \<times> session" where
  "authenticate apis p =
     (case lp_mode p of
        LoginMode \<Rightarrow> login (fst apis) (trim (lp_username p)) (lp_password p) (lp_session p)
      | RegisterMode \<Rightarrow> register (snd apis) (trim (lp_username p)) (lp_password p) (lp_session p))"

definition handleSubmit :: "login_api \<times> login_api \<Rightarrow> login_page \<Rightarrow> login_page" where
  "handleSubmit apis p =
     (if trim (lp_username p) = [] \<or> lp_password p = [] then p
      else
        (let p = p\<lparr>lp_loading := True, lp_error := []\<rparr>
         in case authenticate apis p of
              (Inr _, s) \<Rightarrow> p\<lparr>lp_session := s, lp_navigated := True, lp_loading := False\<rparr>
            | (Inl e, s) \<Rightarrow>
              p\<lparr>lp_session := s, lp_error := or_str (opt_str (exn_message e)) (login_failed_text (lp_mode p)),
                lp_loading := False\<rparr>))"

definition login_canSubmit :: "login_page \<Rightarrow> bool" where
  "login_canSubmit p \<longleftrightarrow> length (trim (lp_username p)) \<ge> 2 \<and> length (lp_password p) \<ge> 4 \<and> \<not> lp_loading p"

definition switch_mode :: "login_page \<Rightarrow> login_page" where
  "switch_mode p =
     p\<lparr>lp_mode := (case lp_mode p of LoginMode \<Rightarrow> RegisterMode | RegisterMode \<Rightarrow> LoginMode), lp_error := []\<rparr>"

text \<open>What the layout renders for a session.\<close>

datatype layout_view = LoadingView | NavigateLogin | Content

definition AppLayout :: "session \<Rightarrow> layout_view" where
  "AppLayout s = (if ss_loading s then LoadingView else if \<not> ss_isAuth s then NavigateLogin else Content)"

section \<open>Cookie lookup\<close>

definition clean_cookie :: "jstring \<times> jstring \<Rightarrow> bool" where
  "clean_cookie c \<longleftrightarrow> {61, 59, 32} \<inter> set (fst c) = {} \<and> {59, 32} \<inter> set (snd c) = {}"

definition clean_jar :: "jar \<Rightarrow> bool" where
  "clean_jar j \<longleftrightarrow> list_all clean_cookie j"

lemma starts_with_name:
  "61 \<notin> set n \<Longrightarrow> 61 \<notin> set name \<Longrightarrow> starts_with (n @ 61 # s) (name @ [61]) \<longleftrightarrow> n = name"
proof (induction name arbitrary: n)
  case Nil
  then show ?case by (cases n) (auto simp: starts_with_def)
next
  case (Cons a name)
  then show ?case by (cases n) (auto simp: starts_with_def)
qed

lemma takeWhile_semi: "59 \<notin> set v \<Longrightarrow> takeWhile (\<lambda>c. c \<noteq> 59) (v @ 59 # s) = v"
  "59 \<notin> set v \<Longrightarrow> takeWhile (\<lambda>c. c \<noteq> 59) v = v" for v :: jstring
  by (induction v) auto

lemma cookie_at_pair:
  assumes "clean_cookie c" and "61 \<notin> set name"
  shows "cookie_at name (cookie_pair c @ 59 # s) = (if fst c = name \<and> snd c \<noteq> [] then Some (snd c) else None)"
    and "cookie_at name (cookie_pair c) = (if fst c = name \<and> snd c \<noteq> [] then Some (snd c) else None)"
  using assms starts_with_name [of "fst c" name]
  by (auto simp: cookie_at_def cookie_pair_def clean_cookie_def takeWhile_semi Let_def)

lemma cookie_scan_skip: "32 \<notin> set p \<Longrightarrow> cookie_scan name (p @ s) = cookie_scan name s"
  by (induction p) auto

lemma cookie_pair_no_space: "clean_cookie c \<Longrightarrow> 32 \<notin> set (cookie_pair c)"
  by (auto simp: clean_cookie_def cookie_pair_def)

lemma cookie_match_cons:
  assumes "clean_cookie c" and "61 \<notin> set name"
  shows "cookie_match name (cookie_pair c @ [59, 32] @ s) =
     (if fst c = name \<and> snd c \<noteq> [] then Some (snd c) else cookie_match name s)"
proof -
  have "cookie_scan name (cookie_pair c @ [59, 32] @ s) = cookie_match name s"
    using cookie_pair_no_space [OF assms(1)] by (simp add: cookie_scan_skip cookie_match_def)
  with cookie_at_pair(1) [OF assms, of "32 # s"] show ?thesis
    by (simp add: cookie_match_def)
qed

lemma cookie_match_last:
  assumes "clean_cookie c" and "61 \<notin> set name"
  shows "cookie_match name (cookie_pair c) = (if fst c = name \<and> snd c \<noteq> [] then Some (snd c) else None)"
  using cookie_scan_skip [OF cookie_pair_no_space [OF assms(1)], of name "[]"] cookie_at_pair(2) [OF assms]
  by (simp add: cookie_match_def)

lemma cookie_match_jar:
  "clean_jar j \<Longrightarrow> 61 \<notin> set name \<Longrightarrow>
     cookie_match name (document_cookie j) =
       map_option snd (List.find (\<lambda>c. fst c = name \<and> snd c \<noteq> []) j)"
proof (induction j rule: induct_list012)
  case 1
  then show ?case
    by (simp add: document_cookie_def cookie_match_def cookie_at_def starts_with_def)
next
  case (2 c)
  then show ?case
    using cookie_match_last by (simp add: document_cookie_def clean_jar_def)
next
  case (3 c d j)
  then have "document_cookie (c # d # j) = cookie_pair c @ [59, 32] @ document_cookie (d # j)"
    by (simp add: document_cookie_def)
  with 3 show ?case
    using cookie_match_cons [of c name] by (simp add: clean_jar_def)
qed

text \<open>With one cookie per name, the lookup is the lookup in the store of cookies.\<close>

lemma find_map_of:
  "distinct (map fst j) \<Longrightarrow>
     map_option snd (List.find (\<lambda>c. fst c = name \<and> snd c \<noteq> []) j) =
       (case map_of j name of Some v \<Rightarrow> if v = [] then None else Some v | None \<Rightarrow> None)"
  by (induction j) (auto simp: find_None_iff map_of_eq_None_iff rev_image_eqI)

definition jar_ok :: "jar \<Rightarrow> bool" where
  "jar_ok j \<longleftrightarrow> clean_jar j \<and> distinct (map fst j)"

definition cookie :: "jstring \<Rightarrow> jar \<Rightarrow> jstring option" where
  "cookie name j = present (map_of j name)"

lemma cookie_match_cookie:
  "jar_ok j \<Longrightarrow> 61 \<notin> set name \<Longrightarrow> cookie_match name (document_cookie j) = cookie name j"
  by (simp add: jar_ok_def cookie_match_jar find_map_of cookie_def present_def)

text \<open>Values a server may use as identifiers: visible characters below the surrogates, without a semicolon.\<close>

definition plain :: "jstring \<Rightarrow> bool" where
  "plain v \<longleftrightarrow> v \<noteq> [] \<and> (\<forall>c \<in> set v. 32 < c \<and> c < 0xD800 \<and> c \<noteq> 127 \<and> c \<noteq> 59)"

lemma strip_blanks_plain:
  assumes "plain v"
  shows "strip_blanks v = v"
proof -
  have "dropWhile (\<lambda>c. c = 32 \<or> c = 9) xs = xs" if "\<forall>c \<in> set xs. 32 < c" for xs :: jstring
    using that by (cases xs) auto
  then show ?thesis
    using assms by (simp add: strip_blanks_def plain_def)
qed

lemma set_cookie_plain:
  assumes "plain v"
  shows "set_cookie name v j = alist_put name v j"
proof -
  have "takeWhile (\<lambda>c. c \<noteq> 59) v = v" and "\<not> list_ex (\<lambda>c. c < 32 \<and> c \<noteq> 9 \<or> c = 127) v"
    using assms by (auto simp: plain_def list_ex_iff)
  with strip_blanks_plain [OF assms] show ?thesis
    by (simp only: set_cookie_def if_False simp_thms)
qed

lemma set_alist_put: "set (alist_put k v j) \<subseteq> insert (k, v) (set j)"
  by (induction j) (auto split: if_splits)

lemma jar_ok_put:
  assumes "jar_ok j" and "plain v" and "{61, 59, 32} \<inter> set name = {}"
  shows "jar_ok (alist_put name v j)"
proof -
  have "clean_cookie (name, v)"
    using assms(2,3) by (auto simp: clean_cookie_def plain_def)
  then have "clean_jar (alist_put name v j)"
    using assms(1) set_alist_put [of name v j]
    by (auto simp: jar_ok_def clean_jar_def list_all_iff)
  with assms(1) show ?thesis
    by (simp add: jar_ok_def distinct_alist_put)
qed

lemma jar_ok_del: "jar_ok j \<Longrightarrow> jar_ok (alist_del name j)"
  by (auto simp: jar_ok_def clean_jar_def list_all_iff alist_del_def distinct_map_filter)

text \<open>The cookie store keeps the laws of a keyed store for plain values.\<close>

lemma cookie_put: "plain v \<Longrightarrow> cookie k (alist_put name v j) = (if k = name then Some v else cookie k j)"
  using alist.look_put [of name v j k] by (simp add: cookie_def present_def plain_def)

lemma cookie_del: "cookie k (alist_del name j) = (if k = name then None else cookie k j)"
  using alist.look_del [of name j k] by (simp add: cookie_def present_def)

lemma plain_encoded:
  assumes "encodeURIComponent n = Some e" and "list_all (\<lambda>u. u < 0x10000) n" and "n \<noteq> []"
  shows "plain e"
proof -
  have "32 < u \<and> u < 127 \<and> u \<noteq> 59" if "u \<in> set e" for u
    using encode_units [OF assms(1,2) that] by (auto simp: unreserved_def)
  with encode_nonempty [OF assms(1,3)] show ?thesis
    by (fastforce simp: plain_def)
qed

lemma getCookie_cookie:
  "jar_ok j \<Longrightarrow> 61 \<notin> set name \<Longrightarrow> cookie name j = Some v \<Longrightarrow> decodeURIComponent v = Some d \<Longrightarrow>
     getCookie name j = Inr (Some d)"
  "jar_ok j \<Longrightarrow> 61 \<notin> set name \<Longrightarrow> cookie name j = None \<Longrightarrow> getCookie name j = Inr None"
  by (simp_all add: getCookie_def cookie_match_cookie)

lemma cookie_name_facts:
  "{61, 59, 32} \<inter> set uid_cookie = {}" "{61, 59, 32} \<inter> set name_cookie = {}"
  "{61, 59, 32} \<inter> set token_cookie = {}"
  "61 \<notin> set uid_cookie" "61 \<notin> set name_cookie" "61 \<notin> set token_cookie"
  "uid_cookie \<noteq> name_cookie" "uid_cookie \<noteq> token_cookie" "name_cookie \<noteq> token_cookie"
  by (simp_all add: cookie_names)

section \<open>Properties\<close>

definition signed_jar :: "login_data \<Rightarrow> jstring \<Rightarrow> jar \<Rightarrow> jar" where
  "signed_jar d n j = alist_put name_cookie n (alist_put uid_cookie (ud_uid d) (alist_put token_cookie (ud_token d) j))"

lemma signed_jar_facts:
  assumes "jar_ok j" and "plain (ud_uid d)" and "plain (ud_token d)" and "plain n"
  shows "jar_ok (signed_jar d n j)" "cookie uid_cookie (signed_jar d n j) = Some (ud_uid d)"
    "cookie name_cookie (signed_jar d n j) = Some n" "cookie token_cookie (signed_jar d n j) = Some (ud_token d)"
  unfolding signed_jar_def using assms cookie_name_facts(7-9)
  by (auto intro!: jar_ok_put cookie_name_facts simp: cookie_put)

lemma sign_in_ok:
  assumes "answer = Inr \<lparr>res_code = 0, res_data = Some d, res_message = m\<rparr>"
    and "plain (ud_uid d)" and "plain (ud_token d)"
    and "encodeURIComponent (ud_user_name d) = Some n" and "plain n"
  shows "sign_in f answer s =
    (Inr (), s\<lparr>ss_jar := signed_jar d n (ss_jar s), ss_uid := ud_uid d, ss_userName := ud_user_name d,
       ss_isAuth := True, ss_loading := False\<rparr>)"
  using assms by (simp add: sign_in_def set_cookie_plain signed_jar_def Let_def)

text \<open>What the interceptor reads from the cookies of a login.\<close>

lemma signed_jar_headers:
  assumes "jar_ok j" and "plain (ud_uid d)" and "37 \<notin> set (ud_uid d)" and "plain (ud_token d)" and "37 \<notin> set (ud_token d)"
    and "ud_user_name d \<noteq> []" and "list_all (\<lambda>u. u < 0x10000) (ud_user_name d)"
    and "encodeURIComponent (ud_user_name d) = Some n"
  shows "request_interceptor (signed_jar d n j) =
    Inr \<lparr>h_uid = Some (ud_uid d), h_user_name = Some (ud_user_name d), h_token = Some (ud_token d)\<rparr>"
proof -
  have pn: "plain n" and dn: "decodeURIComponent n = Some (ud_user_name d)"
    using plain_encoded [OF assms(8,7,6)] decode_encode [OF assms(8,7)] by auto
  note f = signed_jar_facts [OF assms(1,2,4) pn]
  have "getCookie uid_cookie (signed_jar d n j) = Inr (Some (ud_uid d))"
    "getCookie name_cookie (signed_jar d n j) = Inr (Some (ud_user_name d))"
    "getCookie token_cookie (signed_jar d n j) = Inr (Some (ud_token d))"
    using f dn assms(3,5) decode_plain cookie_name_facts(4-6) by (simp_all add: getCookie_cookie(1))
  then show ?thesis
    using assms(2,4,6) by (simp add: request_interceptor_def present_def plain_def)
qed

text \<open>
  C10: a successful login is what every later request carries. When the server
  answers a login with an id and a token of visible characters without percent signs and semicolons,
  and a name that is not empty and can be encoded, the store is authenticated as that user, the
  layout shows its content, and the request interceptor reads back from the cookies exactly the
  id, the name (through both encodings, whatever its characters) and the token the server gave.
\<close>

theorem login_session_roundtrip:
  assumes "jar_ok (ss_jar s)"
    and "send (ss_jar s) (loginApi username password) = Inr \<lparr>res_code = 0, res_data = Some d, res_message = m\<rparr>"
    and "plain (ud_uid d)" and "37 \<notin> set (ud_uid d)" and "plain (ud_token d)" and "37 \<notin> set (ud_token d)"
    and "ud_user_name d \<noteq> []" and "list_all (\<lambda>u. u < 0x10000) (ud_user_name d)"
    and "encodeURIComponent (ud_user_name d) \<noteq> None"
    and "login loginApi username password s = (r, t)"
  shows "r = Inr () \<and> AppLayout t = Content \<and> ss_userName t = ud_user_name d \<and>
    request_interceptor (ss_jar t) =
      Inr \<lparr>h_uid = Some (ud_uid d), h_user_name = Some (ud_user_name d), h_token = Some (ud_token d)\<rparr>"
proof -
  obtain n where n: "encodeURIComponent (ud_user_name d) = Some n"
    using assms(9) by blast
  have pn: "plain n" using plain_encoded [OF n assms(8,7)] .
  have rt: "r = Inr ()" "t = s\<lparr>ss_jar := signed_jar d n (ss_jar s), ss_uid := ud_uid d,
      ss_userName := ud_user_name d, ss_isAuth := True, ss_loading := False\<rparr>"
    using assms(10) sign_in_ok [OF assms(2,3,5) n pn] by (auto simp: login_def)
  then show ?thesis
    using signed_jar_headers [OF assms(1,3-8) n] by (simp add: AppLayout_def)
qed

definition sample_user :: login_data where
  "sample_user = \<lparr>ud_uid = js ''u1'', ud_user_name = [0x5F20, 59, 0xD83D, 0xDE00], ud_token = js ''t0k''\<rparr>"

definition sample_login :: login_api where
  "sample_login u p h = Inr \<lparr>res_code = 0, res_data = Some sample_user, res_message = None\<rparr>"

lemma cookie_empty [simp]: "cookie k [] = None"
  by (simp add: cookie_def present_def)

lemma jar_ok_empty [simp]: "jar_ok []"
  by (simp add: jar_ok_def clean_jar_def)

lemma request_interceptor_none:
  assumes "jar_ok j" and "cookie uid_cookie j = None" and "cookie name_cookie j = None" and "cookie token_cookie j = None"
  shows "request_interceptor j = Inr \<lparr>h_uid = None, h_user_name = None, h_token = None\<rparr>"
  using assms cookie_name_facts(4-6) by (simp add: request_interceptor_def getCookie_cookie(2) present_def)

theorem login_session_roundtrip_witness:
  "AppLayout (snd (login sample_login [] [] (store_initial []))) = Content \<and>
   request_interceptor (ss_jar (snd (login sample_login [] [] (store_initial [])))) =
     Inr \<lparr>h_uid = Some (js ''u1''), h_user_name = Some [0x5F20, 59, 0xD83D, 0xDE00], h_token = Some (js ''t0k'')\<rparr>"
proof -
  have "send [] (sample_login [] []) = Inr \<lparr>res_code = 0, res_data = Some sample_user, res_message = None\<rparr>"
    by (simp add: send_def request_interceptor_none sample_login_def)
  moreover have "encodeURIComponent (ud_user_name sample_user) \<noteq> None"
    by (simp add: sample_user_def encodeURIComponent_def low_sur_def high_sur_def)
  ultimately show ?thesis
    using login_session_roundtrip [of "store_initial []" sample_login "[]" "[]" sample_user None
        "fst (login sample_login [] [] (store_initial []))" "snd (login sample_login [] [] (store_initial []))"]
    by (simp add: store_initial_def sample_user_def plain_def)
qed

text \<open>
  After a logout, whatever the session was, the layout leads to the login page once
  nothing is loading, no request carries an identity any more, and a later check of the session
  sends no request and leaves the user signed out.
\<close>

theorem logout_forgets:
  assumes "jar_ok (ss_jar s)"
  shows "request_interceptor (ss_jar (logout s)) = Inr \<lparr>h_uid = None, h_user_name = None, h_token = None\<rparr> \<and>
    checkAuth authCheck (logout s) = (logout s)\<lparr>ss_loading := False\<rparr> \<and>
    AppLayout (checkAuth authCheck (logout s)) = NavigateLogin"
proof -
  have ok: "jar_ok (ss_jar (logout s))"
    using assms by (simp add: logout_def expire_cookie_def jar_ok_del)
  have c: "cookie k (ss_jar (logout s)) = None" if "k \<in> {uid_cookie, name_cookie, token_cookie}" for k
    using that by (auto simp: logout_def expire_cookie_def cookie_del)
  have "cookie_match uid_cookie (document_cookie (ss_jar (logout s))) = None"
    using c ok cookie_name_facts(4) by (simp add: cookie_match_cookie)
  then have "checkAuth authCheck (logout s) = (logout s)\<lparr>ss_loading := False\<rparr>"
    by (simp add: checkAuth_def checkAuth_start_def) (simp add: logout_def)
  moreover have "\<not> ss_isAuth (logout s)"
    by (simp add: logout_def)
  ultimately show ?thesis
    using request_interceptor_none [OF ok] c by (simp add: AppLayout_def)
qed

theorem logout_forgets_witness:
  "AppLayout (checkAuth (\<lambda>_. Inl type_error) (logout (store_initial []))) = NavigateLogin"
proof -
  have "jar_ok (ss_jar (store_initial []))"
    by (simp add: store_initial_def)
  from logout_forgets [OF this, of "\<lambda>_. Inl type_error"] show ?thesis by blast
qed

definition percent_user :: login_data where
  "percent_user = \<lparr>ud_uid = js ''u1'', ud_user_name = js ''ann'', ud_token = js ''50%''\<rparr>"

definition percent_session :: session where
  "percent_session =
     snd (login (\<lambda>u p h. Inr \<lparr>res_code = 0, res_data = Some percent_user, res_message = None\<rparr>) [] []
       (store_initial []))"

text \<open>
  The token and the id are written to their cookies as they are, but every
  cookie is decoded when it is read. After a login whose token is \<open>50%\<close>, the request interceptor
  raises on every request: each later login or check is rejected before it is sent.
\<close>

theorem percent_token_locks_out:
  "ss_isAuth percent_session \<and> request_interceptor (ss_jar percent_session) = Inl uri_error \<and>
   (\<forall>api u p. login api u p percent_session = (Inl uri_error, percent_session)) \<and>
   (\<forall>api. \<not> ss_isAuth (checkAuth api percent_session))"
proof -
  have e: "encodeURIComponent (ud_user_name percent_user) = Some (js ''ann'')"
    by (simp add: percent_user_def encodeURIComponent_def low_sur_def high_sur_def encode_point_def unreserved_def)
  have pl: "plain (ud_uid percent_user)" "plain (ud_token percent_user)" "plain (js ''ann'')"
    by (simp_all add: percent_user_def plain_def)
  let ?j = "signed_jar percent_user (js ''ann'') []"
  have t: "percent_session = store_initial []\<lparr>ss_jar := ?j, ss_uid := ud_uid percent_user, ss_userName := ud_user_name percent_user,
      ss_isAuth := True, ss_loading := False\<rparr>"
    unfolding percent_session_def login_def send_def
    by (simp add: store_initial_def request_interceptor_none sign_in_ok [OF refl pl(1,2) e pl(3)])
  note f = signed_jar_facts [OF jar_ok_empty pl]
  have "decodeURIComponent (js ''50%'') = None"
    by (simp add: pct_point_def)
  then have "getCookie token_cookie ?j = Inl uri_error"
    using f cookie_name_facts(6) by (simp add: getCookie_def cookie_match_cookie percent_user_def del: js_Cons)
  moreover have "getCookie uid_cookie ?j = Inr (Some (js ''u1''))" "getCookie name_cookie ?j = Inr (Some (js ''ann''))"
    using f cookie_name_facts(4,5) by (simp_all add: getCookie_cookie(1) percent_user_def)
  ultimately have r: "request_interceptor ?j = Inl uri_error"
    by (simp add: request_interceptor_def)
  then have "login api u p percent_session = (Inl uri_error, percent_session)" for api u p
    by (simp add: t login_def send_def sign_in_def del: js_Cons)
  moreover have "\<not> ss_isAuth (checkAuth api percent_session)" for api
    by (simp add: checkAuth_def checkAuth_start_def checkAuth_end_def t send_def r del: js_Cons split: option.split)
  ultimately show ?thesis
    using r by (simp add: t)
qed

text \<open>
  The server makes the id of a new user from the name (\<open>src/apiserver/server/auth.go\<close>), and the
  id is written to its cookie as it is. The id of the user \<open>a;b\<close> ends at the semicolon: the store has the full id, and
  every request carries the id of another user.
\<close>

definition semicolon_user :: login_data where
  "semicolon_user = \<lparr>ud_uid = js ''user-a;b'', ud_user_name = js ''a;b'', ud_token = js ''t0k''\<rparr>"

definition semicolon_session :: session where
  "semicolon_session =
     snd (login (\<lambda>u p h. Inr \<lparr>res_code = 0, res_data = Some semicolon_user, res_message = None\<rparr>) [] []
       (store_initial []))"

theorem semicolon_id_cut:
  "ss_isAuth semicolon_session \<and> ss_uid semicolon_session = js ''user-a;b'' \<and>
   cookie uid_cookie (ss_jar semicolon_session) = Some (js ''user-a'')"
proof -
  have e: "encodeURIComponent (ud_user_name semicolon_user) = Some (js ''a%3Bb'')"
    by (simp add: semicolon_user_def encodeURIComponent_def low_sur_def high_sur_def encode_point_def unreserved_def
        utf8_def pct_def hex_digit_def)
  have set: "set_cookie uid_cookie (ud_uid semicolon_user) j = alist_put uid_cookie (js ''user-a'') j"
    "set_cookie token_cookie (ud_token semicolon_user) j = alist_put token_cookie (js ''t0k'') j"
    "set_cookie name_cookie (js ''a%3Bb'') j = alist_put name_cookie (js ''a%3Bb'') j" for j
    by (simp_all add: semicolon_user_def set_cookie_def strip_blanks_def)
  have "plain (js ''user-a'')" "plain (js ''a%3Bb'')" "plain (js ''t0k'')"
    by (simp_all add: plain_def)
  then show ?thesis
    unfolding semicolon_session_def login_def send_def
    using cookie_name_facts(7-9)
    by (simp add: store_initial_def request_interceptor_none sign_in_def e set cookie_put del: js_Cons)
      (simp add: semicolon_user_def cookie_def present_def)
qed

text \<open>
  The answer of a session check that was under way when the user logged out signs
  the user in again although the cookies are gone.
\<close>

theorem late_check_after_logout:
  "AppLayout (checkAuth_end (Inr \<lparr>res_code = 0, res_data = Some d, res_message = m\<rparr>)
     (logout (fst (checkAuth_start s)))) = Content \<and>
   map_of (ss_jar (checkAuth_end (Inr \<lparr>res_code = 0, res_data = Some d, res_message = m\<rparr>)
     (logout (fst (checkAuth_start s))))) uid_cookie = None"
  using cookie_name_facts(7-9) by (simp add: checkAuth_end_def AppLayout_def logout_def expire_cookie_def)

lemma login_failed_text_nonempty: "login_failed_text m \<noteq> []"
  by (cases m) (simp_all add: login_failed_text_def msg_defs)

text \<open>The submit handler keeps the contract of a guarded handler.\<close>

interpretation login_form: guarded_handler handleSubmit lp_loading lp_error
  "\<lambda>p. trim (lp_username p) \<noteq> [] \<and> lp_password p \<noteq> []"
  "\<lambda>apis p. isl (fst (authenticate apis (p\<lparr>lp_loading := True, lp_error := []\<rparr>)))"
  by unfold_locales
    (auto simp: handleSubmit_def Let_def login_failed_text_nonempty split: prod.split sum.split)

text \<open>
  However often the login form is submitted and whatever the server answers, the
  form never stays in its loading state; a submission with a name and a password shows an error
  exactly when it was refused, and leaves the page exactly when it was accepted.
\<close>

theorem login_form_settles:
  assumes "\<not> lp_loading p" and "q = fold handleSubmit apiss p"
    and "trim (lp_username q) \<noteq> []" and "lp_password q \<noteq> []" and "\<not> lp_navigated q"
  shows "\<not> lp_loading q \<and>
    (lp_error (handleSubmit apis q) \<noteq> [] \<longleftrightarrow> isl (fst (authenticate apis (q\<lparr>lp_loading := True, lp_error := []\<rparr>)))) \<and>
    (lp_navigated (handleSubmit apis q) \<longleftrightarrow> \<not> isl (fst (authenticate apis (q\<lparr>lp_loading := True, lp_error := []\<rparr>))))"
proof -
  have "\<not> lp_loading q"
    using login_form.runs_idle [OF assms(1)] assms(2) by simp
  moreover have "lp_navigated (handleSubmit apis q) \<longleftrightarrow>
      \<not> isl (fst (authenticate apis (q\<lparr>lp_loading := True, lp_error := []\<rparr>)))"
    using assms(3-5) by (simp add: handleSubmit_def Let_def split: prod.split sum.split)
  ultimately show ?thesis
    using login_form.reports [of q apis] assms(3,4) by simp
qed

definition sample_login_form :: login_page where
  "sample_login_form = \<lparr>lp_username = [97], lp_password = [98], lp_mode = LoginMode, lp_showPassword = False, lp_loading = False,
     lp_error = [], lp_navigated = False, lp_session = store_initial []\<rparr>"

theorem login_form_settles_witness:
  "lp_error (handleSubmit (\<lambda>_ _ _. Inl type_error, \<lambda>_ _ _. Inl type_error) sample_login_form) \<noteq> []"
proof -
  let ?apis = "(\<lambda>_ _ _. Inl type_error, \<lambda>_ _ _. Inl type_error)"
  have "isl (fst (authenticate ?apis (sample_login_form\<lparr>lp_loading := True, lp_error := []\<rparr>)))"
    by (simp add: sample_login_form_def authenticate_def login_def send_def store_initial_def
        request_interceptor_none sign_in_def)
  then show ?thesis
    using login_form_settles [of sample_login_form sample_login_form "[]" ?apis]
    by (simp add: sample_login_form_def trim_def is_ws_def)
qed

end
