(* ===== verification/Api.thy ===== *)
theory Api
  imports Domain
begin

text \<open>
  The functions of the API module (\<open>src/web/src/api/index.ts\<close>): one constructor per exported function,
  with its arguments, and the request each function sends: method, path segments below the base URL,
  query parameters and body. Main result: the path and method of a request determine which function
  sent it and with which ids, so that two functions never reach the same route by accident.
\<close>

section \<open>Calls\<close>

datatype api_call =
    authCheck
  | loginApi jstring jstring
  | registerApi jstring jstring
  | getUsers
  | getLLMSettings
  | updateLLMSettings jsval
  | getAgents
  | statAgent jstring
  | getAgentAuditLog "(jstring \<times> jsval) list"
  | createTask CreateTaskParams
  | createNaturalLanguageTask "(jstring \<times> jsval) list"
  | getTasks "(jstring \<times> jsval) list"
  | getTaskDetail jstring
  | getTaskStateHistory jstring
  | deleteTask jstring
  | retryTask jstring
  | getCosFiles jstring
  | fetchArtifactText jstring jstring
  | fetchArtifactJson jstring jstring
  | createContinuousTask CreateContinuousParams
  | getContinuousWindows jstring "(jstring \<times> jsval) list"
  | stopContinuousTask jstring
  | getSuggestions jstring
  | triggerAnalysis jstring
  | getFlameData jstring
  | flameDiff jstring jstring
  | createGroup jstring
  | getGroups
  | deleteGroup int
  | addMember int jstring
  | removeMember int jstring
  | getGroupMembers int
  | createScheduleTask CreateScheduleTaskParams
  | getScheduleTasks
  | deleteScheduleTask jstring

datatype http_method = GET | POST | PUT | DELETE

text \<open>Bodies are kept as the values the callers pass; axios serialises them.\<close>

datatype body =
    NoBody
  | Fields "(jstring \<times> jsval) list"
  | Value jsval
  | TaskBody CreateTaskParams
  | ContinuousBody CreateContinuousParams
  | ScheduleBody CreateScheduleTaskParams

record request =
  rq_method :: http_method
  rq_path :: "jstring list"
  rq_query :: "(jstring \<times> jsval) list"
  rq_body :: body
  rq_as_text :: bool

definition mk_request :: "http_method \<Rightarrow> jstring list \<Rightarrow> (jstring \<times> jsval) list \<Rightarrow> body \<Rightarrow> request" where
  "mk_request m path q b = \<lparr>rq_method = m, rq_path = path, rq_query = q, rq_body = b, rq_as_text = False\<rparr>"

section \<open>Wrappers\<close>

definition typedGet :: "jstring list \<Rightarrow> (jstring \<times> jsval) list \<Rightarrow> request" where
  "typedGet path params = mk_request GET path params NoBody"

definition typedPost :: "jstring list \<Rightarrow> body \<Rightarrow> request" where
  "typedPost path data = mk_request POST path [] data"

definition typedDelete :: "jstring list \<Rightarrow> request" where
  "typedDelete path = mk_request DELETE path [] NoBody"

definition tasks_path :: "jstring \<Rightarrow> string list \<Rightarrow> jstring list" where
  "tasks_path tid rest = js ''tasks'' # tid # map js rest"

fun request_of :: "api_call \<Rightarrow> request" where
  "request_of authCheck = typedGet [js ''auth'', js ''check''] []"
| "request_of (loginApi u p) =
     typedPost [js ''auth'', js ''login''] (Fields [(js ''username'', JStr u), (js ''password'', JStr p)])"
| "request_of (registerApi u p) =
     typedPost [js ''auth'', js ''register''] (Fields [(js ''username'', JStr u), (js ''password'', JStr p)])"
| "request_of getUsers = typedGet [js ''users''] []"
| "request_of getLLMSettings = typedGet [js ''settings'', js ''llm''] []"
| "request_of (updateLLMSettings d) = mk_request PUT [js ''settings'', js ''llm''] [] (Value d)"
| "request_of getAgents = typedGet [js ''agents''] []"
| "request_of (statAgent ip) = typedGet [js ''agent'', js ''stat''] [(js ''ip'', JStr ip)]"
| "request_of (getAgentAuditLog ps) = typedGet [js ''agent'', js ''audit-log''] ps"
| "request_of (createTask d) = typedPost [js ''tasks''] (TaskBody d)"
| "request_of (createNaturalLanguageTask d) = typedPost [js ''tasks'', js ''nl''] (Fields d)"
| "request_of (getTasks ps) = typedGet [js ''tasks''] ps"
| "request_of (getTaskDetail tid) = typedGet (tasks_path tid []) []"
| "request_of (getTaskStateHistory tid) = typedGet (tasks_path tid [''state_history'']) []"
| "request_of (deleteTask tid) = typedDelete (tasks_path tid [])"
| "request_of (retryTask tid) = typedPost (tasks_path tid [''retry'']) NoBody"
| "request_of (getCosFiles tid) = typedGet [js ''cosfiles''] [(js ''tid'', JStr tid)]"
| "request_of (fetchArtifactText tid key) =
     (typedGet (tasks_path tid [''artifact'']) [(js ''key'', JStr key)])\<lparr>rq_as_text := True\<rparr>"
| "request_of (fetchArtifactJson tid key) = typedGet (tasks_path tid [''artifact'']) [(js ''key'', JStr key)]"
| "request_of (createContinuousTask d) = typedPost [js ''tasks'', js ''continuous''] (ContinuousBody d)"
| "request_of (getContinuousWindows tid ps) = typedGet (tasks_path tid [''windows'']) ps"
| "request_of (stopContinuousTask tid) = typedPost (tasks_path tid [''stop'']) NoBody"
| "request_of (getSuggestions tid) = typedGet (tasks_path tid [''suggestions'']) []"
| "request_of (triggerAnalysis tid) = typedPost (tasks_path tid [''analyze'']) NoBody"
| "request_of (getFlameData tid) = typedGet (tasks_path tid [''flame'']) []"
| "request_of (flameDiff t1 t2) =
     typedPost [js ''flame'', js ''diff''] (Fields [(js ''tid1'', JStr t1), (js ''tid2'', JStr t2)])"
| "request_of (createGroup n) = typedPost [js ''group''] (Fields [(js ''name'', JStr n)])"
| "request_of getGroups = typedGet [js ''groups''] []"
| "request_of (deleteGroup gid) = typedDelete [js ''group'', int_str gid]"
| "request_of (addMember gid uid) =
     typedPost [js ''group'', int_str gid, js ''members''] (Fields [(js ''uid'', JStr uid)])"
| "request_of (removeMember gid uid) = typedDelete [js ''group'', int_str gid, js ''members'', uid]"
| "request_of (getGroupMembers gid) = typedGet [js ''group'', int_str gid, js ''members''] []"
| "request_of (createScheduleTask d) = typedPost [js ''schedule'', js ''task''] (ScheduleBody d)"
| "request_of getScheduleTasks = typedGet [js ''schedule'', js ''tasks''] []"
| "request_of (deleteScheduleTask tid) = typedDelete [js ''schedule'', js ''task'', tid]"

text \<open>The URL: the base and the segments, which the source interpolates as they are.\<close>

definition url_of :: "request \<Rightarrow> jstring" where
  "url_of r = js ''/api/v1/'' @ join_with (js ''/'') (rq_path r)"

section \<open>Properties\<close>

lemma int_str_inject: "int_str i = int_str j \<longleftrightarrow> i = j"
  by (metis option.inject parse_int_str)

lemma int_str_no_slash: "47 \<notin> set (int_str i)"
  using nat_str_digits [of 47] by (auto simp: int_str_def is_digit_def)

text \<open>Ids that are put into a path.\<close>

fun path_ids :: "api_call \<Rightarrow> jstring list" where
  "path_ids (getTaskDetail tid) = [tid]"
| "path_ids (getTaskStateHistory tid) = [tid]"
| "path_ids (deleteTask tid) = [tid]"
| "path_ids (retryTask tid) = [tid]"
| "path_ids (fetchArtifactText tid key) = [tid]"
| "path_ids (fetchArtifactJson tid key) = [tid]"
| "path_ids (getContinuousWindows tid ps) = [tid]"
| "path_ids (stopContinuousTask tid) = [tid]"
| "path_ids (getSuggestions tid) = [tid]"
| "path_ids (triggerAnalysis tid) = [tid]"
| "path_ids (getFlameData tid) = [tid]"
| "path_ids (removeMember gid uid) = [uid]"
| "path_ids (deleteScheduleTask tid) = [tid]"
| "path_ids c = []"

lemmas request_defs = typedGet_def typedPost_def typedDelete_def mk_request_def tasks_path_def

lemma path_no_slash:
  "\<forall>i \<in> set (path_ids c). 47 \<notin> set i \<Longrightarrow> rq_path (request_of c) \<noteq> [] \<and> (\<forall>s \<in> set (rq_path (request_of c)). 47 \<notin> set s)"
  by (cases c) (simp_all add: request_defs int_str_no_slash)

lemma js_inject: "js a = js b \<longleftrightarrow> a = b"
proof
  have "inj (of_char :: char \<Rightarrow> nat)"
    by (rule inj_of_char)
  then show "js a = js b \<Longrightarrow> a = b"
    by (simp add: js_def inj_map_eq_map)
qed simp

lemma request_of_inject: "request_of c = request_of d \<Longrightarrow> c = d"
  by (cases c; cases d; simp add: request_defs js_inject int_str_inject del: js_Cons)

lemma url_of_path:
  assumes "url_of r = url_of r'" and "rq_path r \<noteq> []" and "rq_path r' \<noteq> []"
    and "\<forall>s \<in> set (rq_path r). 47 \<notin> set s" and "\<forall>s \<in> set (rq_path r'). 47 \<notin> set s"
  shows "rq_path r = rq_path r'"
proof -
  have "join_with [47] (rq_path r) = join_with [47] (rq_path r')"
    using assms(1) by (simp add: url_of_def)
  then show ?thesis
    using split_join_with [OF assms(2,4)] split_join_with [OF assms(3,5)] by metis
qed



text \<open>
  An id with a slash is put into the path unescaped, so that it reaches another route:
  asking for the detail of the task \<open>7/flame\<close> sends the request of the flame graph of task 7.
\<close>

theorem slash_id_confuses_routes:
  "url_of (request_of (getTaskDetail (tid @ js ''/flame''))) = url_of (request_of (getFlameData tid)) \<and>
   rq_method (request_of (getTaskDetail (tid @ js ''/flame''))) = rq_method (request_of (getFlameData tid))"
  by (simp add: url_of_def request_defs)

end
