(* ===== verification/Task_Form.thy ===== *)
theory Task_Form
  imports Polling
begin

text \<open>
  Creating a task: the dialog (\<open>src/web/src/components/CreateTaskModal.tsx\<close>), its form state and
  the submit handlers of the two pages that own it (\<open>src/web/src/pages/TaskList.tsx\<close> and
  \<open>src/web/src/pages/Home.tsx\<close>, whose form code is the same). Every field has its change handler;
  the pages copy the target and the pid of the form into the continuous form after each change.
  Main result: whatever the user typed, a task that is sent has a pid, a duration, a rate and a
  collector in the ranges the dialog announces.
\<close>

section \<open>Form state\<close>

record task_form =
  fm_form :: CreateTaskParams
  fm_continuousForm :: CreateContinuousParams
  fm_mode :: TaskCreateMode
  fm_submitting :: bool
  fm_nlText :: jstring
  fm_nlPlan :: "NaturalLanguageTaskPlan option"
  fm_nlError :: jstring
  fm_nlSubmitting :: bool

definition defaultForm :: CreateTaskParams where
  "defaultForm =
     \<lparr>ct_name = [], ct_type = 0, ct_profiler_type = 0, ct_target_ip = [], ct_pid = Fin 0, ct_duration = Fin 30,
      ct_hz = Some (Fin 99), ct_callgraph = Some (js ''dwarf''), ct_subprocess = Some True,
      ct_event = Some (js ''cpu-cycles'')\<rparr>"

definition defaultContinuousForm :: CreateContinuousParams where
  "defaultContinuousForm =
     \<lparr>cc_name = None, cc_target_ip = [], cc_pid = Fin 0, cc_hz = Some (Fin 10), cc_window_sec = Some (Fin 300),
      cc_profiler_type = None, cc_callgraph = Some (js ''dwarf''), cc_event = None\<rparr>"

definition form_initial :: task_form where
  "form_initial =
     \<lparr>fm_form = defaultForm, fm_continuousForm = defaultContinuousForm, fm_mode = Oneshot, fm_submitting = False,
      fm_nlText = [], fm_nlPlan = None, fm_nlError = [], fm_nlSubmitting = False\<rparr>"

text \<open>The effect that copies \<open>target_ip\<close> and \<open>pid\<close> into the continuous form.\<close>

definition sync_continuous :: "task_form \<Rightarrow> task_form" where
  "sync_continuous s =
     s\<lparr>fm_continuousForm := (fm_continuousForm s)
         \<lparr>cc_target_ip := ct_target_ip (fm_form s), cc_pid := ct_pid (fm_form s)\<rparr>\<rparr>"

definition onChange :: "(CreateTaskParams \<Rightarrow> CreateTaskParams) \<Rightarrow> task_form \<Rightarrow> task_form" where
  "onChange patch s = sync_continuous (s\<lparr>fm_form := patch (fm_form s)\<rparr>)"

definition onContinuousChange :: "(CreateContinuousParams \<Rightarrow> CreateContinuousParams) \<Rightarrow> task_form \<Rightarrow> task_form" where
  "onContinuousChange patch s = s\<lparr>fm_continuousForm := patch (fm_continuousForm s)\<rparr>"

section \<open>Change handlers\<close>

definition profiler_of_type :: "int \<Rightarrow> int" where
  "profiler_of_type type =
     (if type = 1 then 1
      else if type = 6 then 3
      else if type = 10 \<or> type = 11 then 2
      else if type = 4 then 4
      else if type = 12 then 5
      else if type = 5 then 6
      else 0)"

definition event_of_type :: "int \<Rightarrow> jstring option \<Rightarrow> jstring option" where
  "event_of_type type event =
     (if type = 6 then Some (or_str (opt_str event) (js ''io''))
      else if type = 10 then Some (js ''cpu'')
      else if type = 11 then Some (js ''heap'')
      else if type = 0 then Some (js ''cpu-cycles'')
      else event)"

text \<open>The options of the type field; its value is one of them.\<close>

definition type_options :: "int list" where
  "type_options = [0, 1, 6, 10, 11, 5, 4, 12]"

definition set_type :: "int \<Rightarrow> task_form \<Rightarrow> task_form" where
  "set_type type =
     onChange (\<lambda>f. f\<lparr>ct_type := type, ct_profiler_type := profiler_of_type type,
       ct_event := event_of_type type (ct_event f)\<rparr>)"

definition set_pid :: "jstring \<Rightarrow> task_form \<Rightarrow> task_form" where
  "set_pid v = onChange (\<lambda>f. f\<lparr>ct_pid := math_max (Fin 1) (math_floor (str_number v))\<rparr>)"

definition set_window_sec :: "jstring \<Rightarrow> task_form \<Rightarrow> task_form" where
  "set_window_sec v = onContinuousChange (\<lambda>f. f\<lparr>cc_window_sec := Some (clamp_floor 15 3600 (str_number v))\<rparr>)"

definition set_duration :: "jstring \<Rightarrow> task_form \<Rightarrow> task_form" where
  "set_duration v = onChange (\<lambda>f. f\<lparr>ct_duration := clamp_floor 1 3600 (str_number v)\<rparr>)"

definition set_hz :: "jstring \<Rightarrow> task_form \<Rightarrow> task_form" where
  "set_hz v s =
     (let hz = clamp_floor 1 1000 (str_number v)
      in if fm_mode s = Continuous then onContinuousChange (\<lambda>f. f\<lparr>cc_hz := Some hz\<rparr>) s
         else onChange (\<lambda>f. f\<lparr>ct_hz := Some hz\<rparr>) s)"

definition set_callgraph :: "jstring \<Rightarrow> task_form \<Rightarrow> task_form" where
  "set_callgraph v s =
     (if fm_mode s = Continuous then onContinuousChange (\<lambda>f. f\<lparr>cc_callgraph := Some v\<rparr>) s
      else onChange (\<lambda>f. f\<lparr>ct_callgraph := Some v\<rparr>) s)"

definition set_event :: "jstring \<Rightarrow> task_form \<Rightarrow> task_form" where
  "set_event v = onChange (\<lambda>f. f\<lparr>ct_event := Some v\<rparr>)"

definition set_name :: "jstring \<Rightarrow> task_form \<Rightarrow> task_form" where
  "set_name v = onChange (\<lambda>f. f\<lparr>ct_name := v\<rparr>)"

definition set_target_ip :: "jstring \<Rightarrow> task_form \<Rightarrow> task_form" where
  "set_target_ip v = onChange (\<lambda>f. f\<lparr>ct_target_ip := v\<rparr>)"

text \<open>The first online agent becomes the target when none is chosen.\<close>

definition choose_agent :: "AgentInfo list \<Rightarrow> task_form \<Rightarrow> task_form" where
  "choose_agent agents s =
     (case List.find ag_online agents of
        Some a \<Rightarrow> onChange (\<lambda>f. f\<lparr>ct_target_ip := or_str (ct_target_ip f) (ag_ip_addr a)\<rparr>) s
      | None \<Rightarrow> s)"

definition reset_form :: "task_form \<Rightarrow> task_form" where
  "reset_form = onChange (\<lambda>f. defaultForm\<lparr>ct_target_ip := ct_target_ip f\<rparr>)"

section \<open>Validity\<close>

definition opt_num :: "jsnum option \<Rightarrow> jsnum" where
  "opt_num m = (case m of None \<Rightarrow> NaN | Some x \<Rightarrow> x)"

definition pidValid :: "CreateTaskParams \<Rightarrow> bool" where
  "pidValid f \<longleftrightarrow> num_lt (Fin 0) (ct_pid f) \<and> is_integer (ct_pid f)"

definition durationValid :: "CreateTaskParams \<Rightarrow> bool" where
  "durationValid f \<longleftrightarrow> num_le (Fin 1) (ct_duration f) \<and> num_le (ct_duration f) (Fin 3600)"

definition hzValid :: "CreateTaskParams \<Rightarrow> bool" where
  "hzValid f \<longleftrightarrow> (let hz = opt_num (ct_hz f) in \<not> num_truthy hz \<or> num_le (Fin 1) hz \<and> num_le hz (Fin 1000))"

definition form_canSubmit :: "task_form \<Rightarrow> bool" where
  "form_canSubmit s \<longleftrightarrow>
     (case fm_mode s of
        Natural \<Rightarrow> trim (fm_nlText s) \<noteq> [] \<and> \<not> fm_submitting s \<and> \<not> fm_nlSubmitting s
      | Continuous \<Rightarrow>
        cc_target_ip (fm_continuousForm s) \<noteq> [] \<and> pidValid (fm_form s) \<and> hzValid (fm_form s) \<and> \<not> fm_submitting s
      | Oneshot \<Rightarrow>
        ct_target_ip (fm_form s) \<noteq> [] \<and> pidValid (fm_form s) \<and> durationValid (fm_form s) \<and>
        hzValid (fm_form s) \<and> \<not> fm_submitting s)"

section \<open>Requests\<close>

definition txt_cpu_sample :: jstring where \<comment> \<open>CPU sampling\<close>
  [msg_defs]: "txt_cpu_sample = [67, 80, 85, 32, 0x91C7, 0x6837, 32, 45, 32]"
definition txt_continuous :: jstring where \<comment> \<open>continuous profiling\<close>
  [msg_defs]: "txt_continuous = [0x5E38, 0x9A7B, 0x91C7, 0x96C6, 32, 45, 32]"
definition msg_create_failed :: jstring where \<comment> \<open>creating the task failed\<close>
  [msg_defs]: "msg_create_failed = [0x521B, 0x5EFA, 0x4EFB, 0x52A1, 0x5931, 0x8D25]"
definition msg_create_continuous_failed :: jstring where \<comment> \<open>creating the continuous task failed\<close>
  [msg_defs]: "msg_create_continuous_failed = [0x521B, 0x5EFA, 0x5E38, 0x9A7B, 0x4EFB, 0x52A1, 0x5931, 0x8D25]"

text \<open>
  The bodies of \<open>createTask\<close> and \<open>createContinuousTask\<close>; \<open>None\<close> when the handler returns early.
  \<open>Number\<close> is the identity on the numbers the form holds.
\<close>

definition task_payload :: "task_form \<Rightarrow> CreateTaskParams option" where
  "task_payload s =
     (let f = fm_form s
      in if ct_target_ip f = [] \<or> \<not> num_truthy (ct_pid f) \<or> \<not> num_truthy (ct_duration f) then None
         else Some (f\<lparr>ct_name := or_str (ct_name f) (txt_cpu_sample @ ct_target_ip f),
                      ct_hz := Some (num_or (opt_num (ct_hz f)) (Fin 99))\<rparr>))"

definition continuous_payload :: "task_form \<Rightarrow> CreateContinuousParams option" where
  "continuous_payload s =
     (let f = fm_continuousForm s
      in if cc_target_ip f = [] \<or> \<not> num_truthy (cc_pid f) then None
         else Some (f\<lparr>cc_name := Some (or_str (ct_name (fm_form s)) (txt_continuous @ cc_target_ip f)),
                      cc_hz := Some (num_or (opt_num (cc_hz f)) (Fin 10)),
                      cc_window_sec := Some (num_or (opt_num (cc_window_sec f)) (Fin 300))\<rparr>))"

section \<open>Natural language\<close>

text \<open>A failed request may carry a plan in its body.\<close>

record nl_exn = api_exn +
  exn_plan :: "NaturalLanguageTaskPlan option"

type_synonym nl_answer = "nl_exn + NaturalLanguageTaskResult ApiResponse"

definition msg_nl_failed :: jstring where \<comment> \<open>natural language profiling failed\<close>
  [msg_defs]: "msg_nl_failed = [0x81EA, 0x7136, 0x8BED, 0x8A00, 0x91C7, 0x96C6, 0x5931, 0x8D25]"

definition nl_answer_plan :: "nl_answer \<Rightarrow> NaturalLanguageTaskPlan option" where
  "nl_answer_plan answer =
     (case answer of
        Inl e \<Rightarrow> exn_plan e
      | Inr res \<Rightarrow> Option.bind (res_data res) nr_plan)"

definition nl_error_text :: "nl_answer \<Rightarrow> jstring" where
  "nl_error_text answer =
     (case answer of
        Inl e \<Rightarrow> err_text (api_exn.truncate e) msg_nl_failed
      | Inr res \<Rightarrow>
        if res_code res = 0 then []
        else err_text (mk_error (or_str (opt_str (res_message res))
               (or_str (case nl_answer_plan answer of Some p \<Rightarrow> pl_clarifying_question p | None \<Rightarrow> []) msg_nl_failed)))
               msg_nl_failed)"

text \<open>\<open>handleNaturalLanguage\<close>, and the task it reports to \<open>onNaturalLanguageCreated\<close>, if any.\<close>

definition handleNaturalLanguage :: "bool \<times> nl_answer \<Rightarrow> task_form \<Rightarrow> task_form" where
  "handleNaturalLanguage run s =
     (if trim (fm_nlText s) = [] then s
      else
        s\<lparr>fm_nlPlan := (case nl_answer_plan (snd run) of Some p \<Rightarrow> Some p | None \<Rightarrow> fm_nlPlan s),
          fm_nlError := nl_error_text (snd run), fm_nlSubmitting := False\<rparr>)"

definition nl_created :: "bool \<times> nl_answer \<Rightarrow> task_form \<Rightarrow> (jstring \<times> NaturalLanguageTaskPlan) option" where
  "nl_created run s =
     (if trim (fm_nlText s) = [] then None
      else case snd run of
        Inl e \<Rightarrow> None
      | Inr res \<Rightarrow>
        (case (nl_answer_plan (snd run), Option.bind (res_data res) nr_tid) of
           (Some p, Some tid) \<Rightarrow> if res_code res = 0 \<and> fst run \<and> tid \<noteq> [] then Some (tid, p) else None
         | _ \<Rightarrow> None))"

section \<open>Reachable forms\<close>

inductive form_reachable :: "task_form \<Rightarrow> bool" where
  start: "form_reachable form_initial"
| type: "form_reachable s \<Longrightarrow> type \<in> set type_options \<Longrightarrow> form_reachable (set_type type s)"
| pid: "form_reachable s \<Longrightarrow> form_reachable (set_pid v s)"
| window_sec: "form_reachable s \<Longrightarrow> form_reachable (set_window_sec v s)"
| duration: "form_reachable s \<Longrightarrow> form_reachable (set_duration v s)"
| hz: "form_reachable s \<Longrightarrow> form_reachable (set_hz v s)"
| callgraph: "form_reachable s \<Longrightarrow> form_reachable (set_callgraph v s)"
| event: "form_reachable s \<Longrightarrow> form_reachable (set_event v s)"
| name: "form_reachable s \<Longrightarrow> form_reachable (set_name v s)"
| target_ip: "form_reachable s \<Longrightarrow> form_reachable (set_target_ip v s)"
| agent: "form_reachable s \<Longrightarrow> form_reachable (choose_agent agents s)"
| reset: "form_reachable s \<Longrightarrow> form_reachable (reset_form s)"
| mode: "form_reachable s \<Longrightarrow> form_reachable (s\<lparr>fm_mode := m\<rparr>)"
| submitting: "form_reachable s \<Longrightarrow> form_reachable (s\<lparr>fm_submitting := b\<rparr>)"
| nl_text: "form_reachable s \<Longrightarrow> form_reachable (s\<lparr>fm_nlText := v\<rparr>)"
| nl: "form_reachable s \<Longrightarrow> form_reachable (handleNaturalLanguage run s)"

lemmas form_ops =
  set_type_def set_pid_def set_window_sec_def set_duration_def set_hz_def set_callgraph_def set_event_def
  set_name_def set_target_ip_def choose_agent_def reset_form_def onChange_def onContinuousChange_def
  sync_continuous_def handleNaturalLanguage_def

text \<open>A number the clamp may leave: an integer in the range, or NaN.\<close>

definition int_in :: "rat \<Rightarrow> rat \<Rightarrow> jsnum \<Rightarrow> bool" where
  "int_in lo hi x \<longleftrightarrow> (\<exists>i. x = Fin (of_int i) \<and> lo \<le> of_int i \<and> of_int i \<le> hi)"

definition form_inv :: "task_form \<Rightarrow> bool" where
  "form_inv s \<longleftrightarrow>
     (let f = fm_form s; c = fm_continuousForm s
      in (ct_duration f = NaN \<or> int_in 1 3600 (ct_duration f)) \<and>
         (\<exists>hz. ct_hz f = Some hz \<and> (hz = NaN \<or> int_in 1 1000 hz)) \<and>
         ct_type f \<in> set type_options \<and> ct_profiler_type f = profiler_of_type (ct_type f) \<and>
         cc_target_ip c = ct_target_ip f \<and> cc_pid c = ct_pid f \<and>
         (\<exists>hz. cc_hz c = Some hz \<and> (hz = NaN \<or> int_in 1 1000 hz)) \<and>
         (\<exists>w. cc_window_sec c = Some w \<and> (w = NaN \<or> int_in 15 3600 w)))"

lemma clamp_int_in:
  assumes "lo \<le> hi"
  shows "clamp_floor (of_int lo) (of_int hi) x = NaN \<or> int_in (of_int lo) (of_int hi) (clamp_floor (of_int lo) (of_int hi) x)"
proof (cases x)
  case (Fin a)
  have "max (of_int lo) (min (of_int hi) (of_int \<lfloor>a\<rfloor>)) = (of_int (max lo (min hi \<lfloor>a\<rfloor>)) :: rat)"
    by (simp add: max_def min_def)
  with Fin assms show ?thesis
    by (auto simp: clamp_floor_cases int_in_def max_def min_def)
qed (use assms in \<open>auto simp: clamp_floor_cases int_in_def\<close>)

lemmas clamp_ranges =
  clamp_int_in [of 1 3600, simplified] clamp_int_in [of 1 1000, simplified] clamp_int_in [of 15 3600, simplified]

lemma int_in_defaults: "int_in 1 3600 (Fin 30)" "int_in 1 1000 (Fin 99)" "int_in 1 1000 (Fin 10)" "int_in 15 3600 (Fin 300)"
  unfolding int_in_def by (rule exI [of _ 30], simp, rule exI [of _ 99], simp, rule exI [of _ 10], simp, rule exI [of _ 300], simp)

lemma form_reachable_inv: "form_reachable s \<Longrightarrow> form_inv s"
proof (induction rule: form_reachable.induct)
  case start
  show ?case
    by (simp add: form_inv_def form_initial_def defaultForm_def defaultContinuousForm_def Let_def int_in_defaults
        type_options_def profiler_of_type_def)
next
  case (agent s agents)
  then show ?case
    by (cases "List.find ag_online agents") (simp_all add: form_inv_def form_ops Let_def)
next
  case (reset s)
  then show ?case
    by (simp add: form_inv_def form_ops Let_def defaultForm_def int_in_defaults type_options_def profiler_of_type_def)
qed (auto simp: form_inv_def form_ops Let_def clamp_ranges)

section \<open>Properties\<close>

lemma num_or_in: "hz = NaN \<or> int_in lo hi hz \<Longrightarrow> 0 < lo \<Longrightarrow> int_in lo hi d \<Longrightarrow> int_in lo hi (num_or hz d)"
  by (auto simp: num_or_def num_truthy_def int_in_def)

lemma pidValid_int: "pidValid f \<Longrightarrow> \<exists>i > 0. ct_pid f = Fin (of_int i) \<and> num_truthy (ct_pid f)"
  by (cases "ct_pid f") (auto simp: pidValid_def num_lt_def num_truthy_def elim!: Ints_cases)

text \<open>An open submit button of the one-shot form always sends something.\<close>

lemma canSubmit_payload: "fm_mode s = Oneshot \<Longrightarrow> form_canSubmit s \<Longrightarrow> task_payload s \<noteq> None"
  using pidValid_int [of "fm_form s"]
  by (auto simp: form_canSubmit_def task_payload_def durationValid_def num_truthy_def Let_def)

text \<open>
  C4: whatever was typed into the dialog and in whatever order, when the one-shot form
  can be submitted, submitting it sends a request, and the task it asks for has a target, a name,
  a positive integer pid, an integer duration from 1 to 3600 seconds, an integer rate from 1 to
  1000 Hz, and the collector that belongs to its type.
\<close>

theorem form_payload_valid:
  assumes "form_reachable s" and "fm_mode s = Oneshot" and "form_canSubmit s"
  shows "\<exists>p i d h. task_payload s = Some p \<and> ct_target_ip p \<noteq> [] \<and> ct_name p \<noteq> [] \<and>
    ct_pid p = Fin (of_int i) \<and> 0 < i \<and>
    ct_duration p = Fin (of_int d) \<and> 1 \<le> d \<and> d \<le> 3600 \<and>
    ct_hz p = Some (Fin (of_int h)) \<and> 1 \<le> h \<and> h \<le> 1000 \<and>
    ct_type p \<in> set type_options \<and> ct_profiler_type p = profiler_of_type (ct_type p)"
proof -
  let ?f = "fm_form s"
  have inv: "form_inv s"
    using assms(1) by (rule form_reachable_inv)
  have v: "ct_target_ip ?f \<noteq> []" "pidValid ?f" "durationValid ?f"
    using assms(2,3) by (simp_all add: form_canSubmit_def)
  obtain i where i: "0 < i" "ct_pid ?f = Fin (of_int i)" "num_truthy (ct_pid ?f)"
    using pidValid_int [OF v(2)] by blast
  have "ct_duration ?f \<noteq> NaN"
    using v(3) by (auto simp: durationValid_def)
  with inv obtain d where d: "ct_duration ?f = Fin (of_int d)" "1 \<le> (of_int d :: rat)" "of_int d \<le> (3600 :: rat)"
    by (auto simp: form_inv_def int_in_def Let_def)
  have "int_in 1 1000 (num_or (opt_num (ct_hz ?f)) (Fin 99))"
    using inv by (auto simp: form_inv_def Let_def opt_num_def int_in_defaults intro!: num_or_in)
  then obtain h where h: "num_or (opt_num (ct_hz ?f)) (Fin 99) = Fin (of_int h)" "1 \<le> h" "h \<le> 1000"
    by (auto simp: int_in_def)
  have "num_truthy (ct_duration ?f)"
    using d by (auto simp: num_truthy_def)
  then show ?thesis
    using inv v(1) i d h by (simp add: task_payload_def form_inv_def Let_def txt_cpu_sample_def)
qed

definition sample_form :: task_form where
  "sample_form = set_pid [52, 50] (set_target_ip [49] form_initial)"

lemma sample_number: "str_number [52, 50] = Fin 42"
  using str_number_nat_str [of 42] by (simp add: nat_str.simps [of 42] nat_str.simps [of 4])

lemma sample_form_submits:
  "form_reachable sample_form" "fm_mode sample_form = Oneshot" "form_canSubmit sample_form"
  "task_payload sample_form =
     Some (defaultForm\<lparr>ct_name := txt_cpu_sample @ [49], ct_target_ip := [49], ct_pid := Fin 42\<rparr>)"
  unfolding sample_form_def
  by (auto intro: form_reachable.intros)
    (simp_all add: form_ops sample_number form_initial_def defaultForm_def form_canSubmit_def pidValid_def
      durationValid_def hzValid_def opt_num_def math_max_def num_lt_def num_truthy_def num_or_def task_payload_def Let_def)

theorem form_payload_valid_witness:
  "\<exists>i d h. Fin 42 = Fin (of_int i) \<and> 0 < i \<and> Fin 30 = Fin (of_int d) \<and> 1 \<le> d \<and> d \<le> 3600 \<and>
     Fin 99 = Fin (of_int h) \<and> 1 \<le> h \<and> h \<le> 1000"
  using form_payload_valid [OF sample_form_submits(1-3)]
  unfolding sample_form_submits(4) by (auto simp: defaultForm_def)

text \<open>
  The same for continuous profiling: when the form can be submitted, the request has a
  target, a name, a positive integer pid, an integer rate from 1 to 1000 Hz and integer windows
  of 15 to 3600 seconds. The dialog checks the rate of the one-shot form here; the rate that is
  sent is in range because its own handler clamps it.
\<close>

theorem continuous_payload_valid:
  assumes "form_reachable s" and "fm_mode s = Continuous" and "form_canSubmit s"
  shows "\<exists>p i h w. continuous_payload s = Some p \<and> cc_target_ip p \<noteq> [] \<and> cc_name p \<notin> {None, Some []} \<and>
    cc_pid p = Fin (of_int i) \<and> 0 < i \<and>
    cc_hz p = Some (Fin (of_int h)) \<and> 1 \<le> h \<and> h \<le> 1000 \<and>
    cc_window_sec p = Some (Fin (of_int w)) \<and> 15 \<le> w \<and> w \<le> 3600"
proof -
  let ?c = "fm_continuousForm s"
  have inv: "form_inv s"
    using assms(1) by (rule form_reachable_inv)
  have v: "cc_target_ip ?c \<noteq> []" "pidValid (fm_form s)"
    using assms(2,3) by (simp_all add: form_canSubmit_def)
  obtain i where i: "0 < i" "cc_pid ?c = Fin (of_int i)" "num_truthy (cc_pid ?c)"
    using pidValid_int [OF v(2)] inv by (auto simp: form_inv_def Let_def)
  have "int_in 1 1000 (num_or (opt_num (cc_hz ?c)) (Fin 10))"
    "int_in 15 3600 (num_or (opt_num (cc_window_sec ?c)) (Fin 300))"
    using inv by (auto simp: form_inv_def Let_def opt_num_def int_in_defaults intro!: num_or_in)
  then obtain h w where
    "num_or (opt_num (cc_hz ?c)) (Fin 10) = Fin (of_int h)" "1 \<le> h" "h \<le> 1000"
    "num_or (opt_num (cc_window_sec ?c)) (Fin 300) = Fin (of_int w)" "15 \<le> w" "w \<le> 3600"
    by (auto simp: int_in_def)
  then show ?thesis
    using v(1) i by (simp add: continuous_payload_def Let_def txt_continuous_def)
qed

definition sample_continuous :: task_form where
  "sample_continuous = sample_form\<lparr>fm_mode := Continuous\<rparr>"

theorem continuous_payload_valid_witness:
  "\<exists>p w. continuous_payload sample_continuous = Some p \<and> cc_window_sec p = Some (Fin (of_int w)) \<and> 15 \<le> w \<and> w \<le> 3600"
proof -
  have "form_reachable sample_continuous"
    unfolding sample_continuous_def by (intro form_reachable.mode sample_form_submits)
  moreover have "form_canSubmit sample_continuous"
    by (simp add: sample_continuous_def sample_form_def form_ops sample_number form_initial_def defaultForm_def
        form_canSubmit_def pidValid_def hzValid_def opt_num_def math_max_def num_lt_def num_truthy_def Let_def)
  moreover have "fm_mode sample_continuous = Continuous"
    by (simp add: sample_continuous_def)
  ultimately show ?thesis
    using continuous_payload_valid [of sample_continuous] by blast
qed

text \<open>
  Clearing the pid field does not empty it: the handler turns the empty text into
  pid 1, which the dialog accepts.
\<close>

theorem cleared_pid_is_one:
  "ct_pid (fm_form (set_pid [] s)) = Fin 1 \<and> pidValid (fm_form (set_pid [] s))"
  by (simp add: form_ops str_number_def trim_def math_max_def pidValid_def num_lt_def)

lemma nl_error_text_iff:
  "nl_error_text answer \<noteq> [] \<longleftrightarrow> (case answer of Inl e \<Rightarrow> True | Inr res \<Rightarrow> res_code res \<noteq> 0)"
  by (auto simp: nl_error_text_def err_text_def msg_nl_failed_def split: sum.split)

interpretation natural: guarded_handler handleNaturalLanguage fm_nlSubmitting fm_nlError
  "\<lambda>s. trim (fm_nlText s) \<noteq> []"
  "\<lambda>run s. case snd run of Inl e \<Rightarrow> True | Inr res \<Rightarrow> res_code res \<noteq> 0"
  by unfold_locales (simp_all add: handleNaturalLanguage_def nl_error_text_iff)

text \<open>
  A natural language request never leaves the dialog waiting, shows an error
  exactly when it was refused, and a task is reported to the page only when the user asked for
  execution and the request succeeded; the plan reported is the plan on screen.
\<close>

theorem natural_language_settles:
  assumes "\<not> fm_nlSubmitting s" and "trim (fm_nlText s) \<noteq> []" and "t = handleNaturalLanguage (execute, answer) s"
  shows "\<not> fm_nlSubmitting t \<and>
    (fm_nlError t \<noteq> [] \<longleftrightarrow> (case answer of Inl e \<Rightarrow> True | Inr res \<Rightarrow> res_code res \<noteq> 0)) \<and>
    (nl_created (execute, answer) s = Some (tid, plan) \<longrightarrow>
       execute \<and> fm_nlError t = [] \<and> fm_nlPlan t = Some plan \<and> tid \<noteq> [])"
proof -
  have "fm_nlError t \<noteq> [] \<longleftrightarrow> (case answer of Inl e \<Rightarrow> True | Inr res \<Rightarrow> res_code res \<noteq> 0)"
    using natural.reports [of s "(execute, answer)"] assms(2,3) by simp
  moreover have "execute \<and> fm_nlError t = [] \<and> fm_nlPlan t = Some plan \<and> tid \<noteq> []"
    if "nl_created (execute, answer) s = Some (tid, plan)"
    using that assms(2,3)
    by (auto simp: nl_created_def handleNaturalLanguage_def nl_error_text_def split: sum.splits option.splits if_splits)
  ultimately show ?thesis
    using natural.run_idle [OF assms(1)] assms(3) by blast
qed

theorem natural_language_settles_witness:
  "fm_nlError (handleNaturalLanguage (True, Inr \<lparr>res_code = 1, res_data = None, res_message = None\<rparr>)
     (form_initial\<lparr>fm_nlText := [65]\<rparr>)) \<noteq> []"
proof -
  let ?s = "form_initial\<lparr>fm_nlText := [65]\<rparr>"
  have "\<not> fm_nlSubmitting ?s" and "trim (fm_nlText ?s) \<noteq> []"
    by (simp_all add: form_initial_def trim_def is_ws_def)
  from natural_language_settles [OF this refl, of True "Inr \<lparr>res_code = 1, res_data = None, res_message = None\<rparr>"]
  show ?thesis by simp
qed

end
