(* ===== verification/Task_Pages.thy ===== *)
theory Task_Pages
  imports Task_Form
begin

text \<open>
  The two pages that list and create tasks: \<open>src/web/src/pages/TaskList.tsx\<close> and
  \<open>src/web/src/pages/Home.tsx\<close>. Each operation is a function from the outcome of its requests and the
  state of the page to the next state; navigations, alerts and the poller that a submission
  starts are fields of the state, so a theorem can speak about them.
\<close>

section \<open>Shared parts\<close>

text \<open>The outcome of \<open>Promise.all\<close> on two requests: the first rejection, or both answers.\<close>

type_synonym ('a, 'b) both = "api_exn + 'a ApiResponse \<times> 'b ApiResponse"

datatype task_view = TasksView | SchedulesView

record task_page =
  tp_search :: jstring
  tp_page :: int
  tp_total :: int
  tp_tasks :: "HotmethodTask list"
  tp_allTasks :: "HotmethodTask list"
  tp_agents :: "AgentInfo list"
  tp_loading :: bool
  tp_error :: jstring
  tp_showCreate :: bool
  tp_fm :: task_form
  tp_activeView :: task_view
  tp_nav :: "jstring list"
  tp_alerts :: "jstring list"
  tp_poller :: "jstring option"

definition pageSize :: int where
  "pageSize = 20"

definition result_url :: "jstring \<Rightarrow> jstring" where
  "result_url tid = js ''/task/result?tid='' @ tid"

definition continuous_url :: "jstring \<Rightarrow> jstring" where
  "continuous_url tid = js ''/continuous?tid='' @ tid"

text \<open>Where a row of a task list leads.\<close>

definition task_url :: "HotmethodTask \<Rightarrow> jstring" where
  "task_url t = (if t_type t = 2 then continuous_url (t_tid t) else result_url (t_tid t))"

definition task_page_initial :: task_page where
  "task_page_initial =
     \<lparr>tp_search = [], tp_page = 1, tp_total = 0, tp_tasks = [], tp_allTasks = [], tp_agents = [], tp_loading = True,
      tp_error = [], tp_showCreate = False, tp_fm = form_initial, tp_activeView = TasksView, tp_nav = [],
      tp_alerts = [], tp_poller = None\<rparr>"

definition msg_tasks_failed :: jstring where \<comment> \<open>loading the task list failed\<close>
  [msg_defs]: "msg_tasks_failed = [0x4EFB, 0x52A1, 0x5217, 0x8868, 0x52A0, 0x8F7D, 0x5931, 0x8D25]"

section \<open>The task list\<close>

definition opt_int :: "('a \<Rightarrow> int) \<Rightarrow> 'a option \<Rightarrow> int \<Rightarrow> int" where
  "opt_int f m d = (case m of None \<Rightarrow> d | Some x \<Rightarrow> if f x = 0 then d else f x)"

definition opt_list :: "('a \<Rightarrow> 'b list) \<Rightarrow> 'a option \<Rightarrow> 'b list" where
  "opt_list f m = (case m of None \<Rightarrow> [] | Some x \<Rightarrow> f x)"

text \<open>What \<open>loadTasks\<close> asks for: the page, and all tasks for the counters.\<close>

definition page_query :: "int \<Rightarrow> task_page \<Rightarrow> int \<times> int \<times> jstring option" where
  "page_query nextPage p = (nextPage, pageSize, if tp_search p = [] then None else Some (tp_search p))"

definition loadTasks :: "int \<times> (TaskListData, TaskListData) both \<Rightarrow> task_page \<Rightarrow> task_page" where
  "loadTasks run p =
     (case snd run of
        Inl e \<Rightarrow> p\<lparr>tp_error := err_text e msg_tasks_failed, tp_tasks := [], tp_total := 0, tp_loading := False\<rparr>
      | Inr (pageRes, statsRes) \<Rightarrow>
        (let p = p\<lparr>tp_error := [], tp_loading := False\<rparr>;
             p = (if res_code pageRes = 0
                  then p\<lparr>tp_tasks := opt_list tl_list (res_data pageRes),
                         tp_total := opt_int tl_total (res_data pageRes) 0,
                         tp_page := opt_int tl_page (res_data pageRes) (fst run)\<rparr>
                  else p)
         in if res_code statsRes = 0 then p\<lparr>tp_allTasks := opt_list tl_list (res_data statsRes)\<rparr> else p))"

definition tasks_loadAgents :: "api_exn + AgentInfo list ApiResponse \<Rightarrow> task_page \<Rightarrow> task_page" where
  "tasks_loadAgents answer p =
     (case answer of
        Inl e \<Rightarrow> p\<lparr>tp_agents := []\<rparr>
      | Inr res \<Rightarrow>
        (let agents = (if res_code res = 0 then opt_list id (res_data res) else [])
         in p\<lparr>tp_agents := agents, tp_fm := choose_agent agents (tp_fm p)\<rparr>))"

definition view_of_param :: "jstring option \<Rightarrow> task_view" where
  "view_of_param v = (if v = Some (js ''schedules'') then SchedulesView else TasksView)"

record task_stats =
  st_total :: int
  st_running :: nat
  st_done :: nat
  st_failed :: nat

definition stats :: "task_page \<Rightarrow> task_stats" where
  "stats p =
     \<lparr>st_total = tp_total p,
      st_running = length (filter (\<lambda>t. t_status t \<ge> 1 \<and> t_status t \<le> 3) (tp_allTasks p)),
      st_done = length (filter (\<lambda>t. t_status t = 4) (tp_allTasks p)),
      st_failed = length (filter (\<lambda>t. t_status t = 5 \<or> t_status t = 6) (tp_allTasks p))\<rparr>"

definition totalPages :: "task_page \<Rightarrow> int" where
  "totalPages p = max 1 \<lceil>rat_of_int (tp_total p) / rat_of_int pageSize\<rceil>"

text \<open>The two paging buttons: the page they load, if they are enabled.\<close>

definition prev_page :: "task_page \<Rightarrow> int option" where
  "prev_page p = (if tp_page p \<le> 1 then None else Some (tp_page p - 1))"

definition next_page :: "task_page \<Rightarrow> int option" where
  "next_page p = (if tp_page p \<ge> totalPages p then None else Some (tp_page p + 1))"

subsection \<open>Creating\<close>

definition alert_text :: "api_exn \<Rightarrow> jstring \<Rightarrow> jstring" where
  "alert_text e fallback = or_str (opt_str (exn_message e)) fallback"

text \<open>The answer of a creation, with a refusal turned into the error the handlers throw.\<close>

definition created :: "jstring \<Rightarrow> api_exn + jstring ApiResponse \<Rightarrow> api_exn + jstring" where
  "created failed answer =
     (case answer of
        Inl e \<Rightarrow> Inl e
      | Inr res \<Rightarrow>
        if res_code res \<noteq> 0 then Inl (mk_error (or_str (opt_str (res_message res)) failed))
        else Inr (opt_str (res_data res)))"

definition tasks_handleContinuousSubmit :: "api_exn + jstring ApiResponse \<Rightarrow> task_page \<Rightarrow> task_page" where
  "tasks_handleContinuousSubmit answer p =
     (if continuous_payload (tp_fm p) = None then p
      else
        (let done = p\<lparr>tp_fm := (tp_fm p)\<lparr>fm_submitting := False\<rparr>\<rparr>
         in case created msg_create_continuous_failed answer of
              Inl e \<Rightarrow> done\<lparr>tp_alerts := tp_alerts p @ [alert_text e msg_create_continuous_failed]\<rparr>
            | Inr tid \<Rightarrow>
              done\<lparr>tp_showCreate := False,
                   tp_nav := tp_nav p @ (if tid = [] then [] else [continuous_url tid])\<rparr>))"

definition submitCreate ::
  "(api_exn + jstring ApiResponse) \<times> (TaskListData, TaskListData) both \<Rightarrow> task_page \<Rightarrow> task_page" where
  "submitCreate outcome p =
     (if task_payload (tp_fm p) = None then p
      else
        (case created msg_create_failed (fst outcome) of
           Inl e \<Rightarrow>
             p\<lparr>tp_alerts := tp_alerts p @ [alert_text e msg_create_failed],
               tp_fm := (tp_fm p)\<lparr>fm_submitting := False\<rparr>\<rparr>
         | Inr tid \<Rightarrow>
           (let p1 = p\<lparr>tp_showCreate := False, tp_fm := (reset_form (tp_fm p))\<lparr>fm_submitting := False\<rparr>\<rparr>;
                p2 = loadTasks (1, snd outcome) p1
            in if tid = [] then p2
               else p2\<lparr>tp_nav := tp_nav p2 @ [result_url tid], tp_poller := Some tid\<rparr>)))"

definition tasks_handleNaturalLanguageCreated :: "jstring \<Rightarrow> NaturalLanguageTaskPlan \<Rightarrow> task_page \<Rightarrow> task_page" where
  "tasks_handleNaturalLanguageCreated tid plan p =
     p\<lparr>tp_showCreate := False,
       tp_nav := tp_nav p @ [if pl_mode plan = Continuous then continuous_url tid else result_url tid]\<rparr>"

text \<open>
  Deleting asks first; both handlers have no \<open>catch\<close>, so that a rejected request ends them before
  the list is loaded again.
\<close>

definition removeTask ::
  "bool \<Rightarrow> (api_exn + unit) \<times> (TaskListData, TaskListData) both \<Rightarrow> task_page \<Rightarrow> task_page" where
  "removeTask confirmed outcome p =
     (if \<not> confirmed then p
      else case fst outcome of Inl e \<Rightarrow> p | Inr _ \<Rightarrow> loadTasks (tp_page p, snd outcome) p)"

definition retry :: "(api_exn + unit) \<times> (TaskListData, TaskListData) both \<Rightarrow> task_page \<Rightarrow> task_page" where
  "retry outcome p = (case fst outcome of Inl e \<Rightarrow> p | Inr _ \<Rightarrow> loadTasks (1, snd outcome) p)"

section \<open>The home page\<close>

record home_page =
  hp_tasks :: "HotmethodTask list"
  hp_agents :: "AgentInfo list"
  hp_loading :: bool
  hp_showCreate :: bool
  hp_fm :: task_form
  hp_nav :: "jstring list"
  hp_alerts :: "jstring list"
  hp_poller :: "jstring option"

definition home_initial :: home_page where
  "home_initial =
     \<lparr>hp_tasks = [], hp_agents = [], hp_loading = True, hp_showCreate = False, hp_fm = form_initial,
      hp_nav = [], hp_alerts = [], hp_poller = None\<rparr>"

definition fetchData :: "(TaskListData, AgentInfo list) both \<Rightarrow> home_page \<Rightarrow> home_page" where
  "fetchData outcome p =
     (case outcome of
        Inl e \<Rightarrow> p\<lparr>hp_loading := False\<rparr>
      | Inr (taskRes, agentRes) \<Rightarrow>
        (let p = p\<lparr>hp_loading := False\<rparr>;
             p = (if res_code taskRes = 0 then p\<lparr>hp_tasks := opt_list tl_list (res_data taskRes)\<rparr> else p)
         in if res_code agentRes = 0
            then p\<lparr>hp_agents := opt_list id (res_data agentRes),
                   hp_fm := choose_agent (opt_list id (res_data agentRes)) (hp_fm p)\<rparr>
            else p))"

definition recentTasks :: "home_page \<Rightarrow> HotmethodTask list" where
  "recentTasks p = take 3 (hp_tasks p)"

definition sample_agent :: "AgentInfo \<Rightarrow> home_page \<Rightarrow> home_page" where
  "sample_agent a p =
     (if \<not> ag_online a then p else p\<lparr>hp_fm := set_target_ip (ag_ip_addr a) (hp_fm p), hp_showCreate := True\<rparr>)"

definition home_handleContinuousSubmit :: "api_exn + jstring ApiResponse \<Rightarrow> home_page \<Rightarrow> home_page" where
  "home_handleContinuousSubmit answer p =
     (if continuous_payload (hp_fm p) = None then p
      else
        (let done = p\<lparr>hp_fm := (hp_fm p)\<lparr>fm_submitting := False\<rparr>\<rparr>
         in case created msg_create_continuous_failed answer of
              Inl e \<Rightarrow> done\<lparr>hp_alerts := hp_alerts p @ [alert_text e msg_create_continuous_failed]\<rparr>
            | Inr tid \<Rightarrow>
              done\<lparr>hp_showCreate := False,
                   hp_nav := hp_nav p @ (if tid = [] then [] else [continuous_url tid])\<rparr>))"

text \<open>The list is fetched again before the navigation, and its rejection is caught as well.\<close>

definition submitTask ::
  "(api_exn + jstring ApiResponse) \<times> (api_exn + TaskListData ApiResponse) \<Rightarrow> home_page \<Rightarrow> home_page" where
  "submitTask outcome p =
     (if task_payload (hp_fm p) = None then p
      else
        (let done = p\<lparr>hp_fm := (hp_fm p)\<lparr>fm_submitting := False\<rparr>\<rparr>
         in case created msg_create_failed (fst outcome) of
              Inl e \<Rightarrow> done\<lparr>hp_alerts := hp_alerts p @ [alert_text e msg_create_failed]\<rparr>
            | Inr tid \<Rightarrow>
              (let p1 = done\<lparr>hp_showCreate := False\<rparr>
               in case snd outcome of
                    Inl e \<Rightarrow> p1\<lparr>hp_alerts := hp_alerts p @ [alert_text e msg_create_failed]\<rparr>
                  | Inr taskRes \<Rightarrow>
                    (let p2 = (if res_code taskRes = 0 then p1\<lparr>hp_tasks := opt_list tl_list (res_data taskRes)\<rparr> else p1)
                     in if tid = [] then p2
                        else p2\<lparr>hp_nav := hp_nav p @ [result_url tid], hp_poller := Some tid\<rparr>))))"

definition home_handleNaturalLanguageCreated :: "jstring \<Rightarrow> NaturalLanguageTaskPlan \<Rightarrow> home_page \<Rightarrow> home_page" where
  "home_handleNaturalLanguageCreated tid plan p =
     p\<lparr>hp_showCreate := False,
       hp_nav := hp_nav p @ [if pl_mode plan = Continuous then continuous_url tid else result_url tid]\<rparr>"

section \<open>Properties\<close>

interpretation task_list: guarded_handler loadTasks tp_loading tp_error "\<lambda>_. True" "\<lambda>run _. isl (snd run)"
  by unfold_locales
    (auto simp: loadTasks_def Let_def err_text_def msg_tasks_failed_def split: sum.split prod.split)

text \<open>
  However often the task list is loaded, with whatever outcomes, the page is not loading
  afterwards; it shows an error exactly when the last load failed, and then it shows no tasks, so
  that stale rows never stand below an error.
\<close>

theorem task_list_settles:
  assumes "p = fold loadTasks (runs @ [run]) q"
  shows "\<not> tp_loading p \<and> (tp_error p \<noteq> [] \<longleftrightarrow> isl (snd run)) \<and>
    (tp_error p \<noteq> [] \<longrightarrow> tp_tasks p = [] \<and> tp_total p = 0 \<and> totalPages p = 1)"
proof -
  have "tp_tasks p = [] \<and> tp_total p = 0" if "isl (snd run)"
    using that assms by (cases "snd run") (simp_all add: loadTasks_def)
  then show ?thesis
    using task_list.runs_report [of runs run q] assms by (auto simp: totalPages_def)
qed

theorem task_list_settles_witness:
  "tp_error (fold loadTasks ([] @ [(1, Inl (mk_error []))]) task_page_initial) \<noteq> []"
  using task_list_settles [OF refl, of "[]" "(1, Inl (mk_error []))" task_page_initial] by simp

text \<open>
  C39: the pages cover the tasks exactly. All tasks fit on the pages the page offers, the last
  page is needed, and from a page in range both buttons lead to pages in range.
\<close>

theorem task_paging:
  assumes "0 \<le> tp_total p"
  shows "tp_total p \<le> totalPages p * pageSize \<and>
    (0 < tp_total p \<longrightarrow> (totalPages p - 1) * pageSize < tp_total p) \<and>
    (1 \<le> tp_page p \<and> tp_page p \<le> totalPages p \<longrightarrow>
       (\<forall>n \<in> set_option (prev_page p) \<union> set_option (next_page p). 1 \<le> n \<and> n \<le> totalPages p))"
proof -
  let ?c = "\<lceil>rat_of_int (tp_total p) / 20\<rceil>"
  have c: "rat_of_int (tp_total p) / 20 \<le> of_int ?c" "of_int ?c - 1 < rat_of_int (tp_total p) / 20"
    using ceiling_correct [of "rat_of_int (tp_total p) / 20"] by blast+
  have "rat_of_int (?c * 20) = of_int ?c * 20" "rat_of_int ((?c - 1) * 20) = of_int ?c * 20 - 20"
    by (simp_all add: left_diff_distrib)
  with c have "rat_of_int (tp_total p) \<le> rat_of_int (?c * 20)" "rat_of_int ((?c - 1) * 20) < rat_of_int (tp_total p)"
    by linarith+
  then have le: "tp_total p \<le> ?c * 20" and lt: "(?c - 1) * 20 < tp_total p"
    by (simp_all only: of_int_le_iff of_int_less_iff)
  have "0 < ?c" if "0 < tp_total p"
    using that le by simp
  with le lt assms show ?thesis
    by (auto simp: totalPages_def pageSize_def max_def prev_page_def next_page_def split: if_splits)
qed

theorem task_paging_witness:
  "tp_total (task_page_initial\<lparr>tp_total := 41\<rparr>) \<le> totalPages (task_page_initial\<lparr>tp_total := 41\<rparr>) * pageSize \<and>
   (totalPages (task_page_initial\<lparr>tp_total := 41\<rparr>) - 1) * pageSize < 41"
  using task_paging [of "task_page_initial\<lparr>tp_total := 41\<rparr>"] by simp

text \<open>
  The three counters above the list count every task of the states 1 to 6 once: they add
  up to the number of those tasks, so no task is counted twice, and only new tasks (state 0) are
  in none of them.
\<close>

theorem task_stats_partition:
  "st_running (stats p) + st_done (stats p) + st_failed (stats p) =
     length (filter (\<lambda>t. 1 \<le> t_status t \<and> t_status t \<le> 6) (tp_allTasks p))"
proof -
  have "length (filter (\<lambda>t. t_status t \<ge> 1 \<and> t_status t \<le> 3) ts) + length (filter (\<lambda>t. t_status t = 4) ts) +
      length (filter (\<lambda>t. t_status t = 5 \<or> t_status t = 6) ts) =
      length (filter (\<lambda>t. 1 \<le> t_status t \<and> t_status t \<le> 6) ts)" for ts :: "HotmethodTask list"
    by (induction ts) auto
  then show ?thesis
    by (simp add: stats_def)
qed

lemma created_Inl: "created f answer = Inl e \<Longrightarrow> f \<noteq> [] \<Longrightarrow> isl answer \<or> alert_text e f \<noteq> []"
  by (auto simp: created_def split: sum.splits if_splits) (auto simp: alert_text_def)

lemma alert_text_nonempty: "f \<noteq> [] \<Longrightarrow> alert_text e f \<noteq> []"
  by (simp add: alert_text_def)

lemma loadTasks_frame [simp]:
  "tp_showCreate (loadTasks run p) = tp_showCreate p" "tp_fm (loadTasks run p) = tp_fm p"
  "tp_nav (loadTasks run p) = tp_nav p" "tp_alerts (loadTasks run p) = tp_alerts p"
  "tp_poller (loadTasks run p) = tp_poller p"
  by (auto simp: loadTasks_def Let_def split: sum.split prod.split)

text \<open>
  C34: submitting the form of the task list, on every branch. With an incomplete form
  nothing happens. Otherwise the submit flag is off at the end, and either the creation was
  refused, and then there is one alert with a text, the dialog stays open and what was typed is
  kept; or it succeeded, and then, whether or not the list could be loaded again, the dialog is
  closed, the form is reset except for its target, there is no alert, and for the new task the
  page opens its result and starts its poller.
\<close>

theorem submitCreate_outcome:
  "(task_payload (tp_fm p) = None \<longrightarrow> submitCreate outcome p = p) \<and>
   (task_payload (tp_fm p) \<noteq> None \<longrightarrow>
     (let q = submitCreate outcome p
      in \<not> fm_submitting (tp_fm q) \<and>
         (case created msg_create_failed (fst outcome) of
            Inl e \<Rightarrow>
              (\<exists>a. a \<noteq> [] \<and> tp_alerts q = tp_alerts p @ [a]) \<and> tp_showCreate q = tp_showCreate p \<and>
              fm_form (tp_fm q) = fm_form (tp_fm p) \<and> tp_nav q = tp_nav p \<and> tp_poller q = tp_poller p
          | Inr tid \<Rightarrow>
              tp_alerts q = tp_alerts p \<and> \<not> tp_showCreate q \<and>
              fm_form (tp_fm q) = defaultForm\<lparr>ct_target_ip := ct_target_ip (fm_form (tp_fm p))\<rparr> \<and>
              (tid \<noteq> [] \<longrightarrow> tp_nav q = tp_nav p @ [result_url tid] \<and> tp_poller q = Some tid))))"
  by (simp add: submitCreate_def Let_def alert_text_nonempty msg_create_failed_def reset_form_def onChange_def
      sync_continuous_def split: sum.split)

definition sample_page :: task_page where
  "sample_page = task_page_initial\<lparr>tp_fm := sample_form, tp_showCreate := True\<rparr>"

theorem submitCreate_outcome_witness:
  "\<not> tp_showCreate (submitCreate (Inr \<lparr>res_code = 0, res_data = Some [55], res_message = None\<rparr>, Inl (mk_error [])) sample_page) \<and>
   tp_poller (submitCreate (Inr \<lparr>res_code = 0, res_data = Some [55], res_message = None\<rparr>, Inl (mk_error [])) sample_page) = Some [55]"
  using submitCreate_outcome [of sample_page "(Inr \<lparr>res_code = 0, res_data = Some [55], res_message = None\<rparr>, Inl (mk_error []))"]
  by (simp add: sample_page_def sample_form_submits(4) created_def Let_def)

text \<open>
  On the home page a task that was created can be reported as failed. When the
  request for the list that follows the creation is rejected, the handler shows the failure alert,
  closes the dialog and neither opens the new task nor polls it.
\<close>

theorem home_refresh_failure:
  assumes "task_payload (hp_fm p) \<noteq> None" and "tid \<noteq> []"
    and "q = submitTask (Inr \<lparr>res_code = 0, res_data = Some tid, res_message = None\<rparr>, Inl e) p"
  shows "hp_alerts q = hp_alerts p @ [alert_text e msg_create_failed] \<and> hp_nav q = hp_nav p \<and>
    hp_poller q = hp_poller p \<and> \<not> hp_showCreate q"
  using assms by (simp add: submitTask_def created_def Let_def)

theorem home_refresh_failure_witness:
  "hp_alerts (submitTask (Inr \<lparr>res_code = 0, res_data = Some [55], res_message = None\<rparr>, Inl (mk_error []))
     (home_initial\<lparr>hp_fm := sample_form\<rparr>)) = [msg_create_failed]"
proof -
  have "task_payload (hp_fm (home_initial\<lparr>hp_fm := sample_form\<rparr>)) \<noteq> None"
    by (simp add: sample_form_submits(4))
  from home_refresh_failure [OF this _ refl, of "[55]" "mk_error []"] show ?thesis
    by (simp add: home_initial_def alert_text_def mk_error_def)
qed

end
