(* ===== verification/Schedules.thy ===== *)
theory Schedules
  imports Domain
begin

text \<open>
  The panel of scheduled tasks (\<open>src/web/src/components/ScheduleTasksPanel.tsx\<close>): its form, the
  operations that load, create and delete scheduled tasks, and its counters. The list is loaded
  again inside the creation and the deletion, as in the source.
\<close>

section \<open>State\<close>

record schedule_panel =
  sc_agents :: "AgentInfo list"
  sc_tasks :: "HotmethodTask list"
  sc_form :: CreateScheduleTaskParams
  sc_loading :: bool
  sc_submitting :: bool
  sc_error :: jstring
  sc_message :: jstring

definition schedule_defaultForm :: CreateScheduleTaskParams where
  "schedule_defaultForm =
     \<lparr>cs_task_name = [], cs_type = 0, cs_profiler_type = 0, cs_target_ip = [], cs_pid = Fin 0,
      cs_duration = Fin 30, cs_hz = Some (Fin 99), cs_callgraph = Some (js ''dwarf''),
      cs_cron_expr = js ''0 * * * *''\<rparr>"

definition schedule_initial :: "AgentInfo list \<Rightarrow> schedule_panel" where
  "schedule_initial agents =
     \<lparr>sc_agents = agents, sc_tasks = [], sc_form = schedule_defaultForm, sc_loading = True,
      sc_submitting = False, sc_error = [], sc_message = []\<rparr>"

definition msg_schedules_failed :: jstring where \<comment> \<open>loading the scheduled tasks failed\<close>
  [msg_defs]: "msg_schedules_failed = [0x5B9A, 0x65F6, 0x4EFB, 0x52A1, 0x52A0, 0x8F7D, 0x5931, 0x8D25]"
definition msg_schedule_create_failed :: jstring where \<comment> \<open>creating the scheduled task failed\<close>
  [msg_defs]: "msg_schedule_create_failed = [0x521B, 0x5EFA, 0x5B9A, 0x65F6, 0x4EFB, 0x52A1, 0x5931, 0x8D25]"
definition msg_schedule_delete_failed :: jstring where \<comment> \<open>deleting the scheduled task failed\<close>
  [msg_defs]: "msg_schedule_delete_failed = [0x5220, 0x9664, 0x5B9A, 0x65F6, 0x4EFB, 0x52A1, 0x5931, 0x8D25]"
definition msg_schedule_created :: jstring where \<comment> \<open>the scheduled task was created\<close>
  [msg_defs]: "msg_schedule_created = [0x5B9A, 0x65F6, 0x4EFB, 0x52A1, 0x5DF2, 0x521B, 0x5EFA]"
definition msg_schedule_deleted :: jstring where \<comment> \<open>the scheduled task was deleted\<close>
  [msg_defs]: "msg_schedule_deleted = [0x5B9A, 0x65F6, 0x4EFB, 0x52A1, 0x5DF2, 0x5220, 0x9664]"

section \<open>Operations\<close>

type_synonym schedules_answer = "api_exn + HotmethodTask list ApiResponse"

definition schedule_load :: "schedules_answer \<Rightarrow> schedule_panel \<Rightarrow> schedule_panel" where
  "schedule_load answer p =
     (let p = p\<lparr>sc_loading := False, sc_error := []\<rparr>
      in case answer of
           Inl e \<Rightarrow> p\<lparr>sc_error := err_text e msg_schedules_failed\<rparr>
         | Inr res \<Rightarrow>
           if res_code res = 0 then p\<lparr>sc_tasks := (case res_data res of None \<Rightarrow> [] | Some ts \<Rightarrow> ts)\<rparr> else p)"

text \<open>The effect on the agents: the first online one becomes the target when none is chosen.\<close>

definition schedule_agents :: "AgentInfo list \<Rightarrow> schedule_panel \<Rightarrow> schedule_panel" where
  "schedule_agents agents p =
     (let p = p\<lparr>sc_agents := agents\<rparr>
      in case List.find ag_online agents of
           None \<Rightarrow> p
         | Some a \<Rightarrow>
           p\<lparr>sc_form := (sc_form p)\<lparr>cs_target_ip := or_str (cs_target_ip (sc_form p)) (ag_ip_addr a)\<rparr>\<rparr>)"

text \<open>The number fields take whatever \<open>Number\<close> makes of the text.\<close>

definition schedule_set_pid :: "jstring \<Rightarrow> schedule_panel \<Rightarrow> schedule_panel" where
  "schedule_set_pid v p = p\<lparr>sc_form := (sc_form p)\<lparr>cs_pid := str_number v\<rparr>\<rparr>"

definition schedule_set_duration :: "jstring \<Rightarrow> schedule_panel \<Rightarrow> schedule_panel" where
  "schedule_set_duration v p = p\<lparr>sc_form := (sc_form p)\<lparr>cs_duration := str_number v\<rparr>\<rparr>"

definition schedule_set_hz :: "jstring \<Rightarrow> schedule_panel \<Rightarrow> schedule_panel" where
  "schedule_set_hz v p = p\<lparr>sc_form := (sc_form p)\<lparr>cs_hz := Some (str_number v)\<rparr>\<rparr>"

definition schedule_canSubmit :: "schedule_panel \<Rightarrow> bool" where
  "schedule_canSubmit p \<longleftrightarrow>
     (let f = sc_form p
      in trim (cs_task_name f) \<noteq> [] \<and> cs_target_ip f \<noteq> [] \<and> num_truthy (cs_pid f) \<and>
         num_truthy (cs_duration f) \<and> trim (cs_cron_expr f) \<noteq> [] \<and> \<not> sc_submitting p)"

definition schedule_payload :: "schedule_panel \<Rightarrow> CreateScheduleTaskParams" where
  "schedule_payload p =
     (let f = sc_form p
      in f\<lparr>cs_task_name := trim (cs_task_name f),
           cs_hz := Some (num_or (case cs_hz f of None \<Rightarrow> NaN | Some x \<Rightarrow> x) (Fin 99)),
           cs_cron_expr := trim (cs_cron_expr f)\<rparr>)"

text \<open>\<open>submit\<close>: the answer to the creation (its code is not read), then that of the list.\<close>

definition schedule_submit :: "(api_exn + unit) \<times> schedules_answer \<Rightarrow> schedule_panel \<Rightarrow> schedule_panel" where
  "schedule_submit outcome p =
     (if \<not> schedule_canSubmit p then p
      else
        (let p = p\<lparr>sc_submitting := True, sc_error := [], sc_message := []\<rparr>
         in (case fst outcome of
               Inl e \<Rightarrow> p\<lparr>sc_error := err_text e msg_schedule_create_failed\<rparr>
             | Inr _ \<Rightarrow>
               schedule_load (snd outcome)
                 (p\<lparr>sc_message := msg_schedule_created,
                    sc_form := schedule_defaultForm\<lparr>cs_target_ip := cs_target_ip (sc_form p)\<rparr>\<rparr>))
            \<lparr>sc_submitting := False\<rparr>))"

definition schedule_remove :: "bool \<Rightarrow> (api_exn + unit) \<times> schedules_answer \<Rightarrow> schedule_panel \<Rightarrow> schedule_panel" where
  "schedule_remove confirmed outcome p =
     (if \<not> confirmed then p
      else
        (let p = p\<lparr>sc_error := [], sc_message := []\<rparr>
         in case fst outcome of
              Inl e \<Rightarrow> p\<lparr>sc_error := err_text e msg_schedule_delete_failed\<rparr>
            | Inr _ \<Rightarrow> schedule_load (snd outcome) (p\<lparr>sc_message := msg_schedule_deleted\<rparr>)))"

text \<open>The counters of the panel; reading a property of the parsed parameters may raise.\<close>

definition has_cron :: "HotmethodTask \<Rightarrow> js_error + bool" where
  "has_cron t =
     (case get_prop (parseTaskParams (t_request_params t)) (js ''cron_expr'') of
        Inl e \<Rightarrow> Inl e
      | Inr v \<Rightarrow> Inr (truthy v))"

fun cronCount :: "HotmethodTask list \<Rightarrow> js_error + nat" where
  "cronCount [] = Inr 0"
| "cronCount (t # ts) =
     (case has_cron t of
        Inl e \<Rightarrow> Inl e
      | Inr b \<Rightarrow> (case cronCount ts of Inl e \<Rightarrow> Inl e | Inr n \<Rightarrow> Inr (if b then Suc n else n)))"

section \<open>Properties\<close>

lemma schedule_load_error: "sc_error (schedule_load answer p) \<noteq> [] \<longleftrightarrow> isl answer"
  by (auto simp: schedule_load_def err_text_def msg_schedules_failed_def Let_def split: sum.split)

lemma schedule_load_frame [simp]:
  "\<not> sc_loading (schedule_load answer p)" "sc_form (schedule_load answer p) = sc_form p"
  "sc_message (schedule_load answer p) = sc_message p" "sc_submitting (schedule_load answer p) = sc_submitting p"
  by (auto simp: schedule_load_def Let_def split: sum.split)

interpretation schedule_list: guarded_handler schedule_load sc_loading sc_error "\<lambda>_. True" "\<lambda>answer _. isl answer"
  by unfold_locales (simp_all add: schedule_load_error)

interpretation schedule_create: guarded_handler schedule_submit sc_submitting sc_error schedule_canSubmit
  "\<lambda>outcome _. isl (fst outcome) \<or> isl (snd outcome)"
  by unfold_locales
    (auto simp: schedule_submit_def schedule_load_error err_text_def msg_schedule_create_failed_def Let_def
      split: sum.split)

text \<open>
  Submitting the schedule form. When it is refused, what was typed is kept and no
  success is announced. When it is accepted, the form is reset except for its target and the
  success is announced, even when the list cannot be loaded again. In every case the panel is
  ready for the next submission and shows an error exactly when one of the requests failed.
\<close>

theorem schedule_submit_outcome:
  assumes "schedule_canSubmit p" and "q = schedule_submit outcome p"
  shows "\<not> sc_submitting q \<and> (sc_error q \<noteq> [] \<longleftrightarrow> isl (fst outcome) \<or> isl (snd outcome)) \<and>
    (isl (fst outcome) \<longrightarrow> sc_form q = sc_form p \<and> sc_message q = []) \<and>
    (\<not> isl (fst outcome) \<longrightarrow> sc_message q = msg_schedule_created \<and>
       sc_form q = schedule_defaultForm\<lparr>cs_target_ip := cs_target_ip (sc_form p)\<rparr>)"
proof -
  have "sc_error q \<noteq> [] \<longleftrightarrow> isl (fst outcome) \<or> isl (snd outcome)"
    using assms schedule_create.reports [of p outcome] by auto
  then show ?thesis
    using assms schedule_create.settles [of p outcome]
    by (cases "fst outcome") (auto simp: schedule_submit_def Let_def)
qed

definition sample_panel :: schedule_panel where
  "sample_panel = (schedule_initial [])
     \<lparr>sc_form := schedule_defaultForm\<lparr>cs_task_name := [104], cs_target_ip := [49], cs_pid := Fin (-5)\<rparr>\<rparr>"

lemma sample_panel_submits: "schedule_canSubmit sample_panel"
  by (simp add: sample_panel_def schedule_initial_def schedule_canSubmit_def schedule_defaultForm_def trim_def
      is_ws_def num_truthy_def Let_def)

theorem schedule_submit_outcome_witness:
  "sc_message (schedule_submit (Inr (), Inl (mk_error [])) sample_panel) = msg_schedule_created \<and>
   sc_error (schedule_submit (Inr (), Inl (mk_error [])) sample_panel) \<noteq> []"
  using schedule_submit_outcome [OF sample_panel_submits refl, of "(Inr (), Inl (mk_error []))"] by simp

text \<open>
  Every schedule that is submitted has a target, and its name and its cron expression
  are not blank and carry no white space at their ends; its rate is never zero or NaN.
\<close>

theorem schedule_payload_trimmed:
  assumes "schedule_canSubmit p"
  shows "cs_target_ip (schedule_payload p) \<noteq> [] \<and>
    (\<forall>s \<in> {cs_task_name (schedule_payload p), cs_cron_expr (schedule_payload p)}. s \<noteq> [] \<and> trim s = s) \<and>
    (\<exists>hz. cs_hz (schedule_payload p) = Some hz \<and> num_truthy hz)"
  using assms by (auto simp: schedule_canSubmit_def schedule_payload_def num_or_def num_truthy_def Let_def)

theorem schedule_payload_trimmed_witness:
  "cs_cron_expr (schedule_payload sample_panel) \<noteq> []"
  using schedule_payload_trimmed [OF sample_panel_submits] by blast

text \<open>
  Unlike the task dialog, the schedule form has no range check: a negative pid
  can be submitted, and it is sent as it is.
\<close>

theorem schedule_accepts_negative_pid:
  "schedule_canSubmit sample_panel \<and> cs_pid (schedule_payload sample_panel) = Fin (-5)"
  using sample_panel_submits by (simp add: schedule_payload_def Let_def) (simp add: sample_panel_def)

lemma cronCount_isl:
  "isl (cronCount ts) \<longleftrightarrow> (\<exists>t \<in> set ts. \<exists>s. t_request_params t = JStr s \<and> json_parse s = Some Null)"
proof (induction ts)
  case (Cons t ts)
  then show ?case
    by (auto simp: has_cron_def get_prop_def parseTaskParams_nullish split: sum.split)
qed simp

lemma cronCount_raises: "has_cron t = Inl e \<Longrightarrow> \<exists>e. cronCount (ts @ t # us) = Inl e"
  by (induction ts) (auto split: sum.split)

text \<open>
  One scheduled task whose stored parameters are the text \<open>null\<close> makes the counter of
  the panel raise a TypeError while rendering, whatever the other tasks are.
\<close>

theorem schedule_counter_raises:
  assumes "t_request_params t = JStr (js ''null'')"
  shows "has_cron t = Inl TypeError \<and> (\<exists>e. cronCount (ts @ t # us) = Inl e)"
proof -
  have "parseTaskParams (JStr (js ''null'')) = Null"
    using json_parse_null by (simp add: parseTaskParams_def del: js_Cons) (simp add: js_def)
  then have "has_cron t = Inl TypeError"
    using assms by (simp add: has_cron_def get_prop_def)
  with cronCount_raises show ?thesis by blast
qed

definition null_task :: HotmethodTask where
  "null_task = \<lparr>t_id = 1, t_tid = [49], t_name = [], t_type = 0, t_profiler_type = 0, t_target_ip = [],
     t_request_params = JStr (js ''null''), t_status = 4, t_analysis_status = 2, t_status_info = [], t_uid = [],
     t_user_name = [], t_create_time = [], t_begin_time = None, t_end_time = None, t_created_at = None, t_updated_at = None\<rparr>"

theorem schedule_counter_raises_witness: "\<exists>e. cronCount [null_task] = Inl e"
  using schedule_counter_raises [of null_task "[]" "[]"] by (simp add: null_task_def)

end
