(* ===== verification/Group_Page.thy ===== *)
theory Group_Page
  imports Domain
begin

text \<open>
  The page of user groups (\<open>src/web/src/pages/Groups.tsx\<close>): the list of groups, the selected one and
  a cache of member lists by group. The cache is an object keyed by group id, modelled by the
  association list whose laws the Prelude proves. Every operation is a function of the answers to
  its requests, in the order the source sends them.
\<close>

section \<open>State\<close>

record groups_page =
  gp_groups :: "GroupInfo list"
  gp_members :: "(int \<times> GroupMemberInfo list) list"
  gp_selectedGid :: "int option"
  gp_groupName :: jstring
  gp_memberUid :: jstring
  gp_loading :: bool
  gp_submitting :: bool
  gp_error :: jstring
  gp_message :: jstring

definition groups_initial :: groups_page where
  "groups_initial =
     \<lparr>gp_groups = [], gp_members = [], gp_selectedGid = None, gp_groupName = [], gp_memberUid = [],
      gp_loading = True, gp_submitting = False, gp_error = [], gp_message = []\<rparr>"

definition msg_groups_failed :: jstring where \<comment> \<open>loading the groups failed\<close>
  [msg_defs]: "msg_groups_failed = [0x7528, 0x6237, 0x7EC4, 0x52A0, 0x8F7D, 0x5931, 0x8D25]"
definition msg_members_failed :: jstring where \<comment> \<open>loading the members failed\<close>
  [msg_defs]: "msg_members_failed = [0x6210, 0x5458, 0x5217, 0x8868, 0x52A0, 0x8F7D, 0x5931, 0x8D25]"
definition msg_group_create_failed :: jstring where \<comment> \<open>creating the group failed\<close>
  [msg_defs]: "msg_group_create_failed = [0x521B, 0x5EFA, 0x7528, 0x6237, 0x7EC4, 0x5931, 0x8D25]"
definition msg_member_add_failed :: jstring where \<comment> \<open>adding the member failed\<close>
  [msg_defs]: "msg_member_add_failed = [0x6DFB, 0x52A0, 0x6210, 0x5458, 0x5931, 0x8D25]"
definition msg_member_remove_failed :: jstring where \<comment> \<open>removing the member failed\<close>
  [msg_defs]: "msg_member_remove_failed = [0x79FB, 0x9664, 0x6210, 0x5458, 0x5931, 0x8D25]"
definition msg_group_delete_failed :: jstring where \<comment> \<open>deleting the group failed\<close>
  [msg_defs]: "msg_group_delete_failed = [0x5220, 0x9664, 0x7528, 0x6237, 0x7EC4, 0x5931, 0x8D25]"
definition msg_group_created :: jstring where \<comment> \<open>the group was created\<close>
  [msg_defs]: "msg_group_created = [0x7528, 0x6237, 0x7EC4, 0x5DF2, 0x521B, 0x5EFA]"
definition msg_member_added :: jstring where \<comment> \<open>the member was added\<close>
  [msg_defs]: "msg_member_added = [0x6210, 0x5458, 0x5DF2, 0x6DFB, 0x52A0]"
definition msg_member_removed :: jstring where \<comment> \<open>the member was removed\<close>
  [msg_defs]: "msg_member_removed = [0x6210, 0x5458, 0x5DF2, 0x79FB, 0x9664]"
definition msg_group_deleted :: jstring where \<comment> \<open>the group was deleted\<close>
  [msg_defs]: "msg_group_deleted = [0x7528, 0x6237, 0x7EC4, 0x5DF2, 0x5220, 0x9664]"

type_synonym members_api = "int \<Rightarrow> api_exn + GroupMemberInfo list ApiResponse"

section \<open>Operations\<close>

definition selectedGroup :: "groups_page \<Rightarrow> GroupInfo option" where
  "selectedGroup p =
     (case List.find (\<lambda>g. Some (g_gid g) = gp_selectedGid p) (gp_groups p) of
        Some g \<Rightarrow> Some g
      | None \<Rightarrow> (case gp_groups p of [] \<Rightarrow> None | g # _ \<Rightarrow> Some g))"

text \<open>\<open>loadMembers\<close>: rejects when the request is rejected, ignores a refusal.\<close>

definition loadMembers :: "members_api \<Rightarrow> int \<Rightarrow> groups_page \<Rightarrow> api_exn + groups_page" where
  "loadMembers getGroupMembers gid p =
     (case getGroupMembers gid of
        Inl e \<Rightarrow> Inl e
      | Inr res \<Rightarrow>
        Inr (if res_code res = 0 then p\<lparr>gp_members := alist_put gid (opt_items (res_data res)) (gp_members p)\<rparr> else p))"

text \<open>The group that is selected after a load: the selected one if it is still there.\<close>

definition nextGid :: "int option \<Rightarrow> GroupInfo list \<Rightarrow> int option" where
  "nextGid selected groups =
     (case selected of
        Some g \<Rightarrow>
          if g \<noteq> 0 \<and> list_ex (\<lambda>x. g_gid x = g) groups then Some g
          else (case groups of [] \<Rightarrow> None | x # _ \<Rightarrow> if g_gid x = 0 then None else Some (g_gid x))
      | None \<Rightarrow> (case groups of [] \<Rightarrow> None | x # _ \<Rightarrow> if g_gid x = 0 then None else Some (g_gid x)))"

definition loadGroups :: "(api_exn + GroupInfo list ApiResponse) \<times> members_api \<Rightarrow> groups_page \<Rightarrow> groups_page" where
  "loadGroups api p =
     (let p = p\<lparr>gp_error := [], gp_loading := False\<rparr>;
          fail = (\<lambda>e p. p\<lparr>gp_error := err_text e msg_groups_failed, gp_groups := []\<rparr>)
      in case fst api of
           Inl e \<Rightarrow> fail e p
         | Inr res \<Rightarrow>
           (let groups = (if res_code res = 0 then opt_items (res_data res) else []);
                next = nextGid (gp_selectedGid p) groups;
                p = p\<lparr>gp_groups := groups, gp_selectedGid := next\<rparr>
            in case next of
                 None \<Rightarrow> p
               | Some gid \<Rightarrow> (case loadMembers (snd api) gid p of Inl e \<Rightarrow> fail e p | Inr q \<Rightarrow> q)))"

text \<open>\<open>selectGroup\<close>; \<open>cached\<close> is the cache of the render that made the handler.\<close>

definition selectGroup :: "members_api \<Rightarrow> (int \<times> GroupMemberInfo list) list \<Rightarrow> int \<Rightarrow> groups_page \<Rightarrow> groups_page" where
  "selectGroup getGroupMembers cached gid p =
     (let p = p\<lparr>gp_selectedGid := Some gid, gp_message := [], gp_error := []\<rparr>
      in if map_of cached gid \<noteq> None then p
         else (case loadMembers getGroupMembers gid p of
                 Inl e \<Rightarrow> p\<lparr>gp_error := err_text e msg_members_failed\<rparr>
               | Inr q \<Rightarrow> q))"

text \<open>What the requests of \<open>submitGroup\<close> answer: the creation, the list, the members.\<close>

record group_outcome =
  go_create :: "api_exn + GroupInfo ApiResponse"
  go_groups :: "api_exn + GroupInfo list ApiResponse"
  go_members :: members_api

definition submitGroup :: "group_outcome \<Rightarrow> groups_page \<Rightarrow> groups_page" where
  "submitGroup out p =
     (if trim (gp_groupName p) = [] then p
      else
        (let p1 = p\<lparr>gp_submitting := True, gp_error := [], gp_message := []\<rparr>
         in (case go_create out of
               Inl e \<Rightarrow> p1\<lparr>gp_error := err_text e msg_group_create_failed\<rparr>
             | Inr res \<Rightarrow>
               (let p2 = loadGroups (go_groups out, go_members out)
                           (p1\<lparr>gp_groupName := [], gp_message := msg_group_created\<rparr>)
                in case res_data res of
                     None \<Rightarrow> p2
                   | Some g \<Rightarrow>
                     if g_gid g = 0 then p2
                     else selectGroup (go_members out) (gp_members p) (g_gid g) p2))
            \<lparr>gp_submitting := False\<rparr>))"

definition submitMember :: "(api_exn + unit) \<times> members_api \<Rightarrow> groups_page \<Rightarrow> groups_page" where
  "submitMember out p =
     (case selectedGroup p of
        None \<Rightarrow> p
      | Some g \<Rightarrow>
        if trim (gp_memberUid p) = [] then p
        else
          (let p1 = p\<lparr>gp_submitting := True, gp_error := [], gp_message := []\<rparr>
           in (case fst out of
                 Inl e \<Rightarrow> p1\<lparr>gp_error := err_text e msg_member_add_failed\<rparr>
               | Inr _ \<Rightarrow>
                 (let p2 = p1\<lparr>gp_memberUid := [], gp_message := msg_member_added\<rparr>
                  in case loadMembers (snd out) (g_gid g) p2 of
                       Inl e \<Rightarrow> p2\<lparr>gp_error := err_text e msg_member_add_failed\<rparr>
                     | Inr q \<Rightarrow> q))
              \<lparr>gp_submitting := False\<rparr>))"

definition removeMember_op :: "bool \<Rightarrow> (api_exn + unit) \<times> members_api \<Rightarrow> groups_page \<Rightarrow> groups_page" where
  "removeMember_op confirmed out p =
     (case selectedGroup p of
        None \<Rightarrow> p
      | Some g \<Rightarrow>
        if \<not> confirmed then p
        else
          (let p1 = p\<lparr>gp_error := [], gp_message := []\<rparr>
           in case fst out of
                Inl e \<Rightarrow> p1\<lparr>gp_error := err_text e msg_member_remove_failed\<rparr>
              | Inr _ \<Rightarrow>
                (let p2 = p1\<lparr>gp_message := msg_member_removed\<rparr>
                 in case loadMembers (snd out) (g_gid g) p2 of
                      Inl e \<Rightarrow> p2\<lparr>gp_error := err_text e msg_member_remove_failed\<rparr>
                    | Inr q \<Rightarrow> q)))"

definition removeGroup ::
  "bool \<Rightarrow> (api_exn + unit) \<times> (api_exn + GroupInfo list ApiResponse) \<times> members_api \<Rightarrow> GroupInfo \<Rightarrow> groups_page \<Rightarrow> groups_page" where
  "removeGroup confirmed out g p =
     (if \<not> confirmed then p
      else
        (let p1 = p\<lparr>gp_error := [], gp_message := []\<rparr>
         in case fst out of
              Inl e \<Rightarrow> p1\<lparr>gp_error := err_text e msg_group_delete_failed\<rparr>
            | Inr _ \<Rightarrow>
              loadGroups (snd out)
                (p1\<lparr>gp_message := msg_group_deleted, gp_members := alist_del (g_gid g) (gp_members p1)\<rparr>)))"

definition currentMembers :: "groups_page \<Rightarrow> GroupMemberInfo list" where
  "currentMembers p =
     (case selectedGroup p of
        None \<Rightarrow> []
      | Some g \<Rightarrow> opt_items (map_of (gp_members p) (g_gid g)))"

section \<open>Properties\<close>

lemma err_messages_nonempty [simp]:
  "err_text e msg_groups_failed \<noteq> []" "err_text e msg_members_failed \<noteq> []"
  "err_text e msg_group_create_failed \<noteq> []" "err_text e msg_member_add_failed \<noteq> []"
  "err_text e msg_member_remove_failed \<noteq> []" "err_text e msg_group_delete_failed \<noteq> []"
  by (simp_all add: err_text_nonempty msg_defs)

lemma nextGid_listed: "nextGid sel gs = Some g \<Longrightarrow> \<exists>x \<in> set gs. g_gid x = g"
  by (auto simp: nextGid_def list_ex_iff split: option.splits list.splits if_splits)

lemma nextGid_None: "nextGid sel gs = None \<Longrightarrow> gs = [] \<or> g_gid (hd gs) = 0"
  by (auto simp: nextGid_def split: option.splits list.splits if_splits)

lemma loadMembers_frame:
  "loadMembers api gid p = Inr q \<Longrightarrow>
     gp_groups q = gp_groups p \<and> gp_selectedGid q = gp_selectedGid p \<and> gp_error q = gp_error p \<and>
     gp_loading q = gp_loading p \<and> gp_message q = gp_message p \<and> gp_submitting q = gp_submitting p"
  by (auto simp: loadMembers_def split: sum.splits if_splits)

text \<open>
  After a load of the groups, the page shows the group it was asked to show. The selected
  group is one of the list; it is the one selected before whenever that one is still listed; and
  when the server's ids are not zero, no group is selected only if there is none.
\<close>

theorem groups_selection:
  assumes "q = loadGroups (Inr res, api) p" and "res_code res = 0" and "gp_error q = []"
    and "\<forall>g \<in> set (opt_items (res_data res)). g_gid g \<noteq> 0"
  shows "gp_groups q = opt_items (res_data res) \<and>
    (gp_groups q = [] \<longleftrightarrow> selectedGroup q = None) \<and>
    (\<forall>g. selectedGroup q = Some g \<longrightarrow> g \<in> set (gp_groups q) \<and> gp_selectedGid q = Some (g_gid g)) \<and>
    (\<forall>g \<in> set (gp_groups q). gp_selectedGid p = Some (g_gid g) \<longrightarrow> gp_selectedGid q = gp_selectedGid p)"
proof -
  let ?gs = "opt_items (res_data res)"
  let ?next = "nextGid (gp_selectedGid p) ?gs"
  have q: "gp_groups q = ?gs" "gp_selectedGid q = ?next"
    using assms(1-3)
    by (auto simp: loadGroups_def Let_def split: option.splits sum.splits dest!: loadMembers_frame)
  have sel: "g \<in> set ?gs \<and> ?next = Some (g_gid g)" if s: "selectedGroup q = Some g" for g
  proof (cases "List.find (\<lambda>g. Some (g_gid g) = ?next) ?gs")
    case (Some h)
    with s q show ?thesis
      by (auto simp: selectedGroup_def dest: find_Some_set)
  next
    case None
    with s q obtain gs where gs: "?gs = g # gs"
      by (auto simp: selectedGroup_def split: list.splits)
    with assms(4) have "?next \<noteq> None"
      using nextGid_None [of "gp_selectedGid p" ?gs] by auto
    with None show ?thesis
      using nextGid_listed by (fastforce simp: find_None_iff)
  qed
  have "?gs = [] \<longleftrightarrow> selectedGroup q = None"
    using q by (auto simp: selectedGroup_def split: option.splits list.splits)
  moreover have "?next = gp_selectedGid p" if "g \<in> set ?gs" "gp_selectedGid p = Some (g_gid g)" for g
    using that assms(4) by (auto simp: nextGid_def list_ex_iff)
  ultimately show ?thesis
    using sel q by auto
qed

definition sample_group :: "int \<Rightarrow> GroupInfo" where
  "sample_group i = \<lparr>g_gid = i, g_name = [103], g_owner_id = [], g_created_at = [], g_updated_at = []\<rparr>"

definition sample_members :: members_api where
  "sample_members gid = Inr \<lparr>res_code = 0, res_data = Some [\<lparr>gm_gid = gid, gm_uid = [117]\<rparr>], res_message = None\<rparr>"

definition sample_groups_answer :: "GroupInfo list ApiResponse" where
  "sample_groups_answer = \<lparr>res_code = 0, res_data = Some [sample_group 1, sample_group 2], res_message = None\<rparr>"

theorem groups_selection_witness:
  "\<exists>g. selectedGroup (loadGroups (Inr sample_groups_answer, sample_members) groups_initial) = Some g \<and>
     g \<in> {sample_group 1, sample_group 2}"
proof -
  let ?q = "loadGroups (Inr sample_groups_answer, sample_members) groups_initial"
  have e: "gp_error ?q = []"
    by (simp add: loadGroups_def groups_initial_def sample_groups_answer_def nextGid_def opt_items_def sample_group_def
        loadMembers_def sample_members_def Let_def)
  have "\<forall>g \<in> set (opt_items (res_data sample_groups_answer)). g_gid g \<noteq> 0"
    by (simp add: sample_groups_answer_def opt_items_def sample_group_def)
  from groups_selection [OF refl _ e this] show ?thesis
    by (cases "selectedGroup ?q") (auto simp: sample_groups_answer_def opt_items_def)
qed

text \<open>
  Adding a member shows the new member list of the selected group and leaves the cached
  lists of all other groups as they were.
\<close>

theorem member_cache:
  assumes "selectedGroup p = Some g" and "trim (gp_memberUid p) \<noteq> []"
    and "api (g_gid g) = Inr \<lparr>res_code = 0, res_data = Some ms, res_message = m\<rparr>"
    and "q = submitMember (Inr (), api) p"
  shows "currentMembers q = ms \<and> gp_error q = [] \<and> gp_message q = msg_member_added \<and>
    (\<forall>gid. gid \<noteq> g_gid g \<longrightarrow> map_of (gp_members q) gid = map_of (gp_members p) gid)"
proof -
  have q: "q = p\<lparr>gp_error := [], gp_message := msg_member_added, gp_memberUid := [],
      gp_members := alist_put (g_gid g) ms (gp_members p), gp_submitting := False\<rparr>"
    using assms by (simp add: submitMember_def loadMembers_def opt_items_def Let_def)
  then have "selectedGroup q = selectedGroup p"
    by (simp add: selectedGroup_def split: option.split)
  then show ?thesis
    using assms(1) q alist.look_put [of "g_gid g" ms "gp_members p"]
    by (simp add: currentMembers_def opt_items_def)
qed

theorem member_cache_witness:
  "currentMembers (submitMember (Inr (), sample_members)
     (groups_initial\<lparr>gp_groups := [sample_group 1], gp_memberUid := [117]\<rparr>)) = [\<lparr>gm_gid = 1, gm_uid = [117]\<rparr>]"
proof -
  let ?p = "groups_initial\<lparr>gp_groups := [sample_group 1], gp_memberUid := [117]\<rparr>"
  have "selectedGroup ?p = Some (sample_group 1)"
    by (simp add: selectedGroup_def groups_initial_def)
  moreover have "sample_members (g_gid (sample_group 1)) =
      Inr \<lparr>res_code = 0, res_data = Some [\<lparr>gm_gid = 1, gm_uid = [117]\<rparr>], res_message = None\<rparr>"
    by (simp add: sample_members_def sample_group_def)
  ultimately show ?thesis
    using member_cache [of ?p "sample_group 1" sample_members "[\<lparr>gm_gid = 1, gm_uid = [117]\<rparr>]" None]
    by (simp add: trim_def is_ws_def)
qed

interpretation member_form: guarded_handler submitMember gp_submitting gp_error
  "\<lambda>p. selectedGroup p \<noteq> None \<and> trim (gp_memberUid p) \<noteq> []"
  "\<lambda>out p. isl (fst out) \<or> isl (snd out (g_gid (the (selectedGroup p))))"
  by unfold_locales
    (auto simp: submitMember_def loadMembers_def Let_def split: sum.split option.split)

interpretation group_list: guarded_handler loadGroups gp_loading gp_error "\<lambda>_. True"
  "\<lambda>api p. case fst api of Inl e \<Rightarrow> True
     | Inr res \<Rightarrow> (case nextGid (gp_selectedGid p) (if res_code res = 0 then opt_items (res_data res) else []) of
                     None \<Rightarrow> False | Some gid \<Rightarrow> isl (snd api gid))"
  by unfold_locales
    (auto simp: loadGroups_def loadMembers_def Let_def split: sum.split option.split)

text \<open>
  Creating a group never announces it. After a creation the new group is selected,
  and selecting it clears the message that was just set; and since the code of the answer is not
  read, a refusal that carries a group is treated as a success.
\<close>

theorem group_created_silently:
  assumes "trim (gp_groupName p) \<noteq> []" and "go_create out = Inr \<lparr>res_code = c, res_data = Some g, res_message = m\<rparr>"
    and "g_gid g \<noteq> 0" and "q = submitGroup out p"
  shows "gp_message q = [] \<and> gp_selectedGid q = Some (g_gid g) \<and> gp_groupName q = [] \<and> \<not> gp_submitting q"
proof -
  have "gp_groupName (loadGroups a r) = gp_groupName r" for a r
    by (auto simp: loadGroups_def loadMembers_def Let_def split: sum.split option.split)
  moreover have "gp_message (selectGroup a b i r) = [] \<and> gp_selectedGid (selectGroup a b i r) = Some i \<and>
      gp_groupName (selectGroup a b i r) = gp_groupName r" for a b i r
    by (auto simp: selectGroup_def loadMembers_def Let_def split: sum.split)
  ultimately show ?thesis
    using assms by (simp add: submitGroup_def Let_def)
qed

theorem group_created_silently_witness:
  "gp_message (submitGroup
     \<lparr>go_create = Inr \<lparr>res_code = 0, res_data = Some (sample_group 2), res_message = None\<rparr>,
      go_groups = Inr sample_groups_answer, go_members = sample_members\<rparr>
     (groups_initial\<lparr>gp_groupName := [103]\<rparr>)) = []"
  (is "gp_message (submitGroup ?out ?p) = []")
proof -
  have "trim (gp_groupName ?p) \<noteq> []" and "g_gid (sample_group 2) \<noteq> 0"
    by (simp_all add: trim_def is_ws_def sample_group_def)
  then show ?thesis
    using group_created_silently [of ?p ?out 0 "sample_group 2" None "submitGroup ?out ?p"] by simp
qed

text \<open>
  Deleting a group drops its cached members: a list that is cached for it afterwards was
  loaded after the deletion, and only when the server still lists the group.
\<close>

theorem group_removed_forgotten:
  assumes "q = removeGroup True (Inr (), answer, api) g p" and "\<forall>h \<in> set (gp_groups q). g_gid h \<noteq> g_gid g"
    and "gp_error q = []"
  shows "map_of (gp_members q) (g_gid g) = None \<and> gp_message q = msg_group_deleted"
proof -
  let ?p = "p\<lparr>gp_error := [], gp_message := msg_group_deleted, gp_members := alist_del (g_gid g) (gp_members p)\<rparr>"
  have q: "q = loadGroups (answer, api) ?p"
    using assms(1) by (simp add: removeGroup_def Let_def)
  have m: "map_of (gp_members ?p) (g_gid g) = None"
    using alist.look_del [of "g_gid g" "gp_members p" "g_gid g"] by simp
  obtain res where res: "answer = Inr res"
    using assms(3) q by (cases answer) (simp_all add: loadGroups_def Let_def)
  let ?gs = "if res_code res = 0 then opt_items (res_data res) else []"
  show ?thesis
  proof (cases "nextGid (gp_selectedGid ?p) ?gs")
    case None
    then show ?thesis
      using q res m by (simp add: loadGroups_def Let_def)
  next
    case (Some gid)
    let ?r = "p\<lparr>gp_message := msg_group_deleted, gp_members := alist_del (g_gid g) (gp_members p),
        gp_error := [], gp_loading := False, gp_groups := ?gs, gp_selectedGid := Some gid\<rparr>"
    obtain r where r: "loadMembers api gid ?r = Inr r" "q = r"
      using q res Some assms(3) by (auto simp: loadGroups_def Let_def split: sum.splits)
    then have "gp_groups q = ?gs" "gp_message q = msg_group_deleted"
      using loadMembers_frame [OF r(1)] by simp_all
    then have "gid \<noteq> g_gid g"
      using nextGid_listed [OF Some] assms(2) by auto
    then have "map_of (gp_members q) (g_gid g) = None"
      using r m by (auto simp: loadMembers_def split: sum.splits if_splits)
    with \<open>gp_message q = msg_group_deleted\<close> show ?thesis by simp
  qed
qed

theorem group_removed_forgotten_witness:
  "map_of (gp_members (removeGroup True (Inr (), Inr sample_groups_answer, sample_members) (sample_group 3)
     (groups_initial\<lparr>gp_members := [(3, [])]\<rparr>))) 3 = None"
proof -
  let ?q = "removeGroup True (Inr (), Inr sample_groups_answer, sample_members) (sample_group 3)
     (groups_initial\<lparr>gp_members := [(3, [])]\<rparr>)"
  have "gp_error ?q = [] \<and> gp_groups ?q = [sample_group 1, sample_group 2]"
    by (simp add: removeGroup_def loadGroups_def groups_initial_def sample_groups_answer_def nextGid_def opt_items_def
        sample_group_def loadMembers_def sample_members_def Let_def)
  then show ?thesis
    using group_removed_forgotten [of ?q "Inr sample_groups_answer" sample_members "sample_group 3"
        "groups_initial\<lparr>gp_members := [(3, [])]\<rparr>"]
    by (simp add: sample_group_def)
qed

end
