(* ===== verification/Diff.thy ===== *)
theory Diff
  imports Domain
begin

text \<open>
  The comparison of two flame graphs (\<open>src/web/src/pages/FlameDiff.tsx\<close>): the form that asks the server
  for a difference, and the conversion of the answer's tree into the data of the chart. The request
  is split at its answer, because the two ids can be edited while it is under way.
\<close>

section \<open>Data\<close>

record TopFunction =
  tf_func :: jstring
  tf_self :: jsval
  tf_total :: jsval

text \<open>
  \<open>DiffTreeNode\<close>: the numbers come from the server and are converted with \<open>Number\<close>, so they are
  dynamic values here; \<open>children\<close> may be missing.
\<close>

datatype DiffTreeNode =
  DiffTreeNode (dn_name: jstring) (dn_selfDelta: jsval) (dn_totalDelta: jsval) (dn_selfValue: jsval)
    (dn_children: "DiffTreeNode list option")

record FlameDiffResult =
  fr_added :: "TopFunction list"
  fr_removed :: "TopFunction list"
  fr_changed :: "TopFunction list"
  fr_tree :: "DiffTreeNode option"
  fr_base_tid :: jstring
  fr_curr_tid :: jstring

record diff_page =
  df_tid1 :: jstring
  df_tid2 :: jstring
  df_loading :: bool
  df_result :: "FlameDiffResult option"
  df_error :: jstring
  df_taskOptions :: "(jstring \<times> jstring) list"

definition msg_same_tid :: jstring where \<comment> \<open>the two ids must differ\<close>
  [msg_defs]: "msg_same_tid = [0x4E24, 0x4E2A, 0x4EFB, 0x52A1, 32, 73, 68, 32, 0x4E0D, 0x80FD, 0x76F8, 0x540C]"
definition msg_diff_failed :: jstring where \<comment> \<open>the comparison failed\<close>
  [msg_defs]: "msg_diff_failed = [0x5BF9, 0x6BD4, 0x5931, 0x8D25]"
definition msg_request_failed :: jstring where \<comment> \<open>the request failed\<close>
  [msg_defs]: "msg_request_failed = [0x8BF7, 0x6C42, 0x5931, 0x8D25]"

section \<open>The form\<close>

definition diff_initial :: "jstring option \<Rightarrow> jstring option \<Rightarrow> diff_page" where
  "diff_initial p1 p2 =
     \<lparr>df_tid1 = opt_str p1, df_tid2 = opt_str p2, df_loading = False, df_result = None, df_error = [],
      df_taskOptions = []\<rparr>"

definition diff_tasks :: "api_exn + TaskListData ApiResponse \<Rightarrow> diff_page \<Rightarrow> diff_page" where
  "diff_tasks answer p =
     (case answer of
        Inl e \<Rightarrow> p
      | Inr res \<Rightarrow>
        (case res_data res of
           Some d \<Rightarrow>
             if res_code res = 0
             then p\<lparr>df_taskOptions := map (\<lambda>t. (t_tid t, or_str (t_name t) (t_tid t))) (tl_list d)\<rparr>
             else p
         | None \<Rightarrow> p))"

text \<open>\<open>doDiff\<close> up to its request, with the ids it sends, and from its answer on.\<close>

definition doDiff_start :: "diff_page \<Rightarrow> diff_page \<times> (jstring \<times> jstring) option" where
  "doDiff_start p =
     (if trim (df_tid1 p) = [] \<or> trim (df_tid2 p) = [] then (p, None)
      else if trim (df_tid1 p) = trim (df_tid2 p) then (p\<lparr>df_error := msg_same_tid\<rparr>, None)
      else (p\<lparr>df_loading := True, df_error := [], df_result := None\<rparr>, Some (trim (df_tid1 p), trim (df_tid2 p))))"

definition doDiff_end :: "api_exn + FlameDiffResult ApiResponse \<Rightarrow> diff_page \<Rightarrow> diff_page" where
  "doDiff_end answer p =
     (case answer of
        Inl e \<Rightarrow> p\<lparr>df_error := err_text e msg_request_failed, df_loading := False\<rparr>
      | Inr res \<Rightarrow>
        (case res_data res of
           Some d \<Rightarrow>
             if res_code res = 0 then p\<lparr>df_result := Some d, df_loading := False\<rparr>
             else p\<lparr>df_error := or_str (opt_str (res_message res)) msg_diff_failed, df_loading := False\<rparr>
         | None \<Rightarrow> p\<lparr>df_error := or_str (opt_str (res_message res)) msg_diff_failed, df_loading := False\<rparr>))"

definition doDiff ::
  "(jstring \<Rightarrow> jstring \<Rightarrow> api_exn + FlameDiffResult ApiResponse) \<Rightarrow> diff_page \<Rightarrow> diff_page" where
  "doDiff flameDiff p =
     (case doDiff_start p of
        (q, None) \<Rightarrow> q
      | (q, Some (t1, t2)) \<Rightarrow> doDiff_end (flameDiff t1 t2) q)"

definition swapTids :: "diff_page \<Rightarrow> diff_page" where
  "swapTids p = p\<lparr>df_tid1 := df_tid2 p, df_tid2 := df_tid1 p, df_result := None\<rparr>"

definition set_tid1 :: "jstring \<Rightarrow> diff_page \<Rightarrow> diff_page" where
  "set_tid1 v p = p\<lparr>df_tid1 := v, df_result := None, df_error := []\<rparr>"

definition set_tid2 :: "jstring \<Rightarrow> diff_page \<Rightarrow> diff_page" where
  "set_tid2 v p = p\<lparr>df_tid2 := v, df_result := None, df_error := []\<rparr>"

text \<open>An offered id put into a field; unlike typing, this keeps the error.\<close>

definition pick_tid1 :: "jstring \<Rightarrow> diff_page \<Rightarrow> diff_page" where
  "pick_tid1 v p = p\<lparr>df_tid1 := v, df_result := None\<rparr>"

definition pick_tid2 :: "jstring \<Rightarrow> diff_page \<Rightarrow> diff_page" where
  "pick_tid2 v p = p\<lparr>df_tid2 := v, df_result := None\<rparr>"

text \<open>The ids offered below a field: at most six, never the id of the other field.\<close>

definition tid_helper :: "jstring \<Rightarrow> diff_page \<Rightarrow> (jstring \<times> jstring) list" where
  "tid_helper v p =
     take 6 (filter (\<lambda>t. fst t \<noteq> (if v = df_tid1 p then df_tid2 p else df_tid1 p)) (df_taskOptions p))"

definition diff_canSubmit :: "diff_page \<Rightarrow> bool" where
  "diff_canSubmit p \<longleftrightarrow> trim (df_tid1 p) \<noteq> [] \<and> trim (df_tid2 p) \<noteq> [] \<and> \<not> df_loading p"

section \<open>The chart\<close>

datatype chart_node =
  ChartNode (cn_name: jstring) (cn_selfValue: jsnum) (cn_value: jsnum) (cn_delta: jsnum)
    (cn_children: "chart_node list option")

fun transformNode :: "DiffTreeNode \<Rightarrow> chart_node" where
  "transformNode (DiffTreeNode name sd td sv cs) =
     (let selfDelta = num_or_zero sd; totalDelta = num_or_zero td
      in ChartNode name (num_or_zero sv) (math_abs selfDelta) (num_or totalDelta selfDelta)
           (case cs of
              None \<Rightarrow> None
            | Some ns \<Rightarrow> if ns = [] then None else Some (map transformNode ns)))"

definition diff_chartHeight :: "bool \<Rightarrow> int \<Rightarrow> int" where
  "diff_chartHeight isFullscreen innerHeight = (if isFullscreen then max (innerHeight - 138) 480 else 480)"

section \<open>Properties\<close>

lemma diff_messages [simp]: "msg_same_tid \<noteq> []" "msg_diff_failed \<noteq> []" "msg_request_failed \<noteq> []"
  by (simp_all add: msg_defs)

text \<open>
  A comparison that runs to its end, on every branch. With a blank id nothing changes; with
  equal ids the only change is the error. Otherwise the page is not loading afterwards, and it
  shows either a result, which is the server's for exactly the two trimmed ids, or an error, and
  never both.
\<close>

theorem doDiff_outcome:
  "(trim (df_tid1 p) = [] \<or> trim (df_tid2 p) = [] \<longrightarrow> doDiff api p = p) \<and>
   (trim (df_tid1 p) \<noteq> [] \<and> trim (df_tid1 p) = trim (df_tid2 p) \<longrightarrow> doDiff api p = p\<lparr>df_error := msg_same_tid\<rparr>) \<and>
   (trim (df_tid1 p) \<noteq> [] \<and> trim (df_tid2 p) \<noteq> [] \<and> trim (df_tid1 p) \<noteq> trim (df_tid2 p) \<longrightarrow>
      (let q = doDiff api p
       in \<not> df_loading q \<and> (df_result q = None \<longleftrightarrow> df_error q \<noteq> []) \<and>
          (\<forall>d. df_result q = Some d \<longrightarrow>
             (\<exists>res. api (trim (df_tid1 p)) (trim (df_tid2 p)) = Inr res \<and> res_code res = 0 \<and> res_data res = Some d))))"
  by (auto simp: doDiff_def doDiff_start_def doDiff_end_def err_text_nonempty Let_def
      split: sum.split option.split)

definition sample_result :: "jstring \<Rightarrow> jstring \<Rightarrow> FlameDiffResult" where
  "sample_result a b =
     \<lparr>fr_added = [], fr_removed = [], fr_changed = [], fr_tree = None, fr_base_tid = a, fr_curr_tid = b\<rparr>"

definition sample_diff :: "jstring \<Rightarrow> jstring \<Rightarrow> api_exn + FlameDiffResult ApiResponse" where
  "sample_diff a b = Inr \<lparr>res_code = 0, res_data = Some (sample_result a b), res_message = None\<rparr>"

theorem doDiff_outcome_witness:
  "df_error (doDiff sample_diff (diff_initial (Some [97]) (Some [98]))) = []"
  using doDiff_outcome [of "diff_initial (Some [97]) (Some [98])" sample_diff]
  by (simp add: diff_initial_def trim_def is_ws_def Let_def doDiff_def doDiff_start_def doDiff_end_def sample_diff_def)

text \<open>
  An answer is shown even when the ids were changed while it was under way. Editing an id
  clears the result, and the late answer for the old pair puts its result below the new ids.
\<close>

theorem diff_stale_result:
  assumes "trim a \<noteq> []" and "trim b \<noteq> []" and "trim a \<noteq> trim b"
    and "p = diff_initial (Some a) (Some b)"
    and "q = doDiff_end (sample_diff (trim a) (trim b)) (set_tid1 c (fst (doDiff_start p)))"
  shows "df_tid1 q = c \<and> df_error q = [] \<and>
    (\<exists>d. df_result q = Some d \<and> fr_base_tid d = trim a \<and> fr_curr_tid d = trim b)"
  using assms by (simp add: diff_initial_def doDiff_start_def doDiff_end_def set_tid1_def sample_diff_def sample_result_def)

theorem diff_stale_result_witness:
  "df_tid1 (doDiff_end (sample_diff [97] [98])
     (set_tid1 [99] (fst (doDiff_start (diff_initial (Some [97]) (Some [98])))))) = [99]"
proof -
  have t: "trim [97] = [97]" "trim [98] = [98]"
    by (simp_all add: trim_def is_ws_def)
  show ?thesis
    using diff_stale_result [of "[97]" "[98]" _ _ "[99]", OF _ _ _ refl refl] by (simp add: t)
qed

text \<open>
  Swapping the ids twice restores them, and a swapped page asks for the swapped comparison.
\<close>

theorem swap_involution:
  "swapTids (swapTids p) = p\<lparr>df_result := None\<rparr> \<and>
   snd (doDiff_start (swapTids p)) = map_option prod.swap (snd (doDiff_start p))"
  by (auto simp: swapTids_def doDiff_start_def)

text \<open>The nodes of a tree in preorder, with what the chart shows of each.\<close>

fun diff_nodes :: "DiffTreeNode \<Rightarrow> (jstring \<times> jsval \<times> jsval \<times> jsval) list" where
  "diff_nodes (DiffTreeNode name sd td sv cs) =
     (name, sd, td, sv) # (case cs of None \<Rightarrow> [] | Some ns \<Rightarrow> concat (map diff_nodes ns))"

fun chart_nodes :: "chart_node \<Rightarrow> (jstring \<times> jsnum \<times> jsnum \<times> jsnum) list" where
  "chart_nodes (ChartNode name sv v d cs) =
     (name, sv, v, d) # (case cs of None \<Rightarrow> [] | Some ns \<Rightarrow> concat (map chart_nodes ns))"

definition shown_node :: "jstring \<times> jsval \<times> jsval \<times> jsval \<Rightarrow> jstring \<times> jsnum \<times> jsnum \<times> jsnum" where
  "shown_node n =
     (case n of (name, sd, td, sv) \<Rightarrow>
        (name, num_or_zero sv, math_abs (num_or_zero sd), num_or (num_or_zero td) (num_or_zero sd)))"

lemma transform_nodes: "chart_nodes (transformNode n) = map shown_node (diff_nodes n)"
proof (induction n)
  case (DiffTreeNode name sd td sv cs)
  have "concat (map (chart_nodes \<circ> transformNode) ns) = map shown_node (concat (map diff_nodes ns))"
    if "cs = Some ns" for ns
    using DiffTreeNode [of ns] that by (simp add: map_concat cong: map_cong)
  then show ?case
    by (cases cs) (auto simp: shown_node_def Let_def)
qed

lemma abs_width: "num_le (Fin 0) (math_abs (num_or_zero v))"
  using num_or_zero_not_NaN [of v] by (cases "num_or_zero v") auto

lemma num_or_not_NaN: "y \<noteq> NaN \<Longrightarrow> num_or x y \<noteq> NaN"
  by (simp add: num_or_def num_truthy_def)

text \<open>
  The chart shows the server's tree node by node: the same names in the same preorder, each
  with its own change as width, and the sum of the changes below it (or its own change, where that
  sum is zero) as its colour. No width is negative and no number is NaN, whatever the server sent.
\<close>

theorem transform_faithful:
  "chart_nodes (transformNode n) = map shown_node (diff_nodes n) \<and>
   (\<forall>(name, sv, w, d) \<in> set (chart_nodes (transformNode n)). num_le (Fin 0) w \<and> sv \<noteq> NaN \<and> d \<noteq> NaN)"
  unfolding transform_nodes
  by (auto simp: shown_node_def abs_width num_or_not_NaN split: prod.splits)

theorem transform_faithful_witness:
  "chart_nodes (transformNode (DiffTreeNode [97] (JNum (Fin (-3))) (JNum (Fin 0)) Undef None)) =
     [([97], Fin 0, Fin 3, Fin (-3))]"
  using transform_faithful [of "DiffTreeNode [97] (JNum (Fin (-3))) (JNum (Fin 0)) Undef None"]
  by (simp add: shown_node_def num_or_zero_def val_num_def num_or_def num_truthy_def Let_def)

end
