(* ===== verification/Result_View.thy ===== *)
theory Result_View
  imports Domain "HOL-Library.While_Combinator"
begin

text \<open>
  What the result page of a task shows (\<open>src/web/src/pages/TaskResult.tsx\<close>): its panels and tabs, the
  labels of the state history, the choice of artifacts among the stored files, the rows derived
  from the artifacts, and the text of byte counts. Everything here is a function of the page's
  data; loading the data is the subject of the theory Result_Load.
\<close>

section \<open>Task state\<close>

definition shouldPollTask :: "HotmethodTask option \<Rightarrow> bool" where
  "shouldPollTask task =
     (case task of
        None \<Rightarrow> False
      | Some t \<Rightarrow>
        if t_status t < 4 then True
        else if t_status t = 4 \<and> t_analysis_status t = 1 then True
        else False)"

definition lbl_created :: jstring where \<comment> \<open>creation\<close>
  [msg_defs]: "lbl_created = [0x521B, 0x5EFA]"

datatype state_field = from_state | to_state

definition state_mapping :: "TaskStateHistory \<Rightarrow> int \<Rightarrow> badge option" where
  "state_mapping item = (if sh_change_type item = 1 then analysisMap else statusMap)"

definition stateHistoryLabel :: "TaskStateHistory \<Rightarrow> state_field \<Rightarrow> jstring" where
  "stateHistoryLabel item field =
     (let v = (case field of from_state \<Rightarrow> sh_from_state item | to_state \<Rightarrow> sh_to_state item)
      in if v < 0 then lbl_created
         else or_str (case state_mapping item v of Some b \<Rightarrow> badge_label b | None \<Rightarrow> []) (int_str v))"

definition stateHistoryColor :: "TaskStateHistory \<Rightarrow> jstring" where
  "stateHistoryColor item =
     or_str (case state_mapping item (sh_to_state item) of Some b \<Rightarrow> badge_color b | None \<Rightarrow> []) (js ''gray'')"

section \<open>Panels\<close>

datatype ResultPanelKey = Flame | Topn | Suggestions | Ebpf | Pprof | Memory

instantiation ResultPanelKey :: enum
begin

definition enum_ResultPanelKey_def:
  "enum_ResultPanelKey = [Flame, Topn, Suggestions, Ebpf, Pprof, Memory]"

definition enum_all_ResultPanelKey_def:
  "enum_all_ResultPanelKey P \<longleftrightarrow> P Flame \<and> P Topn \<and> P Suggestions \<and> P Ebpf \<and> P Pprof \<and> P Memory"

definition enum_ex_ResultPanelKey_def:
  "enum_ex_ResultPanelKey P \<longleftrightarrow> P Flame \<or> P Topn \<or> P Suggestions \<or> P Ebpf \<or> P Pprof \<or> P Memory"

instance
proof
  show "(UNIV :: ResultPanelKey set) = set Enum.enum"
    unfolding enum_ResultPanelKey_def by (auto intro: ResultPanelKey.exhaust)
  show "distinct (Enum.enum :: ResultPanelKey list)"
    by (simp add: enum_ResultPanelKey_def)
  fix P :: "ResultPanelKey \<Rightarrow> bool"
  show "Enum.enum_all P = Ball UNIV P"
    unfolding enum_all_ResultPanelKey_def by (metis ResultPanelKey.exhaust UNIV_I)
  show "Enum.enum_ex P = Bex UNIV P"
    unfolding enum_ex_ResultPanelKey_def by (metis ResultPanelKey.exhaust UNIV_I)
qed

end

definition panelMeta_artifacts :: "ResultPanelKey \<Rightarrow> jstring list" where
  "panelMeta_artifacts k =
     (case k of
        Flame \<Rightarrow> [js ''collapsed.txt'', js ''flamegraph.svg'', js ''top.json'']
      | Topn \<Rightarrow> [js ''top.json'']
      | Suggestions \<Rightarrow> [js ''suggestions.md'', js ''attribution_evidence.json'']
      | Ebpf \<Rightarrow> [js ''biosnoop_stats.json'']
      | Pprof \<Rightarrow> [js ''pprof_cpu.json'', js ''pprof_heap.json'']
      | Memory \<Rightarrow> [js ''memleak.json'', js ''heap_stats.json'', js ''resource_stats.json''])"

definition expectedPanelsByTaskType :: "int \<Rightarrow> ResultPanelKey list option" where
  "expectedPanelsByTaskType = map_of
     [(0, [Flame, Topn, Suggestions]), (1, [Flame, Topn, Suggestions]), (4, [Suggestions, Memory]),
      (5, [Suggestions, Memory]), (6, [Suggestions, Ebpf]), (10, [Suggestions, Pprof]),
      (11, [Suggestions, Pprof]), (12, [Suggestions, Memory])]"

definition primaryPanelByTaskType :: "int \<Rightarrow> ResultPanelKey option" where
  "primaryPanelByTaskType = map_of
     [(0, Flame), (1, Flame), (4, Memory), (5, Memory), (6, Ebpf), (10, Pprof), (11, Pprof), (12, Memory)]"

definition task_type :: "HotmethodTask option \<Rightarrow> int" where
  "task_type task = (case task of None \<Rightarrow> -1 | Some t \<Rightarrow> t_type t)"

definition expectedPanelsForTask :: "HotmethodTask option \<Rightarrow> ResultPanelKey list" where
  "expectedPanelsForTask task = (case expectedPanelsByTaskType (task_type task) of None \<Rightarrow> [] | Some ks \<Rightarrow> ks)"

datatype tab_key = Info | States | Files | Panel ResultPanelKey

definition visiblePanel :: "HotmethodTask option \<Rightarrow> (ResultPanelKey \<Rightarrow> bool) \<Rightarrow> ResultPanelKey \<Rightarrow> bool" where
  "visiblePanel task available k \<longleftrightarrow> k \<in> set (expectedPanelsForTask task) \<or> available k"

definition visibleTabKeys :: "HotmethodTask option \<Rightarrow> (ResultPanelKey \<Rightarrow> bool) \<Rightarrow> tab_key list" where
  "visibleTabKeys task available =
     [Info, States] @ map Panel (filter (visiblePanel task available) Enum.enum) @ [Files]"

text \<open>The effect that leaves a tab that is not visible.\<close>

definition fix_tab :: "HotmethodTask option \<Rightarrow> (ResultPanelKey \<Rightarrow> bool) \<Rightarrow> tab_key \<Rightarrow> tab_key" where
  "fix_tab task available active =
     (if task = None then active
      else if active \<in> set (visibleTabKeys task available) then active
      else (case primaryPanelByTaskType (task_type task) of
              Some k \<Rightarrow> if Panel k \<in> set (visibleTabKeys task available) then Panel k else Info
            | None \<Rightarrow> Info))"

definition txt_analysis_failed :: jstring where \<comment> \<open>analysis failed, see the state history\<close>
  [msg_defs]: "txt_analysis_failed = [0x5206, 0x6790, 0x5931, 0x8D25, 0xFF0C, 0x67E5, 0x770B, 0x72B6, 0x6001, 0x8FC1, 0x79FB, 0x91CC, 0x7684, 0x9519, 0x8BEF, 0x4FE1, 0x606F, 0x3002]"
definition txt_artifacts_missing :: jstring where \<comment> \<open>analysis is done but these artifacts are missing\<close>
  [msg_defs]: "txt_artifacts_missing = [0x5206, 0x6790, 0x5DF2, 0x5B8C, 0x6210, 0x4F46, 0x672A, 0x627E, 0x5230, 0x9884, 0x671F, 0x4EA7, 0x7269, 0xFF1A]"

definition emptyPanel :: "HotmethodTask option \<Rightarrow> ResultPanelKey \<Rightarrow> jstring" where
  "emptyPanel task k =
     (if (case task of Some t \<Rightarrow> t_analysis_status t = 3 | None \<Rightarrow> False) then txt_analysis_failed
      else txt_artifacts_missing @ join_with (js '' / '') (panelMeta_artifacts k))"

section \<open>Artifacts\<close>

text \<open>\<open>file.key || file.name || ''\<close>.\<close>

definition file_path :: "CosFile \<Rightarrow> jstring" where
  "file_path f = or_str (opt_str (cf_key f)) (opt_str (cf_name f))"

definition file_basename :: "CosFile \<Rightarrow> jstring" where
  "file_basename f = to_lower (basename (Some (file_path f)))"

definition find_named :: "string \<Rightarrow> CosFile list \<Rightarrow> CosFile option" where
  "find_named n files = List.find (\<lambda>f. file_basename f = js n) files"

definition isCollapsedArtifact :: "CosFile \<Rightarrow> bool" where
  "isCollapsedArtifact f \<longleftrightarrow> file_basename f = js ''collapsed.txt'' \<or> ends_with (file_basename f) (js ''.collapsed'')"

definition isAnalysisArtifact :: "CosFile \<Rightarrow> bool" where
  "isAnalysisArtifact f \<longleftrightarrow> file_path f \<noteq> [] \<and> \<not> starts_with (file_path f) (js ''profiler/'')"

definition isMemrayHtmlArtifact :: "CosFile \<Rightarrow> bool" where
  "isMemrayHtmlArtifact f \<longleftrightarrow>
     (let key = to_lower (file_path f)
      in ends_with (basename (Some key)) (js ''.html'') \<and>
         (str_includes key (js ''memray'') \<or> starts_with key (js ''profiler/'')))"

text \<open>The file the flame graph is drawn from: analysis artifacts sort before collector output.\<close>

definition collapsedFile :: "CosFile list \<Rightarrow> CosFile option" where
  "collapsedFile files =
     (case sort_key (\<lambda>f. if isAnalysisArtifact f then 0 else 1 :: nat) (filter isCollapsedArtifact files) of
        [] \<Rightarrow> None
      | f # _ \<Rightarrow> Some f)"

section \<open>Byte counts\<close>

definition byte_units :: "jstring list" where
  "byte_units = [js ''B'', js ''KB'', js ''MB'', js ''GB'', js ''TB'']"

text \<open>The loop: \<open>left\<close> is the number of larger units.\<close>

fun scale_bytes :: "nat \<Rightarrow> rat \<Rightarrow> nat \<Rightarrow> rat \<times> nat" where
  "scale_bytes 0 sz i = (sz, i)"
| "scale_bytes (Suc left) sz i = (if sz \<ge> 1024 then scale_bytes left (sz / 1024) (Suc i) else (sz, i))"

definition formatBytes :: "jsnum \<Rightarrow> jstring" where
  "formatBytes v =
     (case v of
        Fin a \<Rightarrow>
          if a \<le> 0 then js ''0 B''
          else (case scale_bytes (length byte_units - 1) a 0 of
                  (sz, i) \<Rightarrow> to_fixed (if i = 0 then 0 else 2) (Fin sz) @ js '' '' @ byte_units ! i)
      | _ \<Rightarrow> js ''0 B'')"

section \<open>Rows\<close>

text \<open>\<open>Object.entries\<close>: array indices first in ascending order, then the other keys as inserted.\<close>

definition array_index :: "jstring \<Rightarrow> nat option" where
  "array_index k = (if k \<noteq> [] \<and> list_all is_digit k \<and> nat_str (str_nat k) = k \<and> str_nat k < 2 ^ 32 - 1
     then Some (str_nat k) else None)"

definition object_entries :: "(jstring \<times> jsval) list \<Rightarrow> (jstring \<times> jsval) list" where
  "object_entries kvs =
     sort_key (\<lambda>kv. the (array_index (fst kv))) (filter (\<lambda>kv. array_index (fst kv) \<noteq> None) kvs) @
     filter (\<lambda>kv. array_index (fst kv) = None) kvs"

fun entries :: "jsval \<Rightarrow> (jstring \<times> jsval) list" where
  "entries (JObj kvs) = object_entries kvs"
| "entries (JArr xs) = map (\<lambda>i. (nat_str i, xs ! i)) [0..<length xs]"
| "entries (JStr s) = map (\<lambda>i. (nat_str i, JStr [s ! i])) [0..<length s]"
| "entries v = []"

definition num_sum :: "jsnum list \<Rightarrow> jsnum" where
  "num_sum xs = foldl num_add (Fin 0) xs"

text \<open>Reading \<open>item.self\<close> of a null entry raises.\<close>

definition totalSamples :: "jsval list \<Rightarrow> js_error + jsnum" where
  "totalSamples topn =
     (if list_ex nullish topn then Inl TypeError
      else Inr (num_sum (map (\<lambda>item. num_or_zero (opt_prop item (js ''self''))) topn)))"

record pprof_cpu_row =
  pc_func :: jstring
  pc_flat :: jsnum

definition pprofCpuRows :: "jsval \<Rightarrow> pprof_cpu_row list" where
  "pprofCpuRows data =
     (if \<not> truthy data then []
      else sort_num_desc pc_flat
             (map (\<lambda>kv. \<lparr>pc_func = fst kv, pc_flat = num_or_zero (snd kv)\<rparr>) (entries data)))"

definition pprofCpuTotal :: "jsval \<Rightarrow> jsnum" where
  "pprofCpuTotal data = num_sum (map pc_flat (pprofCpuRows data))"

record pprof_heap_entry =
  ph_func :: jstring
  ph_flat_space :: jsnum
  ph_cum_space :: jsnum
  ph_flat_objects :: jsnum
  ph_cum_objects :: jsnum

definition pprof_heap_row :: "jsval \<Rightarrow> pprof_heap_entry" where
  "pprof_heap_row row =
     \<lparr>ph_func = (let f = opt_prop row (js ''func'') in if truthy f then val_str f else js ''-''),
      ph_flat_space = num_or_zero (opt_prop row (js ''flat_space'')),
      ph_cum_space = num_or_zero (opt_prop row (js ''cum_space'')),
      ph_flat_objects = num_or_zero (opt_prop row (js ''flat_objects'')),
      ph_cum_objects = num_or_zero (opt_prop row (js ''cum_objects''))\<rparr>"

text \<open>A row that is null or undefined raises; the sort is by flat space, ties by cumulative space.\<close>

definition pprofHeapRows :: "jsval list \<Rightarrow> js_error + pprof_heap_entry list" where
  "pprofHeapRows rows =
     (if list_ex nullish rows then Inl TypeError
      else Inr (sort_num_desc ph_flat_space (sort_num_desc ph_cum_space (map pprof_heap_row rows))))"

record heap_entry =
  hr_name :: jstring
  hr_count :: jsnum
  hr_bytes :: jsnum

definition first_truthy :: "jsval \<Rightarrow> string list \<Rightarrow> jsval \<Rightarrow> jsval" where
  "first_truthy row ks d =
     (case List.find (\<lambda>k. truthy (opt_prop row (js k))) ks of Some k \<Rightarrow> opt_prop row (js k) | None \<Rightarrow> d)"

definition heap_row :: "jsval \<Rightarrow> heap_entry" where
  "heap_row row =
     \<lparr>hr_name = val_str (first_truthy row [''name'', ''class_name'', ''class''] (JStr (js ''-''))),
      hr_count = val_num (first_truthy row [''count'', ''instances''] (JNum (Fin 0))),
      hr_bytes = val_num (first_truthy row [''bytes'', ''total_bytes'', ''size''] (JNum (Fin 0)))\<rparr>"

definition heap_source :: "jsval \<Rightarrow> jsval list" where
  "heap_source data =
     (if is_array (opt_prop data (js ''classes'')) then elems (opt_prop data (js ''classes''))
      else elems (opt_prop data (js ''top_classes'')))"

text \<open>
  The rows of the heap table. A null row raises. The comparator returns NaN for a size that is no
  number; the order is then left to the engine, whose sort \<open>eng\<close> is a parameter.
\<close>

definition heapRows :: "(heap_entry list \<Rightarrow> heap_entry list) \<Rightarrow> jsval \<Rightarrow> js_error + heap_entry list" where
  "heapRows eng data =
     (if list_ex nullish (heap_source data) then Inl TypeError
      else (let rows = map heap_row (heap_source data)
            in Inr (if list_ex (\<lambda>r. hr_bytes r = NaN) rows then eng rows else sort_num_desc hr_bytes rows)))"

definition memoryLeakRows :: "jsval \<Rightarrow> jsval list" where
  "memoryLeakRows data = elems (opt_prop data (js ''leaks''))"

subsection \<open>eBPF figures\<close>

definition eBpfReadCount :: "jsval \<Rightarrow> jsnum" where
  "eBpfReadCount d =
     val_num (val_nullish (opt_prop d (js ''total_reads'')) (val_nullish (opt_prop d (js ''read_count'')) (JNum (Fin 0))))"

definition eBpfWriteCount :: "jsval \<Rightarrow> jsnum" where
  "eBpfWriteCount d =
     val_num (val_nullish (opt_prop d (js ''total_writes'')) (val_nullish (opt_prop d (js ''write_count'')) (JNum (Fin 0))))"

definition eBpfProbeType :: "jsval \<Rightarrow> jstring" where
  "eBpfProbeType d = val_str (val_or (opt_prop d (js ''probe_type'')) (JStr (js ''io'')))"

definition isSchedProbe :: "jsval \<Rightarrow> bool" where
  "isSchedProbe d \<longleftrightarrow> eBpfProbeType d = js ''sched''"

definition eBpfAvgLatencyMs :: "jsval \<Rightarrow> jsnum" where
  "eBpfAvgLatencyMs d =
     val_num (val_nullish (opt_prop d (js ''avg_latency_ms''))
       (JNum (num_div (val_num (val_nullish (opt_prop d (js ''latency_avg_us'')) (JNum (Fin 0)))) 1000)))"

definition eBpfMaxLatencyMs :: "jsval \<Rightarrow> jsnum" where
  "eBpfMaxLatencyMs d =
     val_num (val_nullish (opt_prop d (js ''max_latency_ms''))
       (JNum (num_div (val_num (val_nullish (opt_prop d (js ''latency_max_us'')) (JNum (Fin 0)))) 1000)))"

definition eBpfTotalBytes :: "jsval \<Rightarrow> jsnum" where
  "eBpfTotalBytes d =
     val_num (val_nullish (opt_prop d (js ''total_bytes''))
       (val_plus (val_nullish (opt_prop d (js ''read_bytes'')) (JNum (Fin 0)))
                 (val_nullish (opt_prop d (js ''write_bytes'')) (JNum (Fin 0)))))"

record device_row =
  dv_device :: jstring
  dv_count :: jsnum
  dv_bytes :: jsnum
  dv_latency_avg_ms :: jsnum

record process_row =
  pr_process :: jstring
  pr_pid :: jsval
  pr_count :: jsnum
  pr_bytes :: jsnum

text \<open>The tables: the list of the artifact as it is, or rows made of its object by key.\<close>

definition eBpfTopDevices :: "jsval \<Rightarrow> jsval list + device_row list" where
  "eBpfTopDevices d =
     (if is_array (opt_prop d (js ''top_devices'')) then Inl (elems (opt_prop d (js ''top_devices'')))
      else Inr (map (\<lambda>kv. \<lparr>dv_device = fst kv, dv_count = num_or_zero (opt_prop (snd kv) (js ''count'')),
                           dv_bytes = num_or_zero (opt_prop (snd kv) (js ''bytes'')),
                           dv_latency_avg_ms =
                             num_div (val_num (val_or (opt_prop (snd kv) (js ''latency_avg'')) (JNum (Fin 0)))) 1000\<rparr>)
                  (entries (val_or (opt_prop d (js ''by_disk'')) (JObj [])))))"

definition eBpfTopProcesses :: "jsval \<Rightarrow> jsval list + process_row list" where
  "eBpfTopProcesses d =
     (if is_array (opt_prop d (js ''top_processes'')) then Inl (elems (opt_prop d (js ''top_processes'')))
      else Inr (map (\<lambda>kv. \<lparr>pr_process = fst kv, pr_pid = val_or (opt_prop (snd kv) (js ''pid'')) (JStr (fst kv)),
                           pr_count = num_or_zero (opt_prop (snd kv) (js ''count'')),
                           pr_bytes = num_or_zero (opt_prop (snd kv) (js ''bytes''))\<rparr>)
                  (entries (val_or (opt_prop d (js ''top_processes''))
                     (val_or (opt_prop d (js ''by_process'')) (JObj []))))))"

section \<open>Properties\<close>

lemma primary_expected: "primaryPanelByTaskType ty = Some k \<Longrightarrow> \<exists>ks. expectedPanelsByTaskType ty = Some ks \<and> k \<in> set ks"
  by (auto simp: primaryPanelByTaskType_def expectedPanelsByTaskType_def split: if_splits)

lemma visible_panel_iff: "Panel k \<in> set (visibleTabKeys task available) \<longleftrightarrow> visiblePanel task available k"
  by (auto simp: visibleTabKeys_def enum_UNIV)

lemma info_visible: "Info \<in> set (visibleTabKeys task available)"
  by (simp add: visibleTabKeys_def)

lemma fix_tab_visible: "fix_tab (Some t) available active \<in> set (visibleTabKeys (Some t) available)"
  by (simp add: fix_tab_def info_visible split: option.split)

text \<open>
  Once a task is there, the active tab is always a tab that is on screen, the correction
  of the tab is stable (a second run of the effect changes nothing), a visible tab is never left,
  and a task whose type has a main panel falls back to that panel, which is visible even when none
  of its artifacts could be loaded.
\<close>

theorem active_tab_visible:
  "fix_tab (Some t) available active \<in> set (visibleTabKeys (Some t) available) \<and>
   fix_tab (Some t) available (fix_tab (Some t) available active) = fix_tab (Some t) available active \<and>
   (active \<in> set (visibleTabKeys (Some t) available) \<longrightarrow> fix_tab (Some t) available active = active) \<and>
   (active \<notin> set (visibleTabKeys (Some t) available) \<longrightarrow>
      fix_tab (Some t) available active =
        (case primaryPanelByTaskType (t_type t) of Some k \<Rightarrow> Panel k | None \<Rightarrow> Info))"
proof -
  have prim: "Panel k \<in> set (visibleTabKeys (Some t) available)" if "primaryPanelByTaskType (t_type t) = Some k" for k
    using primary_expected [OF that]
    by (auto simp: visible_panel_iff visiblePanel_def expectedPanelsForTask_def task_type_def)
  then have fx: "fix_tab (Some t) available a =
      (if a \<in> set (visibleTabKeys (Some t) available) then a
       else case primaryPanelByTaskType (t_type t) of Some k \<Rightarrow> Panel k | None \<Rightarrow> Info)" for a
    by (auto simp: fix_tab_def task_type_def split: option.split)
  then show ?thesis
    using info_visible prim by (auto simp: fx split: option.splits)
qed

definition sample_ebpf_task :: HotmethodTask where
  "sample_ebpf_task = \<lparr>t_id = 1, t_tid = [49], t_name = [], t_type = 6, t_profiler_type = 3, t_target_ip = [],
     t_request_params = Null, t_status = 4, t_analysis_status = 2, t_status_info = [], t_uid = [],
     t_user_name = [], t_create_time = [], t_begin_time = None, t_end_time = None, t_created_at = None, t_updated_at = None\<rparr>"

theorem active_tab_visible_witness:
  "fix_tab (Some sample_ebpf_task) (\<lambda>_. False) (Panel Flame) = Panel Ebpf"
proof -
  have "Panel Flame \<notin> set (visibleTabKeys (Some sample_ebpf_task) (\<lambda>_. False))"
    by (simp add: visible_panel_iff visiblePanel_def expectedPanelsForTask_def task_type_def sample_ebpf_task_def
        expectedPanelsByTaskType_def)
  moreover have "primaryPanelByTaskType (t_type sample_ebpf_task) = Some Ebpf"
    by (simp add: sample_ebpf_task_def primaryPanelByTaskType_def)
  ultimately show ?thesis
    using active_tab_visible [of sample_ebpf_task "\<lambda>_. False" "Panel Flame"] by simp
qed

lemma sort_key_two:
  "sort_key (\<lambda>x. if P x then 0 else 1 :: nat) xs = filter P xs @ filter (\<lambda>x. \<not> P x) xs"
proof -
  let ?k = "\<lambda>x. if P x then 0 else 1 :: nat"
  have front: "insort_key ?k x ys = x # ys" if "P x" for x ys
    using that by (cases ys) auto
  have rear: "insort_key ?k x (ps @ ys) = ps @ x # ys"
    if "\<not> P x" "list_all P ps" "list_all (\<lambda>y. \<not> P y) ys" for x ps ys
    using that by (induction ps) (cases ys; auto)+
  show ?thesis
    by (induction xs) (simp_all add: front rear list_all_iff)
qed

text \<open>
  The flame graph is drawn from the first collapsed file the analysis produced; only when
  there is none, from the first collapsed file of the collector; and from no file exactly when no
  file is a collapsed one.
\<close>

theorem collapsed_file_choice:
  "collapsedFile files =
     (case List.find (\<lambda>f. isCollapsedArtifact f \<and> isAnalysisArtifact f) files of
        Some f \<Rightarrow> Some f
      | None \<Rightarrow> List.find isCollapsedArtifact files)"
proof (cases "filter (\<lambda>f. isCollapsedArtifact f \<and> isAnalysisArtifact f) files")
  case Nil
  then have "filter (\<lambda>f. \<not> isAnalysisArtifact f) (filter isCollapsedArtifact files) = filter isCollapsedArtifact files"
    unfolding filter_filter by (intro filter_cong) (auto simp: filter_empty_conv)
  with Nil show ?thesis
    by (simp add: collapsedFile_def sort_key_two find_filter conj_commute)
next
  case (Cons f fs)
  then show ?thesis
    by (simp add: collapsedFile_def sort_key_two find_filter conj_commute)
qed

lemma scale_bytes_result:
  "scale_bytes left sz i = (r, j) \<Longrightarrow> 0 < sz \<Longrightarrow>
     i \<le> j \<and> j \<le> i + left \<and> r = sz / 1024 ^ (j - i) \<and> (r < 1024 \<or> j = i + left) \<and> (i < j \<longrightarrow> 1 \<le> r)"
proof (induction left arbitrary: sz i)
  case (Suc left)
  show ?case
  proof (cases "sz \<ge> 1024")
    case True
    with Suc.prems have "scale_bytes left (sz / 1024) (Suc i) = (r, j)"
      by simp
    with Suc.IH [OF this] True have
      "Suc i \<le> j" "j \<le> Suc i + left" "r = sz / 1024 / 1024 ^ (j - Suc i)" "r < 1024 \<or> j = Suc i + left" "Suc i < j \<longrightarrow> 1 \<le> r"
      by auto
    moreover from this have "j - i = Suc (j - Suc i)"
      by simp
    moreover have "1 \<le> r"
      using calculation True by (cases "j = Suc i") auto
    ultimately show ?thesis
      by simp
  next
    case False
    with Suc.prems show ?thesis by auto
  qed
qed auto

text \<open>The loop as the code writes it; \<open>None\<close> would mean that it runs forever.\<close>

definition bytes_loop :: "rat \<Rightarrow> (rat \<times> nat) option" where
  "bytes_loop value =
     while_option (\<lambda>(sz, i). sz \<ge> 1024 \<and> i < length byte_units - 1) (\<lambda>(sz, i). (sz / 1024, i + 1)) (value, 0)"

lemma bytes_loop_from:
  "i + left = n \<Longrightarrow>
     while_option (\<lambda>(sz, i). sz \<ge> 1024 \<and> i < n) (\<lambda>(sz, i). (sz / 1024, i + 1)) (sz, i) = Some (scale_bytes left sz i)"
proof (induction left arbitrary: sz i)
  case 0
  then show ?case by (subst while_option_unfold) simp
next
  case (Suc left)
  then have "while_option (\<lambda>(sz, i). sz \<ge> 1024 \<and> i < n) (\<lambda>(sz, i). (sz / 1024, i + 1)) (sz / 1024, i + 1) =
      Some (scale_bytes left (sz / 1024) (i + 1))"
    by simp
  with Suc.prems show ?case
    by (subst while_option_unfold) simp
qed

text \<open>
  The loop of \<open>formatBytes\<close> ends for every byte count, however large, after at most four
  divisions (the number of units less one), with a size that is the count divided by 1024 once per step; and the
  text that is printed comes from the state in which it ends.
\<close>

theorem formatBytes_loop_ends:
  "\<exists>sz i. bytes_loop a = Some (sz, i) \<and> i \<le> 4 \<and> sz * 1024 ^ i = a \<and> (sz < 1024 \<or> i = 4) \<and>
     formatBytes (Fin a) = (if a \<le> 0 then js ''0 B''
       else to_fixed (if i = 0 then 0 else 2) (Fin sz) @ js '' '' @ byte_units ! i)"
proof -
  obtain sz i where r: "scale_bytes 4 a 0 = (sz, i)"
    by (cases "scale_bytes 4 a 0")
  have four: "length byte_units - 1 = 4"
    by (simp add: byte_units_def)
  have "bytes_loop a = Some (sz, i)"
    unfolding bytes_loop_def using bytes_loop_from [of 0 4 "length byte_units - 1" a] four r by simp
  moreover have "i \<le> 4 \<and> sz * 1024 ^ i = a \<and> (sz < 1024 \<or> i = 4)"
  proof (cases "0 < a")
    case True
    from scale_bytes_result [OF r this] show ?thesis by auto
  next
    case False
    then have "\<not> 1024 \<le> a" by simp
    with r have "sz = a" "i = 0"
      by (simp_all add: numeral_eq_Suc)
    with False show ?thesis by simp
  qed
  moreover have "formatBytes (Fin a) = (if a \<le> 0 then js ''0 B''
       else to_fixed (if i = 0 then 0 else 2) (Fin sz) @ js '' '' @ byte_units ! i)"
    by (simp only: formatBytes_def jsnum.case four r prod.case)
  ultimately show ?thesis by blast
qed

text \<open>
  A positive byte count is printed in the largest unit that keeps the number at one or
  more, up to terabytes: the number printed is the exact quotient by that power of 1024, below 1024
  unless the unit is the last one, without decimals for bytes and with two for the other units.
\<close>

theorem formatBytes_scale:
  assumes "0 < a"
  shows "\<exists>j q. j \<le> 4 \<and> q * 1024 ^ j = a \<and> (q < 1024 \<or> j = 4) \<and> (0 < j \<longrightarrow> 1 \<le> q) \<and>
    formatBytes (Fin a) = to_fixed (if j = 0 then 0 else 2) (Fin q) @ js '' '' @ byte_units ! j"
proof -
  obtain q j where qj: "scale_bytes 4 a 0 = (q, j)"
    by (cases "scale_bytes 4 a 0")
  have "length byte_units - 1 = 4"
    by (simp add: byte_units_def)
  then have fb: "formatBytes (Fin a) = to_fixed (if j = 0 then 0 else 2) (Fin q) @ js '' '' @ byte_units ! j"
    using assms qj by (simp only: formatBytes_def jsnum.case prod.case not_le [symmetric] simp_thms if_False)
  note r = scale_bytes_result [OF qj assms, unfolded add_0 minus_nat.diff_0, THEN conjunct2]
  have "q * 1024 ^ j = a"
    by (simp add: r [THEN conjunct2, THEN conjunct1])
  then show ?thesis
    by (intro exI [of _ j] exI [of _ q] conjI fb r [THEN conjunct1] r [THEN conjunct2, THEN conjunct2, THEN conjunct1]
        r [THEN conjunct2, THEN conjunct2, THEN conjunct2])
qed

theorem formatBytes_scale_witness:
  "\<exists>j q. j \<le> 4 \<and> q * 1024 ^ j = 5000000 \<and>
     formatBytes (Fin 5000000) = to_fixed (if j = 0 then 0 else 2) (Fin q) @ js '' '' @ byte_units ! j"
proof -
  have "0 < (5000000 :: rat)"
    by simp
  from formatBytes_scale [OF this] show ?thesis
    by (elim exE conjE) (intro exI conjI)
qed

text \<open>
  The table of a pprof CPU profile lists every function of the profile once per entry, in
  descending order of its flat count, and no count is NaN, whatever the values in the profile are.
\<close>

theorem pprof_rows_sorted:
  assumes "truthy data"
  shows "mset (pprofCpuRows data) =
      image_mset (\<lambda>kv. \<lparr>pc_func = fst kv, pc_flat = num_or_zero (snd kv)\<rparr>) (mset (entries data)) \<and>
    sorted_wrt (\<lambda>a b. num_le (pc_flat b) (pc_flat a)) (pprofCpuRows data) \<and>
    (\<forall>r \<in> set (pprofCpuRows data). pc_flat r \<noteq> NaN)"
proof -
  let ?rows = "map (\<lambda>kv. \<lparr>pc_func = fst kv, pc_flat = num_or_zero (snd kv)\<rparr>) (entries data)"
  have m: "mset (sort_num_desc pc_flat ?rows) = mset ?rows"
    by (rule mset_sort_num_desc) auto
  then have "set (sort_num_desc pc_flat ?rows) = set ?rows"
    by (rule mset_eq_setD)
  then show ?thesis
    using assms m by (simp add: pprofCpuRows_def sorted_sort_num_desc)
qed

theorem pprof_rows_sorted_witness:
  "sorted_wrt (\<lambda>a b. num_le (pc_flat b) (pc_flat a)) (pprofCpuRows (JObj [([97], JNum (Fin 1)), ([98], JNum (Fin 2))]))"
  using pprof_rows_sorted [of "JObj [([97], JNum (Fin 1)), ([98], JNum (Fin 2))]"] by simp

lemma badge_label_nonempty: "statusMap v = Some b \<or> analysisMap v = Some b \<Longrightarrow> badge_label b \<noteq> []"
  by (auto simp: statusMap_def analysisMap_def msg_defs split: if_splits)

text \<open>
  Every entry of the state history has a label and a colour: the name of the state for a
  known state, the number itself for an unknown one, and the creation label for a state below zero.
\<close>

theorem state_label_total:
  "stateHistoryLabel item field \<noteq> [] \<and> stateHistoryColor item \<noteq> [] \<and>
   (sh_change_type item \<noteq> 1 \<and> 6 < sh_to_state item \<longrightarrow> stateHistoryLabel item to_state = int_str (sh_to_state item))"
  by (auto simp: stateHistoryLabel_def stateHistoryColor_def state_mapping_def Let_def lbl_created_def statusMap_def
      split: state_field.split)

theorem state_label_total_witness:
  "stateHistoryLabel \<lparr>sh_id = 1, sh_tid = [], sh_from_state = 3, sh_to_state = 9, sh_reason = [], sh_change_type = 0,
     sh_created_at = []\<rparr> to_state = int_str 9"
  using state_label_total [of "\<lparr>sh_id = 1, sh_tid = [], sh_from_state = 3, sh_to_state = 9, sh_reason = [],
     sh_change_type = 0, sh_created_at = []\<rparr>" to_state] by simp

end
