(* ===== verification/Result_Load.thy ===== *)
theory Result_Load
  imports Result_View
begin

text \<open>
  Loading the result page of a task (\<open>src/web/src/pages/TaskResult.tsx\<close>): the chain of requests of
  \<open>loadTask\<close>, phase by phase in the order of the source; the object URL of the Memray report, whose
  loads may overlap; and the interval that reloads a task in progress.
\<close>

section \<open>The Memray object URL\<close>

text \<open>
  Object URLs are numbered in the order of their creation. \<open>mr_ref\<close> is \<open>memrayObjectUrlRef.current\<close>,
  \<open>mr_url\<close> the state the panel shows, \<open>mr_live\<close> the URLs created and not revoked, \<open>mr_pending\<close> the
  number of report downloads under way.
\<close>

record memray =
  mr_ref :: "nat option"
  mr_url :: "nat option"
  mr_live :: "nat set"
  mr_next :: nat
  mr_pending :: nat
  mr_mounted :: bool

definition memray_initial :: memray where
  "memray_initial =
     \<lparr>mr_ref = None, mr_url = None, mr_live = {}, mr_next = 0, mr_pending = 0, mr_mounted = True\<rparr>"

definition revoke :: "nat option \<Rightarrow> memray \<Rightarrow> memray" where
  "revoke u m = m\<lparr>mr_live := mr_live m - set_option u\<rparr>"

definition clearMemrayHtmlUrl :: "memray \<Rightarrow> memray" where
  "clearMemrayHtmlUrl m = (revoke (mr_ref m) m)\<lparr>mr_ref := None, mr_url := None\<rparr>"

text \<open>The download of a report: its guard and start, and its end with the text, if it was one.\<close>

definition memray_start :: "memray \<Rightarrow> memray" where
  "memray_start m = (if mr_ref m = None then m\<lparr>mr_pending := Suc (mr_pending m)\<rparr> else m)"

definition memray_done :: "jstring \<Rightarrow> memray \<Rightarrow> memray" where
  "memray_done html m =
     (let m = m\<lparr>mr_pending := mr_pending m - 1\<rparr>
      in if html = [] then m
         else (let m = revoke (mr_ref m) m
               in m\<lparr>mr_live := insert (mr_next m) (mr_live m), mr_ref := Some (mr_next m),
                    mr_url := Some (mr_next m), mr_next := Suc (mr_next m)\<rparr>))"

definition memray_unmount :: "memray \<Rightarrow> memray" where
  "memray_unmount m = (revoke (mr_ref m) m)\<lparr>mr_mounted := False\<rparr>"

inductive memray_reachable :: "memray \<Rightarrow> bool" where
  init: "memray_reachable memray_initial"
| clear: "memray_reachable m \<Longrightarrow> mr_mounted m \<Longrightarrow> memray_reachable (clearMemrayHtmlUrl m)"
| load: "memray_reachable m \<Longrightarrow> mr_mounted m \<Longrightarrow> memray_reachable (memray_start m)"
| finished: "memray_reachable m \<Longrightarrow> 0 < mr_pending m \<Longrightarrow> memray_reachable (memray_done html m)"
| unmount: "memray_reachable m \<Longrightarrow> mr_mounted m \<Longrightarrow> memray_reachable (memray_unmount m)"

section \<open>Page state\<close>

record result_page =
  rp_tid :: jstring
  rp_activeTab :: tab_key
  rp_task :: "HotmethodTask option"
  rp_suggestions :: "AnalysisSuggestion list"
  rp_stateHistory :: "TaskStateHistory list"
  rp_flameError :: jstring
  rp_topn :: "jsval list"
  rp_collapsedText :: jstring
  rp_svgMarkup :: jstring
  rp_cosFiles :: "CosFile list"
  rp_loading :: bool
  rp_error :: jstring
  rp_eBpfData :: jsval
  rp_eBpfLoading :: bool
  rp_pprofCpuData :: jsval
  rp_pprofHeapData :: jsval
  rp_pprofLoading :: bool
  rp_memoryData :: jsval
  rp_memray :: memray
  rp_memrayLoading :: bool
  rp_memrayError :: jstring
  rp_heapData :: jsval
  rp_resourceData :: jsval
  rp_attributionEvidence :: jsval

text \<open>The answers of the server to the requests of one load.\<close>

record result_server =
  rs_detail :: "api_exn + TaskDetailData ApiResponse"
  rs_suggestions :: "api_exn + AnalysisSuggestion list ApiResponse"
  rs_flame :: "api_exn + FlameData ApiResponse"
  rs_files :: "api_exn + CosFile list ApiResponse"
  rs_text :: "jstring \<Rightarrow> api_exn + jsval"
  rs_json :: "jstring \<Rightarrow> api_exn + jsval"

definition msg_no_tid :: jstring where \<comment> \<open>the task id is missing\<close>
  [msg_defs]: "msg_no_tid = [0x7F3A, 0x5C11, 0x4EFB, 0x52A1, 32, 73, 68]"
definition msg_no_task :: jstring where \<comment> \<open>the task does not exist\<close>
  [msg_defs]: "msg_no_task = [0x4EFB, 0x52A1, 0x4E0D, 0x5B58, 0x5728]"
definition msg_detail_failed :: jstring where \<comment> \<open>loading the task failed\<close>
  [msg_defs]: "msg_detail_failed = [0x4EFB, 0x52A1, 0x8BE6, 0x60C5, 0x52A0, 0x8F7D, 0x5931, 0x8D25]"
definition msg_no_flame_data :: jstring where \<comment> \<open>no flame graph that can be rendered\<close>
  [msg_defs]: "msg_no_flame_data = [0x6682, 0x65E0, 0x53EF, 0x6E32, 0x67D3, 0x7684, 0x706B, 0x7130, 0x56FE, 0x6570, 0x636E]"
definition msg_memray_failed :: jstring where \<comment> \<open>loading the Memray report failed\<close>
  [msg_defs]: "msg_memray_failed = [77, 101, 109, 114, 97, 121, 32, 0x53EF, 0x89C6, 0x5316, 0x52A0, 0x8F7D, 0x5931, 0x8D25]"

text \<open>The effect on a new task id.\<close>

definition reset_page :: "jstring \<Rightarrow> result_page \<Rightarrow> result_page" where
  "reset_page tid p =
     p\<lparr>rp_tid := tid, rp_activeTab := Panel Flame, rp_task := None, rp_suggestions := [], rp_stateHistory := [],
       rp_cosFiles := [], rp_flameError := [], rp_topn := [], rp_collapsedText := [], rp_svgMarkup := [],
       rp_eBpfData := Null, rp_eBpfLoading := False, rp_pprofCpuData := Null, rp_pprofHeapData := Null,
       rp_pprofLoading := False, rp_memoryData := Null, rp_memray := clearMemrayHtmlUrl (rp_memray p),
       rp_memrayLoading := False, rp_memrayError := [], rp_heapData := Null, rp_resourceData := Null,
       rp_attributionEvidence := Null\<rparr>"

section \<open>loadTask\<close>

definition load_begin :: "result_page \<Rightarrow> result_page" where
  "load_begin p =
     p\<lparr>rp_error := [], rp_eBpfData := Null, rp_eBpfLoading := False, rp_pprofCpuData := Null,
       rp_pprofHeapData := Null, rp_pprofLoading := False, rp_memoryData := Null, rp_memrayError := [],
       rp_heapData := Null, rp_resourceData := Null, rp_attributionEvidence := Null\<rparr>"

text \<open>The detail request: the task, or the error that ends the load.\<close>

definition detail_result :: "result_server \<Rightarrow> api_exn + HotmethodTask \<times> TaskDetailData" where
  "detail_result srv =
     (case rs_detail srv of
        Inl e \<Rightarrow> Inl e
      | Inr res \<Rightarrow>
        (let missing = Inl (mk_error (or_str (opt_str (res_message res)) msg_no_task))
         in if res_code res \<noteq> 0 then missing
            else (case res_data res of
                    None \<Rightarrow> missing
                  | Some d \<Rightarrow> (case td_task d of None \<Rightarrow> missing | Some t \<Rightarrow> Inr (t, d)))))"

definition load_detail :: "HotmethodTask \<times> TaskDetailData \<Rightarrow> result_page \<Rightarrow> result_page" where
  "load_detail td p =
     (case td of (t, d) \<Rightarrow>
        p\<lparr>rp_task := Some t, rp_suggestions := opt_items (td_suggestions d),
          rp_cosFiles := opt_items (td_cos_files d), rp_stateHistory := opt_items (td_state_history d)\<rparr>)"

definition load_suggestions :: "result_server \<Rightarrow> result_page \<Rightarrow> result_page" where
  "load_suggestions srv p =
     (case rs_suggestions srv of
        Inl e \<Rightarrow> p
      | Inr res \<Rightarrow> if res_code res = 0 then p\<lparr>rp_suggestions := opt_items (res_data res)\<rparr> else p)"

definition load_flame :: "result_server \<Rightarrow> result_page \<Rightarrow> result_page" where
  "load_flame srv p =
     (let fail = (\<lambda>p. p\<lparr>rp_flameError := msg_no_flame_data\<rparr>)
      in case rs_flame srv of
           Inl e \<Rightarrow> fail p
         | Inr res \<Rightarrow>
           (let p = p\<lparr>rp_flameError := []\<rparr>
            in case res_data res of
                 None \<Rightarrow> p
               | Some d \<Rightarrow>
                 (let key = opt_str (fd_key d)
                  in if res_code res \<noteq> 0 \<or> key = [] then p
                     else if fd_type d = js ''svg'' then
                       (case rs_text srv key of Inl e \<Rightarrow> fail p | Inr v \<Rightarrow> p\<lparr>rp_svgMarkup := str_of v\<rparr>)
                     else if fd_type d = js ''json'' then
                       (case rs_json srv key of Inl e \<Rightarrow> fail p | Inr v \<Rightarrow> p\<lparr>rp_topn := elems v\<rparr>)
                     else if fd_type d = js ''collapsed'' then
                       (case rs_text srv key of Inl e \<Rightarrow> fail p | Inr v \<Rightarrow> p\<lparr>rp_collapsedText := str_of v\<rparr>)
                     else p)))"

text \<open>The files of the task: those of the detail, or a fresh list when there are none.\<close>

definition files_of :: "result_server \<Rightarrow> TaskDetailData \<Rightarrow> CosFile list" where
  "files_of srv d =
     (if opt_items (td_cos_files d) \<noteq> [] then opt_items (td_cos_files d)
      else (case rs_files srv of Inl e \<Rightarrow> [] | Inr res \<Rightarrow> opt_items (res_data res)))"

definition load_files :: "result_server \<Rightarrow> TaskDetailData \<Rightarrow> result_page \<Rightarrow> result_page" where
  "load_files srv d p = p\<lparr>rp_cosFiles := files_of srv d\<rparr>"

text \<open>\<open>file?.key\<close>, empty when there is no file or no key.\<close>

definition file_key :: "CosFile option \<Rightarrow> jstring" where
  "file_key f = (case f of None \<Rightarrow> [] | Some f \<Rightarrow> opt_str (cf_key f))"

definition load_top :: "result_server \<Rightarrow> CosFile list \<Rightarrow> result_page \<Rightarrow> result_page" where
  "load_top srv files p =
     (let key = file_key (find_named ''top.json'' files)
      in if key = [] then p
         else (case rs_json srv key of Inl e \<Rightarrow> p\<lparr>rp_topn := []\<rparr> | Inr v \<Rightarrow> p\<lparr>rp_topn := elems v\<rparr>))"

definition load_collapsed :: "result_server \<Rightarrow> CosFile list \<Rightarrow> result_page \<Rightarrow> result_page" where
  "load_collapsed srv files p =
     (let key = file_key (collapsedFile files)
      in if key = [] then p
         else (case rs_text srv key of
                 Inl e \<Rightarrow> p
               | Inr v \<Rightarrow> if str_of v \<noteq> [] then p\<lparr>rp_collapsedText := str_of v\<rparr> else p))"

definition load_ebpf :: "result_server \<Rightarrow> CosFile list \<Rightarrow> result_page \<Rightarrow> result_page" where
  "load_ebpf srv files p =
     (let key = file_key (find_named ''biosnoop_stats.json'' files)
      in if key = [] then p
         else p\<lparr>rp_eBpfData := (case rs_json srv key of Inl e \<Rightarrow> Null | Inr v \<Rightarrow> v), rp_eBpfLoading := False\<rparr>)"

text \<open>\<open>data?.samples ?? data\<close>, kept when it has the expected shape.\<close>

definition pprof_samples :: "jsval \<Rightarrow> jsval" where
  "pprof_samples v = val_nullish (opt_prop v (js ''samples'')) v"

definition cpu_samples :: "jsval \<Rightarrow> jsval" where
  "cpu_samples v =
     (let s = pprof_samples v in if truthy s \<and> typeof_object s \<and> \<not> is_array s then s else Null)"

definition heap_samples :: "jsval \<Rightarrow> jsval" where
  "heap_samples v = (let s = pprof_samples v in if is_array s then s else Null)"

definition load_pprof :: "result_server \<Rightarrow> CosFile list \<Rightarrow> result_page \<Rightarrow> result_page" where
  "load_pprof srv files p =
     (let ck = file_key (find_named ''pprof_cpu.json'' files); hk = file_key (find_named ''pprof_heap.json'' files);
          fail = (\<lambda>p. p\<lparr>rp_pprofCpuData := Null, rp_pprofHeapData := Null\<rparr>);
          cpu = (if ck = [] then Inr p
                 else (case rs_json srv ck of Inl e \<Rightarrow> Inl p | Inr v \<Rightarrow> Inr (p\<lparr>rp_pprofCpuData := cpu_samples v\<rparr>)))
      in if ck = [] \<and> hk = [] then p
         else (case cpu of
                 Inl p \<Rightarrow> fail p
               | Inr p \<Rightarrow>
                 if hk = [] then p
                 else (case rs_json srv hk of Inl e \<Rightarrow> fail p | Inr v \<Rightarrow> p\<lparr>rp_pprofHeapData := heap_samples v\<rparr>))
              \<lparr>rp_pprofLoading := False\<rparr>)"

text \<open>Four optional artifacts in a row; the first request that is rejected ends the row.\<close>

fun load_row :: "result_server \<Rightarrow> (jstring \<times> (jsval \<Rightarrow> result_page \<Rightarrow> result_page)) list \<Rightarrow> result_page \<Rightarrow> result_page" where
  "load_row srv [] p = p"
| "load_row srv ((key, store) # row) p =
     (if key = [] then load_row srv row p
      else (case rs_json srv key of Inl e \<Rightarrow> p | Inr v \<Rightarrow> load_row srv row (store v p)))"

definition load_extended :: "result_server \<Rightarrow> CosFile list \<Rightarrow> result_page \<Rightarrow> result_page" where
  "load_extended srv files =
     load_row srv
       [(file_key (find_named ''memleak.json'' files), \<lambda>v p. p\<lparr>rp_memoryData := v\<rparr>),
        (file_key (find_named ''heap_stats.json'' files), \<lambda>v p. p\<lparr>rp_heapData := v\<rparr>),
        (file_key (find_named ''resource_stats.json'' files), \<lambda>v p. p\<lparr>rp_resourceData := v\<rparr>),
        (file_key (find_named ''attribution_evidence.json'' files), \<lambda>v p. p\<lparr>rp_attributionEvidence := v\<rparr>)]"

definition load_memray :: "result_server \<Rightarrow> CosFile list \<Rightarrow> result_page \<Rightarrow> result_page" where
  "load_memray srv files p =
     (let key = file_key (List.find isMemrayHtmlArtifact files)
      in if key = [] \<or> mr_ref (rp_memray p) \<noteq> None then p
         else
           (let m = memray_start (rp_memray p)
            in case rs_text srv key of
                 Inl e \<Rightarrow>
                   p\<lparr>rp_memrayError := or_str (opt_str (exn_message e)) msg_memray_failed,
                     rp_memray := memray_done [] m, rp_memrayLoading := False\<rparr>
               | Inr v \<Rightarrow> p\<lparr>rp_memray := memray_done (str_of v) m, rp_memrayLoading := False\<rparr>))"

definition load_artifacts :: "result_server \<Rightarrow> CosFile list \<Rightarrow> result_page \<Rightarrow> result_page" where
  "load_artifacts srv files p =
     load_memray srv files (load_extended srv files (load_pprof srv files (load_ebpf srv files
       (load_collapsed srv files (load_top srv files p)))))"

definition result_loadTask :: "result_server \<Rightarrow> result_page \<Rightarrow> result_page" where
  "result_loadTask srv p =
     (if rp_tid p = [] then p\<lparr>rp_error := msg_no_tid, rp_loading := False\<rparr>
      else
        (let p = load_begin p
         in (case detail_result srv of
               Inl e \<Rightarrow> p\<lparr>rp_error := err_text e msg_detail_failed\<rparr>
             | Inr td \<Rightarrow>
               load_artifacts srv (files_of srv (snd td))
                 (load_files srv (snd td) (load_flame srv (load_suggestions srv (load_detail td p)))))
            \<lparr>rp_loading := False\<rparr>))"

text \<open>A continuous task belongs to another page.\<close>

definition result_redirect :: "result_page \<Rightarrow> jstring option" where
  "result_redirect p =
     (case rp_task p of
        None \<Rightarrow> None
      | Some t \<Rightarrow> if t_type t = 2 then Some (js ''/continuous?tid='' @ t_tid t) else None)"

definition msg_analysis_triggered :: jstring where \<comment> \<open>the analysis was started\<close>
  [msg_defs]: "msg_analysis_triggered = [0x5206, 0x6790, 0x5DF2, 0x89E6, 0x53D1]"
definition msg_trigger_failed :: jstring where \<comment> \<open>starting the analysis failed\<close>
  [msg_defs]: "msg_trigger_failed = [0x89E6, 0x53D1, 0x5206, 0x6790, 0x5931, 0x8D25]"

datatype notice = Success jstring | Failure jstring

definition runAnalysis :: "api_exn + unit \<Rightarrow> result_server \<Rightarrow> result_page \<Rightarrow> notice list \<times> result_page" where
  "runAnalysis triggered srv p =
     (if rp_tid p = [] then ([], p)
      else (case triggered of
              Inl e \<Rightarrow> ([Failure (err_text e msg_trigger_failed)], p)
            | Inr _ \<Rightarrow> ([Success msg_analysis_triggered], result_loadTask srv p)))"

section \<open>The reload interval\<close>

text \<open>
  \<open>pt_task\<close> is \<open>taskRef.current\<close>, \<open>pt_timer\<close> says that the interval is set, \<open>pt_pending\<close> counts the
  loads under way. A load that is answered stores the task of the answer; one that fails stores
  nothing. The user can start a load at any time.
\<close>

record poll_state =
  pt_task :: "HotmethodTask option"
  pt_timer :: bool
  pt_pending :: nat

definition poll_mounted :: poll_state where
  "poll_mounted = \<lparr>pt_task = None, pt_timer = True, pt_pending = 1\<rparr>"

definition poll_tick :: "poll_state \<Rightarrow> poll_state" where
  "poll_tick s =
     (if \<not> shouldPollTask (pt_task s) then s\<lparr>pt_timer := False\<rparr> else s\<lparr>pt_pending := Suc (pt_pending s)\<rparr>)"

inductive poll_step :: "poll_state \<Rightarrow> poll_state \<Rightarrow> bool" where
  tick: "pt_timer s \<Longrightarrow> poll_step s (poll_tick s)"
| answered: "0 < pt_pending s \<Longrightarrow> poll_step s (s\<lparr>pt_task := Some t, pt_pending := pt_pending s - 1\<rparr>)"
| failed: "0 < pt_pending s \<Longrightarrow> poll_step s (s\<lparr>pt_pending := pt_pending s - 1\<rparr>)"

inductive_simps poll_step_simps: "poll_step s t"

section \<open>Properties of the load\<close>

lemmas load_phases [page_defs] =
  load_begin_def load_detail_def load_suggestions_def load_flame_def load_files_def load_top_def
  load_collapsed_def load_ebpf_def load_pprof_def load_memray_def

text \<open>What no phase after the first touches: the error, the main flag and the task.\<close>

definition phase_frame :: "result_page \<Rightarrow> result_page \<Rightarrow> bool" where
  "phase_frame p q \<longleftrightarrow>
     rp_error q = rp_error p \<and> rp_task q = rp_task p \<and> rp_tid q = rp_tid p \<and>
     (\<not> rp_eBpfLoading p \<longrightarrow> \<not> rp_eBpfLoading q) \<and> (\<not> rp_pprofLoading p \<longrightarrow> \<not> rp_pprofLoading q) \<and>
     (\<not> rp_memrayLoading p \<longrightarrow> \<not> rp_memrayLoading q)"

lemma phase_frame_trans: "phase_frame p q \<Longrightarrow> phase_frame q r \<Longrightarrow> phase_frame p r"
  by (auto simp: phase_frame_def)

lemma load_row_frame: "(\<And>k f v q. (k, f) \<in> set row \<Longrightarrow> phase_frame q (f v q)) \<Longrightarrow> phase_frame p (load_row srv row p)"
proof (induction row arbitrary: p)
  case Nil
  then show ?case by (simp add: phase_frame_def)
next
  case (Cons kf row)
  obtain k f where kf: "kf = (k, f)" by (cases kf)
  have row: "phase_frame q (g v q)" if "(j, g) \<in> set row" for j g v q
    using Cons.prems [of j g] that by simp
  have "phase_frame p (f v p)" for v
    by (rule Cons.prems [of k]) (simp add: kf)
  moreover have IH: "phase_frame q (load_row srv row q)" for q
    by (rule Cons.IH) (rule row)
  ultimately have "phase_frame p (load_row srv row (f v p))" for v
    using phase_frame_trans by blast
  moreover note IH [of p]
  moreover have "phase_frame p p"
    by (simp add: phase_frame_def)
  ultimately show ?case
    by (auto simp: kf split: sum.split)
qed

lemma frames:
  "phase_frame p (load_suggestions srv p)" "phase_frame p (load_files srv d p)"
  "phase_frame p (load_top srv files p)" "phase_frame p (load_collapsed srv files p)"
  "phase_frame p (load_ebpf srv files p)" "phase_frame p (load_memray srv files p)"
  by (auto simp: phase_frame_def page_defs Let_def split: sum.split)

lemma load_flame_frame: "phase_frame p (load_flame srv p)"
  by (auto simp: phase_frame_def load_flame_def Let_def split: sum.split option.split)

lemma load_pprof_frame: "phase_frame p (load_pprof srv files p)"
  by (auto simp: phase_frame_def load_pprof_def Let_def split: sum.split)

lemma load_extended_frame: "phase_frame p (load_extended srv files p)"
  unfolding load_extended_def by (rule load_row_frame) (auto simp: phase_frame_def)

lemma load_artifacts_frame: "phase_frame p (load_artifacts srv files p)"
  unfolding load_artifacts_def
  by (intro phase_frame_trans [OF phase_frame_trans [OF phase_frame_trans [OF phase_frame_trans
        [OF phase_frame_trans [OF frames(3) frames(4)] frames(5)] load_pprof_frame] load_extended_frame] frames(6)])

lemma load_rest_frame:
  "phase_frame p (load_artifacts srv files (load_files srv d (load_flame srv (load_suggestions srv p))))"
  by (intro phase_frame_trans [OF phase_frame_trans [OF phase_frame_trans [OF frames(1) load_flame_frame] frames(2)]
        load_artifacts_frame])

definition load_failed :: "result_server \<Rightarrow> result_page \<Rightarrow> bool" where
  "load_failed srv p \<longleftrightarrow> rp_tid p = [] \<or> isl (detail_result srv)"

lemma load_messages [simp]: "msg_no_tid \<noteq> []" "msg_no_task \<noteq> []" "msg_detail_failed \<noteq> []"
  by (simp_all add: msg_defs)

lemma result_loadTask_error: "rp_error (result_loadTask srv p) \<noteq> [] \<longleftrightarrow> load_failed srv p"
proof (cases "detail_result srv")
  case (Inl e)
  then show ?thesis
    by (simp add: result_loadTask_def load_failed_def err_text_nonempty Let_def)
next
  case (Inr td)
  then show ?thesis
    using load_rest_frame [of "load_detail td (load_begin p)" srv "files_of srv (snd td)" "snd td"]
    by (auto simp: result_loadTask_def load_failed_def phase_frame_def load_detail_def load_begin_def Let_def
        split: prod.splits)
qed

interpretation result_load: guarded_handler result_loadTask rp_loading rp_error "\<lambda>_. True" load_failed
  by unfold_locales (simp_all add: result_loadTask_error, simp add: result_loadTask_def Let_def)

text \<open>
  C28: however many loads of the result page run one after the other, the page is not loading
  afterwards, and it shows an error exactly when the last one had no task id or could not get the
  task itself. No other request of a load can bring the page down: when suggestions, flame graph,
  files or any artifact fail, the task is shown without an error.
\<close>

theorem result_load_isolated:
  assumes "q = fold result_loadTask srvs p" and "r = result_loadTask srv q"
  shows "\<not> rp_loading r \<and> (rp_error r \<noteq> [] \<longleftrightarrow> rp_tid q = [] \<or> isl (detail_result srv)) \<and>
    (\<forall>t d. rp_tid q \<noteq> [] \<and> detail_result srv = Inr (t, d) \<longrightarrow> rp_task r = Some t)"
proof -
  have "rp_task r = Some t" if "rp_tid q \<noteq> []" "detail_result srv = Inr (t, d)" for t d
    using that assms(2) load_rest_frame [of "load_detail (t, d) (load_begin q)" srv "files_of srv d" d]
    by (simp add: result_loadTask_def phase_frame_def load_detail_def Let_def)
  then show ?thesis
    using assms result_load.settles [of srv q] result_load.reports [of srv q] by (simp add: load_failed_def)
qed

definition page_of :: "jstring \<Rightarrow> result_page" where
  "page_of tid = reset_page tid
     \<lparr>rp_tid = tid, rp_activeTab = Panel Flame, rp_task = None, rp_suggestions = [], rp_stateHistory = [],
      rp_flameError = [], rp_topn = [], rp_collapsedText = [], rp_svgMarkup = [], rp_cosFiles = [], rp_loading = True,
      rp_error = [], rp_eBpfData = Null, rp_eBpfLoading = False, rp_pprofCpuData = Null, rp_pprofHeapData = Null,
      rp_pprofLoading = False, rp_memoryData = Null, rp_memray = memray_initial, rp_memrayLoading = False,
      rp_memrayError = [], rp_heapData = Null, rp_resourceData = Null, rp_attributionEvidence = Null\<rparr>"

definition sample_result_server :: result_server where
  "sample_result_server =
     \<lparr>rs_detail = Inr \<lparr>res_code = 0, res_data = Some \<lparr>td_task = Some sample_ebpf_task, td_suggestions = None,
        td_cos_files = None, td_state_history = None\<rparr>, res_message = None\<rparr>,
      rs_suggestions = Inl (mk_error []), rs_flame = Inl (mk_error []), rs_files = Inl (mk_error []),
      rs_text = (\<lambda>_. Inl (mk_error [])), rs_json = (\<lambda>_. Inl (mk_error []))\<rparr>"

theorem result_load_isolated_witness:
  "rp_error (result_loadTask sample_result_server (page_of [49])) = [] \<and>
   rp_task (result_loadTask sample_result_server (page_of [49])) = Some sample_ebpf_task"
proof -
  have "detail_result sample_result_server = Inr (sample_ebpf_task, \<lparr>td_task = Some sample_ebpf_task, td_suggestions = None,
      td_cos_files = None, td_state_history = None\<rparr>)"
    by (simp add: detail_result_def sample_result_server_def Let_def)
  moreover have "rp_tid (page_of [49]) \<noteq> []"
    by (simp add: page_of_def reset_page_def)
  ultimately show ?thesis
    using result_load_isolated [of "page_of [49]" "[]" "page_of [49]"
        "result_loadTask sample_result_server (page_of [49])" sample_result_server] by simp
qed

lemma result_load_flags:
  assumes "rp_tid p \<noteq> []"
  shows "\<not> rp_eBpfLoading (result_loadTask srv p) \<and> \<not> rp_pprofLoading (result_loadTask srv p) \<and>
    (rp_memrayLoading (result_loadTask srv p) \<longrightarrow> rp_memrayLoading p)"
proof (cases "detail_result srv")
  case (Inl e)
  then show ?thesis
    using assms by (simp add: result_loadTask_def load_begin_def Let_def)
next
  case (Inr td)
  then show ?thesis
    using assms load_rest_frame [of "load_detail td (load_begin p)" srv "files_of srv (snd td)" "snd td"]
    by (auto simp: result_loadTask_def phase_frame_def load_detail_def load_begin_def Let_def split: prod.splits)
qed

text \<open>
  A load that starts with the secondary spinners off ends with all of them off: neither
  the eBPF, nor the pprof, nor the Memray panel can keep spinning, whatever fails on the way.
\<close>

theorem result_secondary_flags:
  assumes "\<not> rp_memrayLoading p" and "rp_tid p \<noteq> []"
  shows "\<not> rp_eBpfLoading (result_loadTask srv p) \<and> \<not> rp_pprofLoading (result_loadTask srv p) \<and>
    \<not> rp_memrayLoading (result_loadTask srv p)"
  using assms result_load_flags by blast

theorem result_secondary_flags_witness:
  "\<not> rp_pprofLoading (result_loadTask sample_result_server (page_of [49]))"
  using result_secondary_flags [of "page_of [49]" sample_result_server] by (simp add: page_of_def reset_page_def)

text \<open>The collapsed text on screen is the one of the chosen file: no later phase touches it.\<close>

lemma load_row_collapsed:
  "\<forall>kf \<in> set row. \<forall>v q. rp_collapsedText (snd kf v q) = rp_collapsedText q \<Longrightarrow>
     rp_collapsedText (load_row srv row p) = rp_collapsedText p"
  by (induction srv row p rule: load_row.induct) (auto split: sum.split)

lemma load_artifacts_collapsed:
  "rp_collapsedText (load_artifacts srv files p) = rp_collapsedText (load_collapsed srv files (load_top srv files p))"
proof -
  have "rp_collapsedText (load_extended srv files q) = rp_collapsedText q" for q
    unfolding load_extended_def by (rule load_row_collapsed) auto
  then show ?thesis
    by (auto simp: load_artifacts_def load_memray_def load_pprof_def load_ebpf_def Let_def split: sum.split)
qed

lemma result_collapsed_text:
  assumes "rp_tid p \<noteq> []" and "detail_result srv = Inr (t, d)"
    and "file_key (collapsedFile (files_of srv d)) = key" and "key \<noteq> []"
    and "rs_text srv key = Inr (JStr s)" and "s \<noteq> []"
  shows "rp_collapsedText (result_loadTask srv p) = s"
  using assms by (simp add: result_loadTask_def load_artifacts_collapsed load_collapsed_def Let_def)

section \<open>Properties of the object URL\<close>

definition memray_inv :: "memray \<Rightarrow> bool" where
  "memray_inv m \<longleftrightarrow>
     (mr_mounted m \<longrightarrow> mr_live m = set_option (mr_ref m) \<and> mr_url m = mr_ref m) \<and>
     mr_live m \<subseteq> set_option (mr_ref m) \<and> (\<forall>u \<in> set_option (mr_ref m) \<union> mr_live m. u < mr_next m)"

lemma memray_reachable_inv: "memray_reachable m \<Longrightarrow> memray_inv m"
  by (induction rule: memray_reachable.induct)
    (auto simp: memray_inv_def memray_initial_def clearMemrayHtmlUrl_def memray_start_def memray_done_def
      memray_unmount_def revoke_def Let_def)

text \<open>
  The page never leaks the object URL of a Memray report and never shows a dead one: in any
  interleaving of loads, downloads that end late and changes of the task, the only live URL is the
  one the page holds, the panel shows exactly that URL, and after the page is closed at most one
  URL is live.
\<close>

theorem memray_url_owned:
  assumes "memray_reachable m"
  shows "(mr_mounted m \<longrightarrow> mr_live m = set_option (mr_url m) \<and> mr_url m = mr_ref m) \<and> card (mr_live m) \<le> 1"
proof -
  have inv: "memray_inv m"
    using assms by (rule memray_reachable_inv)
  have "card (mr_live m) \<le> card (set_option (mr_ref m))"
    using inv by (intro card_mono) (auto simp: memray_inv_def)
  also have "\<dots> \<le> 1"
    by (cases "mr_ref m") auto
  finally show ?thesis
    using inv by (simp add: memray_inv_def)
qed

theorem memray_url_owned_witness:
  "mr_live (memray_done [104] (memray_start memray_initial)) =
     set_option (mr_url (memray_done [104] (memray_start memray_initial)))"
proof -
  have "memray_reachable (memray_start memray_initial)"
    by (rule memray_reachable.load [OF memray_reachable.init]) (simp add: memray_initial_def)
  then have r: "memray_reachable (memray_done [104] (memray_start memray_initial))"
    by (rule memray_reachable.finished) (simp add: memray_start_def memray_initial_def)
  have "mr_mounted (memray_done [104] (memray_start memray_initial))"
    by (simp add: memray_done_def memray_start_def memray_initial_def revoke_def Let_def)
  with memray_url_owned [OF r] show ?thesis by simp
qed

text \<open>
  A download that ends after the page was closed creates an object URL nobody revokes.
\<close>

theorem memray_leak_after_close:
  "\<exists>m. memray_reachable m \<and> \<not> mr_mounted m \<and> mr_pending m = 0 \<and> mr_live m \<noteq> {}"
proof -
  let ?a = "memray_start memray_initial"
  let ?b = "memray_unmount ?a"
  let ?c = "memray_done [104] ?b"
  have "memray_reachable ?a"
    by (rule memray_reachable.load [OF memray_reachable.init]) (simp add: memray_initial_def)
  then have "memray_reachable ?b"
    by (rule memray_reachable.unmount) (simp add: memray_start_def memray_initial_def)
  then have "memray_reachable ?c"
    by (rule memray_reachable.finished) (simp add: memray_unmount_def memray_start_def memray_initial_def revoke_def)
  then show ?thesis
    by (intro exI [of _ ?c])
      (simp add: memray_done_def memray_unmount_def memray_start_def memray_initial_def revoke_def Let_def)
qed

section \<open>Properties of the interval\<close>

definition running_task :: HotmethodTask where
  "running_task = sample_ebpf_task\<lparr>t_status := 2, t_analysis_status := 0\<rparr>"

text \<open>
  The page can stop reloading a task that is still running. When the first load takes
  longer than the first tick, the tick finds no task and clears the interval; after the answer the
  page shows a running task, and no further event ever changes it.
\<close>

theorem result_poll_stops_early:
  "\<exists>s. poll_step\<^sup>*\<^sup>* poll_mounted s \<and> shouldPollTask (pt_task s) \<and> (\<forall>t. \<not> poll_step s t)"
proof -
  let ?a = "poll_tick poll_mounted"
  let ?b = "?a\<lparr>pt_task := Some running_task, pt_pending := pt_pending ?a - 1\<rparr>"
  have a: "?a = poll_mounted\<lparr>pt_timer := False\<rparr>"
    by (simp add: poll_tick_def poll_mounted_def shouldPollTask_def)
  have "poll_step poll_mounted ?a"
    by (rule poll_step.tick) (simp add: poll_mounted_def)
  moreover have "poll_step ?a ?b"
    by (rule poll_step.answered, unfold a) (simp add: poll_mounted_def)
  ultimately have "poll_step\<^sup>*\<^sup>* poll_mounted ?b"
    by (meson rtranclp.rtrancl_refl rtranclp.rtrancl_into_rtrancl)
  moreover have "shouldPollTask (pt_task ?b)"
    by (simp add: shouldPollTask_def running_task_def)
  moreover have "\<not> poll_step ?b t" for t
    unfolding a by (simp add: poll_step_simps poll_mounted_def)
  ultimately show ?thesis by blast
qed

lemma poll_step_timer: "poll_step s t \<Longrightarrow> pt_timer t \<Longrightarrow> pt_timer s"
  by (auto simp: poll_step_simps poll_tick_def split: if_splits)

text \<open>
  An interval that was cleared stays cleared through every later event, so a task whose
  analysis is started again after it was finished is not reloaded; and while the interval is set, a
  tick on a task in progress sends one more load and keeps the interval.
\<close>

theorem result_poll_never_resumes:
  assumes "poll_step\<^sup>*\<^sup>* s t"
  shows "(\<not> pt_timer s \<longrightarrow> \<not> pt_timer t) \<and>
    (pt_timer t \<and> shouldPollTask (pt_task t) \<longrightarrow>
       poll_step t (t\<lparr>pt_pending := Suc (pt_pending t)\<rparr>))"
proof -
  from assms have "\<not> pt_timer s \<longrightarrow> \<not> pt_timer t"
    by (induction rule: rtranclp_induct) (auto dest: poll_step_timer)
  moreover have "poll_step t (t\<lparr>pt_pending := Suc (pt_pending t)\<rparr>)" if "pt_timer t" "shouldPollTask (pt_task t)"
    using poll_step.tick [OF that(1)] that(2) by (simp add: poll_tick_def)
  ultimately show ?thesis by blast
qed

theorem result_poll_never_resumes_witness:
  "\<not> pt_timer (poll_mounted\<lparr>pt_timer := False\<rparr>) \<longrightarrow> \<not> pt_timer (poll_mounted\<lparr>pt_timer := False, pt_pending := 0\<rparr>)"
proof -
  have "poll_step\<^sup>*\<^sup>* (poll_mounted\<lparr>pt_timer := False\<rparr>) (poll_mounted\<lparr>pt_timer := False, pt_pending := 0\<rparr>)"
    using poll_step.failed [of "poll_mounted\<lparr>pt_timer := False\<rparr>"] by (simp add: poll_mounted_def r_into_rtranclp)
  from result_poll_never_resumes [OF this] show ?thesis by blast
qed

end
