(* ===== verification/Attribution.thy ===== *)
theory Attribution
  imports Domain
begin

text \<open>
  The attribution report of the result page (\<open>src/web/src/pages/TaskResult.tsx\<close>): the parser of the
  Markdown report, whose regular expression is matched here with the backtracking order of
  ECMAScript, and the list of evidence rows of the report's JSON companion. Main result: a report
  printed from titled sections is parsed back to these sections.
\<close>

section \<open>Headings\<close>

text \<open>
  \<open>/^##\s+(.+?)\s*$/gm\<close>: \<open>^\<close> and \<open>$\<close> match next to a line terminator, the dot does not match one,
  \<open>\s\<close> does. A greedy star tries the longest run first, the lazy group the shortest title first.
\<close>

definition is_eol :: "nat \<Rightarrow> bool" where
  "is_eol c \<longleftrightarrow> c \<in> {10, 13, 0x2028, 0x2029}"

definition at_eol :: "jstring \<Rightarrow> bool" where
  "at_eol s \<longleftrightarrow> s = [] \<or> is_eol (hd s)"

definition ws_run :: "jstring \<Rightarrow> nat" where
  "ws_run s = length (takeWhile is_ws s)"

definition trailing :: "jstring \<Rightarrow> nat option" where
  "trailing s = List.find (\<lambda>m. at_eol (drop m s)) (rev [0..<Suc (ws_run s)])"

fun title_match :: "jstring \<Rightarrow> (nat \<times> nat) option" where
  "title_match [] = None"
| "title_match (c # cs) =
     (if is_eol c then None
      else (case trailing cs of
              Some m \<Rightarrow> Some (1, m)
            | None \<Rightarrow> map_option (\<lambda>(j, m). (Suc j, m)) (title_match cs)))"

text \<open>The first of the attempts that succeeds, with the longest run of white space first.\<close>

fun first_title :: "nat \<Rightarrow> jstring \<Rightarrow> (jstring \<times> nat) option" where
  "first_title 0 r = None"
| "first_title (Suc k) r =
     (case title_match (drop (Suc k) r) of
        Some (j, m) \<Rightarrow> Some (take j (drop (Suc k) r), Suc k + j + m)
      | None \<Rightarrow> first_title k r)"

definition heading :: "jstring \<Rightarrow> (jstring \<times> nat) option" where
  "heading s =
     (if starts_with s [35, 35]
      then map_option (\<lambda>(t, n). (t, 2 + n)) (first_title (ws_run (drop 2 s)) (drop 2 s))
      else None)"

text \<open>\<open>matchAll\<close>: index, length and title of every match; the flag says that \<open>^\<close> matches here.\<close>

function matchAll :: "nat \<Rightarrow> bool \<Rightarrow> jstring \<Rightarrow> (nat \<times> nat \<times> jstring) list" where
  "matchAll pos bol [] = []"
| "matchAll pos bol (c # cs) =
     (case (if bol then heading (c # cs) else None) of
        Some (t, n) \<Rightarrow>
          (pos, n, t) # matchAll (pos + n) (is_eol (last (take n (c # cs)))) (drop (n - 1) cs)
      | None \<Rightarrow> matchAll (Suc pos) (is_eol c) cs)"
  by pat_completeness auto

termination
  by (relation "measure (\<lambda>(_, _, s). length s)") auto

section \<open>Sections\<close>

definition zh_evidence :: jstring where \<comment> \<open>evidence\<close>
  [msg_defs]: "zh_evidence = [0x8BC1, 0x636E]"
definition zh_conclusion :: jstring where \<comment> \<open>conclusion\<close>
  [msg_defs]: "zh_conclusion = [0x7ED3, 0x8BBA]"
definition zh_hypothesis :: jstring where \<comment> \<open>hypothesis\<close>
  [msg_defs]: "zh_hypothesis = [0x5047, 0x8BBE]"
definition zh_collection :: jstring where \<comment> \<open>additional profiling\<close>
  [msg_defs]: "zh_collection = [0x8FFD, 0x52A0, 0x91C7, 0x96C6]"
definition zh_collection2 :: jstring where \<comment> \<open>suggested additional profiling\<close>
  [msg_defs]: "zh_collection2 = [0x5EFA, 0x8BAE, 0x8FFD, 0x52A0, 0x91C7, 0x96C6]"
definition zh_repair_first :: jstring where \<comment> \<open>fix first\<close>
  [msg_defs]: "zh_repair_first = [0x4F18, 0x5148, 0x4FEE, 0x590D]"
definition zh_repair :: jstring where \<comment> \<open>fix\<close>
  [msg_defs]: "zh_repair = [0x4FEE, 0x590D]"

definition normalizeAttributionSectionTitle :: "jstring \<Rightarrow> jstring" where
  "normalizeAttributionSectionTitle title =
     (if str_includes title zh_evidence then js ''evidence''
      else if str_includes title zh_conclusion then js ''conclusion''
      else if str_includes title zh_hypothesis then js ''hypothesis''
      else if str_includes title zh_collection \<or> str_includes title zh_collection2 then js ''collection''
      else if str_includes title zh_repair_first \<or> str_includes title zh_repair then js ''repair''
      else [])"

definition slice :: "jstring \<Rightarrow> nat \<Rightarrow> nat \<Rightarrow> jstring" where
  "slice s i j = take (j - i) (drop i s)"

definition section_bodies :: "jstring \<Rightarrow> (nat \<times> nat \<times> jstring) list \<Rightarrow> (jstring \<times> jstring) list" where
  "section_bodies md ms =
     map2 (\<lambda>(i, n, t) e. (trim t, trim (slice md (i + n) e))) ms (map fst (tl ms) @ [length md])"

definition put_section :: "jstring \<times> jstring \<Rightarrow> (jstring \<times> jstring) list \<Rightarrow> (jstring \<times> jstring) list" where
  "put_section s m =
     (let key = normalizeAttributionSectionTitle (fst s)
      in if key \<noteq> [] \<and> snd s \<noteq> [] then alist_put key (snd s) m else m)"

definition parseAttributionReport :: "jstring \<Rightarrow> (jstring \<times> jstring) list" where
  "parseAttributionReport markdown =
     (if markdown = [] then []
      else
        (let ms = matchAll 0 True markdown
         in if ms = [] then [(js ''conclusion'', trim markdown)]
            else fold put_section (section_bodies markdown ms) []))"

section \<open>Evidence\<close>

definition txt_total_samples :: jstring where \<comment> \<open>total samples\<close>
  [msg_defs]: "txt_total_samples = [0x603B, 0x91C7, 0x6837, 32]"
definition txt_comma :: jstring where \<comment> \<open>comma\<close>
  [msg_defs]: "txt_comma = [0xFF0C]"
definition txt_share :: jstring where \<comment> \<open>share\<close>
  [msg_defs]: "txt_share = [0xFF0C, 0x5360, 0x6BD4, 32]"
definition txt_hot_path :: jstring where \<comment> \<open>share of the hot path\<close>
  [msg_defs]: "txt_hot_path = [0x70ED, 0x8DEF, 0x5F84, 0x5360, 0x6BD4, 32]"
definition txt_colon :: jstring where \<comment> \<open>colon\<close>
  [msg_defs]: "txt_colon = [0xFF1A]"
definition txt_rule_hit :: jstring where \<comment> \<open>rule hit\<close>
  [msg_defs]: "txt_rule_hit = [0x89C4, 0x5219, 0x547D, 0x4E2D, 32]"

text \<open>
  \<open>for (const item of v || [])\<close>: what is iterated, or a TypeError. A string iterates over its code
  points; none of them has the member the rows are kept for, so that one item each is enough here.
\<close>

fun iterate :: "jsval \<Rightarrow> js_error + jsval list" where
  "iterate (JArr xs) = Inr xs"
| "iterate (JStr s) = Inr (map (\<lambda>c. JStr [c]) s)"
| "iterate v = (if truthy v then Inl TypeError else Inr [])"

definition prop_or :: "jsval \<Rightarrow> string \<Rightarrow> jsval \<Rightarrow> jstring" where
  "prop_or v k d = val_str (val_or (opt_prop v (js k)) d)"

definition prop_str :: "jsval \<Rightarrow> string \<Rightarrow> jstring" where
  "prop_str v k = val_str (opt_prop v (js k))"

definition concentration_text :: "jsval \<Rightarrow> jstring" where
  "concentration_text c =
     txt_total_samples @ prop_or c ''total_samples'' (JNum (Fin 0)) @ txt_comma @ js ''Top1 '' @
     prop_or c ''top_1_pct'' (JNum (Fin 0)) @ js ''%'' @ txt_comma @ js ''Top3 '' @
     prop_or c ''top_3_pct'' (JNum (Fin 0)) @ js ''%'' @ txt_comma @ js ''Gini '' @
     val_str (val_nullish (opt_prop c (js ''gini_coefficient'')) (JNum (Fin 0)))"

definition hotspot_text :: "jsval \<Rightarrow> jstring" where
  "hotspot_text v =
     js ''Top'' @ prop_str v ''rank'' @ js '' '' @ prop_str v ''func'' @ js '' self='' @ prop_str v ''self'' @
     txt_share @ prop_str v ''self_pct'' @ js ''%''"

definition hot_path_text :: "jsval \<Rightarrow> jstring" where
  "hot_path_text v =
     txt_hot_path @ prop_str v ''pct'' @ js ''%'' @ txt_colon @
     (case opt_prop v (js ''stack_tail'') of
        JArr xs \<Rightarrow> join_with (js '' -> '') (map (\<lambda>x. if nullish x then [] else val_str x) xs)
      | _ \<Rightarrow> js ''-'')"

definition rule_text :: "jsval \<Rightarrow> jstring" where
  "rule_text v = txt_rule_hit @ prop_str v ''func'' @ txt_colon @ prop_or v ''advice'' (JStr (js ''-''))"

record evidence_row =
  er_id :: jsval
  er_text :: jstring

text \<open>The rows of one list: reading a member of a null item raises.\<close>

fun item_rows :: "(jsval \<Rightarrow> jstring) \<Rightarrow> jsval list \<Rightarrow> js_error + evidence_row list" where
  "item_rows text_of [] = Inr []"
| "item_rows text_of (v # vs) =
     (case get_prop v (js ''evidence_id'') of
        Inl e \<Rightarrow> Inl e
      | Inr i \<Rightarrow>
        (case item_rows text_of vs of
           Inl e \<Rightarrow> Inl e
         | Inr rows \<Rightarrow> Inr (\<lparr>er_id = i, er_text = text_of v\<rparr> # rows)))"

definition list_rows :: "(jsval \<Rightarrow> jstring) \<Rightarrow> jsval \<Rightarrow> js_error + evidence_row list" where
  "list_rows text_of v = (case iterate v of Inl e \<Rightarrow> Inl e | Inr vs \<Rightarrow> item_rows text_of vs)"

fun append_rows :: "(js_error + evidence_row list) list \<Rightarrow> js_error + evidence_row list" where
  "append_rows [] = Inr []"
| "append_rows (r # rs) =
     (case r of
        Inl e \<Rightarrow> Inl e
      | Inr xs \<Rightarrow> (case append_rows rs of Inl e \<Rightarrow> Inl e | Inr ys \<Rightarrow> Inr (xs @ ys)))"

definition flattenAttributionEvidence :: "jsval \<Rightarrow> js_error + evidence_row list" where
  "flattenAttributionEvidence data =
     (let evidence = opt_prop data (js ''evidence'')
      in if \<not> truthy evidence \<or> \<not> typeof_object evidence then Inr []
         else
           (let c = opt_prop evidence (js ''concentration'');
                first = (if truthy (opt_prop c (js ''evidence_id''))
                         then [\<lparr>er_id = opt_prop c (js ''evidence_id''), er_text = concentration_text c\<rparr>] else [])
            in case append_rows
                      [Inr first,
                       list_rows hotspot_text (opt_prop evidence (js ''topn_hotspots'')),
                       list_rows hot_path_text (opt_prop evidence (js ''hot_paths'')),
                       list_rows rule_text (opt_prop evidence (js ''rule_hits''))] of
                 Inl e \<Rightarrow> Inl e
               | Inr rows \<Rightarrow> Inr (filter (\<lambda>r. truthy (er_id r)) rows)))"

section \<open>Properties of the report parser\<close>

text \<open>A title as it is written after the two signs, and a body that contains no heading.\<close>

definition title_ok :: "jstring \<Rightarrow> bool" where
  "title_ok t \<longleftrightarrow> t \<noteq> [] \<and> \<not> is_ws (hd t) \<and> \<not> is_ws (last t) \<and> list_all (\<lambda>c. \<not> is_eol c) t"

fun no_heading :: "bool \<Rightarrow> jstring \<Rightarrow> bool" where
  "no_heading bol [] = True"
| "no_heading bol (c # cs) = ((bol \<longrightarrow> \<not> starts_with (c # cs) [35, 35]) \<and> no_heading (is_eol c) cs)"

definition body_ok :: "jstring \<Rightarrow> bool" where
  "body_ok b \<longleftrightarrow> b \<noteq> [] \<and> \<not> is_ws (hd b) \<and> \<not> is_ws (last b) \<and> no_heading True b"

definition print_section :: "jstring \<times> jstring \<Rightarrow> jstring" where
  "print_section s = js ''## '' @ fst s @ [10] @ snd s @ [10]"

definition print_report :: "(jstring \<times> jstring) list \<Rightarrow> jstring" where
  "print_report ss = concat (map print_section ss)"

lemma eol_ws: "is_eol c \<Longrightarrow> is_ws c"
  by (auto simp: is_eol_def is_ws_def)

text \<open>Inside a title no position ends the line, even after white space.\<close>

lemma trailing_inside:
  assumes "u \<noteq> []" and "\<not> is_ws (last u)" and "list_all (\<lambda>c. \<not> is_eol c) u"
  shows "trailing (u @ s) = None"
proof -
  have run: "ws_run (u @ s) < length u"
  proof -
    obtain x where x: "x \<in> set u" "\<not> is_ws x"
      using assms(1,2) last_in_set by blast
    then have "takeWhile is_ws (u @ s) = takeWhile is_ws u"
      by (rule takeWhile_append1)
    moreover have "dropWhile is_ws u \<noteq> []"
      using x by auto
    then have "0 < length (dropWhile is_ws u)"
      by (simp only: length_greater_0_conv simp_thms)
    moreover have "length u = length (takeWhile is_ws u) + length (dropWhile is_ws u)"
      by (metis length_append takeWhile_dropWhile_id)
    ultimately show ?thesis by (simp add: ws_run_def)
  qed
  have "\<not> at_eol (drop m (u @ s))" if "m < length u" for m
    using that assms(3) by (simp add: at_eol_def hd_append hd_drop_conv_nth list_all_length)
  then show ?thesis
    using run by (auto simp: trailing_def find_None_iff)
qed

lemma trailing_end:
  assumes "b \<noteq> []" and "\<not> is_ws (hd b)"
  shows "trailing (10 # b) = Some 0"
proof -
  have "ws_run (10 # b) = 1"
    using assms by (cases b) (auto simp: ws_run_def is_ws_def)
  then have "rev [0..<Suc (ws_run (10 # b))] = [1, 0]"
    by simp
  moreover have "\<not> at_eol b"
    using assms eol_ws by (auto simp: at_eol_def)
  ultimately show ?thesis
    by (simp add: trailing_def at_eol_def is_eol_def)
qed

lemma title_match_title:
  "t \<noteq> [] \<Longrightarrow> \<not> is_ws (last t) \<Longrightarrow> list_all (\<lambda>c. \<not> is_eol c) t \<Longrightarrow> b \<noteq> [] \<Longrightarrow> \<not> is_ws (hd b) \<Longrightarrow>
     title_match (t @ 10 # b) = Some (length t, 0)"
proof (induction t)
  case (Cons c cs)
  show ?case
  proof (cases cs)
    case Nil
    with Cons.prems show ?thesis
      by (simp add: trailing_end)
  next
    case (Cons d ds)
    then have "trailing (cs @ 10 # b) = None"
      using Cons.prems by (intro trailing_inside) auto
    with Cons Cons.IH Cons.prems show ?thesis
      by simp
  qed
qed simp

lemma heading_title:
  assumes "title_ok t" and "b \<noteq> []" and "\<not> is_ws (hd b)"
  shows "heading (js ''## '' @ t @ 10 # b) = Some (t, 3 + length t)"
proof -
  have t: "t \<noteq> []" "\<not> is_ws (hd t)" "\<not> is_ws (last t)" "list_all (\<lambda>c. \<not> is_eol c) t"
    using assms(1) by (auto simp: title_ok_def)
  have "ws_run (32 # t @ 10 # b) = 1"
    using t by (cases t) (auto simp: ws_run_def is_ws_def)
  then show ?thesis
    using title_match_title [OF t(1,3,4) assms(2,3)] by (simp add: heading_def starts_with_def)
qed

lemma no_heading_starts:
  "no_heading True (c # cs) \<Longrightarrow> \<not> starts_with (c # cs @ 10 # rest) [35, 35]"
  by (cases cs) (auto simp: starts_with_def)

lemma matchAll_body:
  "no_heading bol b \<Longrightarrow> matchAll pos bol (b @ 10 # rest) = matchAll (pos + length b + 1) True rest"
proof (induction b arbitrary: pos bol)
  case Nil
  show ?case
    by (simp add: heading_def starts_with_def is_eol_def)
next
  case (Cons c cs)
  have "(if bol then heading (c # cs @ 10 # rest) else None) = None"
    using Cons.prems no_heading_starts [of c cs rest] by (cases bol) (auto simp: heading_def)
  then show ?case
    using Cons by simp
qed

lemma matchAll_section:
  assumes "title_ok t" and "body_ok b"
  shows "matchAll pos True (print_section (t, b) @ rest) =
    (pos, 3 + length t, t) # matchAll (pos + length (print_section (t, b))) True rest"
proof -
  have b: "b \<noteq> []" "\<not> is_ws (hd b)" "no_heading True b"
    using assms(2) by (auto simp: body_ok_def)
  have h: "heading (35 # 35 # 32 # t @ 10 # b @ 10 # rest) = Some (t, 3 + length t)"
    using heading_title [OF assms(1), of "b @ 10 # rest"] b by (simp add: hd_append)
  have l: "\<not> is_eol (last (take (3 + length t) (35 # 35 # 32 # t @ 10 # b @ 10 # rest)))"
    using assms(1) eol_ws by (auto simp: title_ok_def numeral_3_eq_3)
  have "matchAll p False (10 # b @ 10 # rest) = matchAll (p + 1 + length b + 1) True rest" for p
    using matchAll_body [OF b(3), of "Suc p" rest] by (simp add: is_eol_def)
  moreover have "print_section (t, b) @ rest = 35 # 35 # 32 # t @ 10 # b @ 10 # rest"
    and "length (print_section (t, b)) = 3 + length t + 1 + length b + 1"
    by (simp_all add: print_section_def)
  ultimately show ?thesis
    using h l by (simp add: numeral_3_eq_3 add.assoc)
qed

lemma trim_pad: "b \<noteq> [] \<Longrightarrow> \<not> is_ws (hd b) \<Longrightarrow> \<not> is_ws (last b) \<Longrightarrow> trim (10 # b @ [10]) = b"
proof -
  assume b: "b \<noteq> []" "\<not> is_ws (hd b)" "\<not> is_ws (last b)"
  have "dropWhile is_ws (10 # b @ [10]) = b @ [10]"
    using b by (cases b) (auto simp: is_ws_def)
  moreover have "dropWhile is_ws (10 # rev b) = rev b"
    using b by (cases b rule: rev_cases) (auto simp: is_ws_def)
  ultimately show ?thesis
    by (simp add: trim_def)
qed

definition section_ok :: "jstring \<times> jstring \<Rightarrow> bool" where
  "section_ok s \<longleftrightarrow> title_ok (fst s) \<and> body_ok (snd s)"

lemma print_report_Cons: "print_report (s # ss) = print_section s @ print_report ss"
  by (simp add: print_report_def)

lemma matchAll_report_Nil: "list_all section_ok ss \<Longrightarrow> matchAll pos True (print_report ss) = [] \<longleftrightarrow> ss = []"
  by (cases ss) (auto simp: print_report_Cons matchAll_section section_ok_def print_report_def [of "[]"])

lemma first_match:
  "list_all section_ok ss \<Longrightarrow>
     map fst (matchAll (length pre) True (print_report ss)) @ [length (pre @ print_report ss)] =
     length pre # (case ss of [] \<Rightarrow> []
       | s # ss' \<Rightarrow> map fst (matchAll (length (pre @ print_section s)) True (print_report ss')) @
           [length (pre @ print_report ss)])"
  by (cases ss) (auto simp: print_report_def [of "[]"] print_report_Cons matchAll_section section_ok_def split_paired_all)

lemma slice_append: "slice (p @ q @ r) (length p) (length p + length q) = q"
  by (simp add: slice_def)

text \<open>The bodies between the matches of a printed report, after a prefix, are the printed ones.\<close>

lemma section_bodies_report:
  "list_all section_ok ss \<Longrightarrow> section_bodies (pre @ print_report ss) (matchAll (length pre) True (print_report ss)) = ss"
proof (induction ss arbitrary: pre)
  case Nil
  then show ?case
    by (simp add: print_report_def section_bodies_def)
next
  case (Cons s ss)
  obtain t b where s: "s = (t, b)" by (cases s)
  have ok: "title_ok t" "body_ok b" "list_all section_ok ss"
    using Cons.prems s section_ok_def [of s] by auto
  let ?md = "pre @ print_report (s # ss)" and ?pre = "pre @ print_section s"
  let ?ms = "matchAll (length ?pre) True (print_report ss)"
  have m: "matchAll (length pre) True (print_report (s # ss)) = (length pre, 3 + length t, t) # ?ms"
    using matchAll_section [OF ok(1,2), of "length pre" "print_report ss"] by (simp add: print_report_Cons s)
  have md: "?md = ?pre @ print_report ss"
    by (simp add: print_report_Cons)
  obtain e es where e: "map fst ?ms @ [length ?md] = e # es" "e = length ?pre"
    using first_match [OF ok(3), of ?pre] unfolding md by simp
  have es: "es = map fst (tl ?ms) @ [length ?md] \<or> ?ms = [] \<and> es = []"
    using e by (cases ?ms) auto
  have "?md = (pre @ [35, 35, 32] @ t) @ (10 # b @ [10]) @ print_report ss"
    and "length pre + (3 + length t) = length (pre @ [35, 35, 32] @ t)"
    and "length ?pre = length (pre @ [35, 35, 32] @ t) + length (10 # b @ [10])"
    by (simp_all add: s print_report_Cons print_section_def)
  then have sl: "slice ?md (length pre + (3 + length t)) (length ?pre) = 10 # b @ [10]"
    by (simp only: slice_append)
  have tb: "trim t = t" "trim (10 # b @ [10]) = b"
    using ok(1,2) trim_id [of t] trim_pad by (auto simp: title_ok_def body_ok_def)
  have rest: "section_bodies ?md ?ms = ss"
    using Cons.IH [OF ok(3), of ?pre] unfolding md by simp
  have "section_bodies ?md ((length pre, 3 + length t, t) # ?ms) =
      (trim t, trim (slice ?md (length pre + (3 + length t)) e)) # section_bodies ?md ?ms"
    using e es by (auto simp: section_bodies_def)
  then show ?case
    unfolding m rest e(2) sl tb by (simp only: s)
qed

text \<open>
  C22: a report made of sections, each a heading line and a body without headings, is parsed back
  to its sections: under every key the page shows the body of the last section whose title means
  that key, character by character, and nothing else. White space and line breaks inside titles and
  bodies are kept.
\<close>

theorem report_roundtrip:
  assumes "list_all section_ok ss"
  shows "parseAttributionReport (print_report ss) = fold put_section ss []"
proof (cases "ss = []")
  case True
  then show ?thesis
    by (simp add: print_report_def parseAttributionReport_def)
next
  case False
  then have "print_report ss \<noteq> []"
    by (cases ss) (simp_all add: print_report_Cons print_section_def)
  moreover have "matchAll 0 True (print_report ss) \<noteq> []"
    using matchAll_report_Nil [OF assms] False by simp
  ultimately show ?thesis
    using section_bodies_report [OF assms, of "[]"] by (simp add: parseAttributionReport_def Let_def)
qed

theorem report_roundtrip_witness:
  "parseAttributionReport (print_report [(zh_conclusion, [97, 32, 98]), (zh_evidence, [99])]) =
     [(js ''conclusion'', [97, 32, 98]), (js ''evidence'', [99])]"
proof -
  have "list_all section_ok [(zh_conclusion, [97, 32, 98]), (zh_evidence, [99])]"
    by (simp add: section_ok_def title_ok_def body_ok_def msg_defs is_ws_def is_eol_def starts_with_def)
  from report_roundtrip [OF this] show ?thesis
    by (simp add: put_section_def normalizeAttributionSectionTitle_def msg_defs starts_with_def Let_def)
qed

section \<open>Properties of the evidence rows\<close>

lemma append_rows_Inr: "append_rows (map Inr xss) = Inr (concat xss)"
  by (induction xss) auto

lemma item_rows_ok:
  "list_all (\<lambda>v. \<not> nullish v) vs \<Longrightarrow>
     item_rows text_of vs = Inr (map (\<lambda>v. \<lparr>er_id = opt_prop v (js ''evidence_id''), er_text = text_of v\<rparr>) vs)"
  by (induction vs) (auto simp: get_prop_opt_prop simp del: js_Cons)

lemma flatten_filtered:
  "flattenAttributionEvidence data = Inr rows \<Longrightarrow> r \<in> set rows \<Longrightarrow> truthy (er_id r)"
  by (auto simp: flattenAttributionEvidence_def Let_def split: if_splits sum.splits)

text \<open>The evidence the analysis writes: lists of objects, no null among them.\<close>

definition evidence_list :: "jsval \<Rightarrow> string \<Rightarrow> jsval list \<Rightarrow> bool" where
  "evidence_list evidence k vs \<longleftrightarrow>
     opt_prop evidence (js k) = JArr vs \<and> list_all (\<lambda>v. \<not> nullish v \<and> truthy (opt_prop v (js ''evidence_id''))) vs"

text \<open>
  For evidence made of lists of items that carry an id, the rows on screen are exactly the
  concentration (when it has an id) followed by the hot spots, the hot paths and the rule hits, in
  the order of the file, one row per item with that item's id.
\<close>

theorem evidence_rows_complete:
  assumes "opt_prop data (js ''evidence'') = JObj kvs" and "evidence_list (JObj kvs) ''topn_hotspots'' hs"
    and "evidence_list (JObj kvs) ''hot_paths'' ps" and "evidence_list (JObj kvs) ''rule_hits'' rs"
    and "c = opt_prop (JObj kvs) (js ''concentration'')"
  shows "\<exists>rows. flattenAttributionEvidence data = Inr rows \<and>
    map er_id rows = (if truthy (opt_prop c (js ''evidence_id'')) then [opt_prop c (js ''evidence_id'')] else []) @
      map (\<lambda>v. opt_prop v (js ''evidence_id'')) (hs @ ps @ rs) \<and>
    map er_text rows = (if truthy (opt_prop c (js ''evidence_id'')) then [concentration_text c] else []) @
      map hotspot_text hs @ map hot_path_text ps @ map rule_text rs"
proof -
  let ?row = "\<lambda>f v. \<lparr>er_id = opt_prop v (js ''evidence_id''), er_text = f v\<rparr>"
  have rows: "list_rows f (opt_prop (JObj kvs) (js k)) = Inr (map (?row f) vs) \<and>
      filter (\<lambda>r. truthy (er_id r)) (map (?row f) vs) = map (?row f) vs"
    if "evidence_list (JObj kvs) k vs" for f k vs
    using that by (auto simp: evidence_list_def list_rows_def item_rows_ok list_all_iff filter_id_conv simp del: js_Cons)
  let ?first = "if truthy (opt_prop c (js ''evidence_id''))
    then [\<lparr>er_id = opt_prop c (js ''evidence_id''), er_text = concentration_text c\<rparr>] else []"
  have "flattenAttributionEvidence data =
      Inr (?first @ map (?row hotspot_text) hs @ map (?row hot_path_text) ps @ map (?row rule_text) rs)"
    using rows [OF assms(2), of hotspot_text] rows [OF assms(3), of hot_path_text] rows [OF assms(4), of rule_text]
    unfolding flattenAttributionEvidence_def assms(1) Let_def
    by (simp add: assms(5) [symmetric] del: js_Cons)
  then show ?thesis
    by (simp add: comp_def del: js_Cons)
qed

definition sample_evidence :: jsval where
  "sample_evidence =
     JObj [(js ''evidence'', JObj [(js ''topn_hotspots'', JArr [JObj [(js ''evidence_id'', JStr [69])]]),
       (js ''hot_paths'', JArr []), (js ''rule_hits'', JArr [])])]"

theorem evidence_rows_complete_witness:
  "\<exists>rows. flattenAttributionEvidence sample_evidence = Inr rows \<and> map er_id rows = [JStr [69]]"
proof -
  let ?kvs = "[(js ''topn_hotspots'', JArr [JObj [(js ''evidence_id'', JStr [69])]]),
       (js ''hot_paths'', JArr []), (js ''rule_hits'', JArr [])]"
  have "opt_prop sample_evidence (js ''evidence'') = JObj ?kvs"
    "evidence_list (JObj ?kvs) ''topn_hotspots'' [JObj [(js ''evidence_id'', JStr [69])]]"
    "evidence_list (JObj ?kvs) ''hot_paths'' []" "evidence_list (JObj ?kvs) ''rule_hits'' []"
    by (simp_all add: sample_evidence_def evidence_list_def opt_prop_def)
  from evidence_rows_complete [OF this refl] show ?thesis
    by (auto simp: opt_prop_def)
qed

end
