(* ===== verification/Json.thy ===== *)
theory Json
  imports Js_Value Uri
begin

text \<open>
  \<open>JSON.stringify\<close> as the ECMAScript specification defines it, with and without indentation: the result page prints the
  summary of the resources with it (\<open>src/web/src/pages/TaskResult.tsx\<close>) and the settings page the groups of the user
  (\<open>src/web/src/pages/Settings.tsx\<close>). Main result: \<open>JSON.parse\<close> reads back what was printed.
\<close>

section \<open>Strings\<close>

definition hex_lower :: "nat \<Rightarrow> nat" where
  "hex_lower d = (if d < 10 then 48 + d else 87 + d)"

definition unicode_escape :: "nat \<Rightarrow> jstring" where
  "unicode_escape c =
     [92, 117, hex_lower (c div 4096 mod 16), hex_lower (c div 256 mod 16), hex_lower (c div 16 mod 16), hex_lower (c mod 16)]"

definition short_escape :: "nat \<Rightarrow> nat option" where
  "short_escape c = map_of [(8, 98), (9, 116), (10, 110), (12, 102), (13, 114), (34, 34), (92, 92)] c"

definition quote_unit :: "nat \<Rightarrow> jstring" where
  "quote_unit c =
     (case short_escape c of
        Some e \<Rightarrow> [92, e]
      | None \<Rightarrow> if c < 32 \<or> high_sur c \<or> low_sur c then unicode_escape c else [c])"

text \<open>A surrogate pair is printed as it is, a lone surrogate is escaped.\<close>

fun quote_chars :: "jstring \<Rightarrow> jstring" where
  "quote_chars [] = []"
| "quote_chars [c] = quote_unit c"
| "quote_chars (c # d # s) =
     (if high_sur c \<and> low_sur d then c # d # quote_chars s else quote_unit c @ quote_chars (d # s))"

definition json_quote :: "jstring \<Rightarrow> jstring" where
  "json_quote s = 34 # quote_chars s @ [34]"

section \<open>Values\<close>

definition line :: "jstring \<Rightarrow> jstring \<Rightarrow> jstring" where
  "line gap ind = (if gap = [] then [] else 10 # ind)"

definition enclose :: "jstring \<Rightarrow> jstring \<Rightarrow> nat \<Rightarrow> nat \<Rightarrow> jstring list \<Rightarrow> jstring" where
  "enclose gap ind l r parts =
     (if parts = [] then [l, r]
      else l # line gap (ind @ gap) @ join_with (44 # line gap (ind @ gap)) parts @ line gap ind @ [r])"

text \<open>
  \<open>gap\<close> is the unit of indentation, empty for the short form, and \<open>ind\<close> the current indentation. A member without a
  value is left out, an element without one is printed as \<open>null\<close>, as is a number that is not finite.
\<close>

fun stringify_val :: "jstring \<Rightarrow> jstring \<Rightarrow> jsval \<Rightarrow> jstring"
  and stringify_elems :: "jstring \<Rightarrow> jstring \<Rightarrow> jsval list \<Rightarrow> jstring list"
  and stringify_members :: "jstring \<Rightarrow> jstring \<Rightarrow> (jstring \<times> jsval) list \<Rightarrow> jstring list" where
  "stringify_val gap ind Undef = js ''null''"
| "stringify_val gap ind Null = js ''null''"
| "stringify_val gap ind (JBool b) = (if b then js ''true'' else js ''false'')"
| "stringify_val gap ind (JNum x) = (if is_finite_num x then num_str x else js ''null'')"
| "stringify_val gap ind (JStr s) = json_quote s"
| "stringify_val gap ind (JArr xs) = enclose gap ind 91 93 (stringify_elems gap (ind @ gap) xs)"
| "stringify_val gap ind (JObj kvs) = enclose gap ind 123 125 (stringify_members gap (ind @ gap) kvs)"
| "stringify_elems gap ind [] = []"
| "stringify_elems gap ind (v # vs) = stringify_val gap ind v # stringify_elems gap ind vs"
| "stringify_members gap ind [] = []"
| "stringify_members gap ind ((k, v) # kvs) =
     (if v = Undef then [] else [json_quote k @ 58 # (if gap = [] then [] else [32]) @ stringify_val gap ind v]) @
     stringify_members gap ind kvs"

definition json_stringify :: "jstring \<Rightarrow> jsval \<Rightarrow> jstring option" where
  "json_stringify gap v = (if v = Undef then None else Some (stringify_val gap [] v))"

section \<open>Strings are read back\<close>

lemma hex_lower_value: "d < 16 \<Longrightarrow> digit_value (hex_lower d) = Some d"
  by (auto simp: hex_lower_def digit_value_def is_digit_def)

lemma hex4:
  assumes "c < 0x10000"
  shows "16 * (16 * (16 * (c div 4096 mod 16) + c div 256 mod 16) + c div 16 mod 16) + c mod 16 = (c :: nat)"
proof -
  have "c div 4096 mod 16 = c div 256 div 16" "c div 256 = c div 16 div 16"
    using assms by (simp_all add: div_mult2_eq [symmetric])
  then show ?thesis by (simp only: mult_div_mod_eq)
qed

lemma radix_escape:
  "c < 0x10000 \<Longrightarrow> radix_value 16 0 [hex_lower (c div 4096 mod 16), hex_lower (c div 256 mod 16), hex_lower (c div 16 mod 16),
     hex_lower (c mod 16)] = Some c"
  using hex4 [of c] by (simp add: hex_lower_value)

lemma parse_escape:
  "radix_value 16 0 [a, b, e, d] = Some c \<Longrightarrow> parse_chars s = Some (t, r) \<Longrightarrow>
     parse_chars ([92, 117, a, b, e, d] @ s) = Some (c # t, r)"
  by (simp del: radix_value.simps)

lemma parse_quote_unit:
  assumes "c < 0x10000" and "parse_chars s = Some (t, r)"
  shows "parse_chars (quote_unit c @ s) = Some (c # t, r)"
proof (cases "short_escape c")
  case None
  then have "c \<noteq> 34" "c \<noteq> 92" by (auto simp: short_escape_def)
  moreover have "parse_chars (unicode_escape c @ s) = Some (c # t, r)"
    unfolding unicode_escape_def using assms by (intro parse_escape radix_escape)
  ultimately show ?thesis
    using None assms(2) by (simp add: quote_unit_def)
next
  case (Some e)
  then have "e \<noteq> 117" "unescape e = Some c"
    by (auto simp: short_escape_def unescape_def split: if_splits)
  with Some assms show ?thesis by (simp add: quote_unit_def)
qed

lemma parse_quote_chars:
  "list_all (\<lambda>u. u < 0x10000) s \<Longrightarrow> parse_chars (quote_chars s @ 34 # r) = Some (s, r)"
proof (induction s rule: quote_chars.induct)
  case (2 c)
  then show ?case by (simp add: parse_quote_unit)
next
  case (3 c d s)
  show ?case
  proof (cases "high_sur c \<and> low_sur d")
    case True
    then have "\<not> c < 32" "c \<noteq> 34" "c \<noteq> 92" "\<not> d < 32" "d \<noteq> 34" "d \<noteq> 92"
      by (auto simp: high_sur_def low_sur_def)
    with True 3 show ?thesis by simp
  next
    case False
    with 3 have "parse_chars (quote_chars (d # s) @ 34 # r) = Some (d # s, r)" by auto
    with False 3(3) show ?thesis by (auto simp: parse_quote_unit simp del: parse_chars.simps)
  qed
qed simp

section \<open>Values are read back\<close>

text \<open>
  The values that are printed exactly: no undefined part, integers below \<open>10^21\<close>, strings of code units, and objects
  whose keys are distinct and not array indices, which a JavaScript object would move to the front.
\<close>

definition index_like :: "jstring \<Rightarrow> bool" where
  "index_like k \<longleftrightarrow> k \<noteq> [] \<and> list_all is_digit k"

definition units :: "jstring \<Rightarrow> bool" where
  "units s \<longleftrightarrow> list_all (\<lambda>u. u < 0x10000) s"

fun plain_json :: "jsval \<Rightarrow> bool" and plain_members :: "(jstring \<times> jsval) list \<Rightarrow> bool" where
  "plain_json Undef \<longleftrightarrow> False"
| "plain_json Null \<longleftrightarrow> True"
| "plain_json (JBool b) \<longleftrightarrow> True"
| "plain_json (JNum x) \<longleftrightarrow> (case x of Fin a \<Rightarrow> of_int \<lfloor>a\<rfloor> = a \<and> \<bar>a\<bar> < 10 ^ 21 | _ \<Rightarrow> False)"
| "plain_json (JStr s) \<longleftrightarrow> units s"
| "plain_json (JArr xs) \<longleftrightarrow> list_all plain_json xs"
| "plain_json (JObj kvs) \<longleftrightarrow> distinct (map fst kvs) \<and> plain_members kvs"
| "plain_members [] \<longleftrightarrow> True"
| "plain_members ((k, v) # kvs) \<longleftrightarrow> units k \<and> \<not> index_like k \<and> plain_json v \<and> plain_members kvs"

text \<open>What may follow a value so that a number ends there.\<close>

definition delimits :: "jstring \<Rightarrow> bool" where
  "delimits r \<longleftrightarrow> (case r of [] \<Rightarrow> True | c # _ \<Rightarrow> \<not> is_digit c \<and> c \<noteq> 46 \<and> c \<noteq> 101 \<and> c \<noteq> 69)"

definition blank :: "jstring \<Rightarrow> bool" where
  "blank s \<longleftrightarrow> list_all json_ws s"

lemma skip_blank: "blank w \<Longrightarrow> skip_ws (w @ s) = skip_ws s"
  by (simp add: blank_def dropWhile_append1 list_all_iff)

lemma expect_blank: "blank w \<Longrightarrow> expect c (w @ s) = expect c s"
  by (simp add: expect_def skip_blank)

lemma parse_value_blank: "blank w \<Longrightarrow> parse_value n (w @ s) = parse_value n s"
  by (cases n) (simp_all add: skip_blank)

lemma blank_line: "blank gap \<Longrightarrow> blank ind \<Longrightarrow> blank (line gap ind)"
  by (simp add: blank_def line_def json_ws_def)

lemma nat_str_lead: "n \<noteq> 0 \<Longrightarrow> hd (nat_str n) \<noteq> 48"
proof (induction n rule: nat_str.induct)
  case (1 n)
  then show ?case by (cases "n < 10") (simp_all add: nat_str.simps [of n] hd_append)
qed

lemma nat_str_zero: "1 < length (nat_str n) \<Longrightarrow> hd (nat_str n) \<noteq> 48"
  using nat_str_lead [of n] by (cases "n = 0") (simp_all add: nat_str.simps [of 0])

lemma digits_end:
  assumes "delimits r"
  shows "takeWhile is_digit (nat_str n @ r) = nat_str n" "dropWhile is_digit (nat_str n @ r) = r"
    "take_exponent r = Some (0, r)" "(case r of [] \<Rightarrow> False | c # _ \<Rightarrow> c = 46) = False"
  using assms nat_str_digits
  by (auto simp: delimits_def take_exponent_def takeWhile_append dropWhile_append split: list.splits)

lemma parse_nat:
  assumes "delimits r"
  shows "parse_number (nat_str n @ r) = Some (JNum (Fin (of_nat n)), r)"
    "parse_number (45 # nat_str n @ r) = Some (JNum (Fin (- of_nat n)), r)"
proof -
  have "hd (nat_str n @ r) \<noteq> 45" "nat_str n @ r \<noteq> []"
    using nat_str_digits [of "hd (nat_str n)" n] by (auto simp: is_digit_def hd_append)
  then have pos: "(case nat_str n @ r of [] \<Rightarrow> False | c # _ \<Rightarrow> c = 45) = False"
    by (cases "nat_str n @ r") auto
  have "decimal_value (nat_str n) [] 0 = of_nat n"
    by (simp add: decimal_value_def pow10_def)
  with digits_end [OF assms] nat_str_zero [of n]
  show "parse_number (nat_str n @ r) = Some (JNum (Fin (of_nat n)), r)"
    "parse_number (45 # nat_str n @ r) = Some (JNum (Fin (- of_nat n)), r)"
    by (auto simp: parse_number_def pos digits_end [OF assms] Let_def simp del: takeWhile_append1 dropWhile_append1)
qed

lemma parse_integer:
  assumes "delimits r" and "plain_json (JNum x)" and "1 \<le> n"
  shows "parse_value n (num_str x @ r) = Some (JNum x, r)"
proof -
  obtain i where i: "x = Fin (of_int i)"
    using assms(2) by (cases x) auto
  have first: "is_digit (hd (nat_str k @ r))" "nat_str k @ r \<noteq> []" for k
    using nat_str_digits [of "hd (nat_str k)" k] by (auto simp: hd_append)
  obtain m where n: "n = Suc m" using assms(3) by (cases n) auto
  show ?thesis
  proof (cases "i < 0")
    case True
    have "parse_number (45 # nat_str (nat (- i)) @ r) = Some (JNum x, r)"
      using parse_nat(2) [OF assms(1), of "nat (- i)"] True by (simp add: i)
    with True show ?thesis
      by (simp add: n i int_str_def json_ws_def)
  next
    case False
    obtain c t where ct: "nat_str (nat i) @ r = c # t" "is_digit c"
      using first [of "nat i"] by (cases "nat_str (nat i) @ r") auto
    have "parse_number (c # t) = Some (JNum x, r)"
      using parse_nat(1) [OF assms(1), of "nat i"] False ct(1) by (simp add: i)
    moreover have "\<not> json_ws c" "c \<noteq> 123" "c \<noteq> 91" "c \<noteq> 34" "c \<noteq> 116" "c \<noteq> 102" "c \<noteq> 110"
      using ct(2) by (auto simp: is_digit_def json_ws_def)
    ultimately show ?thesis
      using False ct(1) by (simp add: n i int_str_def)
  qed
qed

lemma delimits_close: "blank w \<Longrightarrow> c \<in> {44, 93, 125} \<Longrightarrow> delimits (w @ c # r)"
  by (cases w) (auto simp: delimits_def blank_def json_ws_def is_digit_def)

lemma expect_hit: "blank w \<Longrightarrow> c \<in> {34, 44, 58, 93, 125} \<Longrightarrow> expect c (w @ c # r) = Some r"
  by (auto simp: expect_blank) (simp_all add: expect_def json_ws_def)

lemma expect_miss: "blank w \<Longrightarrow> \<not> json_ws d \<Longrightarrow> d \<noteq> c \<Longrightarrow> expect c (w @ d # r) = None"
  by (simp add: expect_blank) (simp add: expect_def)

text \<open>The first character of a printed value.\<close>

lemma stringify_hd: "plain_json v \<Longrightarrow> stringify_val gap ind v \<noteq> [] \<and> \<not> json_ws (hd (stringify_val gap ind v)) \<and> hd (stringify_val gap ind v) \<noteq> 93"
proof (cases v)
  case (JNum x)
  assume "plain_json v"
  with JNum obtain i where i: "x = Fin (of_int i)" by (cases x) auto
  have "is_digit (hd (nat_str (nat i)))"
    by (rule nat_str_digits [of _ "nat i"]) simp
  with JNum i show ?thesis by (auto simp: int_str_def json_ws_def is_digit_def)
qed (auto simp: json_quote_def enclose_def json_ws_def)

lemma stringify_first:
  assumes "plain_json v"
  obtains c t where "stringify_val gap ind v = c # t" and "\<not> json_ws c" and "c \<noteq> 93"
  using that stringify_hd [OF assms, of gap ind] by (cases "stringify_val gap ind v") auto

lemma parse_string:
  "units s \<Longrightarrow> 1 \<le> n \<Longrightarrow> parse_value n (json_quote s @ r) = Some (JStr s, r)"
  by (cases n) (simp_all add: json_quote_def json_ws_def parse_quote_chars units_def)

lemma parse_word:
  "1 \<le> n \<Longrightarrow> parse_value n (js ''null'' @ r) = Some (Null, r)"
  "1 \<le> n \<Longrightarrow> parse_value n (js ''true'' @ r) = Some (JBool True, r)"
  "1 \<le> n \<Longrightarrow> parse_value n (js ''false'' @ r) = Some (JBool False, r)"
  by (cases n; simp add: json_ws_def parse_literal_def starts_with_def)+

lemma parse_enclosed_array:
  assumes "parts \<noteq> []" and "parse_elems n [] (line gap (ind @ gap) @ join_with (44 # line gap (ind @ gap)) parts @ line gap ind @ 93 # r) = Some (v, r)"
    and "blank gap" and "blank ind" and "hd parts = c # t" and "\<not> json_ws c" and "c \<noteq> 93"
  shows "parse_value (Suc n) (enclose gap ind 91 93 parts @ r) = Some (v, r)"
proof -
  obtain ps where "parts = (c # t) # ps" using assms(1,5) by (cases parts) auto
  then obtain u where u: "join_with (44 # line gap (ind @ gap)) parts = c # u" by (cases ps) auto
  have "blank (line gap (ind @ gap))" using assms(3,4) by (intro blank_line) (simp_all add: blank_def)
  then have "expect 93 (line gap (ind @ gap) @ c # u @ line gap ind @ 93 # r) = None"
    using assms(6,7) by (rule expect_miss)
  with assms(1,2) u show ?thesis by (simp add: enclose_def json_ws_def)
qed

lemma parse_enclosed_object:
  assumes "parts \<noteq> []" and "parse_members n [] (line gap (ind @ gap) @ join_with (44 # line gap (ind @ gap)) parts @ line gap ind @ 125 # r) = Some (v, r)"
    and "blank gap" and "blank ind" and "hd parts = 34 # t"
  shows "parse_value (Suc n) (enclose gap ind 123 125 parts @ r) = Some (v, r)"
proof -
  obtain ps where "parts = (34 # t) # ps" using assms(1,5) by (cases parts) auto
  then obtain u where u: "join_with (44 # line gap (ind @ gap)) parts = 34 # u" by (cases ps) auto
  have "blank (line gap (ind @ gap))" using assms(3,4) by (intro blank_line) (simp_all add: blank_def)
  then have "expect 125 (line gap (ind @ gap) @ 34 # u @ line gap ind @ 125 # r) = None"
    by (rule expect_miss) (simp_all add: json_ws_def)
  with assms(1,2) u show ?thesis by (simp add: enclose_def json_ws_def)
qed

text \<open>One element or member, and what follows it.\<close>

lemma parse_elem:
  assumes "parse_value n s = Some (v, w @ c # r)" and "blank w"
  shows "c = 93 \<Longrightarrow> parse_elems (Suc n) acc s = Some (JArr (acc @ [v]), r)"
    and "c = 44 \<Longrightarrow> parse_elems (Suc n) acc s = parse_elems n (acc @ [v]) r"
  using assms by (simp_all add: expect_hit expect_miss json_ws_def del: parse_value.simps)

lemma parse_member:
  assumes "units k" and "blank b" and "blank b'" and "parse_value n t = Some (v, w @ c # r)" and "blank w" and "k \<notin> fst ` set acc"
    and "s = b @ json_quote k @ 58 # b' @ t"
  shows "c = 125 \<Longrightarrow> parse_members (Suc n) acc s = Some (JObj (acc @ [(k, v)]), r)"
    and "c = 44 \<Longrightarrow> parse_members (Suc n) acc s = parse_members n (acc @ [(k, v)]) r"
proof -
  have "alist_put k v acc = acc @ [(k, v)]"
    using assms(6) by (induction acc) auto
  moreover have "expect 34 s = Some (quote_chars k @ 34 # 58 # b' @ t)"
    using expect_hit [OF assms(2)] by (simp add: assms(7) json_quote_def)
  moreover have "parse_chars (quote_chars k @ 34 # 58 # b' @ t) = Some (k, 58 # b' @ t)"
    using assms(1) parse_quote_chars by (simp add: units_def)
  moreover have "expect 58 (58 # b' @ t) = Some (b' @ t)"
    using expect_hit [of "[]"] by (simp add: blank_def)
  moreover have "parse_value n (b' @ t) = Some (v, w @ c # r)"
    using parse_value_blank [OF assms(3)] assms(4) by simp
  ultimately show "c = 125 \<Longrightarrow> parse_members (Suc n) acc s = Some (JObj (acc @ [(k, v)]), r)"
    "c = 44 \<Longrightarrow> parse_members (Suc n) acc s = parse_members n (acc @ [(k, v)]) r"
    using assms(5) by (simp_all add: expect_hit expect_miss json_ws_def del: parse_value.simps)
qed

lemma plain_json_defined: "plain_json v \<Longrightarrow> v \<noteq> Undef"
  by auto

lemma parse_printed:
  "plain_json v \<Longrightarrow> blank gap \<Longrightarrow> blank ind \<Longrightarrow> delimits r \<Longrightarrow> 2 * length (stringify_val gap ind v @ r) + 1 \<le> n \<Longrightarrow>
     parse_value n (stringify_val gap ind v @ r) = Some (v, r)"
  "list_all plain_json xs \<Longrightarrow> xs \<noteq> [] \<Longrightarrow> blank gap \<Longrightarrow> blank ind \<Longrightarrow> blank b \<Longrightarrow> blank w \<Longrightarrow>
     2 * length (b @ join_with (44 # line gap ind) (stringify_elems gap ind xs) @ w @ 93 # r) + 2 \<le> n \<Longrightarrow>
     parse_elems n acc (b @ join_with (44 # line gap ind) (stringify_elems gap ind xs) @ w @ 93 # r) = Some (JArr (acc @ xs), r)"
  "plain_members kvs \<Longrightarrow> distinct (map fst (macc @ kvs)) \<Longrightarrow> kvs \<noteq> [] \<Longrightarrow> blank gap \<Longrightarrow> blank ind \<Longrightarrow> blank b \<Longrightarrow> blank w \<Longrightarrow>
     2 * length (b @ join_with (44 # line gap ind) (stringify_members gap ind kvs) @ w @ 125 # r) + 2 \<le> n \<Longrightarrow>
     parse_members n macc (b @ join_with (44 # line gap ind) (stringify_members gap ind kvs) @ w @ 125 # r) = Some (JObj (macc @ kvs), r)"
proof (induction gap ind v and gap ind xs and gap ind kvs arbitrary: n r and n acc b w r and n macc b w r
    rule: stringify_val_stringify_elems_stringify_members.induct)
  case (4 gap ind x)
  then have "is_finite_num x" by (cases x) auto
  with 4 show ?case by (simp add: parse_integer)
next
  case (6 gap ind xs)
  have bl: "blank (ind @ gap)" using 6 by (simp add: blank_def)
  obtain m where n: "n = Suc m" using "6.prems"(5) by (cases n) auto
  show ?case
  proof (cases xs)
    case Nil
    then show ?thesis
      using expect_hit [of "[]" 93 r] by (simp add: n enclose_def json_ws_def blank_def)
  next
    case (Cons y ys)
    then obtain c t where first: "stringify_val gap (ind @ gap) y = c # t" "\<not> json_ws c" "c \<noteq> 93"
      using "6.prems"(1) stringify_first [of y gap "ind @ gap"] by auto
    have "parse_elems m [] (line gap (ind @ gap) @ join_with (44 # line gap (ind @ gap)) (stringify_elems gap (ind @ gap) xs) @
        line gap ind @ 93 # r) = Some (JArr ([] @ xs), r)"
      using "6.prems" Cons bl by (intro "6.IH") (auto simp: n enclose_def blank_line)
    then show ?thesis
      unfolding n stringify_val.simps using "6.prems" first Cons by (intro parse_enclosed_array) auto
  qed
next
  case (7 gap ind kvs)
  have bl: "blank (ind @ gap)" using 7 by (simp add: blank_def)
  obtain m where n: "n = Suc m" using "7.prems"(5) by (cases n) auto
  show ?case
  proof (cases kvs)
    case Nil
    then show ?thesis
      using expect_hit [of "[]" 125 r] by (simp add: n enclose_def json_ws_def blank_def)
  next
    case (Cons kv ys)
    then obtain k v where kv: "kv = (k, v)" "v \<noteq> Undef"
      using "7.prems"(1) by (cases kv) (auto dest: plain_json_defined)
    have "parse_members m [] (line gap (ind @ gap) @ join_with (44 # line gap (ind @ gap)) (stringify_members gap (ind @ gap) kvs) @
        line gap ind @ 125 # r) = Some (JObj ([] @ kvs), r)"
      using "7.prems" Cons kv bl by (intro "7.IH") (auto simp: n enclose_def blank_line)
    then show ?thesis
      unfolding n stringify_val.simps using "7.prems" Cons kv by (intro parse_enclosed_object) (auto simp: json_quote_def)
  qed
next
  case (9 gap ind v vs)
  obtain m where n: "n = Suc m" using "9.prems"(7) by (cases n) auto
  have v: "parse_value m (b @ stringify_val gap ind v @ q) = Some (v, q)"
    if "delimits q" "2 * length (stringify_val gap ind v @ q) + 1 \<le> m" for q
    using "9.IH"(1) "9.prems" that parse_value_blank by simp
  show ?case
  proof (cases vs)
    case Nil
    then show ?thesis
      using v [of "w @ 93 # r"] "9.prems" delimits_close [of w 93 r] parse_elem(1) [of m _ v w 93 r acc] by (simp add: n)
  next
    case (Cons y ys)
    let ?q = "line gap ind @ join_with (44 # line gap ind) (stringify_elems gap ind vs) @ w @ 93 # r"
    have j: "b @ join_with (44 # line gap ind) (stringify_elems gap ind (v # vs)) @ w @ 93 # r = b @ stringify_val gap ind v @ 44 # ?q"
      using Cons by simp
    have "parse_elems n acc (b @ stringify_val gap ind v @ 44 # ?q) = parse_elems m (acc @ [v]) ?q"
      unfolding n using "9.prems"(7) [unfolded j] v [of "44 # ?q"] delimits_close [of "[]" 44 ?q]
      by (intro parse_elem(2) [where w = "[]"]) (simp_all add: n blank_def)
    also have "\<dots> = Some (JArr ((acc @ [v]) @ vs), r)"
      using "9.prems" Cons by (intro "9.IH"(2)) (auto simp: n blank_line)
    finally show ?thesis unfolding j by simp
  qed
next
  case (11 gap ind k v kvs)
  obtain m where n: "n = Suc m" using "11.prems"(8) by (cases n) auto
  have nu: "v \<noteq> Undef" using "11.prems"(1) by (auto dest: plain_json_defined)
  let ?sp = "if gap = [] then [] else [32]"
  have sp: "blank ?sp" by (simp add: blank_def json_ws_def)
  have v: "parse_value m (stringify_val gap ind v @ q) = Some (v, q)"
    if "delimits q" "2 * length (stringify_val gap ind v @ q) + 1 \<le> m" for q
    using "11.IH"(1) nu "11.prems" that by simp
  have k: "units k" "k \<notin> fst ` set macc" using "11.prems"(1,2) by auto
  show ?case
  proof (cases kvs)
    case Nil
    have "parse_value m (stringify_val gap ind v @ w @ 125 # r) = Some (v, w @ 125 # r)"
      using "11.prems" Nil nu delimits_close [of w 125 r] by (intro v) (simp_all add: n json_quote_def)
    then show ?thesis
      using parse_member(1) [OF k(1) \<open>blank b\<close> sp _ \<open>blank w\<close> k(2) refl refl] Nil nu by (simp add: n)
  next
    case (Cons y ys)
    have ne: "stringify_members gap ind kvs \<noteq> []"
      using "11.prems"(1) Cons by (cases y) (auto dest: plain_json_defined)
    let ?q = "line gap ind @ join_with (44 # line gap ind) (stringify_members gap ind kvs) @ w @ 125 # r"
    have j: "b @ join_with (44 # line gap ind) (stringify_members gap ind ((k, v) # kvs)) @ w @ 125 # r =
        b @ json_quote k @ 58 # ?sp @ stringify_val gap ind v @ 44 # ?q"
      using ne nu by (cases "stringify_members gap ind kvs") auto
    have "parse_value m (stringify_val gap ind v @ [] @ 44 # ?q) = Some (v, [] @ 44 # ?q)"
      using "11.prems"(8) delimits_close [of "[]" 44 ?q] unfolding j
      by (simp only: append_Nil) (intro v, simp_all add: n blank_def json_quote_def)
    then have "parse_members n macc (b @ json_quote k @ 58 # ?sp @ stringify_val gap ind v @ 44 # ?q) = parse_members m (macc @ [(k, v)]) ?q"
      using parse_member(2) [OF k(1) \<open>blank b\<close> sp _ _ k(2) refl refl] by (simp add: n blank_def)
    also have "\<dots> = Some (JObj ((macc @ [(k, v)]) @ kvs), r)"
      using "11.prems"(1-7) "11.prems"(8) [unfolded j] Cons by (intro "11.IH"(2)) (auto simp: n blank_line)
    finally show ?thesis unfolding j by simp
  qed
qed (auto simp: parse_word parse_string simp del: js_Cons parse_value.simps)

lemma parse_stringified:
  assumes "plain_json v" and "blank gap"
  shows "json_parse (stringify_val gap [] v) = Some v"
  using parse_printed(1) [OF assms, of "[]" "[]" "2 * length (stringify_val gap [] v) + 2"]
  by (simp add: blank_def delimits_def json_parse_def del: parse_value.simps)

text \<open>
  \<open>JSON.parse\<close> reads back what \<open>JSON.stringify\<close> printed, with any indentation of blanks, for every
  value without undefined parts whose numbers are integers below \<open>10^21\<close>: quotes, backslashes, control characters
  and lone surrogates in texts and keys included. So two such values are never printed alike.
\<close>

theorem json_roundtrip:
  assumes "plain_json v" and "blank gap" and "json_stringify gap v = Some s"
  shows "json_parse s = Some v"
  using assms parse_stringified [OF assms(1,2)] by (simp add: json_stringify_def split: if_splits)

definition sample_value :: jsval where
  "sample_value = JObj [(js ''g'', JArr [JNum (Fin (- 7)), JStr [34, 92, 10, 0xD800, 97], Null]), (js ''o'', JObj [])]"

theorem json_roundtrip_witness:
  "json_parse (stringify_val [32, 32] [] sample_value) = Some sample_value"
proof -
  have "plain_json sample_value" "blank [32, 32]"
    by (simp_all add: sample_value_def units_def index_like_def is_digit_def blank_def json_ws_def)
  moreover have "json_stringify [32, 32] sample_value = Some (stringify_val [32, 32] [] sample_value)"
    by (simp add: json_stringify_def sample_value_def)
  ultimately show ?thesis by (rule json_roundtrip)
qed

end
