(* ===== verification/Result_Panels.thy ===== *)
theory Result_Panels
  imports Result_Load Attribution Json
begin

text \<open>
  What the result page puts on screen (\<open>src/web/src/pages/TaskResult.tsx\<close>): the data derived on every
  render, which can raise; the availability of the panels; the content of every tab, as the texts,
  figures, tables and drawings it is made of; and the page as a whole. Styling and the row keys of
  the tables are left out. Main results: the tabs drawn are exactly the tabs the page counts as
  visible, a panel says that its artifacts are missing exactly when it has no data, and the
  exact condition under which rendering raises.
\<close>

section \<open>Derived data\<close>

definition result_params :: "HotmethodTask option \<Rightarrow> jsval" where
  "result_params task = parseTaskParams (case task of None \<Rightarrow> Undef | Some t \<Rightarrow> t_request_params t)"

definition result_status :: "HotmethodTask option \<Rightarrow> badge" where
  "result_status task = badge_of statusMap (case task of None \<Rightarrow> 0 | Some t \<Rightarrow> t_status t)"

definition result_analysis :: "HotmethodTask option \<Rightarrow> badge" where
  "result_analysis task = badge_of analysisMap (case task of None \<Rightarrow> 0 | Some t \<Rightarrow> t_analysis_status t)"

definition resourceSummary :: "jsval \<Rightarrow> jsval" where
  "resourceSummary data = val_or (opt_prop data (js ''summary'')) data"

record result_derived =
  rd_totalSamples :: jsnum
  rd_cpuRows :: "pprof_cpu_row list"
  rd_heapProf :: "pprof_heap_entry list"
  rd_heapRows :: "heap_entry list"
  rd_evidence :: "evidence_row list"

text \<open>The parts of a render that can raise, in the order of the source.\<close>

definition derive :: "(heap_entry list \<Rightarrow> heap_entry list) \<Rightarrow> result_page \<Rightarrow> js_error + result_derived" where
  "derive eng p =
     and_then (totalSamples (rp_topn p)) (\<lambda>total.
     and_then (pprofHeapRows (elems (rp_pprofHeapData p))) (\<lambda>heapProf.
     and_then (heapRows eng (rp_heapData p)) (\<lambda>heap.
     and_then (flattenAttributionEvidence (rp_attributionEvidence p)) (\<lambda>evidence.
       Inr \<lparr>rd_totalSamples = total, rd_cpuRows = pprofCpuRows (rp_pprofCpuData p), rd_heapProf = heapProf,
            rd_heapRows = heap, rd_evidence = evidence\<rparr>))))"

definition panelAvailable :: "result_derived \<Rightarrow> result_page \<Rightarrow> ResultPanelKey \<Rightarrow> bool" where
  "panelAvailable d p k =
     (case k of
        Flame \<Rightarrow> rp_collapsedText p \<noteq> [] \<or> rp_topn p \<noteq> [] \<or> rp_svgMarkup p \<noteq> []
      | Topn \<Rightarrow> rp_topn p \<noteq> []
      | Suggestions \<Rightarrow> rp_suggestions p \<noteq> [] \<or> rd_evidence d \<noteq> []
      | Ebpf \<Rightarrow> truthy (rp_eBpfData p)
      | Pprof \<Rightarrow> rd_cpuRows d \<noteq> [] \<or> rd_heapProf d \<noteq> []
      | Memory \<Rightarrow> truthy (rp_memoryData p) \<or> mr_url (rp_memray p) \<noteq> None \<or> rp_memrayLoading p \<or>
          rd_heapRows d \<noteq> [] \<or> truthy (resourceSummary (rp_resourceData p)))"

section \<open>Screen elements\<close>

text \<open>A cell is the value handed to React; a figure has a title, a value, a suffix and a precision.\<close>

record figure =
  fg_title :: jstring
  fg_value :: jsval
  fg_suffix :: jstring
  fg_precision :: "nat option"

record grid =
  gr_heading :: jstring
  gr_columns :: "jstring list"
  gr_rows :: "jsval list list"

datatype element =
    Spinner jstring
  | Missing jstring
  | Trouble jstring jstring
  | Note jsval
  | Figures "figure list"
  | Grid grid
  | Drawing "jsval list" jstring
  | Markup jstring
  | Frame nat
  | Pretty jstring
  | Fields "(jstring \<times> jsval) list"
  | Card jstring "(jstring \<times> jstring) list"
  | Change jstring jstring jstring jstring jstring jstring

definition plain_figure :: "jstring \<Rightarrow> jsval \<Rightarrow> figure" where
  "plain_figure title v = \<lparr>fg_title = title, fg_value = v, fg_suffix = [], fg_precision = None\<rparr>"

text \<open>\<open>v || '-'\<close> on an untyped value and on a text.\<close>

definition or_dash :: "jsval \<Rightarrow> jsval" where
  "or_dash v = val_or v (JStr dash)"

definition str_or_dash :: "jstring \<Rightarrow> jstring" where
  "str_or_dash s = or_str s dash"

text \<open>The share of a total as the tables print it.\<close>

definition share :: "jsnum \<Rightarrow> jsnum \<Rightarrow> jsnum" where
  "share x tot = num_times (num_quot x tot) 100"

definition share_text :: "jsnum \<Rightarrow> jsnum \<Rightarrow> jstring" where
  "share_text x tot = (if num_truthy tot then to_fixed 2 (share x tot) @ js ''%'' else dash)"

definition bytes_cell :: "jsval \<Rightarrow> jsval" where
  "bytes_cell v = JStr (case v of JNum x \<Rightarrow> formatBytes x | _ \<Rightarrow> js ''0 B'')"

section \<open>Tab contents\<close>

definition col_tid :: jstring where \<comment> \<open>task id\<close>
  [msg_defs]: "col_tid = [0x4EFB, 0x52A1, 73, 68]"
definition col_name :: jstring where \<comment> \<open>task name\<close>
  [msg_defs]: "col_name = [0x4EFB, 0x52A1, 0x540D, 0x79F0]"
definition col_status :: jstring where \<comment> \<open>state\<close>
  [msg_defs]: "col_status = [0x72B6, 0x6001]"
definition col_target :: jstring where \<comment> \<open>target address\<close>
  [msg_defs]: "col_target = [0x76EE, 0x6807, 32, 73, 80]"
definition col_type :: jstring where \<comment> \<open>kind of task\<close>
  [msg_defs]: "col_type = [0x91C7, 0x96C6, 0x7C7B, 0x578B]"
definition col_profiler :: jstring where \<comment> \<open>collector\<close>
  [msg_defs]: "col_profiler = [0x91C7, 0x96C6, 0x5668]"
definition col_pid :: jstring where \<comment> \<open>target pid\<close>
  [msg_defs]: "col_pid = [0x76EE, 0x6807, 32, 80, 73, 68]"
definition col_hz :: jstring where \<comment> \<open>sampling rate\<close>
  [msg_defs]: "col_hz = [0x91C7, 0x6837, 0x9891, 0x7387]"
definition col_created :: jstring where \<comment> \<open>creation time\<close>
  [msg_defs]: "col_created = [0x521B, 0x5EFA, 0x65F6, 0x95F4]"
definition col_begin :: jstring where \<comment> \<open>start time\<close>
  [msg_defs]: "col_begin = [0x5F00, 0x59CB, 0x65F6, 0x95F4]"
definition col_end :: jstring where \<comment> \<open>end time\<close>
  [msg_defs]: "col_end = [0x7ED3, 0x675F, 0x65F6, 0x95F4]"
definition col_info :: jstring where \<comment> \<open>remark on the state\<close>
  [msg_defs]: "col_info = [0x72B6, 0x6001, 0x8BF4, 0x660E]"

text \<open>\<open>params.pid\<close> is read on every render: null parameters raise.\<close>

definition infoItems :: "date_env \<Rightarrow> HotmethodTask option \<Rightarrow> js_error + (jstring \<times> jsval) list" where
  "infoItems env task =
     (let params = result_params task;
          txt = (\<lambda>f. case task of None \<Rightarrow> [] | Some t \<Rightarrow> f t);
          cell = (\<lambda>f. case task of None \<Rightarrow> Undef | Some t \<Rightarrow> JStr (f t));
          num = (\<lambda>f. case task of None \<Rightarrow> 0 | Some t \<Rightarrow> f t);
          time = (\<lambda>f. JStr (formatDate env (case task of None \<Rightarrow> None | Some t \<Rightarrow> f t)));
          named = (\<lambda>m k. JStr (or_str (opt_str (m k)) (int_str k)))
      in and_then (get_prop params (js ''pid'')) (\<lambda>pid. Inr
           [(col_tid, cell t_tid), (col_name, JStr (str_or_dash (txt t_name))),
            (col_status, JStr (badge_label (result_status task))), (col_target, cell t_target_ip),
            (col_type, named taskTypeMap (num t_type)), (col_profiler, named profilerTypeMap (num t_profiler_type)),
            (col_pid, JStr (val_str (or_dash pid))),
            (col_hz, JStr (let hz = opt_prop params (js ''hz'') in if truthy hz then val_str hz @ js '' Hz'' else dash)),
            (js ''Callgraph'', or_dash (opt_prop params (js ''callgraph''))),
            (col_created, time (\<lambda>t. Some (t_create_time t))), (col_begin, time t_begin_time),
            (col_end, time t_end_time), (col_info, JStr (str_or_dash (txt t_status_info)))]))"

definition txt_no_history :: jstring where \<comment> \<open>no state changes\<close>
  [msg_defs]: "txt_no_history = [0x6682, 0x65E0, 0x72B6, 0x6001, 0x8FC1, 0x79FB, 0x8BB0, 0x5F55]"
definition txt_analysis_state :: jstring where \<comment> \<open>state of the analysis\<close>
  [msg_defs]: "txt_analysis_state = [0x5206, 0x6790, 0x72B6, 0x6001]"
definition txt_task_state :: jstring where \<comment> \<open>state of the task\<close>
  [msg_defs]: "txt_task_state = [0x4EFB, 0x52A1, 0x72B6, 0x6001]"

definition states_tab :: "date_env \<Rightarrow> result_page \<Rightarrow> element list" where
  "states_tab env p =
     (if rp_stateHistory p = [] then [Note (JStr txt_no_history)]
      else map (\<lambda>item.
             Change (stateHistoryColor item)
               (if sh_change_type item = 1 then txt_analysis_state else txt_task_state)
               (stateHistoryLabel item from_state) (stateHistoryLabel item to_state)
               (str_or_dash (sh_reason item)) (formatDate env (Some (sh_created_at item))))
           (rp_stateHistory p))"

definition txt_java_view :: jstring where \<comment> \<open>Java user stacks, event\<close>
  [msg_defs]: "txt_java_view = [74, 97, 118, 97, 32, 97, 115, 121, 110, 99, 45, 112, 114, 111, 102, 105, 108, 101, 114, 32, 0x7528, 0x6237, 0x6001, 0x6808, 0x89C6, 0x56FE, 32, 0xB7, 32, 101, 118, 101, 110, 116, 32]"
definition txt_java_pid :: jstring where \<comment> \<open>collapsed stack, pid\<close>
  [msg_defs]: "txt_java_pid = [32, 0xB7, 32, 99, 111, 108, 108, 97, 112, 115, 101, 100, 32, 115, 116, 97, 99, 107, 32, 0xB7, 32, 80, 73, 68, 32]"
definition txt_flame_failed :: jstring where \<comment> \<open>loading the flame graph failed\<close>
  [msg_defs]: "txt_flame_failed = [0x706B, 0x7130, 0x56FE, 0x52A0, 0x8F7D, 0x5931, 0x8D25]"

definition java_note :: "jsval \<Rightarrow> jstring" where
  "java_note params =
     txt_java_view @ val_str (val_or (opt_prop params (js ''event'')) (JStr (js ''cpu''))) @
     txt_java_pid @ val_str (or_dash (opt_prop params (js ''pid'')))"

definition flame_tab :: "result_page \<Rightarrow> element list" where
  "flame_tab p =
     (if rp_topn p \<noteq> [] \<or> rp_collapsedText p \<noteq> [] \<or> rp_svgMarkup p \<noteq> [] then
        (if task_type (rp_task p) = 1 then [Note (JStr (java_note (result_params (rp_task p))))] else []) @
        [if rp_collapsedText p \<noteq> [] \<or> rp_topn p \<noteq> [] then Drawing (rp_topn p) (rp_collapsedText p)
         else Markup (rp_svgMarkup p)]
      else if rp_flameError p \<noteq> [] then [Trouble txt_flame_failed (rp_flameError p)]
      else [Missing (emptyPanel (rp_task p) Flame)])"

definition col_rank :: jstring where \<comment> \<open>rank\<close>
  [msg_defs]: "col_rank = [0x6392, 0x540D]"
definition col_func :: jstring where \<comment> \<open>function name\<close>
  [msg_defs]: "col_func = [0x51FD, 0x6570, 0x540D]"

definition topn_row :: "jsnum \<Rightarrow> nat \<Rightarrow> jsval \<Rightarrow> jsval list" where
  "topn_row tot i item =
     [JNum (Fin (of_nat (i + 1))), opt_prop item (js ''func''), opt_prop item (js ''self''),
      opt_prop item (js ''total''), JStr (share_text (val_num (opt_prop item (js ''self''))) tot)]"

definition topn_tab :: "result_derived \<Rightarrow> result_page \<Rightarrow> element list" where
  "topn_tab d p =
     (if rp_topn p \<noteq> [] then
        [Grid \<lparr>gr_heading = [], gr_columns = [col_rank, col_func, js ''Self'', js ''Inclusive'', js ''Self %''],
               gr_rows = map2 (topn_row (rd_totalSamples d)) [0..<length (rp_topn p)] (rp_topn p)\<rparr>]
      else [Missing (emptyPanel (rp_task p) Topn)])"

subsection \<open>Attribution\<close>

definition txt_overall :: jstring where \<comment> \<open>overall report\<close>
  [msg_defs]: "txt_overall = [0x6574, 0x4F53, 0x5F52, 0x56E0, 0x62A5, 0x544A]"
definition txt_evidence_heading :: jstring where \<comment> \<open>heading of the evidence\<close>
  [msg_defs]: "txt_evidence_heading = [35, 35, 32, 0x8BC1, 0x636E]"
definition txt_item :: jstring where \<comment> \<open>item\<close>
  [msg_defs]: "txt_item = [0x5F52, 0x56E0, 0x9879]"
definition txt_evidence :: jstring where \<comment> \<open>evidence\<close>
  [msg_defs]: "txt_evidence = [0x8BC1, 0x636E]"
definition txt_conclusion :: jstring where \<comment> \<open>conclusion\<close>
  [msg_defs]: "txt_conclusion = [0x7ED3, 0x8BBA]"
definition txt_hypothesis :: jstring where \<comment> \<open>hypothesis\<close>
  [msg_defs]: "txt_hypothesis = [0x53EF, 0x9A8C, 0x8BC1, 0x5047, 0x8BBE]"
definition txt_collection :: jstring where \<comment> \<open>additional profiling\<close>
  [msg_defs]: "txt_collection = [0x8FFD, 0x52A0, 0x91C7, 0x96C6]"
definition txt_none :: jstring where \<comment> \<open>nothing\<close>
  [msg_defs]: "txt_none = [0x6682, 0x65E0]"
definition txt_rule :: jstring where \<comment> \<open>rule hit\<close>
  [msg_defs]: "txt_rule = [0x89C4, 0x5219, 0x547D, 0x4E2D, 0xFF1A]"
definition txt_ai :: jstring where \<comment> \<open>explanation\<close>
  [msg_defs]: "txt_ai = [0x5F52, 0x56E0, 0x8BF4, 0x660E, 0xFF1A]"

text \<open>\<open>[extra, content].filter(Boolean).join('\n') || '\<dots>'\<close>.\<close>

definition AttributionSection :: "jstring \<Rightarrow> jstring \<Rightarrow> jstring \<Rightarrow> jstring \<times> jstring" where
  "AttributionSection title content extra =
     (title, or_str (join_with [10] (filter (\<lambda>s. s \<noteq> []) [extra, content])) txt_none)"

definition evidence_extra :: "evidence_row list \<Rightarrow> jstring" where
  "evidence_extra rows = join_with [10] (map (\<lambda>r. val_str (er_id r) @ js '' '' @ er_text r) (take 8 rows))"

definition isOverall :: "AnalysisSuggestion \<Rightarrow> bool" where
  "isOverall item \<longleftrightarrow> sg_func item = txt_overall \<or> str_includes (sg_ai_suggestion item) txt_evidence_heading"

definition suggestion_card :: "evidence_row list \<Rightarrow> AnalysisSuggestion \<Rightarrow> element" where
  "suggestion_card rows item =
     (let sections = map_of (parseAttributionReport (sg_ai_suggestion item));
          section = (\<lambda>k. opt_str (sections (js k)))
      in Card (or_str (sg_func item) txt_item)
           (if isOverall item then
              [AttributionSection txt_evidence (or_str (section ''evidence'') (sg_suggestion item)) (evidence_extra rows),
               AttributionSection txt_conclusion (or_str (section ''conclusion'') (sg_suggestion item)) [],
               AttributionSection txt_hypothesis (section ''hypothesis'') [],
               AttributionSection txt_collection (or_str (section ''collection'') (section ''repair'')) []]
            else
              (if sg_suggestion item \<noteq> [] then [(txt_rule, sg_suggestion item)] else []) @
              (if sg_ai_suggestion item \<noteq> [] then [(txt_ai, sg_ai_suggestion item)] else []) @
              (if sg_suggestion item = [] \<and> sg_ai_suggestion item = [] then [([], dash)] else [])))"

definition suggestions_tab :: "result_derived \<Rightarrow> result_page \<Rightarrow> element list" where
  "suggestions_tab d p =
     (if rp_suggestions p = [] then [Missing (emptyPanel (rp_task p) Suggestions)]
      else map (suggestion_card (rd_evidence d)) (rp_suggestions p))"

subsection \<open>eBPF\<close>

definition txt_load_ebpf :: jstring where \<comment> \<open>loading the eBPF data\<close>
  [msg_defs]: "txt_load_ebpf = [0x52A0, 0x8F7D, 32, 101, 66, 80, 70, 32, 0x6570, 0x636E, 0x4E2D, 46, 46, 46]"
definition fig_events :: jstring where \<comment> \<open>number of events\<close>
  [msg_defs]: "fig_events = [0x603B, 0x4E8B, 0x4EF6, 0x6570]"
definition fig_reads :: jstring where \<comment> \<open>reads\<close>
  [msg_defs]: "fig_reads = [0x8BFB, 0x64CD, 0x4F5C]"
definition fig_writes :: jstring where \<comment> \<open>writes\<close>
  [msg_defs]: "fig_writes = [0x5199, 0x64CD, 0x4F5C]"
definition fig_sched_avg :: jstring where \<comment> \<open>average scheduling latency\<close>
  [msg_defs]: "fig_sched_avg = [0x5E73, 0x5747, 0x8C03, 0x5EA6, 0x5EF6, 0x8FDF]"
definition fig_avg :: jstring where \<comment> \<open>average latency\<close>
  [msg_defs]: "fig_avg = [0x5E73, 0x5747, 0x5EF6, 0x8FDF]"
definition fig_sched_max :: jstring where \<comment> \<open>maximal scheduling latency\<close>
  [msg_defs]: "fig_sched_max = [0x6700, 0x5927, 0x8C03, 0x5EA6, 0x5EF6, 0x8FDF]"
definition fig_max :: jstring where \<comment> \<open>maximal latency\<close>
  [msg_defs]: "fig_max = [0x6700, 0x5927, 0x5EF6, 0x8FDF]"
definition fig_bytes :: jstring where \<comment> \<open>number of bytes\<close>
  [msg_defs]: "fig_bytes = [0x603B, 0x5B57, 0x8282, 0x6570]"
definition txt_devices :: jstring where \<comment> \<open>hot devices\<close>
  [msg_defs]: "txt_devices = [0x70ED, 0x70B9, 0x8BBE, 0x5907]"
definition col_device :: jstring where \<comment> \<open>device\<close>
  [msg_defs]: "col_device = [0x8BBE, 0x5907]"
definition col_ops :: jstring where \<comment> \<open>operations\<close>
  [msg_defs]: "col_ops = [0x64CD, 0x4F5C, 0x6570]"
definition col_bytes :: jstring where \<comment> \<open>bytes\<close>
  [msg_defs]: "col_bytes = [0x5B57, 0x8282, 0x6570]"
definition col_latency :: jstring where \<comment> \<open>average latency\<close>
  [msg_defs]: "col_latency = [0x5E73, 0x5747, 0x5EF6, 0x8FDF, 40, 109, 115, 41]"
definition txt_sched_targets :: jstring where \<comment> \<open>hot scheduling targets\<close>
  [msg_defs]: "txt_sched_targets = [0x70ED, 0x70B9, 0x8C03, 0x5EA6, 0x76EE, 0x6807]"
definition txt_processes :: jstring where \<comment> \<open>hot processes\<close>
  [msg_defs]: "txt_processes = [0x70ED, 0x70B9, 0x8FDB, 0x7A0B]"
definition col_process :: jstring where \<comment> \<open>process\<close>
  [msg_defs]: "col_process = [0x8FDB, 0x7A0B]"
definition col_sched_events :: jstring where \<comment> \<open>scheduling events\<close>
  [msg_defs]: "col_sched_events = [0x8C03, 0x5EA6, 0x4E8B, 0x4EF6, 0x6570]"

definition latency_cell :: "jsval \<Rightarrow> jsval" where
  "latency_cell v =
     JStr (case v of JNum x \<Rightarrow> if is_finite_num x then to_fixed 3 x else dash | _ \<Rightarrow> dash)"

definition positive_figure :: "bool \<Rightarrow> jstring \<Rightarrow> jsnum \<Rightarrow> jstring \<Rightarrow> nat option \<Rightarrow> figure list" where
  "positive_figure c title x sfx precision =
     shown_if (c \<and> num_lt (Fin 0) x)
       \<lparr>fg_title = title, fg_value = JNum x, fg_suffix = sfx, fg_precision = precision\<rparr>"

definition ebpf_figures :: "jsval \<Rightarrow> figure list" where
  "ebpf_figures data =
     (let sched = isSchedProbe data in
      shown_if (opt_prop data (js ''total_events'') \<noteq> Undef) (plain_figure fig_events (opt_prop data (js ''total_events''))) @
      positive_figure (\<not> sched) fig_reads (eBpfReadCount data) [] None @
      positive_figure (\<not> sched) fig_writes (eBpfWriteCount data) [] None @
      positive_figure True (if sched then fig_sched_avg else fig_avg) (eBpfAvgLatencyMs data) (js ''ms'') (Some 2) @
      positive_figure True (if sched then fig_sched_max else fig_max) (eBpfMaxLatencyMs data) (js ''ms'') (Some 2) @
      positive_figure (\<not> sched) fig_bytes (eBpfTotalBytes data) [] None)"

definition device_cells :: "jsval \<Rightarrow> jsval list list" where
  "device_cells data =
     (case eBpfTopDevices data of
        Inl vs \<Rightarrow> map (\<lambda>v. [opt_prop v (js ''device''), opt_prop v (js ''count''), opt_prop v (js ''bytes''),
                           latency_cell (opt_prop v (js ''latency_avg_ms''))]) vs
      | Inr rs \<Rightarrow> map (\<lambda>r. [JStr (dv_device r), JNum (dv_count r), JNum (dv_bytes r),
                           latency_cell (JNum (dv_latency_avg_ms r))]) rs)"

definition process_cells :: "jsval \<Rightarrow> jsval list list" where
  "process_cells data =
     (let cells = (\<lambda>row. if isSchedProbe data then take 3 row else row)
      in case eBpfTopProcesses data of
           Inl vs \<Rightarrow> map (\<lambda>v. cells [opt_prop v (js ''process''), opt_prop v (js ''pid''), opt_prop v (js ''count''),
                                   opt_prop v (js ''bytes'')]) vs
         | Inr rs \<Rightarrow> map (\<lambda>r. cells [JStr (pr_process r), pr_pid r, JNum (pr_count r), JNum (pr_bytes r)]) rs)"

definition ebpf_tab :: "result_page \<Rightarrow> element list" where
  "ebpf_tab p =
     (let data = rp_eBpfData p; sched = isSchedProbe data
      in if rp_eBpfLoading p then [Spinner txt_load_ebpf]
         else if truthy data then
           [Figures (ebpf_figures data)] @
           shown_if (\<not> sched \<and> device_cells data \<noteq> [])
             (Grid \<lparr>gr_heading = txt_devices, gr_columns = [col_device, col_ops, col_bytes, col_latency],
                    gr_rows = device_cells data\<rparr>) @
           shown_if (process_cells data \<noteq> [])
             (Grid \<lparr>gr_heading = (if sched then txt_sched_targets else txt_processes),
                    gr_columns = [col_process, js ''PID'', if sched then col_sched_events else col_ops] @
                      shown_if (\<not> sched) col_bytes,
                    gr_rows = process_cells data\<rparr>) @
           shown_if (truthy (opt_prop data (js ''summary''))) (Note (opt_prop data (js ''summary'')))
         else [Missing (emptyPanel (rp_task p) Ebpf)])"

subsection \<open>pprof\<close>

definition txt_load_pprof :: jstring where \<comment> \<open>loading the pprof data\<close>
  [msg_defs]: "txt_load_pprof = [0x52A0, 0x8F7D, 32, 112, 112, 114, 111, 102, 32, 0x6570, 0x636E, 0x4E2D, 46, 46, 46]"
definition fig_cpu_functions :: jstring where \<comment> \<open>sampled functions\<close>
  [msg_defs]: "fig_cpu_functions = [67, 80, 85, 32, 0x6837, 0x672C, 0x51FD, 0x6570]"
definition fig_flat :: jstring where \<comment> \<open>sum of the flat counts\<close>
  [msg_defs]: "fig_flat = [0x7D2F, 0x8BA1, 32, 70, 108, 97, 116]"
definition col_function :: jstring where \<comment> \<open>function\<close>
  [msg_defs]: "col_function = [0x51FD, 0x6570]"
definition col_share :: jstring where \<comment> \<open>share\<close>
  [msg_defs]: "col_share = [0x5360, 0x6BD4]"
definition fig_heap_functions :: jstring where \<comment> \<open>sampled functions of the heap\<close>
  [msg_defs]: "fig_heap_functions = [72, 101, 97, 112, 32, 0x6837, 0x672C, 0x51FD, 0x6570]"
definition fig_flat_space :: jstring where \<comment> \<open>largest flat space\<close>
  [msg_defs]: "fig_flat_space = [0x6700, 0x5927, 32, 70, 108, 97, 116, 32, 83, 112, 97, 99, 101]"

definition pprof_cpu_part :: "result_derived \<Rightarrow> result_page \<Rightarrow> element list" where
  "pprof_cpu_part d p =
     (let rows = rd_cpuRows d; total = pprofCpuTotal (rp_pprofCpuData p)
      in [Figures [plain_figure fig_cpu_functions (JNum (Fin (of_nat (length rows)))),
                   \<lparr>fg_title = fig_flat, fg_value = JNum total, fg_suffix = js ''s'', fg_precision = Some 3\<rparr>],
          Grid \<lparr>gr_heading = js ''CPU Top Functions'', gr_columns = [col_function, js ''Flat(s)'', col_share],
                gr_rows = map (\<lambda>r. [JStr (pc_func r), JStr (to_fixed 6 (pc_flat r)), JStr (share_text (pc_flat r) total)]) rows\<rparr>])"

definition pprof_heap_part :: "result_derived \<Rightarrow> element list" where
  "pprof_heap_part d =
     (let rows = rd_heapProf d
      in [Figures [plain_figure fig_heap_functions (JNum (Fin (of_nat (length rows)))),
                   plain_figure fig_flat_space
                     (JStr (formatBytes (case rows of [] \<Rightarrow> Fin 0 | r # _ \<Rightarrow> num_or (ph_flat_space r) (Fin 0))))],
          Grid \<lparr>gr_heading = js ''Heap Top Functions'',
                gr_columns = [col_function, js ''Flat'', js ''Cum'', js ''Flat Objects'', js ''Cum Objects''],
                gr_rows = map (\<lambda>r. [JStr (ph_func r), JStr (formatBytes (ph_flat_space r)), JStr (formatBytes (ph_cum_space r)),
                                  JNum (ph_flat_objects r), JNum (ph_cum_objects r)]) rows\<rparr>])"

definition pprof_tab :: "result_derived \<Rightarrow> result_page \<Rightarrow> element list" where
  "pprof_tab d p =
     (if rp_pprofLoading p then [Spinner txt_load_pprof]
      else if rd_cpuRows d \<noteq> [] \<or> rd_heapProf d \<noteq> [] then
        (if rd_cpuRows d \<noteq> [] then pprof_cpu_part d p else []) @
        (if rd_heapProf d \<noteq> [] then pprof_heap_part d else [])
      else [Missing (emptyPanel (rp_task p) Pprof)])"

subsection \<open>Memory and resources\<close>

definition txt_load_memray :: jstring where \<comment> \<open>loading the Memray report\<close>
  [msg_defs]: "txt_load_memray = [0x52A0, 0x8F7D, 32, 77, 101, 109, 114, 97, 121, 32, 0x53EF, 0x89C6, 0x5316, 0x4E2D, 46, 46, 46]"
definition fig_leaked :: jstring where \<comment> \<open>leaked bytes\<close>
  [msg_defs]: "fig_leaked = [0x6CC4, 0x6F0F, 0x5B57, 0x8282]"
definition fig_blocks :: jstring where \<comment> \<open>leaked blocks\<close>
  [msg_defs]: "fig_blocks = [0x6CC4, 0x6F0F, 0x5757, 0x6570]"
definition txt_leaks :: jstring where \<comment> \<open>largest leaks\<close>
  [msg_defs]: "txt_leaks = [0x6CC4, 0x6F0F, 32, 84, 111, 112, 78]"
definition col_kind :: jstring where \<comment> \<open>kind\<close>
  [msg_defs]: "col_kind = [0x7C7B, 0x578B]"
definition col_size :: jstring where \<comment> \<open>size\<close>
  [msg_defs]: "col_size = [0x5927, 0x5C0F]"
definition col_times :: jstring where \<comment> \<open>times\<close>
  [msg_defs]: "col_times = [0x6B21, 0x6570]"
definition col_stack :: jstring where \<comment> \<open>call stack\<close>
  [msg_defs]: "col_stack = [0x8C03, 0x7528, 0x6808]"
definition txt_heap_top :: jstring where \<comment> \<open>largest heap objects\<close>
  [msg_defs]: "txt_heap_top = [0x5806, 0x5BF9, 0x8C61, 32, 84, 111, 112, 78]"
definition col_class :: jstring where \<comment> \<open>class or object\<close>
  [msg_defs]: "col_class = [0x7C7B, 47, 0x5BF9, 0x8C61]"
definition col_amount :: jstring where \<comment> \<open>number\<close>
  [msg_defs]: "col_amount = [0x6570, 0x91CF]"

definition stack_cell :: "jsval \<Rightarrow> jsval" where
  "stack_cell v =
     JStr (case v of
             JArr xs \<Rightarrow> join_with (js '' -> '') (map (\<lambda>x. if nullish x then [] else val_str x) (take 4 xs))
           | _ \<Rightarrow> dash)"

definition leak_cells :: "jsval \<Rightarrow> jsval list" where
  "leak_cells v =
     [opt_prop v (js ''leak_type''), bytes_cell (opt_prop v (js ''size'')), opt_prop v (js ''count''),
      stack_cell (opt_prop v (js ''stack''))]"

definition memray_part :: "result_page \<Rightarrow> element list" where
  "memray_part p =
     shown_if (rp_memrayLoading p) (Spinner txt_load_memray) @
     (case mr_url (rp_memray p) of
        Some u \<Rightarrow> shown_if (\<not> rp_memrayLoading p) (Frame u)
      | None \<Rightarrow> shown_if (\<not> rp_memrayLoading p \<and> rp_memrayError p \<noteq> []) (Note (JStr (rp_memrayError p))))"

definition leak_part :: "jsval \<Rightarrow> element list" where
  "leak_part data =
     (let own = opt_prop data (js ''analysis_kind'') \<noteq> JStr (js ''memray_artifact'')
      in if truthy data then
           shown_if own
             (Figures [plain_figure fig_leaked (JStr (formatBytes (num_or_zero (opt_prop data (js ''total_leaked_bytes''))))),
                       plain_figure fig_blocks (JNum (num_or_zero (opt_prop data (js ''total_leaked_blocks''))))]) @
           shown_if (truthy (opt_prop data (js ''summary'')) \<and> own) (Note (opt_prop data (js ''summary'')))
         else [])"

definition memory_tab :: "result_derived \<Rightarrow> result_page \<Rightarrow> element list" where
  "memory_tab d p =
     (let summary = resourceSummary (rp_resourceData p)
      in if rp_memrayLoading p \<or> mr_url (rp_memray p) \<noteq> None \<or> truthy (rp_memoryData p) \<or>
            rd_heapRows d \<noteq> [] \<or> truthy summary then
           memray_part p @ leak_part (rp_memoryData p) @
           shown_if (memoryLeakRows (rp_memoryData p) \<noteq> [])
             (Grid \<lparr>gr_heading = txt_leaks, gr_columns = [col_kind, col_size, col_times, col_stack],
                    gr_rows = map leak_cells (memoryLeakRows (rp_memoryData p))\<rparr>) @
           shown_if (rd_heapRows d \<noteq> [])
             (Grid \<lparr>gr_heading = txt_heap_top, gr_columns = [col_class, col_amount, col_size],
                    gr_rows = map (\<lambda>r. [JStr (hr_name r), JNum (hr_count r), JStr (formatBytes (hr_bytes r))]) (rd_heapRows d)\<rparr>) @
           shown_if (truthy summary) (if is_string summary then Note summary else Pretty (opt_str (json_stringify [32, 32] summary)))
         else [Missing (emptyPanel (rp_task p) Memory)])"

subsection \<open>Files\<close>

definition col_file :: jstring where \<comment> \<open>file name\<close>
  [msg_defs]: "col_file = [0x6587, 0x4EF6, 0x540D]"
definition col_key :: jstring where \<comment> \<open>object key\<close>
  [msg_defs]: "col_key = [0x5BF9, 0x8C61, 32, 75, 101, 121]"
definition col_action :: jstring where \<comment> \<open>action\<close>
  [msg_defs]: "col_action = [0x64CD, 0x4F5C]"

definition file_cells :: "CosFile \<Rightarrow> jsval list" where
  "file_cells f =
     [JStr (str_or_dash (basename (Some (file_path f)))), JStr (str_or_dash (opt_str (cf_key f))),
      JStr (case cf_size f of
              None \<Rightarrow> dash
            | Some x \<Rightarrow> if num_truthy x then to_fixed 1 (num_div x 1024) @ js '' KB'' else dash),
      JStr (cf_url f)]"

definition files_tab :: "result_page \<Rightarrow> element list" where
  "files_tab p =
     [Grid \<lparr>gr_heading = [], gr_columns = [col_file, col_key, col_size, col_action],
            gr_rows = map file_cells (rp_cosFiles p)\<rparr>]"

section \<open>The page\<close>

definition tab_info :: jstring where \<comment> \<open>basic information\<close>
  [msg_defs]: "tab_info = [0x57FA, 0x672C, 0x4FE1, 0x606F]"
definition tab_states :: jstring where \<comment> \<open>state changes\<close>
  [msg_defs]: "tab_states = [0x72B6, 0x6001, 0x8FC1, 0x79FB]"
definition tab_java_flame :: jstring where \<comment> \<open>Java flame graph\<close>
  [msg_defs]: "tab_java_flame = [74, 97, 118, 97, 32, 0x706B, 0x7130, 0x56FE]"
definition tab_flame :: jstring where \<comment> \<open>flame graph\<close>
  [msg_defs]: "tab_flame = [0x706B, 0x7130, 0x56FE]"
definition tab_topn :: jstring where \<comment> \<open>hot functions\<close>
  [msg_defs]: "tab_topn = [0x70ED, 0x70B9, 0x51FD, 0x6570]"
definition tab_suggestions :: jstring where \<comment> \<open>attribution\<close>
  [msg_defs]: "tab_suggestions = [0x5F52, 0x56E0, 0x5206, 0x6790]"
definition tab_ebpf :: jstring where \<comment> \<open>eBPF analysis\<close>
  [msg_defs]: "tab_ebpf = [101, 66, 80, 70, 32, 0x5206, 0x6790]"
definition tab_pprof :: jstring where \<comment> \<open>pprof analysis\<close>
  [msg_defs]: "tab_pprof = [112, 112, 114, 111, 102, 32, 0x5206, 0x6790]"
definition tab_memory :: jstring where \<comment> \<open>memory and resources\<close>
  [msg_defs]: "tab_memory = [0x5185, 0x5B58, 47, 0x8D44, 0x6E90]"
definition tab_files :: jstring where \<comment> \<open>downloads\<close>
  [msg_defs]: "tab_files = [0x6587, 0x4EF6, 0x4E0B, 0x8F7D]"

record result_tab =
  rt_key :: tab_key
  rt_label :: jstring
  rt_content :: "element list"

definition panel_tab :: "result_derived \<Rightarrow> result_page \<Rightarrow> ResultPanelKey \<Rightarrow> result_tab" where
  "panel_tab d p k =
     (case k of
        Flame \<Rightarrow> \<lparr>rt_key = Panel Flame, rt_label = (if task_type (rp_task p) = 1 then tab_java_flame else tab_flame),
                  rt_content = flame_tab p\<rparr>
      | Topn \<Rightarrow> \<lparr>rt_key = Panel Topn, rt_label = tab_topn, rt_content = topn_tab d p\<rparr>
      | Suggestions \<Rightarrow> \<lparr>rt_key = Panel Suggestions, rt_label = tab_suggestions, rt_content = suggestions_tab d p\<rparr>
      | Ebpf \<Rightarrow> \<lparr>rt_key = Panel Ebpf, rt_label = tab_ebpf, rt_content = ebpf_tab p\<rparr>
      | Pprof \<Rightarrow> \<lparr>rt_key = Panel Pprof, rt_label = tab_pprof, rt_content = pprof_tab d p\<rparr>
      | Memory \<Rightarrow> \<lparr>rt_key = Panel Memory, rt_label = tab_memory, rt_content = memory_tab d p\<rparr>)"

text \<open>The list given to the tab bar: each panel is spread into it under its own condition.\<close>

definition result_tabs :: "date_env \<Rightarrow> (jstring \<times> jsval) list \<Rightarrow> result_derived \<Rightarrow> result_page \<Rightarrow> result_tab list" where
  "result_tabs env info d p =
     (let vis = visiblePanel (rp_task p) (panelAvailable d p); panel = (\<lambda>k. shown_if (vis k) (panel_tab d p k))
      in [\<lparr>rt_key = Info, rt_label = tab_info, rt_content = [Fields info]\<rparr>,
          \<lparr>rt_key = States, rt_label = tab_states, rt_content = states_tab env p\<rparr>] @
         panel Flame @ panel Topn @ panel Suggestions @ panel Ebpf @ panel Pprof @ panel Memory @
         [\<lparr>rt_key = Files, rt_label = tab_files, rt_content = files_tab p\<rparr>])"

definition card_duration :: jstring where \<comment> \<open>duration\<close>
  [msg_defs]: "card_duration = [0x91C7, 0x96C6, 0x65F6, 0x957F]"
definition card_samples :: jstring where \<comment> \<open>samples\<close>
  [msg_defs]: "card_samples = [0x91C7, 0x6837, 0x6570]"

definition stat_cards :: "date_env \<Rightarrow> result_derived \<Rightarrow> HotmethodTask \<Rightarrow> js_error + (jstring \<times> jstring) list" where
  "stat_cards env d t =
     and_then (formatDuration env t) (\<lambda>duration. Inr
       [(card_duration, duration),
        (card_samples, if num_truthy (rd_totalSamples d) then num_str (rd_totalSamples d) else dash),
        (txt_task_state, badge_label (result_status (Some t))),
        (txt_analysis_state, badge_label (result_analysis (Some t)))])"

definition txt_loading_task :: jstring where \<comment> \<open>loading the task\<close>
  [msg_defs]: "txt_loading_task = [0x52A0, 0x8F7D, 0x4EFB, 0x52A1, 0x8BE6, 0x60C5, 0x4E2D, 46, 46, 46]"

datatype result_body =
    Waiting jstring
  | Refused jstring
  | Blank
  | Body "(jstring \<times> jstring) list" tab_key "result_tab list"

text \<open>The body of the page, and the button that starts the analysis.\<close>

definition render_result ::
    "date_env \<Rightarrow> (heap_entry list \<Rightarrow> heap_entry list) \<Rightarrow> result_page \<Rightarrow> js_error + result_body" where
  "render_result env eng p =
     and_then (derive eng p) (\<lambda>d.
     and_then (infoItems env (rp_task p)) (\<lambda>info.
       if rp_loading p then Inr (Waiting txt_loading_task)
       else if rp_error p \<noteq> [] then Inr (Refused (rp_error p))
       else (case rp_task p of
               None \<Rightarrow> Inr Blank
             | Some t \<Rightarrow>
               and_then (stat_cards env d t) (\<lambda>cards.
                 Inr (Body cards (rp_activeTab p) (result_tabs env info d p))))))"

definition analysis_enabled :: "result_page \<Rightarrow> bool" where
  "analysis_enabled p \<longleftrightarrow> (case rp_task p of None \<Rightarrow> False | Some t \<Rightarrow> t_status t = 4)"

definition diff_link :: "result_page \<Rightarrow> jstring" where
  "diff_link p = js ''/flame/diff?tid1='' @ rp_tid p"

section \<open>Tabs and panels\<close>

lemma result_tabs_keys:
  "map rt_key (result_tabs env info d p) = visibleTabKeys (rp_task p) (panelAvailable d p)"
  by (simp add: result_tabs_def visibleTabKeys_def enum_ResultPanelKey_def shown_if_def panel_tab_def Let_def)

lemma render_Body:
  assumes "render_result env eng p = Inr (Body cards active tabs)"
  shows "\<exists>d info t. derive eng p = Inr d \<and> rp_task p = Some t \<and> active = rp_activeTab p \<and>
    tabs = result_tabs env info d p"
  using assms by (auto simp: render_result_def and_then_Inr split: if_splits option.splits)

text \<open>
  C18: the two places that decide which tabs there are agree. When the page shows a task, the tab
  bar holds exactly the tabs the page counts as visible, in the same order, each once; so the tab
  the page corrects itself to is always a tab of the bar.
\<close>

theorem result_tabs_match:
  assumes "render_result env eng p = Inr (Body cards active tabs)"
  shows "\<exists>d. derive eng p = Inr d \<and>
    map rt_key tabs = visibleTabKeys (rp_task p) (panelAvailable d p) \<and> distinct (map rt_key tabs) \<and>
    fix_tab (rp_task p) (panelAvailable d p) active \<in> set (map rt_key tabs)"
proof -
  obtain d info t where d: "derive eng p = Inr d" "rp_task p = Some t" "active = rp_activeTab p"
    "tabs = result_tabs env info d p"
    using render_Body [OF assms] by blast
  have "distinct (visibleTabKeys (rp_task p) (panelAvailable d p))"
    by (simp add: visibleTabKeys_def enum_ResultPanelKey_def)
  with d show ?thesis
    by (auto simp: result_tabs_keys fix_tab_visible)
qed

text \<open>A panel that reports missing data instead of showing some.\<close>

fun reports :: "element \<Rightarrow> bool" where
  "reports (Missing s) = True"
| "reports (Trouble s t) = True"
| "reports e = False"

lemma shown_if_reports [simp]: "list_ex reports (shown_if c e) \<longleftrightarrow> c \<and> reports e"
  by (simp add: shown_if_def)

lemma memory_parts_report [simp]:
  "\<not> list_ex reports (memray_part p)" "\<not> list_ex reports (leak_part data)"
  by (auto simp: memray_part_def leak_part_def Let_def split: option.splits)

lemma pprof_parts_report [simp]:
  "\<not> list_ex reports (pprof_cpu_part d p)" "\<not> list_ex reports (pprof_heap_part d)"
  by (simp_all add: pprof_cpu_part_def pprof_heap_part_def Let_def)

lemma panel_reports:
  assumes "\<not> rp_eBpfLoading p" and "\<not> rp_pprofLoading p" and "k \<noteq> Suggestions"
  shows "list_ex reports (rt_content (panel_tab d p k)) \<longleftrightarrow> \<not> panelAvailable d p k"
  using assms
  by (cases k) (auto simp: panel_tab_def panelAvailable_def flame_tab_def topn_tab_def ebpf_tab_def pprof_tab_def
      memory_tab_def Let_def)


text \<open>
  The attribution panel does not: with evidence but no suggestions it is counted as
  available and still says that the artifacts are missing.
\<close>

theorem evidence_only_missing:
  assumes "rp_suggestions p = []" and "rd_evidence d \<noteq> []"
  shows "panelAvailable d p Suggestions \<and>
    rt_content (panel_tab d p Suggestions) = [Missing (emptyPanel (rp_task p) Suggestions)]"
  using assms by (simp add: panelAvailable_def panel_tab_def suggestions_tab_def)

text \<open>
  The error of a Memray report that could not be loaded is not shown when the report was
  the only data of the memory panel: the panel then says that other artifacts are missing.
\<close>

theorem memray_error_hidden:
  assumes "\<not> panelAvailable d p Memory"
  shows "rt_content (panel_tab d p Memory) = [Missing (emptyPanel (rp_task p) Memory)]"
  using assms by (simp add: panelAvailable_def panel_tab_def memory_tab_def Let_def)

section \<open>When rendering raises\<close>

lemma infoItems_isl: "isl (infoItems env task) \<longleftrightarrow> nullish (result_params task)"
  by (simp add: infoItems_def get_prop_def Let_def)

lemma stat_cards_isl: "isl (stat_cards env d t) \<longleftrightarrow> nullish (result_params (Some t))"
  by (simp add: stat_cards_def and_then_isl formatDuration_isl result_params_def)

lemma derive_isl:
  "isl (derive eng p) \<longleftrightarrow>
     list_ex nullish (rp_topn p) \<or> list_ex nullish (elems (rp_pprofHeapData p)) \<or>
     list_ex nullish (heap_source (rp_heapData p)) \<or> isl (flattenAttributionEvidence (rp_attributionEvidence p))"
  by (auto simp: derive_def and_then_isl totalSamples_def pprofHeapRows_def heapRows_def Let_def)


section \<open>Shares\<close>

lemma num_sum_fin: "(\<And>x. x \<in> set xs \<Longrightarrow> f x = Fin (g x)) \<Longrightarrow> num_sum (map f xs) = Fin (sum_list (map g xs))"
proof -
  have "(\<And>x. x \<in> set xs \<Longrightarrow> f x = Fin (g x)) \<Longrightarrow>
      foldl num_add (Fin a) (map f xs) = Fin (a + sum_list (map g xs))" for a
    by (induction xs arbitrary: a) (auto simp: add.assoc)
  then show "(\<And>x. x \<in> set xs \<Longrightarrow> f x = Fin (g x)) \<Longrightarrow> num_sum (map f xs) = Fin (sum_list (map g xs))"
    by (simp add: num_sum_def)
qed

lemma shares_sum:
  assumes "\<And>x. x \<in> set xs \<Longrightarrow> f x = Fin (g x)" and "sum_list (map g xs) \<noteq> 0"
  shows "sum_list (map (\<lambda>x. rat_of (share (f x) (num_sum (map f xs)))) xs) = 100"
proof -
  let ?s = "sum_list (map g xs)"
  have "map (\<lambda>x. rat_of (share (f x) (num_sum (map f xs)))) xs = map (\<lambda>x. g x * (100 / ?s)) xs"
    using assms by (simp add: num_sum_fin share_def num_times_def)
  then have "sum_list (map (\<lambda>x. rat_of (share (f x) (num_sum (map f xs)))) xs) = ?s * (100 / ?s)"
    by (simp only: sum_list_mult_const)
  also have "?s * (100 / ?s) = 100"
    using assms(2) by simp
  finally show ?thesis .
qed

lemma share_range:
  assumes "0 \<le> a" and "a \<le> s" and "0 < s"
  shows "\<exists>q. share (Fin a) (Fin s) = Fin q \<and> 0 \<le> q \<and> q \<le> 100"
proof -
  have "share (Fin a) (Fin s) = Fin (a / s * 100)"
    using assms by (simp add: share_def num_times_def)
  moreover have "0 \<le> a / s * 100 \<and> a / s * 100 \<le> 100"
    using assms by (simp add: field_simps)
  ultimately show ?thesis by blast
qed

text \<open>
  The shares of the hot function table are shares of one whole: when the counts are non-negative
  numbers and not all zero, every share is between 0 and 100 percent and before rounding they
  add up to exactly 100.
\<close>

theorem topn_shares:
  assumes "totalSamples topn = Inr tot"
    and "\<And>v. v \<in> set topn \<Longrightarrow> val_num (opt_prop v (js ''self'')) = Fin (c v) \<and> 0 \<le> c v"
    and "v \<in> set topn" and "0 < c v"
  shows "sum_list (map (\<lambda>v. rat_of (share (val_num (opt_prop v (js ''self''))) tot)) topn) = 100 \<and>
    (\<forall>v \<in> set topn. \<exists>q. share (val_num (opt_prop v (js ''self''))) tot = Fin q \<and> 0 \<le> q \<and> q \<le> 100)"
proof -
  let ?n = "\<lambda>v. val_num (opt_prop v (js ''self''))"
  let ?s = "sum_list (map c topn)"
  have z: "num_or_zero (opt_prop v (js ''self'')) = ?n v" if "v \<in> set topn" for v
    using assms(2) [OF that] by (auto simp: num_or_zero_def num_or_def num_truthy_def)
  then have m: "map (\<lambda>v. num_or_zero (opt_prop v (js ''self''))) topn = map ?n topn"
    by simp
  have "tot = num_sum (map (\<lambda>v. num_or_zero (opt_prop v (js ''self''))) topn)"
    using assms(1) by (simp add: totalSamples_def split: if_splits)
  then have t: "tot = num_sum (map ?n topn)"
    by (simp only: m)
  then have ts: "tot = Fin ?s"
    using assms(2) by (simp add: num_sum_fin)
  have le: "c w \<le> ?s" if "w \<in> set topn" for w
    using assms(2) that by (intro member_le_sum_list) auto
  then have pos: "0 < ?s"
    using assms(3,4) less_le_trans by blast
  have "sum_list (map (\<lambda>v. rat_of (share (?n v) tot)) topn) = 100"
    unfolding t using assms(2) pos by (intro shares_sum) auto
  moreover have "\<exists>q. share (?n w) tot = Fin q \<and> 0 \<le> q \<and> q \<le> 100" if "w \<in> set topn" for w
    using assms(2) [OF that] share_range [OF _ le [OF that] pos] unfolding ts by simp
  ultimately show ?thesis by blast
qed

section \<open>Concrete pages\<close>

text \<open>A page that shows an eBPF task without artifacts, and one with two hot functions.\<close>

definition shown_page :: result_page where
  "shown_page = result_loadTask sample_result_server (page_of [49])"

lemma shown_page_parts:
  "rp_topn shown_page = []" "elems (rp_pprofHeapData shown_page) = []" "rp_heapData shown_page = Null"
  "rp_attributionEvidence shown_page = Null" "rp_task shown_page = Some sample_ebpf_task"
  "\<not> rp_loading shown_page" "rp_error shown_page = []" "truthy (rp_eBpfData shown_page) = False"
  by (simp_all add: shown_page_def result_loadTask_def load_artifacts_def load_extended_def load_phases page_of_def
      reset_page_def detail_result_def sample_result_server_def files_of_def opt_items_def file_key_def find_named_def
      collapsedFile_def Let_def)

definition no_rows :: result_derived where
  "no_rows = \<lparr>rd_totalSamples = Fin 0, rd_cpuRows = pprofCpuRows (rp_pprofCpuData shown_page), rd_heapProf = [],
     rd_heapRows = [], rd_evidence = []\<rparr>"

lemma shown_page_derive: "derive id shown_page = Inr no_rows"
  by (simp add: derive_def shown_page_parts totalSamples_def pprofHeapRows_def heapRows_def heap_source_def
      flattenAttributionEvidence_def opt_prop_def num_sum_def sort_num_desc_def sort_desc_def no_rows_def Let_def)

lemma shown_page_render:
  "\<exists>cards tabs. render_result sample_env id shown_page = Inr (Body cards (rp_activeTab shown_page) tabs)"
proof -
  have "\<not> isl (stat_cards sample_env no_rows sample_ebpf_task)" "\<not> isl (infoItems sample_env (Some sample_ebpf_task))"
    by (simp_all add: stat_cards_isl infoItems_isl result_params_def parseTaskParams_def sample_ebpf_task_def)
  then obtain cards info where "stat_cards sample_env no_rows sample_ebpf_task = Inr cards"
    "infoItems sample_env (Some sample_ebpf_task) = Inr info"
    using sum.collapse(2) by metis
  then show ?thesis
    by (simp add: render_result_def shown_page_derive shown_page_parts)
qed

theorem result_tabs_match_witness:
  "\<exists>cards tabs. render_result sample_env id shown_page = Inr (Body cards (rp_activeTab shown_page) tabs) \<and>
     distinct (map rt_key tabs)"
  using shown_page_render result_tabs_match by meson


definition two_functions :: "jsval list" where
  "two_functions = [JObj [(js ''self'', JNum (Fin 3))], JObj [(js ''self'', JNum (Fin 1))]]"

theorem topn_shares_witness:
  "sum_list (map (\<lambda>v. rat_of (share (val_num (opt_prop v (js ''self''))) (Fin 4))) two_functions) = 100"
proof -
  have "totalSamples two_functions = Inr (Fin 4)"
    by (simp add: totalSamples_def two_functions_def num_sum_def num_or_zero_def num_or_def num_truthy_def val_num_def
        opt_prop_def)
  moreover have "val_num (opt_prop v (js ''self'')) = Fin (rat_of (val_num (opt_prop v (js ''self'')))) \<and>
      0 \<le> rat_of (val_num (opt_prop v (js ''self'')))" if "v \<in> set two_functions" for v
    using that by (auto simp: two_functions_def val_num_def opt_prop_def)
  moreover have "JObj [(js ''self'', JNum (Fin 3))] \<in> set two_functions"
    "0 < rat_of (val_num (opt_prop (JObj [(js ''self'', JNum (Fin 3))]) (js ''self'')))"
    by (simp_all add: two_functions_def val_num_def opt_prop_def)
  ultimately show ?thesis
    using topn_shares [of two_functions "Fin 4" "\<lambda>v. rat_of (val_num (opt_prop v (js ''self'')))"] by blast
qed

end
