(* ===== verification/Admin_Pages.thy ===== *)
theory Admin_Pages
  imports Domain Uri
begin

text \<open>
  The pages about agents and settings: \<open>src/web/src/pages/Agents.tsx\<close>,
  \<open>src/web/src/pages/AgentDetail.tsx\<close> and \<open>src/web/src/pages/Settings.tsx\<close>. A load is a function of the
  server's answers; requests sent together through \<open>Promise.all\<close> have one outcome.
\<close>

section \<open>Agents\<close>

record PidStats =
  ps_pid :: "jsnum option"
  ps_cpu_percent :: "jsnum option"
  ps_rss_kb :: "jsnum option"
  ps_read_kb_per_sec :: "jsnum option"
  ps_write_kb_per_sec :: "jsnum option"

record AgentStatData =
  as_code :: "int option"
  as_message :: "jstring option"
  as_self_pstats :: "PidStats option"
  as_children_pstats :: "PidStats option"

record AgentStateHistory =
  ah_id :: int
  ah_ip_addr :: jstring
  ah_hostname :: jstring
  ah_from_state :: bool
  ah_to_state :: bool
  ah_reason :: jstring
  ah_created_at :: jstring

record agents_page =
  ap_search :: jstring
  ap_agents :: "AgentInfo list"
  ap_auditLogs :: "AgentStateHistory list"
  ap_stats :: "(jstring \<times> AgentStatData) list"
  ap_loading :: bool
  ap_error :: jstring

record agents_server =
  sa_agents :: "api_exn + AgentInfo list ApiResponse"
  sa_stat :: "jstring \<Rightarrow> api_exn + AgentStatData ApiResponse"
  sa_audit :: "api_exn + AgentStateHistory list ApiResponse"

definition msg_agents_failed :: jstring where \<comment> \<open>loading the agents failed\<close>
  [msg_defs]: "msg_agents_failed = [65, 103, 101, 110, 116, 32, 0x5217, 0x8868, 0x52A0, 0x8F7D, 0x5931, 0x8D25]"
definition msg_agent_failed :: jstring where \<comment> \<open>loading the agent failed\<close>
  [msg_defs]: "msg_agent_failed = [65, 103, 101, 110, 116, 32, 0x8BE6, 0x60C5, 0x52A0, 0x8F7D, 0x5931, 0x8D25]"
definition msg_user_failed :: jstring where \<comment> \<open>loading the user failed\<close>
  [msg_defs]: "msg_user_failed = [0x7528, 0x6237, 0x4FE1, 0x606F, 0x52A0, 0x8F7D, 0x5931, 0x8D25]"
definition msg_llm_load_failed :: jstring where \<comment> \<open>loading the LLM settings failed\<close>
  [msg_defs]: "msg_llm_load_failed = [76, 76, 77, 32, 0x8BBE, 0x7F6E, 0x52A0, 0x8F7D, 0x5931, 0x8D25]"
definition msg_llm_save_failed :: jstring where \<comment> \<open>saving the LLM settings failed\<close>
  [msg_defs]: "msg_llm_save_failed = [76, 76, 77, 32, 0x8BBE, 0x7F6E, 0x4FDD, 0x5B58, 0x5931, 0x8D25]"

text \<open>The statistics of the online agents that answered, in list order; a later entry of the same address wins.\<close>

definition stat_entries :: "agents_server \<Rightarrow> AgentInfo list \<Rightarrow> (jstring \<times> AgentStatData) list" where
  "stat_entries srv agents =
     List.map_filter
       (\<lambda>a. case sa_stat srv (ag_ip_addr a) of
              Inl e \<Rightarrow> None
            | Inr res \<Rightarrow> map_option (\<lambda>d. (ag_ip_addr a, d)) (res_data res))
       (filter ag_online agents)"

definition from_entries :: "(jstring \<times> 'a) list \<Rightarrow> (jstring \<times> 'a) list" where
  "from_entries es = fold (\<lambda>e. alist_put (fst e) (snd e)) es []"

definition agents_loadAgents :: "agents_server \<Rightarrow> agents_page \<Rightarrow> agents_page" where
  "agents_loadAgents srv p =
     (let p = p\<lparr>ap_error := [], ap_loading := False\<rparr>
      in case sa_agents srv of
           Inl e \<Rightarrow> p\<lparr>ap_error := err_text e msg_agents_failed, ap_agents := []\<rparr>
         | Inr res \<Rightarrow>
           (let agents = (if res_code res = 0 then opt_items (res_data res) else [])
            in p\<lparr>ap_agents := agents, ap_stats := from_entries (stat_entries srv agents),
                 ap_auditLogs :=
                   (case sa_audit srv of
                      Inl e \<Rightarrow> []
                    | Inr a \<Rightarrow> if res_code a = 0 then opt_items (res_data a) else [])\<rparr>))"

definition filtered_agents :: "agents_page \<Rightarrow> AgentInfo list" where
  "filtered_agents p =
     filter (\<lambda>a. str_includes (ag_hostname a) (ap_search p) \<or> str_includes (ag_ip_addr a) (ap_search p)) (ap_agents p)"

definition onlineCount :: "agents_page \<Rightarrow> nat" where
  "onlineCount p = length (filter ag_online (ap_agents p))"

definition offlineCount :: "agents_page \<Rightarrow> nat" where
  "offlineCount p = length (ap_agents p) - onlineCount p"

section \<open>One agent\<close>

record agent_page =
  ad_agent :: "AgentInfo option"
  ad_stat :: "AgentStatData option"
  ad_tasks :: "HotmethodTask list"
  ad_loading :: bool
  ad_error :: jstring

text \<open>The address in the path is decoded once more; a malformed escape raises while rendering.\<close>

definition agent_ip :: "jstring option \<Rightarrow> jstring option" where
  "agent_ip param = decodeURIComponent (opt_str param)"

type_synonym agent_outcome =
  "(api_exn + AgentInfo list ApiResponse \<times> TaskListData ApiResponse) \<times> (jstring \<Rightarrow> api_exn + AgentStatData ApiResponse)"

definition agent_load :: "jstring \<Rightarrow> agent_outcome \<Rightarrow> agent_page \<Rightarrow> agent_page" where
  "agent_load ip out p =
     (if ip = [] then p
      else
        (let p = p\<lparr>ad_error := [], ad_loading := False\<rparr>
         in case fst out of
              Inl e \<Rightarrow> p\<lparr>ad_error := err_text e msg_agent_failed\<rparr>
            | Inr (agentRes, taskRes) \<Rightarrow>
              (let agents = (if res_code agentRes = 0 then opt_items (res_data agentRes) else []);
                   current = List.find (\<lambda>a. ag_ip_addr a = ip) agents;
                   p = p\<lparr>ad_agent := current,
                         ad_tasks := take 12 (filter (\<lambda>t. t_target_ip t = ip)
                           (case res_data taskRes of None \<Rightarrow> [] | Some d \<Rightarrow> tl_list d))\<rparr>
               in if (case current of None \<Rightarrow> False | Some a \<Rightarrow> ag_online a)
                  then (case snd out ip of
                          Inl e \<Rightarrow> p\<lparr>ad_error := err_text e msg_agent_failed\<rparr>
                        | Inr res \<Rightarrow> p\<lparr>ad_stat := res_data res\<rparr>)
                  else p\<lparr>ad_stat := None\<rparr>)))"

definition cpu_text :: "PidStats option \<Rightarrow> jstring" where
  "cpu_text s =
     (case Option.bind s ps_cpu_percent of None \<Rightarrow> js ''-'' | Some x \<Rightarrow> to_fixed 1 x @ js ''%'')"

definition rss_text :: "PidStats option \<Rightarrow> jstring" where
  "rss_text s =
     (case Option.bind s ps_rss_kb of
        None \<Rightarrow> js ''-''
      | Some x \<Rightarrow> num_str (math_round (num_div x 1024)) @ js '' MB'')"

definition lbl_children_cpu :: jstring where \<comment> \<open>CPU of the child processes\<close>
  [msg_defs]: "lbl_children_cpu = [0x5B50, 0x8FDB, 0x7A0B, 32, 67, 80, 85]"
definition lbl_children_rss :: jstring where \<comment> \<open>memory of the child processes\<close>
  [msg_defs]: "lbl_children_rss = [0x5B50, 0x8FDB, 0x7A0B, 32, 82, 83, 83]"

definition statRows :: "AgentStatData option \<Rightarrow> (jstring \<times> jstring) list" where
  "statRows stat =
     (let self = Option.bind stat as_self_pstats; children = Option.bind stat as_children_pstats
      in [(js ''Agent CPU'', cpu_text self), (js ''Agent RSS'', rss_text self),
          (lbl_children_cpu, cpu_text children), (lbl_children_rss, rss_text children)])"

section \<open>Settings\<close>

datatype health = Checking | Ok | Fail

record settings_page =
  se_user :: "jsval option"
  se_apiHealthy :: health
  se_error :: jstring
  se_llm :: LLMSettings
  se_llmTokenInput :: jstring
  se_savingLLM :: bool

record settings_server =
  sv_healthz :: "api_exn + unit"
  sv_users :: "api_exn + jsval ApiResponse"
  sv_llm :: "api_exn + LLMSettings ApiResponse"

definition settings_load :: "settings_server \<Rightarrow> settings_page \<Rightarrow> settings_page" where
  "settings_load srv p =
     (let p0 = p\<lparr>se_error := [], se_apiHealthy := (case sv_healthz srv of Inl e \<Rightarrow> Fail | Inr _ \<Rightarrow> Ok)\<rparr>;
          p1 = (case sv_users srv of
                  Inl e \<Rightarrow> p0\<lparr>se_error := err_text e msg_user_failed\<rparr>
                | Inr res \<Rightarrow> if res_code res = 0 then p0\<lparr>se_user := res_data res\<rparr> else p0)
      in case sv_llm srv of
           Inl e \<Rightarrow> p1\<lparr>se_error := err_text e msg_llm_load_failed\<rparr>
         | Inr res \<Rightarrow>
           (case res_data res of Some d \<Rightarrow> if res_code res = 0 then p1\<lparr>se_llm := d\<rparr> else p1 | None \<Rightarrow> p1))"

record llm_update =
  lu_base_url :: jstring
  lu_model :: jstring
  lu_token :: jstring
  lu_clear_token :: bool

definition llm_payload :: "bool \<Rightarrow> settings_page \<Rightarrow> llm_update" where
  "llm_payload clearToken p =
     \<lparr>lu_base_url = ls_base_url (se_llm p), lu_model = or_str (ls_model (se_llm p)) (js ''gpt-4o-mini''),
      lu_token = (if clearToken then [] else se_llmTokenInput p), lu_clear_token = clearToken\<rparr>"

definition saveLLM :: "(llm_update \<Rightarrow> api_exn + LLMSettings ApiResponse) \<times> bool \<Rightarrow> settings_page \<Rightarrow> settings_page" where
  "saveLLM run p =
     (let p = p\<lparr>se_savingLLM := False, se_error := []\<rparr>
      in case fst run (llm_payload (snd run) p) of
           Inl e \<Rightarrow> p\<lparr>se_error := err_text e msg_llm_save_failed\<rparr>
         | Inr res \<Rightarrow>
           if res_code res \<noteq> 0
           then p\<lparr>se_error := err_text (mk_error (or_str (opt_str (res_message res)) msg_llm_save_failed)) msg_llm_save_failed\<rparr>
           else p\<lparr>se_llm := (case res_data res of None \<Rightarrow> se_llm p | Some d \<Rightarrow> d), se_llmTokenInput := []\<rparr>)"

section \<open>Properties\<close>

lemma admin_messages [simp]:
  "err_text e msg_agents_failed \<noteq> []" "err_text e msg_agent_failed \<noteq> []" "err_text e msg_user_failed \<noteq> []"
  "err_text e msg_llm_load_failed \<noteq> []" "err_text e msg_llm_save_failed \<noteq> []" "msg_llm_save_failed \<noteq> []"
  by (simp_all add: err_text_nonempty msg_defs)

interpretation agents_list: guarded_handler agents_loadAgents ap_loading ap_error "\<lambda>_. True" "\<lambda>srv _. isl (sa_agents srv)"
  by unfold_locales (auto simp: agents_loadAgents_def Let_def split: sum.split)

interpretation agent_info: guarded_handler "agent_load ip" ad_loading ad_error "\<lambda>_. ip \<noteq> []"
  "\<lambda>out _. case fst out of Inl e \<Rightarrow> True
     | Inr (agentRes, taskRes) \<Rightarrow>
       (case List.find (\<lambda>a. ag_ip_addr a = ip) (if res_code agentRes = 0 then opt_items (res_data agentRes) else []) of
          None \<Rightarrow> False | Some a \<Rightarrow> ag_online a \<and> isl (snd out ip))"
  for ip
  by unfold_locales (auto simp: agent_load_def Let_def split: sum.split option.split prod.split)

interpretation llm_form: guarded_handler saveLLM se_savingLLM se_error "\<lambda>_. True"
  "\<lambda>run p. case fst run (llm_payload (snd run) (p\<lparr>se_savingLLM := False, se_error := []\<rparr>)) of
     Inl e \<Rightarrow> True | Inr res \<Rightarrow> res_code res \<noteq> 0"
  by unfold_locales (auto simp: saveLLM_def Let_def split: sum.split)

lemma from_entries_look: "map_of (from_entries es) k = map_of (rev es) k"
  using alist.look_fold_put [of es "[]" k] by (simp add: from_entries_def split: option.split)

text \<open>
  The statistics on the agent page belong to the agents they are shown with: an address has an
  entry exactly when an online agent of the list has that address and the server answered its
  statistics request with data, and the entry is that data. One agent that does not answer never
  hides the others.
\<close>

theorem agent_stats_sound:
  assumes "sa_agents srv = Inr res" and "res_code res = 0" and "q = agents_loadAgents srv p"
  shows "map_of (ap_stats q) ip = Some d \<longleftrightarrow>
    (\<exists>a \<in> set (ap_agents q). ag_online a \<and> ag_ip_addr a = ip) \<and>
    (\<exists>r. sa_stat srv ip = Inr r \<and> res_data r = Some d)"
proof -
  let ?es = "stat_entries srv (ap_agents q)"
  have q: "ap_stats q = from_entries ?es"
    using assms by (simp add: agents_loadAgents_def Let_def)
  have mem: "(ip, d) \<in> set ?es \<longleftrightarrow>
      (\<exists>a \<in> set (ap_agents q). ag_online a \<and> ag_ip_addr a = ip) \<and> (\<exists>r. sa_stat srv ip = Inr r \<and> res_data r = Some d)" for d
    by (force simp: stat_entries_def map_filter_def split: sum.splits)
  have "map_of (rev ?es) ip = Some d \<longleftrightarrow> (ip, d) \<in> set ?es"
  proof
    assume "map_of (rev ?es) ip = Some d"
    then show "(ip, d) \<in> set ?es"
      by (auto dest: map_of_SomeD)
  next
    assume d: "(ip, d) \<in> set ?es"
    then obtain d' where d': "map_of (rev ?es) ip = Some d'"
      by (cases "map_of (rev ?es) ip") (auto simp: map_of_eq_None_iff rev_image_eqI)
    then have "(ip, d') \<in> set ?es"
      by (auto dest: map_of_SomeD)
    with d d' mem show "map_of (rev ?es) ip = Some d"
      by auto
  qed
  then show ?thesis
    using mem by (simp add: q from_entries_look)
qed

definition sample_online_agent :: AgentInfo where
  "sample_online_agent = \<lparr>ag_id = 1, ag_hostname = [104], ag_ip_addr = [49], ag_online = True, ag_uid = [], ag_gid = 0,
     ag_version = [], ag_environment = [], ag_last_heartbeat = [], ag_created_at = [], ag_updated_at = []\<rparr>"

definition sample_agents_server :: agents_server where
  "sample_agents_server =
     \<lparr>sa_agents = Inr \<lparr>res_code = 0, res_data = Some [sample_online_agent], res_message = None\<rparr>,
      sa_stat = (\<lambda>_. Inr \<lparr>res_code = 0, res_data = Some \<lparr>as_code = None, as_message = None, as_self_pstats = None, as_children_pstats = None\<rparr>,
        res_message = None\<rparr>),
      sa_audit = Inl (mk_error [])\<rparr>"

definition agents_initial :: agents_page where
  "agents_initial = \<lparr>ap_search = [], ap_agents = [], ap_auditLogs = [], ap_stats = [], ap_loading = True, ap_error = []\<rparr>"

theorem agent_stats_sound_witness:
  "map_of (ap_stats (agents_loadAgents sample_agents_server agents_initial)) [49] =
     Some \<lparr>as_code = None, as_message = None, as_self_pstats = None, as_children_pstats = None\<rparr>"
proof -
  have "ap_agents (agents_loadAgents sample_agents_server agents_initial) = [sample_online_agent]"
    by (simp add: agents_loadAgents_def sample_agents_server_def opt_items_def Let_def)
  then show ?thesis
    using agent_stats_sound [of sample_agents_server _ "agents_loadAgents sample_agents_server agents_initial" agents_initial
        "[49]" "\<lparr>as_code = None, as_message = None, as_self_pstats = None, as_children_pstats = None\<rparr>"]
    by (simp add: sample_agents_server_def sample_online_agent_def)
qed

text \<open>
  The page of an agent shows only what belongs to that agent: the agent has the address of the
  page, every task in its list targets the address, at most twelve are shown, and statistics are
  shown only for an agent that is listed and online.
\<close>

theorem agent_detail_own:
  assumes "ip \<noteq> []" and "q = agent_load ip out p" and "ad_error q = []"
  shows "\<not> ad_loading q \<and> (\<forall>a. ad_agent q = Some a \<longrightarrow> ag_ip_addr a = ip) \<and>
    (\<forall>t \<in> set (ad_tasks q). t_target_ip t = ip) \<and> length (ad_tasks q) \<le> 12 \<and>
    (ad_stat q \<noteq> None \<longrightarrow> (\<exists>a. ad_agent q = Some a \<and> ag_online a))"
proof -
  have "\<not> ad_loading q"
    using agent_info.settles [OF assms(1)] assms(2) by simp
  obtain ar tr where out: "fst out = Inr (ar, tr)"
    using assms by (cases "fst out") (auto simp: agent_load_def Let_def)
  define current where "current = List.find (\<lambda>a. ag_ip_addr a = ip)
    (if res_code ar = 0 then opt_items (res_data ar) else [])"
  have "ag_ip_addr a = ip" if "current = Some a" for a
    using that unfolding current_def by (auto dest: find_Some_set)
  moreover have "ad_agent q = current \<and> (\<forall>t \<in> set (ad_tasks q). t_target_ip t = ip) \<and> length (ad_tasks q) \<le> 12 \<and>
      (ad_stat q \<noteq> None \<longrightarrow> (\<exists>a. current = Some a \<and> ag_online a))"
    using assms out unfolding current_def
    by (auto simp: agent_load_def Let_def dest!: in_set_takeD split: sum.splits option.splits if_splits)
  ultimately show ?thesis
    using \<open>\<not> ad_loading q\<close> by simp
qed

theorem agent_detail_own_witness:
  "ad_stat (agent_load [49] (Inr (\<lparr>res_code = 0, res_data = Some [sample_online_agent\<lparr>ag_online := False\<rparr>], res_message = None\<rparr>,
     \<lparr>res_code = 0, res_data = None, res_message = None\<rparr>), \<lambda>_. Inl (mk_error []))
     \<lparr>ad_agent = None, ad_stat = None, ad_tasks = [], ad_loading = True, ad_error = []\<rparr>) = None"
  (is "ad_stat (agent_load [49] ?out ?p) = None")
proof -
  have e: "ad_error (agent_load [49] ?out ?p) = []" "ad_agent (agent_load [49] ?out ?p) = Some (sample_online_agent\<lparr>ag_online := False\<rparr>)"
    by (simp_all add: agent_load_def opt_items_def sample_online_agent_def Let_def)
  from agent_detail_own [OF _ refl e(1)] e(2) show ?thesis
    by auto
qed

text \<open>
  The token typed into the settings leaves the page only in the one request that saves it:
  a successful save empties the field, clearing sends an empty token whatever is typed, and a failed
  save keeps the field, shows an error and keeps the settings shown.
\<close>

theorem llm_token_write_only:
  "(let q = saveLLM (api, clear) p
    in \<not> se_savingLLM q \<and> lu_token (llm_payload True p) = [] \<and>
       (se_error q = [] \<longrightarrow> se_llmTokenInput q = []) \<and>
       (se_error q \<noteq> [] \<longrightarrow> se_llmTokenInput q = se_llmTokenInput p \<and> se_llm q = se_llm p))"
proof -
  have "\<not> se_savingLLM (saveLLM (api, clear) p)"
    using llm_form.settles [of "(api, clear)" p] by simp
  moreover have "(se_error (saveLLM (api, clear) p) = [] \<longrightarrow> se_llmTokenInput (saveLLM (api, clear) p) = []) \<and>
      (se_error (saveLLM (api, clear) p) \<noteq> [] \<longrightarrow>
        se_llmTokenInput (saveLLM (api, clear) p) = se_llmTokenInput p \<and> se_llm (saveLLM (api, clear) p) = se_llm p)"
    by (simp add: saveLLM_def Let_def split: sum.split)
  ultimately show ?thesis
    by (simp add: llm_payload_def Let_def)
qed

definition sample_settings :: settings_page where
  "sample_settings = \<lparr>se_user = None, se_apiHealthy = Checking, se_error = [],
     se_llm = \<lparr>ls_base_url = [], ls_model = [], ls_token = None, ls_token_configured = None, ls_token_masked = None\<rparr>,
     se_llmTokenInput = [115], se_savingLLM = False\<rparr>"

theorem llm_token_write_only_witness:
  "se_llmTokenInput (saveLLM (\<lambda>_. Inr \<lparr>res_code = 0, res_data = None, res_message = None\<rparr>, False) sample_settings) = []"
  using llm_token_write_only [of "\<lambda>_. Inr \<lparr>res_code = 0, res_data = None, res_message = None\<rparr>" False sample_settings]
  by (simp add: saveLLM_def Let_def sample_settings_def)

end
