(* ===== verification/Flame_Chart.thy ===== *)
theory Flame_Chart
  imports Flame Diff
begin

text \<open>
  The two components that keep a chart in a container, \<open>FlameGraph\<close>
  (\<open>src/web/src/components/FlameGraph.tsx\<close>) and \<open>DiffFlamePanel\<close> (\<open>src/web/src/pages/FlameDiff.tsx\<close>): when a
  chart is drawn, with which data and size, when it is removed, the delayed redraw after a resize,
  full screen and the search. Both have the same effects over another data type and with other
  sizes, so the model is one machine with a configuration. The chart library itself is
  represented by what the components ask of it: the data, the size and the search of a chart.
\<close>

section \<open>State\<close>

record chart_config =
  cc_margin :: int
  cc_height :: int
  cc_width :: int

record 'd chart =
  ch_data :: 'd
  ch_height :: int
  ch_width :: int
  ch_search :: "jstring option"

text \<open>
  \<open>ho_data\<close> is the tree of the current render and \<open>ho_ref\<close> the reference the draw function reads;
  \<open>ho_chart\<close> is \<open>chartRef.current\<close> and \<open>ho_drawn\<close> says that this chart is in the container;
  \<open>ho_height\<close> is the chart height of the last render; \<open>ho_timer\<close> is the pending redraw, with the
  height its closure uses. \<open>ho_inner\<close> and \<open>ho_offset\<close> are the height of the window and the width of
  the container.
\<close>

record 'd host =
  ho_mounted :: bool
  ho_data :: "'d option"
  ho_ref :: "'d option"
  ho_chart :: "'d chart option"
  ho_drawn :: bool
  ho_height :: int
  ho_timer :: "int option"
  ho_full :: bool
  ho_search :: jstring
  ho_inner :: int
  ho_offset :: int

definition chart_height :: "chart_config \<Rightarrow> bool \<Rightarrow> int \<Rightarrow> int" where
  "chart_height c full inner = (if full then max (inner - cc_margin c) (cc_height c) else cc_height c)"

text \<open>The container is on screen exactly when there is a tree to draw.\<close>

definition has_container :: "'d host \<Rightarrow> bool" where
  "has_container h \<longleftrightarrow> ho_mounted h \<and> ho_data h \<noteq> None"

section \<open>Effects\<close>

definition renderChart :: "chart_config \<Rightarrow> int \<Rightarrow> 'd host \<Rightarrow> 'd host" where
  "renderChart c height h =
     (case ho_ref h of
        None \<Rightarrow> h
      | Some d \<Rightarrow>
        if \<not> has_container h then h
        else h\<lparr>ho_chart := Some \<lparr>ch_data = d, ch_height = height,
                 ch_width = (if ho_offset h \<noteq> 0 then ho_offset h else cc_width c), ch_search = None\<rparr>,
               ho_drawn := True\<rparr>)"

text \<open>The draw effect and its cleanup; without a container it does nothing.\<close>

definition draw_effect :: "chart_config \<Rightarrow> 'd host \<Rightarrow> 'd host" where
  "draw_effect c h =
     (if has_container h then renderChart c (ho_height h) (h\<lparr>ho_ref := ho_data h\<rparr>) else h)"

definition draw_cleanup :: "'d host \<Rightarrow> 'd host" where
  "draw_cleanup h = h\<lparr>ho_drawn := False\<rparr>"

text \<open>
  A render of the component: the new chart height, then the effects whose inputs changed. \<open>fresh\<close>
  says that the tree is a new object. The cleanup of the resize effect cancels the pending redraw.
\<close>

definition rerender :: "chart_config \<Rightarrow> bool \<Rightarrow> 'd host \<Rightarrow> 'd host" where
  "rerender c fresh h =
     (let height = chart_height c (ho_full h) (ho_inner h);
          resized = (height \<noteq> ho_height h);
          h = h\<lparr>ho_height := height, ho_timer := (if resized then None else ho_timer h)\<rparr>
      in if fresh \<or> resized then draw_effect c (draw_cleanup h) else h)"

definition set_tree :: "chart_config \<Rightarrow> 'd option \<Rightarrow> 'd host \<Rightarrow> 'd host" where
  "set_tree c d h = rerender c True (h\<lparr>ho_data := d\<rparr>)"

definition handleFullscreenChange :: "chart_config \<Rightarrow> bool \<Rightarrow> 'd host \<Rightarrow> 'd host" where
  "handleFullscreenChange c full h = rerender c False (h\<lparr>ho_full := full\<rparr>)"

definition handleResize :: "int \<Rightarrow> int \<Rightarrow> 'd host \<Rightarrow> 'd host" where
  "handleResize inner offset h = h\<lparr>ho_inner := inner, ho_offset := offset, ho_timer := Some (ho_height h)\<rparr>"

definition resize_timeout :: "chart_config \<Rightarrow> 'd host \<Rightarrow> 'd host" where
  "resize_timeout c h =
     (case ho_timer h of
        None \<Rightarrow> h
      | Some height \<Rightarrow>
        (let h = h\<lparr>ho_timer := None\<rparr> in if ho_ref h \<noteq> None then renderChart c height h else h))"

definition search_effect :: "'d host \<Rightarrow> 'd host" where
  "search_effect h =
     (case ho_chart h of
        None \<Rightarrow> h
      | Some ch \<Rightarrow> h\<lparr>ho_chart := Some (ch\<lparr>ch_search := (if ho_search h \<noteq> [] then Some (ho_search h) else None)\<rparr>)\<rparr>)"

definition setSearchTerm :: "chart_config \<Rightarrow> jstring \<Rightarrow> 'd host \<Rightarrow> 'd host" where
  "setSearchTerm c s h =
     (if s = ho_search h then h else search_effect (rerender c False (h\<lparr>ho_search := s\<rparr>)))"

definition unmount :: "'d host \<Rightarrow> 'd host" where
  "unmount h = (draw_cleanup h)\<lparr>ho_mounted := False, ho_timer := None\<rparr>"

text \<open>The button: the request to enter or leave full screen, which the browser may deny.\<close>

datatype fullscreen_request = Exit | Request

definition toggleFullscreen :: "'d host \<Rightarrow> fullscreen_request option" where
  "toggleFullscreen h =
     (if \<not> ho_mounted h \<or> ho_data h = None then None else if ho_full h then Some Exit else Some Request)"

section \<open>The two configurations\<close>

definition flame_config :: "int \<Rightarrow> int \<Rightarrow> chart_config" where
  "flame_config width height = \<lparr>cc_margin = 82, cc_height = height, cc_width = width\<rparr>"

definition diff_config :: chart_config where
  "diff_config = \<lparr>cc_margin = 138, cc_height = 480, cc_width = 960\<rparr>"

lemma diff_config_height: "chart_height diff_config = diff_chartHeight"
  by (simp add: fun_eq_iff chart_height_def diff_config_def diff_chartHeight_def)

definition mount :: "chart_config \<Rightarrow> 'd option \<Rightarrow> int \<Rightarrow> int \<Rightarrow> 'd host" where
  "mount c d inner offset =
     draw_effect c
       \<lparr>ho_mounted = True, ho_data = d, ho_ref = None, ho_chart = None, ho_drawn = False,
        ho_height = cc_height c, ho_timer = None, ho_full = False, ho_search = [], ho_inner = inner,
        ho_offset = offset\<rparr>"

text \<open>\<open>FlameGraph\<close> draws the root of its data, \<open>DiffFlamePanel\<close> the converted tree of the answer.\<close>

definition FlameGraph :: "int \<Rightarrow> int \<Rightarrow> TopItem list option \<Rightarrow> jstring \<Rightarrow> int \<Rightarrow> int \<Rightarrow> FlameNode host" where
  "FlameGraph width height data collapsedText = mount (flame_config width height) (flame_root data collapsedText)"

definition DiffFlamePanel :: "FlameDiffResult \<Rightarrow> int \<Rightarrow> int \<Rightarrow> chart_node host" where
  "DiffFlamePanel res = mount diff_config (map_option transformNode (fr_tree res))"

section \<open>What the components show\<close>

definition txt_leave_fullscreen :: jstring where \<comment> \<open>leave full screen\<close>
  [msg_defs]: "txt_leave_fullscreen = [0x9000, 0x51FA, 0x5168, 0x5C4F]"
definition txt_fullscreen :: jstring where \<comment> \<open>full screen\<close>
  [msg_defs]: "txt_fullscreen = [0x5168, 0x5C4F]"
definition txt_graph_empty :: jstring where \<comment> \<open>nothing here\<close>
  [msg_defs]: "txt_graph_empty = [0x8FD9, 0x91CC, 0x7A7A, 0x7A7A, 0x5982, 0x4E5F]"
definition txt_graph_no_data :: jstring where \<comment> \<open>no flame graph\<close>
  [msg_defs]: "txt_graph_no_data = [0x6682, 0x65E0, 0x706B, 0x7130, 0x56FE, 0x6570, 0x636E]"

text \<open>
  \<open>FlameGraph\<close> shows a frame with a given address (no page gives it one), the empty state, or the container below
  the search field, the button that clears the search and the full screen button.
\<close>

datatype graph_view =
    GraphFrame jstring int jstring
  | GraphEmpty jstring jstring
  | GraphContainer jstring bool jstring

definition fullscreen_text :: "bool \<Rightarrow> jstring" where
  "fullscreen_text full = (if full then txt_leave_fullscreen else txt_fullscreen)"

definition graph_view_of :: "jstring \<Rightarrow> 'd host \<Rightarrow> graph_view" where
  "graph_view_of url h =
     (if url \<noteq> [] then GraphFrame url (ho_height h) (fullscreen_text (ho_full h))
      else if ho_data h = None then GraphEmpty txt_graph_empty txt_graph_no_data
      else GraphContainer (ho_search h) (ho_search h \<noteq> []) (fullscreen_text (ho_full h)))"

text \<open>The button that clears the search.\<close>

definition clear_search :: "chart_config \<Rightarrow> 'd host \<Rightarrow> 'd host" where
  "clear_search c = setSearchTerm c []"

text \<open>The head of the comparison panel, when there is a tree: the two ids, the search and the buttons.\<close>

record diff_panel_view =
  dv_base :: jstring
  dv_compare :: jstring
  dv_search :: jstring
  dv_clear :: bool
  dv_fullscreen :: jstring

definition diff_panel_head :: "FlameDiffResult \<Rightarrow> chart_node host \<Rightarrow> diff_panel_view" where
  "diff_panel_head res h =
     \<lparr>dv_base = fr_base_tid res, dv_compare = fr_curr_tid res, dv_search = ho_search h, dv_clear = (ho_search h \<noteq> []),
      dv_fullscreen = fullscreen_text (ho_full h)\<rparr>"

section \<open>Behaviour\<close>

inductive host_step :: "chart_config \<Rightarrow> 'd host \<Rightarrow> 'd host \<Rightarrow> bool" for c where
  tree: "ho_mounted h \<Longrightarrow> host_step c h (set_tree c d h)"
| fullscreen: "ho_mounted h \<Longrightarrow> host_step c h (handleFullscreenChange c full h)"
| resize: "ho_mounted h \<Longrightarrow> host_step c h (handleResize inner offset h)"
| timeout: "host_step c h (resize_timeout c h)"
| search: "has_container h \<Longrightarrow> host_step c h (setSearchTerm c s h)"
| close: "ho_mounted h \<Longrightarrow> host_step c h (unmount h)"

definition host_reachable :: "chart_config \<Rightarrow> 'd host \<Rightarrow> bool" where
  "host_reachable c h \<longleftrightarrow> (\<exists>d inner offset. (host_step c)\<^sup>*\<^sup>* (mount c d inner offset) h)"

lemmas host_defs = renderChart_def draw_effect_def draw_cleanup_def rerender_def set_tree_def
  handleFullscreenChange_def handleResize_def resize_timeout_def search_effect_def setSearchTerm_def
  unmount_def has_container_def Let_def

text \<open>The chart in the container is the one of the current tree and height; a redraw that waits uses them too.\<close>

definition host_inv :: "chart_config \<Rightarrow> 'd host \<Rightarrow> bool" where
  "host_inv c h \<longleftrightarrow>
     (has_container h \<longrightarrow>
        ho_drawn h \<and> ho_ref h = ho_data h \<and>
        (\<exists>ch. ho_chart h = Some ch \<and> Some (ch_data ch) = ho_data h \<and> ch_height ch = ho_height h)) \<and>
     (\<not> has_container h \<longrightarrow> \<not> ho_drawn h) \<and>
     (ho_timer h \<noteq> None \<longrightarrow> ho_mounted h \<and> ho_timer h = Some (ho_height h)) \<and>
     cc_height c \<le> ho_height h"

lemma chart_height_ge: "cc_height c \<le> chart_height c full inner"
  by (simp add: chart_height_def)

lemma mount_inv: "host_inv c (mount c d inner offset)"
  by (auto simp: mount_def host_inv_def host_defs)

lemma rerender_inv: "host_inv c h \<Longrightarrow> host_inv c (rerender c False (h\<lparr>ho_full := full\<rparr>))"
  by (auto simp: host_inv_def host_defs chart_height_ge split: option.splits)

lemma host_step_inv: "host_step c h h' \<Longrightarrow> host_inv c h \<Longrightarrow> host_inv c h'"
proof (induction rule: host_step.induct)
  case (tree h d)
  then show ?case by (auto simp: host_inv_def host_defs chart_height_ge)
next
  case (fullscreen h full)
  then show ?case using rerender_inv by (simp add: handleFullscreenChange_def)
next
  case (resize h inner offset)
  then show ?case by (auto simp: host_inv_def host_defs)
next
  case (timeout h)
  then show ?case by (auto simp: host_inv_def host_defs split: option.splits)
next
  case (search h s)
  then show ?case by (auto simp: host_inv_def host_defs chart_height_ge split: option.splits)
next
  case (close h)
  then show ?case by (auto simp: host_inv_def host_defs)
qed

interpretation charts: machine "\<lambda>h. \<exists>d inner offset. h = mount c d inner offset" "host_step c" "host_inv c" for c
  by unfold_locales (auto intro: mount_inv host_step_inv)

lemma host_reachable_inv: "host_reachable c h \<Longrightarrow> host_inv c h"
  unfolding host_reachable_def using charts.reachable by blast

text \<open>
  C20: in every state a chart component can reach, whatever the order of new data, resizes, redraws
  that fire late, full screen changes, searches and the end of the page, the container holds a chart of exactly the
  current tree at the height of the last render; there is no chart without a tree; a redraw that is
  still pending will use that same height; and after the end nothing is drawn or pending.
\<close>

theorem chart_shows_tree:
  assumes "host_reachable c h"
  shows "(ho_mounted h \<and> ho_data h \<noteq> None \<longrightarrow>
      ho_drawn h \<and> (\<exists>ch. ho_chart h = Some ch \<and> Some (ch_data ch) = ho_data h \<and> ch_height ch = ho_height h \<and>
                      cc_height c \<le> ch_height ch)) \<and>
    (\<not> ho_mounted h \<or> ho_data h = None \<longrightarrow> \<not> ho_drawn h) \<and>
    (\<forall>height. ho_timer h = Some height \<longrightarrow> ho_mounted h \<and> height = ho_height h)"
  using host_reachable_inv [OF assms] by (auto simp: host_inv_def has_container_def)

theorem chart_shows_tree_witness:
  "\<exists>ch. ho_chart (handleResize 900 700 (mount diff_config (Some (0 :: nat)) 800 600)) = Some ch \<and>
     ch_data ch = 0 \<and> ch_height ch = 480"
proof -
  let ?h = "handleResize 900 700 (mount diff_config (Some (0 :: nat)) 800 600)"
  have "ho_mounted (mount diff_config (Some (0 :: nat)) 800 600)"
    by (simp add: mount_def host_defs)
  then have "host_reachable diff_config ?h"
    unfolding host_reachable_def using host_step.resize by blast
  moreover have "ho_mounted ?h" "ho_data ?h = Some 0" "ho_height ?h = 480"
    by (simp_all add: mount_def host_defs diff_config_def)
  ultimately obtain ch where "ho_chart ?h = Some ch" "Some (ch_data ch) = Some 0" "ch_height ch = 480"
    using chart_shows_tree [of diff_config ?h] by auto
  then show ?thesis
    by blast
qed

lemma handleResizes_keep:
  "ho_ref (fold (\<lambda>(i, w). handleResize i w) sizes h) = ho_ref h"
  "ho_data (fold (\<lambda>(i, w). handleResize i w) sizes h) = ho_data h"
  "ho_mounted (fold (\<lambda>(i, w). handleResize i w) sizes h) = ho_mounted h"
  by (induction sizes arbitrary: h) (simp_all add: handleResize_def split_beta)

text \<open>
  After any number of resize events in a row there is one redraw, and once it has run the chart
  has the width the container had at the last of them; no redraw is pending then.
\<close>

theorem resize_settles:
  assumes "host_inv c h" and "has_container h" and "offset \<noteq> 0"
    and "h' = resize_timeout c (handleResize inner offset (fold (\<lambda>(i, w). handleResize i w) sizes h))"
  shows "ho_timer h' = None \<and> (\<exists>ch. ho_chart h' = Some ch \<and> ch_width ch = offset \<and> Some (ch_data ch) = ho_data h)"
proof -
  let ?g = "fold (\<lambda>(i, w). handleResize i w) sizes h"
  obtain d where "ho_data h = Some d" "ho_ref h = Some d" "ho_mounted h"
    using assms(1,2) by (auto simp: host_inv_def has_container_def)
  then have "ho_data ?g = Some d" "ho_ref ?g = Some d" "ho_mounted ?g"
    by (simp_all add: handleResizes_keep)
  then show ?thesis
    using assms(3) \<open>ho_data h = Some d\<close> unfolding assms(4)
    by (simp add: resize_timeout_def handleResize_def renderChart_def has_container_def Let_def)
qed

theorem resize_settles_witness:
  "ho_timer (resize_timeout diff_config (handleResize 900 700 (mount diff_config (Some (0 :: nat)) 800 600))) = None"
  using resize_settles [OF mount_inv [of diff_config "Some (0 :: nat)" 800 600], of 700 _ 900 "[]"]
  by (simp add: mount_def host_defs)

text \<open>The container is on screen exactly when the component draws into it.\<close>

lemma container_view:
  assumes "host_reachable c h" and "ho_mounted h"
  shows "(\<exists>s b f. graph_view_of [] h = GraphContainer s b f) \<longleftrightarrow> ho_drawn h"
  using host_reachable_inv [OF assms(1)] assms(2) by (auto simp: graph_view_of_def host_inv_def has_container_def)

lemma clear_search_clears:
  "ho_search (clear_search c h) = [] \<and> (\<forall>ch. ho_chart (clear_search c h) = Some ch \<and> ho_search h \<noteq> [] \<longrightarrow> ch_search ch = None)"
  by (auto simp: clear_search_def host_defs split: option.splits)

text \<open>
  A redraw forgets the search. The new chart was never told the search term, which still
  stands in the field; only typing again marks the frames.
\<close>

theorem search_forgotten:
  assumes "host_inv c h" and "has_container h" and "s \<noteq> []" and "s \<noteq> ho_search h"
    and "h' = resize_timeout c (handleResize inner offset (setSearchTerm c s h))"
  shows "ho_search h' = s \<and> (\<exists>ch. ho_chart h' = Some ch \<and> ch_search ch = None)"
proof -
  let ?g = "setSearchTerm c s h"
  have "host_inv c ?g"
    using host_step_inv [OF host_step.search [OF assms(2)] assms(1)] .
  moreover have g: "has_container ?g" "ho_search ?g = s"
    using assms(2,4) by (auto simp: host_defs split: option.splits)
  ultimately obtain d where "ho_ref ?g = Some d"
    by (auto simp: host_inv_def has_container_def)
  then show ?thesis
    using g unfolding assms(5)
    by (simp add: resize_timeout_def handleResize_def renderChart_def has_container_def Let_def)
qed

end
