(* ===== verification/Router.thy ===== *)
theory Router
  imports Session Task_Pages Result_Panels Admin_Pages
begin

text \<open>
  How the pages are reached: the route table (\<open>src/web/src/router.tsx\<close>), the side bar of the layout
  (\<open>src/web/src/layouts/AppLayout.tsx\<close>), the links the pages make and read back, and the error boundary
  around all pages (\<open>src/web/src/components/ErrorBoundary.tsx\<close>). The router library is a parameter: a
  function that matches a route pattern against a path and returns the value of the pattern's
  parameter, decoded, as its documentation says.
\<close>

section \<open>Routes\<close>

datatype page =
    LoginPage
  | HomePage
  | TaskListPage
  | TaskResultPage
  | FlameDiffPage
  | TimelinePage
  | AgentsPage
  | AgentDetailPage
  | GroupsPage
  | SettingsPage

text \<open>A route shows a page on its own, shows it inside the layout, or leads elsewhere.\<close>

datatype route_element = Alone page | Inside page | Navigate jstring

definition routes :: "(jstring \<times> route_element) list" where
  "routes =
     [(js ''/login'', Alone LoginPage),
      (js ''/'', Navigate (js ''/index'')),
      (js ''/index'', Inside HomePage),
      (js ''/tasks'', Inside TaskListPage),
      (js ''/task/result'', Inside TaskResultPage),
      (js ''/flame/diff'', Inside FlameDiffPage),
      (js ''/continuous'', Inside TimelinePage),
      (js ''/agents'', Inside AgentsPage),
      (js ''/agents/:ip'', Inside AgentDetailPage),
      (js ''/groups'', Inside GroupsPage),
      (js ''/schedules'', Navigate (js ''/tasks?view=schedules'')),
      (js ''/settings'', Inside SettingsPage)]"

text \<open>The path and the query of a link, and \<open>searchParams.get\<close>; \<open>dec\<close> decodes a component of the query.\<close>

definition url_path :: "jstring \<Rightarrow> jstring" where
  "url_path u = takeWhile (\<lambda>c. c \<noteq> 63 \<and> c \<noteq> 35) u"

definition url_query :: "jstring \<Rightarrow> jstring" where
  "url_query u = drop 1 (dropWhile (\<lambda>c. c \<noteq> 63) (takeWhile (\<lambda>c. c \<noteq> 35) u))"

definition query_pair :: "jstring \<Rightarrow> jstring \<times> jstring" where
  "query_pair s = (takeWhile (\<lambda>c. c \<noteq> 61) s, drop 1 (dropWhile (\<lambda>c. c \<noteq> 61) s))"

definition search_get :: "(jstring \<Rightarrow> jstring) \<Rightarrow> jstring \<Rightarrow> jstring \<Rightarrow> jstring option" where
  "search_get dec name query =
     map_of (map (\<lambda>s. map_prod dec dec (query_pair s)) (filter (\<lambda>s. s \<noteq> []) (split_on 38 query))) name"

type_synonym matcher = "jstring \<Rightarrow> jstring \<Rightarrow> jstring option"

definition route_for :: "matcher \<Rightarrow> jstring \<Rightarrow> route_element option" where
  "route_for m u = map_option snd (List.find (\<lambda>r. m (fst r) (url_path u) \<noteq> None) routes)"

text \<open>Following the routes that lead elsewhere; one step is enough.\<close>

definition page_for :: "matcher \<Rightarrow> jstring \<Rightarrow> route_element option" where
  "page_for m u =
     (case route_for m u of
        Some (Navigate v) \<Rightarrow> route_for m v
      | r \<Rightarrow> r)"

section \<open>The side bar\<close>

definition nav_home :: jstring where \<comment> \<open>overview\<close>
  [msg_defs]: "nav_home = [0x6982, 0x89C8]"
definition nav_tasks :: jstring where \<comment> \<open>task list\<close>
  [msg_defs]: "nav_tasks = [0x4EFB, 0x52A1, 0x5217, 0x8868]"
definition nav_diff :: jstring where \<comment> \<open>comparison of flame graphs\<close>
  [msg_defs]: "nav_diff = [0x706B, 0x7130, 0x56FE, 0x5BF9, 0x6BD4]"
definition nav_agents :: jstring where \<comment> \<open>agents\<close>
  [msg_defs]: "nav_agents = [65, 103, 101, 110, 116, 32, 0x7BA1, 0x7406]"
definition nav_groups :: jstring where \<comment> \<open>groups\<close>
  [msg_defs]: "nav_groups = [0x7528, 0x6237, 0x7EC4]"
definition nav_settings :: jstring where \<comment> \<open>settings\<close>
  [msg_defs]: "nav_settings = [0x8BBE, 0x7F6E]"
definition txt_collapse :: jstring where \<comment> \<open>collapse\<close>
  [msg_defs]: "txt_collapse = [0x2190, 32, 0x6536, 0x8D77]"
definition txt_user :: jstring where \<comment> \<open>user\<close>
  [msg_defs]: "txt_user = [0x7528, 0x6237]"

definition NAV_ITEMS :: "(jstring \<times> jstring) list" where
  "NAV_ITEMS =
     [(js ''/index'', nav_home), (js ''/tasks'', nav_tasks), (js ''/flame/diff'', nav_diff),
      (js ''/agents'', nav_agents), (js ''/groups'', nav_groups), (js ''/settings'', nav_settings)]"

text \<open>The items as shown: the label unless the bar is collapsed, and whether the item is the current page.\<close>

definition nav_view :: "bool \<Rightarrow> jstring \<Rightarrow> (jstring option \<times> bool) list" where
  "nav_view collapsed pathname =
     map (\<lambda>item. (if collapsed then None else Some (snd item), pathname = fst item)) NAV_ITEMS"

definition shown_user :: "session \<Rightarrow> jstring" where
  "shown_user s = or_str (ss_userName s) txt_user"

section \<open>Links\<close>

text \<open>The link of an agent card; an address that cannot be encoded raises.\<close>

definition agent_link :: "AgentInfo \<Rightarrow> jstring option" where
  "agent_link a = map_option (\<lambda>e. js ''/agents/'' @ e) (encodeURIComponent (ag_ip_addr a))"

text \<open>The id a page takes from its link.\<close>

definition tid_of_link :: "(jstring \<Rightarrow> jstring) \<Rightarrow> jstring \<Rightarrow> jstring" where
  "tid_of_link dec u = opt_str (search_get dec (js ''tid'') (url_query u))"

section \<open>The error boundary\<close>

record boundary =
  eb_hasError :: bool
  eb_error :: "jstring option"

definition boundary_initial :: boundary where
  "boundary_initial = \<lparr>eb_hasError = False, eb_error = None\<rparr>"

definition getDerivedStateFromError :: "jstring \<Rightarrow> boundary" where
  "getDerivedStateFromError msg = \<lparr>eb_hasError = True, eb_error = Some msg\<rparr>"

definition txt_unknown_error :: jstring where \<comment> \<open>unknown error\<close>
  [msg_defs]: "txt_unknown_error = [0x672A, 0x77E5, 0x9519, 0x8BEF]"

datatype 'v boundary_view = ErrorScreen jstring | Children 'v

text \<open>
  One render: children that raise (with the message of their error) put the boundary into its
  error state, and from then on it no longer renders them.
\<close>

definition boundary_render :: "jstring + 'v \<Rightarrow> boundary \<Rightarrow> boundary \<times> 'v boundary_view" where
  "boundary_render children b =
     (let screen = (\<lambda>b. ErrorScreen (or_str (opt_str (eb_error b)) txt_unknown_error))
      in if eb_hasError b then (b, screen b)
         else (case children of
                 Inr v \<Rightarrow> (b, Children v)
               | Inl msg \<Rightarrow> (getDerivedStateFromError msg, screen (getDerivedStateFromError msg))))"

section \<open>Properties\<close>

text \<open>
  What the router library documents, for the paths the links use: a route without a parameter is
  found under its own path and under no other path of the table; the route with a parameter
  matches one segment and returns it decoded.
\<close>

definition static_paths :: "jstring list" where
  "static_paths = filter (\<lambda>p. p \<noteq> js ''/agents/:ip'') (map fst routes)"

definition router_lawful :: "matcher \<Rightarrow> bool" where
  "router_lawful m \<longleftrightarrow>
     (\<forall>pat \<in> set static_paths. \<forall>path \<in> set static_paths. m pat path = (if pat = path then Some [] else None)) \<and>
     (\<forall>path \<in> set static_paths. m (js ''/agents/:ip'') path = None) \<and>
     (\<forall>seg v. decodeURIComponent seg = Some v \<and> seg \<noteq> [] \<and> 47 \<notin> set seg \<and> 47 \<notin> set v \<longrightarrow>
        m (js ''/agents/:ip'') (js ''/agents/'' @ seg) = Some v \<and>
        (\<forall>pat \<in> set static_paths. m pat (js ''/agents/'' @ seg) = None))"

text \<open>A matcher that keeps these laws, so that the results about links are about something.\<close>

definition sample_matcher :: matcher where
  "sample_matcher pat path =
     (if pat = js ''/agents/:ip'' then
        (if starts_with path (js ''/agents/'') \<and> 8 < length path then decodeURIComponent (drop 8 path) else None)
      else if path = pat then Some [] else None)"

lemma static_paths_code:
  "static_paths = [js ''/login'', js ''/'', js ''/index'', js ''/tasks'', js ''/task/result'', js ''/flame/diff'',
     js ''/continuous'', js ''/agents'', js ''/groups'', js ''/schedules'', js ''/settings'']"
  by (simp add: static_paths_def routes_def)

lemma sample_matcher_lawful: "router_lawful sample_matcher"
  by (simp add: router_lawful_def sample_matcher_def static_paths_code starts_with_def del: decodeURIComponent.simps)

lemma route_for_static:
  assumes "router_lawful m" and "url_path u = path" and "path \<in> set static_paths"
  shows "route_for m u = map_of routes path"
proof -
  have hit: "m pat path \<noteq> None \<longleftrightarrow> pat = path" if "pat \<in> fst ` set routes" for pat
  proof (cases "pat = js ''/agents/:ip''")
    case True
    then show ?thesis using assms by (auto simp: router_lawful_def static_paths_def)
  next
    case False
    then have "pat \<in> set static_paths" using that by (auto simp: static_paths_def)
    then show ?thesis using assms by (auto simp: router_lawful_def)
  qed
  then have "List.find (\<lambda>r. m (fst r) path \<noteq> None) rs = List.find (\<lambda>r. fst r = path) rs"
    if "set rs \<subseteq> set routes" for rs
    using that by (induction rs) auto
  moreover have "map_option snd (List.find (\<lambda>r. fst r = path) rs) = map_of rs path" for rs :: "(jstring \<times> route_element) list"
    by (induction rs) auto
  ultimately show ?thesis
    by (simp add: route_for_def assms(2))
qed

lemma url_path_links:
  "url_path (result_url tid) = js ''/task/result''" "url_path (continuous_url tid) = js ''/continuous''"
  "url_path (diff_link p) = js ''/flame/diff''" "url_path (js ''/tasks?view=schedules'') = js ''/tasks''"
  by (simp_all add: url_path_def result_url_def continuous_url_def diff_link_def)

lemma page_for_static:
  assumes "router_lawful m" and "url_path u = path" and "path \<in> set static_paths" and "map_of routes path = Some (Inside pg)"
  shows "page_for m u = Some (Inside pg)"
  using assms by (simp add: page_for_def route_for_static)

text \<open>The routes the redirects lead from and to.\<close>

lemma redirect_routes:
  assumes "router_lawful m"
  shows "route_for m (js ''/'') = Some (Navigate (js ''/index''))"
    "route_for m (js ''/schedules'') = Some (Navigate (js ''/tasks?view=schedules''))"
    "route_for m (js ''/index'') = Some (Inside HomePage)"
    "route_for m (js ''/tasks?view=schedules'') = Some (Inside TaskListPage)"
    "route_for m (js ''/login'') = Some (Alone LoginPage)"
  using route_for_static [OF assms] by (simp_all add: url_path_def static_paths_code routes_def)

lemma route_for_targets:
  assumes "route_for m u = Some (Navigate v)"
  shows "v \<in> {js ''/index'', js ''/tasks?view=schedules''}"
proof -
  have "\<exists>r \<in> set routes. snd r = Navigate v"
    using assms by (auto simp: route_for_def find_Some_iff) (metis nth_mem snd_conv)
  then show ?thesis by (auto simp: routes_def)
qed



text \<open>
  C32: the result page opens the task the link was made for. For an id without the characters
  \<open>&\<close>, \<open>#\<close>, \<open>%\<close> and \<open>+\<close>, the id that the result page and the timeline read from their links is the
  id the link was made from; the query decoder only has to leave such text alone.
\<close>

theorem task_link_roundtrip:
  assumes "{38, 35, 37, 43} \<inter> set tid = {}" and "\<And>s. {37, 43} \<inter> set s = {} \<Longrightarrow> dec s = s"
  shows "tid_of_link dec (result_url tid) = tid \<and> tid_of_link dec (continuous_url tid) = tid"
proof -
  have q: "url_query (result_url tid) = js ''tid='' @ tid" "url_query (continuous_url tid) = js ''tid='' @ tid"
    using assms(1) by (auto simp: url_query_def result_url_def continuous_url_def takeWhile_eq_all_conv)
  have "split_on 38 (js ''tid='' @ tid) = [js ''tid='' @ tid]"
    using assms(1) by (intro split_on_free) auto
  moreover have "query_pair (js ''tid='' @ tid) = (js ''tid'', tid)"
    by (simp add: query_pair_def)
  moreover have "dec (js ''tid'') = js ''tid''" "dec tid = tid"
    using assms by (auto intro!: assms(2))
  moreover have "js ''tid='' @ tid \<noteq> []"
    by simp
  ultimately have "search_get dec (js ''tid'') (js ''tid='' @ tid) = Some tid"
    by (simp add: search_get_def del: js_Cons append_is_Nil_conv)
  then show ?thesis
    by (simp only: tid_of_link_def q opt_str_simps)
qed

theorem task_link_roundtrip_witness:
  "tid_of_link id (result_url (js ''a-7'')) = js ''a-7''"
  using task_link_roundtrip [of "js ''a-7''" id] by simp

text \<open>
  A click on an agent opens the page of that agent. For an address without percent signs
  and slashes, the encoded link leads to the page of an agent, and the address the page reads from it,
  decoded by the router and once more by the page, is the address of the card.
\<close>

theorem agent_link_roundtrip:
  assumes "router_lawful m" and "agent_link a = Some u"
    and "ag_ip_addr a \<noteq> []" and "{37, 47} \<inter> set (ag_ip_addr a) = {}" and "list_all (\<lambda>c. c < 0x10000) (ag_ip_addr a)"
  shows "page_for m u = Some (Inside AgentDetailPage) \<and>
    agent_ip (m (js ''/agents/:ip'') (url_path u)) = Some (ag_ip_addr a)"
proof -
  let ?ip = "ag_ip_addr a"
  obtain e where e: "encodeURIComponent ?ip = Some e" "u = js ''/agents/'' @ e"
    using assms(2) by (auto simp: agent_link_def)
  have units: "unreserved c \<or> c = 37" if "c \<in> set e" for c
    using encode_units [OF e(1) assms(5) that] .
  have "\<not> unreserved 63" "\<not> unreserved 35" "\<not> unreserved 47"
    by (simp_all add: unreserved_def)
  then have free: "63 \<notin> set e" "35 \<notin> set e" "47 \<notin> set e"
    using units by fastforce+
  then have path: "url_path u = js ''/agents/'' @ e"
    by (auto simp: url_path_def e(2) takeWhile_eq_all_conv)
  have dec: "decodeURIComponent e = Some ?ip"
    using decode_encode [OF e(1) assms(5)] .
  have ok: "e \<noteq> []" "47 \<notin> set ?ip"
    using encode_nonempty [OF e(1) assms(3)] assms(4) by auto
  have hit: "m (js ''/agents/:ip'') (js ''/agents/'' @ e) = Some ?ip"
    "\<forall>pat \<in> set static_paths. m pat (js ''/agents/'' @ e) = None"
    using assms(1) dec ok free(3) unfolding router_lawful_def by blast+
  have "route_for m u = Some (Inside AgentDetailPage)"
    using hit unfolding route_for_def path static_paths_code routes_def by (simp del: js_Cons)
  then have "page_for m u = Some (Inside AgentDetailPage)"
    by (simp add: page_for_def)
  moreover have "agent_ip (Some ?ip) = Some ?ip"
    using assms(4) by (simp add: agent_ip_def decode_plain del: decodeURIComponent.simps)
  ultimately show ?thesis
    by (simp only: path hit(1))
qed

text \<open>
  The second decoding is one too many for an IPv6 address with a zone: the page of the agent
  \<open>fe80::1%eth0\<close> raises while it is rendered.
\<close>

theorem zoned_address_raises: "agent_ip (Some (js ''fe80::1%eth0'')) = None"
  by (simp add: agent_ip_def hex_val_def pct_point_def)

text \<open>
  The boundary shows the pages as they are until one raises; from then on it shows the message
  of that error whatever is rendered below it, so that no navigation brings the pages back.
\<close>

theorem boundary_sticky:
  "boundary_render (Inr v) boundary_initial = (boundary_initial, Children v) \<and>
   snd (boundary_render children (fst (boundary_render (Inl msg) boundary_initial))) =
     ErrorScreen (or_str msg txt_unknown_error) \<and>
   fst (fold (\<lambda>c (b, w). boundary_render c b) cs (boundary_render (Inl msg) boundary_initial)) =
     getDerivedStateFromError msg"
proof -
  have "fst (fold (\<lambda>c (b, w). boundary_render c b) cs (getDerivedStateFromError msg, w)) = getDerivedStateFromError msg" for w
    by (induction cs arbitrary: w) (auto simp: boundary_render_def getDerivedStateFromError_def)
  then show ?thesis
    by (auto simp: boundary_render_def boundary_initial_def getDerivedStateFromError_def Let_def)
qed

definition sample_card :: AgentInfo where
  "sample_card = \<lparr>ag_id = 1, ag_hostname = [], ag_ip_addr = js ''10.0.0.1'', ag_online = True, ag_uid = [], ag_gid = 0,
     ag_version = [], ag_environment = [], ag_last_heartbeat = [], ag_created_at = [], ag_updated_at = []\<rparr>"

lemma sample_card_link: "agent_link sample_card = Some (js ''/agents/10.0.0.1'')"
  by (simp add: agent_link_def sample_card_def encodeURIComponent_def encode_point_def unreserved_def scalar_def
      high_sur_def low_sur_def)

theorem agent_link_roundtrip_witness:
  "page_for sample_matcher (js ''/agents/10.0.0.1'') = Some (Inside AgentDetailPage)"
  using agent_link_roundtrip [OF sample_matcher_lawful sample_card_link] by (simp add: sample_card_def)

end
