(* ===== verification/Task_Views.thy ===== *)
theory Task_Views
  imports Task_Pages Schedules
begin

text \<open>
  What the pages about tasks put on screen: the table, counters and pager of the task list
  (\<open>src/web/src/pages/TaskList.tsx\<close>), the cards of the home page (\<open>src/web/src/pages/Home.tsx\<close>), the table of
  the schedule panel (\<open>src/web/src/components/ScheduleTasksPanel.tsx\<close>) and the texts of the creation dialog
  (\<open>src/web/src/components/CreateTaskModal.tsx\<close>). A row can raise while it is drawn.
\<close>

section \<open>Rows that can raise\<close>

fun map_raise :: "('a \<Rightarrow> 'e + 'b) \<Rightarrow> 'a list \<Rightarrow> 'e + 'b list" where
  "map_raise f [] = Inr []"
| "map_raise f (x # xs) = and_then (f x) (\<lambda>y. and_then (map_raise f xs) (\<lambda>ys. Inr (y # ys)))"

lemma map_raise_isl: "isl (map_raise f xs) \<longleftrightarrow> (\<exists>x \<in> set xs. isl (f x))"
  by (induction xs) (auto simp: and_then_isl)

lemma map_raise_Inr: "map_raise f xs = Inr ys \<Longrightarrow> list_all2 (\<lambda>x y. f x = Inr y) xs ys"
  by (induction xs arbitrary: ys) (auto simp: and_then_Inr)

section \<open>The task list\<close>

definition txt_tasks_loading :: jstring where \<comment> \<open>loading the tasks\<close>
  [msg_defs]: "txt_tasks_loading = [0x52A0, 0x8F7D, 0x4EFB, 0x52A1, 0x4E2D, 46, 46, 46]"
definition txt_no_tasks :: jstring where \<comment> \<open>no tasks\<close>
  [msg_defs]: "txt_no_tasks = [0x6682, 0x65E0, 0x4EFB, 0x52A1]"
definition lbl_total :: jstring where \<comment> \<open>all tasks\<close>
  [msg_defs]: "lbl_total = [0x603B, 0x4EFB, 0x52A1]"
definition lbl_in_progress :: jstring where \<comment> \<open>in progress\<close>
  [msg_defs]: "lbl_in_progress = [0x8FDB, 0x884C, 0x4E2D]"
definition lbl_finished :: jstring where \<comment> \<open>finished\<close>
  [msg_defs]: "lbl_finished = [0x5DF2, 0x5B8C, 0x6210]"
definition lbl_broken :: jstring where \<comment> \<open>failed\<close>
  [msg_defs]: "lbl_broken = [0x5931, 0x8D25]"
definition txt_pager_from :: jstring where \<comment> \<open>in all\<close>
  [msg_defs]: "txt_pager_from = [0x5171, 32]"
definition txt_pager_to :: jstring where \<comment> \<open>entries\<close>
  [msg_defs]: "txt_pager_to = [32, 0x6761]"

definition task_counters :: "task_page \<Rightarrow> (jstring \<times> jstring) list" where
  "task_counters p =
     [(lbl_total, int_str (st_total (stats p))), (lbl_in_progress, nat_str (st_running (stats p))),
      (lbl_finished, nat_str (st_done (stats p))), (lbl_broken, nat_str (st_failed (stats p)))]"

text \<open>A row: the cells, and where its button leads.\<close>

record task_entry =
  tr_cells :: "jstring list"
  tr_link :: jstring

definition task_row :: "date_env \<Rightarrow> HotmethodTask \<Rightarrow> js_error + task_entry" where
  "task_row env t =
     and_then (formatDuration env t) (\<lambda>duration. Inr
       \<lparr>tr_cells = [t_tid t, or_str (t_name t) dash, t_target_ip t, badge_label (badge_of statusMap (t_status t)),
          badge_label (badge_of analysisMap (t_analysis_status t)), duration, formatDate env (Some (t_create_time t))],
        tr_link = task_url t\<rparr>)"

definition task_table :: "date_env \<Rightarrow> task_page \<Rightarrow> js_error + task_entry part list" where
  "task_table env p =
     and_then (if tp_loading p then Inr [] else map_raise (task_row env) (tp_tasks p)) (\<lambda>rows.
       Inr (list_parts txt_tasks_loading txt_no_tasks (tp_loading p) (tp_error p) rows))"

definition pager_text :: "task_page \<Rightarrow> jstring \<times> jstring" where
  "pager_text p =
     (txt_pager_from @ int_str (tp_total p) @ txt_pager_to, int_str (tp_page p) @ js '' / '' @ int_str (totalPages p))"

section \<open>The home page\<close>

definition txt_no_agents :: jstring where \<comment> \<open>no agents\<close>
  [msg_defs]: "txt_no_agents = [0x6682, 0x65E0, 32, 65, 103, 101, 110, 116]"
definition txt_loading :: jstring where \<comment> \<open>loading\<close>
  [msg_defs]: "txt_loading = [0x52A0, 0x8F7D, 0x4E2D, 46, 46, 46]"
definition txt_heartbeat :: jstring where \<comment> \<open>heartbeat\<close>
  [msg_defs]: "txt_heartbeat = [32, 0xB7, 32, 0x5FC3, 0x8DF3, 32]"
definition txt_version :: jstring where \<comment> \<open>version\<close>
  [msg_defs]: "txt_version = [32, 0xB7, 32, 118]"

record agent_line =
  al_hostname :: jstring
  al_environment :: jstring
  al_text :: jstring
  al_enabled :: bool

definition home_agent :: "date_env \<Rightarrow> AgentInfo \<Rightarrow> agent_line" where
  "home_agent env a =
     \<lparr>al_hostname = ag_hostname a, al_environment = ag_environment a,
      al_text = ag_ip_addr a @ txt_version @ or_str (ag_version a) dash @ txt_heartbeat @
        formatRelativeTime env (Some (ag_last_heartbeat a)),
      al_enabled = ag_online a\<rparr>"

definition home_agents :: "date_env \<Rightarrow> home_page \<Rightarrow> agent_line part list" where
  "home_agents env p =
     (if hp_agents p = [] then [Nothing txt_no_agents] else map (Row \<circ> home_agent env) (take 4 (hp_agents p)))"

record recent_line =
  rl_name :: jstring
  rl_created :: jstring
  rl_badge :: badge
  rl_link :: jstring

definition home_recent :: "date_env \<Rightarrow> home_page \<Rightarrow> recent_line part list" where
  "home_recent env p =
     (if hp_loading p then [Busy txt_loading]
      else if recentTasks p = [] then [Nothing txt_no_tasks]
      else map (\<lambda>t. Row \<lparr>rl_name = t_name t, rl_created = formatDate env (Some (t_create_time t)),
                        rl_badge = badge_of statusMap (t_status t), rl_link = task_url t\<rparr>) (recentTasks p))"

section \<open>The schedule panel\<close>

definition txt_schedules_loading :: jstring where \<comment> \<open>loading the scheduled tasks\<close>
  [msg_defs]: "txt_schedules_loading = [0x52A0, 0x8F7D, 0x5B9A, 0x65F6, 0x4EFB, 0x52A1, 0x4E2D, 46, 46, 46]"
definition txt_no_schedules :: jstring where \<comment> \<open>no scheduled tasks\<close>
  [msg_defs]: "txt_no_schedules = [0x6682, 0x65E0, 0x5B9A, 0x65F6, 0x4EFB, 0x52A1]"
definition lbl_schedules :: jstring where \<comment> \<open>scheduled tasks\<close>
  [msg_defs]: "lbl_schedules = [0x5B9A, 0x65F6, 0x4EFB, 0x52A1]"
definition lbl_agents :: jstring where \<comment> \<open>usable agents\<close>
  [msg_defs]: "lbl_agents = [0x53EF, 0x7528, 32, 65, 103, 101, 110, 116]"
definition lbl_cron :: jstring where \<comment> \<open>cron settings\<close>
  [msg_defs]: "lbl_cron = [67, 114, 111, 110, 32, 0x914D, 0x7F6E]"
definition txt_offline :: jstring where \<comment> \<open>offline\<close>
  [msg_defs]: "txt_offline = [32, 47, 32, 0x79BB, 0x7EBF]"

definition schedule_banner :: "schedule_panel \<Rightarrow> jstring" where
  "schedule_banner p = or_str (sc_error p) (sc_message p)"

definition schedule_counters :: "schedule_panel \<Rightarrow> js_error + (jstring \<times> jstring) list" where
  "schedule_counters p =
     and_then (cronCount (sc_tasks p)) (\<lambda>n. Inr
       [(lbl_schedules, nat_str (length (sc_tasks p))), (lbl_agents, nat_str (length (filter ag_online (sc_agents p)))),
        (lbl_cron, nat_str n)])"

text \<open>The choices of the target: the value, the text and whether it can be chosen.\<close>

definition schedule_options :: "schedule_panel \<Rightarrow> (jstring \<times> jstring \<times> bool) list" where
  "schedule_options p =
     map (\<lambda>a. (ag_ip_addr a, or_str (ag_hostname a) (ag_ip_addr a) @ js '' / '' @ ag_ip_addr a @
              (if ag_online a then [] else txt_offline), ag_online a)) (sc_agents p)"

definition schedule_row :: "date_env \<Rightarrow> HotmethodTask \<Rightarrow> js_error + jsval list" where
  "schedule_row env t =
     (let params = parseTaskParams (t_request_params t); dashed = (\<lambda>v. val_or v (JStr dash))
      in and_then (get_prop params (js ''cron_expr'')) (\<lambda>cron. Inr
           [JStr (t_tid t), JStr (or_str (t_name t) dash), JStr (t_target_ip t), dashed cron,
            (case taskTypeMap (t_type t) of Some s \<Rightarrow> JStr s | None \<Rightarrow> JNum (Fin (of_int (t_type t)))),
            dashed (opt_prop params (js ''pid'')),
            JStr (let d = opt_prop params (js ''duration'') in if truthy d then val_str d @ js ''s'' else dash),
            JStr (formatDate env (Some (t_create_time t)))]))"

definition schedule_table :: "date_env \<Rightarrow> schedule_panel \<Rightarrow> js_error + jsval list part list" where
  "schedule_table env p =
     and_then (if sc_loading p then Inr [] else map_raise (schedule_row env) (sc_tasks p)) (\<lambda>rows.
       Inr (shown_if (sc_loading p) (Busy txt_schedules_loading) @
            shown_if (\<not> sc_loading p \<and> sc_tasks p = []) (Nothing txt_no_schedules) @ map Row rows))"

text \<open>The panel as a whole: the counters are computed first.\<close>

definition schedule_view ::
    "date_env \<Rightarrow> schedule_panel \<Rightarrow> js_error + jstring \<times> (jstring \<times> jstring) list \<times> jsval list part list" where
  "schedule_view env p =
     and_then (schedule_counters p) (\<lambda>counters.
     and_then (schedule_table env p) (\<lambda>table. Inr (schedule_banner p, counters, table)))"

section \<open>The creation dialog\<close>

definition hint_natural :: jstring where \<comment> \<open>describe the intent in a sentence\<close>
  [msg_defs]: "hint_natural = [0x7528, 0x4E00, 0x53E5, 0x8BDD, 0x63CF, 0x8FF0, 0x91C7, 0x96C6, 0x610F, 0x56FE, 0xFF0C, 0x7CFB, 0x7EDF, 0x4F1A, 0x8BC6, 0x522B, 0x5DE5, 0x5177, 0x3001, 0x53C2, 0x6570, 0x548C, 0x7F3A, 0x5931, 0x4FE1, 0x606F, 0x3002]"
definition hint_continuous :: jstring where \<comment> \<open>sampling in windows\<close>
  [msg_defs]: "hint_continuous = [0x5E38, 0x9A7B, 0x4F4E, 0x9891, 0x91C7, 0x6837, 0xFF0C, 0x5B9A, 0x65F6, 0x5207, 0x5272, 0x7A97, 0x53E3, 0xFF0C, 0x6309, 0x65F6, 0x95F4, 0x8F74, 0x56DE, 0x6EAF, 0x3002]"
definition hint_oneshot :: jstring where \<comment> \<open>choose an agent and the parameters\<close>
  [msg_defs]: "hint_oneshot = [0x9009, 0x62E9, 0x5728, 0x7EBF, 32, 65, 103, 101, 110, 116, 0xFF0C, 0x914D, 0x7F6E, 0x91C7, 0x6837, 0x76EE, 0x6807, 0x548C, 0x91C7, 0x96C6, 0x53C2, 0x6570, 0x3002]"
definition txt_creating :: jstring where \<comment> \<open>creating\<close>
  [msg_defs]: "txt_creating = [0x521B, 0x5EFA, 0x4E2D, 46, 46, 46]"
definition txt_create_natural :: jstring where \<comment> \<open>create by intent\<close>
  [msg_defs]: "txt_create_natural = [0x6309, 0x610F, 0x56FE, 0x521B, 0x5EFA]"
definition txt_create_continuous :: jstring where \<comment> \<open>start continuous profiling\<close>
  [msg_defs]: "txt_create_continuous = [0x542F, 0x52A8, 0x5E38, 0x9A7B, 0x91C7, 0x96C6]"
definition txt_create :: jstring where \<comment> \<open>create the task\<close>
  [msg_defs]: "txt_create = [0x521B, 0x5EFA, 0x4EFB, 0x52A1]"
definition txt_mode_continuous :: jstring where \<comment> \<open>continuous\<close>
  [msg_defs]: "txt_mode_continuous = [0x5E38, 0x9A7B, 0x91C7, 0x96C6]"
definition txt_mode_oneshot :: jstring where \<comment> \<open>one-shot\<close>
  [msg_defs]: "txt_mode_oneshot = [0x5355, 0x6B21, 0x91C7, 0x96C6]"
definition txt_plan_kind :: jstring where \<comment> \<open>kind\<close>
  [msg_defs]: "txt_plan_kind = [32, 47, 32, 0x7C7B, 0x578B, 32]"
definition txt_plan_profiler :: jstring where \<comment> \<open>collector\<close>
  [msg_defs]: "txt_plan_profiler = [32, 47, 32, 0x91C7, 0x96C6, 0x5668, 32]"
definition txt_plan_window :: jstring where \<comment> \<open>window\<close>
  [msg_defs]: "txt_plan_window = [0x7A97, 0x53E3, 32]"
definition txt_plan_duration :: jstring where \<comment> \<open>duration\<close>
  [msg_defs]: "txt_plan_duration = [0x65F6, 0x957F, 32]"
definition txt_semicolon :: jstring where \<comment> \<open>semicolon\<close>
  [msg_defs]: "txt_semicolon = [0xFF1B]"
definition txt_agent_offline :: jstring where \<comment> \<open>offline\<close>
  [msg_defs]: "txt_agent_offline = [45, 32, 0x79BB, 0x7EBF]"

definition modal_hint :: "TaskCreateMode \<Rightarrow> jstring" where
  "modal_hint mode = (case mode of Natural \<Rightarrow> hint_natural | Continuous \<Rightarrow> hint_continuous | Oneshot \<Rightarrow> hint_oneshot)"

definition submit_text :: "task_form \<Rightarrow> jstring" where
  "submit_text f =
     (if fm_submitting f \<or> fm_nlSubmitting f then txt_creating
      else (case fm_mode f of
              Natural \<Rightarrow> txt_create_natural | Continuous \<Rightarrow> txt_create_continuous | Oneshot \<Rightarrow> txt_create))"

definition agent_options :: "AgentInfo list \<Rightarrow> (jstring \<times> jstring \<times> bool) list" where
  "agent_options agents =
     map (\<lambda>a. (ag_ip_addr a, or_str (ag_hostname a) (ag_ip_addr a) @ js '' ('' @ ag_ip_addr a @ js '') '' @
              (if ag_online a then [] else txt_agent_offline), ag_online a)) agents"

text \<open>The lines of a plan on screen.\<close>

definition plan_lines :: "NaturalLanguageTaskPlan \<Rightarrow> jstring list" where
  "plan_lines pl =
     (let num_dash = (\<lambda>i. if i = 0 then dash else int_str i);
          continuous = (pl_mode pl = Continuous)
      in [pl_name pl @ [32, 0xB7, 32] @ (if continuous then txt_mode_continuous else txt_mode_oneshot),
          js ''Agent '' @ or_str (pl_target_ip pl) dash @ js '' / PID '' @ num_dash (pl_pid pl) @
            txt_plan_kind @ int_str (pl_type pl) @ txt_plan_profiler @ int_str (pl_profiler_type pl) @
            js '' / event '' @ or_str (pl_event pl) dash,
          (if continuous
           then txt_plan_window @ int_str (case pl_window_sec pl of Some w \<Rightarrow> if w = 0 then 300 else w | None \<Rightarrow> 300)
           else txt_plan_duration @ int_str (pl_duration pl)) @ js ''s @ '' @ int_str (pl_hz pl) @ js ''Hz''] @
         shown_if (pl_rationale pl \<noteq> []) (join_with txt_semicolon (pl_rationale pl)) @
         shown_if (pl_clarifying_question pl \<noteq> []) (pl_clarifying_question pl))"

section \<open>Properties\<close>

lemma task_row_isl:
  "isl (task_row env t) \<longleftrightarrow> (\<exists>s. t_request_params t = JStr s \<and> json_parse s = Some Null)"
  by (simp add: task_row_def and_then_isl formatDuration_isl parseTaskParams_nullish)

text \<open>
  Drawing the task list raises exactly when the list on screen holds a task whose stored
  parameters are the JSON text \<open>null\<close>; one such task is enough to take down the whole page.
\<close>

theorem task_table_raises:
  "isl (task_table env p) \<longleftrightarrow>
     \<not> tp_loading p \<and> (\<exists>t \<in> set (tp_tasks p). \<exists>s. t_request_params t = JStr s \<and> json_parse s = Some Null)"
  by (auto simp: task_table_def and_then_isl map_raise_isl task_row_isl)

interpretation task_rows: list_handler loadTasks tp_loading tp_error "\<lambda>_. True" "\<lambda>run _. isl (snd run)"
  "\<lambda>p. projr (map_raise (task_row env) (tp_tasks p))" for env
  by unfold_locales (auto simp: loadTasks_def split: sum.split)


lemma schedule_row_isl:
  "isl (schedule_row env t) \<longleftrightarrow> (\<exists>s. t_request_params t = JStr s \<and> json_parse s = Some Null)"
  by (auto simp: schedule_row_def get_prop_def parseTaskParams_nullish Let_def)

text \<open>
  The schedule panel raises exactly when one of its tasks has the JSON text \<open>null\<close> as its
  parameters, also while it loads again.
\<close>

theorem schedule_view_raises:
  "isl (schedule_view env p) \<longleftrightarrow>
     (\<exists>t \<in> set (sc_tasks p). \<exists>s. t_request_params t = JStr s \<and> json_parse s = Some Null)"
proof -
  have "isl (schedule_counters p) \<longleftrightarrow>
      (\<exists>t \<in> set (sc_tasks p). \<exists>s. t_request_params t = JStr s \<and> json_parse s = Some Null)"
    by (simp add: schedule_counters_def and_then_isl cronCount_isl)
  moreover have "isl (schedule_table env p) \<longrightarrow>
      (\<exists>t \<in> set (sc_tasks p). \<exists>s. t_request_params t = JStr s \<and> json_parse s = Some Null)"
    by (auto simp: schedule_table_def and_then_isl map_raise_isl schedule_row_isl)
  ultimately show ?thesis
    by (auto simp: schedule_view_def and_then_isl)
qed

definition one_task_answer :: "api_exn + TaskListData ApiResponse \<times> TaskListData ApiResponse" where
  "one_task_answer =
     (let res = \<lparr>res_code = 0, res_data = Some \<lparr>tl_total = 1, tl_list = [sample_task 4 2], tl_page = 1, tl_size = 20\<rparr>,
        res_message = None\<rparr> in Inr (res, res))"


end
