(* ===== verification/Admin_Views.thy ===== *)
theory Admin_Views
  imports Admin_Pages Group_Page Diff
begin

text \<open>
  What the pages about agents (\<open>src/web/src/pages/Agents.tsx\<close>, \<open>src/web/src/pages/AgentDetail.tsx\<close>), groups
  (\<open>src/web/src/pages/Groups.tsx\<close>), settings (\<open>src/web/src/pages/Settings.tsx\<close>) and the comparison form
  (\<open>src/web/src/pages/FlameDiff.tsx\<close>) put on screen.
\<close>

section \<open>Agents\<close>

definition txt_agents_loading :: jstring where \<comment> \<open>loading the agents\<close>
  [msg_defs]: "txt_agents_loading = [0x52A0, 0x8F7D, 32, 65, 103, 101, 110, 116, 32, 0x4E2D, 46, 46, 46]"
definition txt_agents_none :: jstring where \<comment> \<open>no agents\<close>
  [msg_defs]: "txt_agents_none = [0x6682, 0x65E0, 32, 65, 103, 101, 110, 116]"
definition lbl_online_agents :: jstring where \<comment> \<open>online agents\<close>
  [msg_defs]: "lbl_online_agents = [0x5728, 0x7EBF, 32, 65, 103, 101, 110, 116]"
definition lbl_offline_agents :: jstring where \<comment> \<open>offline agents\<close>
  [msg_defs]: "lbl_offline_agents = [0x79BB, 0x7EBF, 32, 65, 103, 101, 110, 116]"
definition lbl_all_agents :: jstring where \<comment> \<open>all agents\<close>
  [msg_defs]: "lbl_all_agents = [0x603B, 32, 65, 103, 101, 110, 116]"
definition txt_online :: jstring where \<comment> \<open>online\<close>
  [msg_defs]: "txt_online = [0x5728, 0x7EBF]"
definition txt_offline_state :: jstring where \<comment> \<open>offline\<close>
  [msg_defs]: "txt_offline_state = [0x79BB, 0x7EBF]"
definition txt_no_audit :: jstring where \<comment> \<open>no changes recorded\<close>
  [msg_defs]: "txt_no_audit = [0x6682, 0x65E0, 0x79BB, 0x7EBF, 47, 0x6062, 0x590D, 0x8BB0, 0x5F55]"
definition txt_agent_version :: jstring where \<comment> \<open>version\<close>
  [msg_defs]: "txt_agent_version = [0x7248, 0x672C, 58, 32]"
definition txt_agent_heartbeat :: jstring where \<comment> \<open>last heartbeat\<close>
  [msg_defs]: "txt_agent_heartbeat = [32, 0xB7, 32, 0x6700, 0x540E, 0x5FC3, 0x8DF3, 58, 32]"

definition online_text :: "bool \<Rightarrow> jstring" where
  "online_text b = (if b then txt_online else txt_offline_state)"

definition agent_counters :: "agents_page \<Rightarrow> (jstring \<times> jstring) list" where
  "agent_counters p =
     [(lbl_online_agents, nat_str (onlineCount p)), (lbl_offline_agents, nat_str (offlineCount p)),
      (lbl_all_agents, nat_str (length (ap_agents p)))]"

record audit_line =
  au_ip :: jstring
  au_text :: jstring
  au_time :: jstring

definition audit_lines :: "date_env \<Rightarrow> agents_page \<Rightarrow> audit_line part list" where
  "audit_lines env p =
     (if ap_auditLogs p = [] then [Nothing txt_no_audit]
      else map (\<lambda>l. Row \<lparr>au_ip = ah_ip_addr l,
                        au_text = online_text (ah_from_state l) @ js '' -> '' @ online_text (ah_to_state l) @
                          [32, 0xB7, 32] @ or_str (ah_reason l) dash,
                        au_time = formatRelativeTime env (Some (ah_created_at l))\<rparr>) (ap_auditLogs p))"

record agent_entry =
  ac_hostname :: jstring
  ac_ip :: jstring
  ac_state :: jstring
  ac_cpu :: jstring
  ac_rss :: jstring
  ac_environment :: jstring
  ac_footer :: jstring

definition agent_card :: "date_env \<Rightarrow> agents_page \<Rightarrow> AgentInfo \<Rightarrow> agent_entry" where
  "agent_card env p a =
     (let self = Option.bind (map_of (ap_stats p) (ag_ip_addr a)) as_self_pstats
      in \<lparr>ac_hostname = or_str (ag_hostname a) dash, ac_ip = ag_ip_addr a, ac_state = online_text (ag_online a),
          ac_cpu = cpu_text self, ac_rss = rss_text self, ac_environment = or_str (ag_environment a) dash,
          ac_footer = txt_agent_version @ or_str (ag_version a) dash @ txt_agent_heartbeat @
            formatRelativeTime env (Some (ag_last_heartbeat a))\<rparr>)"

definition agent_cards :: "date_env \<Rightarrow> agents_page \<Rightarrow> agent_entry part list" where
  "agent_cards env p =
     list_parts txt_agents_loading txt_agents_none (ap_loading p) (ap_error p) (map (agent_card env p) (filtered_agents p))"

section \<open>One agent\<close>

definition txt_agent_loading :: jstring where \<comment> \<open>loading the agent\<close>
  [msg_defs]: "txt_agent_loading = [0x52A0, 0x8F7D, 32, 65, 103, 101, 110, 116, 32, 0x8BE6, 0x60C5, 0x4E2D, 46, 46, 46]"
definition txt_agent_missing :: jstring where \<comment> \<open>no such agent\<close>
  [msg_defs]: "txt_agent_missing = [65, 103, 101, 110, 116, 32, 0x4E0D, 0x5B58, 0x5728, 0x6216, 0x65E0, 0x6743, 0x9650, 0x8BBF, 0x95EE]"
definition lbl_environment :: jstring where \<comment> \<open>environment\<close>
  [msg_defs]: "lbl_environment = [0x73AF, 0x5883]"
definition lbl_version :: jstring where \<comment> \<open>version\<close>
  [msg_defs]: "lbl_version = [0x7248, 0x672C]"
definition lbl_heartbeat :: jstring where \<comment> \<open>last heartbeat\<close>
  [msg_defs]: "lbl_heartbeat = [0x6700, 0x540E, 0x5FC3, 0x8DF3]"
definition lbl_registered :: jstring where \<comment> \<open>time of registration\<close>
  [msg_defs]: "lbl_registered = [0x6CE8, 0x518C, 0x65F6, 0x95F4]"
definition txt_no_agent_tasks :: jstring where \<comment> \<open>no tasks\<close>
  [msg_defs]: "txt_no_agent_tasks = [0x6682, 0x65E0, 0x76F8, 0x5173, 0x4EFB, 0x52A1]"

datatype agent_panel =
    AgentWaiting jstring
  | AgentRefused jstring
  | AgentMissing jstring
  | AgentShown jstring jstring jstring "(jstring \<times> jstring) list" "(jstring \<times> jstring) list"
      "(jstring \<times> jstring \<times> jstring) part list"

definition agent_fields :: "date_env \<Rightarrow> AgentInfo \<Rightarrow> (jstring \<times> jstring) list" where
  "agent_fields env a =
     [(lbl_environment, or_str (ag_environment a) dash), (lbl_version, or_str (ag_version a) dash),
      (js ''UID'', or_str (ag_uid a) dash), (js ''GID'', if ag_gid a = 0 then dash else int_str (ag_gid a)),
      (lbl_heartbeat, formatRelativeTime env (Some (ag_last_heartbeat a))),
      (lbl_registered, formatDate env (Some (ag_created_at a)))]"

definition agent_task_lines :: "date_env \<Rightarrow> HotmethodTask list \<Rightarrow> (jstring \<times> jstring \<times> jstring) part list" where
  "agent_task_lines env tasks =
     shown_if (tasks = []) (Nothing txt_no_agent_tasks) @
     map (\<lambda>t. Row (or_str (t_name t) dash, badge_label (badge_of statusMap (t_status t)), formatDate env (Some (t_create_time t)))) tasks"

definition agent_body :: "date_env \<Rightarrow> agent_page \<Rightarrow> agent_panel" where
  "agent_body env p =
     (if ad_loading p then AgentWaiting txt_agent_loading
      else if ad_error p \<noteq> [] then AgentRefused (ad_error p)
      else (case ad_agent p of
              None \<Rightarrow> AgentMissing txt_agent_missing
            | Some a \<Rightarrow>
              AgentShown (or_str (ag_hostname a) dash) (ag_ip_addr a) (online_text (ag_online a)) (agent_fields env a)
                (statRows (ad_stat p)) (agent_task_lines env (ad_tasks p))))"

section \<open>Groups\<close>

definition txt_groups_loading :: jstring where \<comment> \<open>loading the groups\<close>
  [msg_defs]: "txt_groups_loading = [0x52A0, 0x8F7D, 0x7528, 0x6237, 0x7EC4, 0x4E2D, 46, 46, 46]"
definition txt_no_groups :: jstring where \<comment> \<open>no groups\<close>
  [msg_defs]: "txt_no_groups = [0x6682, 0x65E0, 0x7528, 0x6237, 0x7EC4]"
definition txt_choose_group :: jstring where \<comment> \<open>choose or create a group\<close>
  [msg_defs]: "txt_choose_group = [0x8BF7, 0x9009, 0x62E9, 0x6216, 0x521B, 0x5EFA, 0x4E00, 0x4E2A, 0x7528, 0x6237, 0x7EC4]"
definition txt_no_members :: jstring where \<comment> \<open>no members\<close>
  [msg_defs]: "txt_no_members = [0x6682, 0x65E0, 0x6210, 0x5458]"
definition txt_group_created_at :: jstring where \<comment> \<open>creation time\<close>
  [msg_defs]: "txt_group_created_at = [0x521B, 0x5EFA, 0x65F6, 0x95F4, 32]"
definition txt_group_members :: jstring where \<comment> \<open>members\<close>
  [msg_defs]: "txt_group_members = [32, 0xB7, 32, 0x6210, 0x5458, 32]"

definition groups_banner :: "groups_page \<Rightarrow> jstring" where
  "groups_banner p = or_str (gp_error p) (gp_message p)"

text \<open>The list: name, second line and whether the group is the selected one.\<close>

definition group_lines :: "groups_page \<Rightarrow> (jstring \<times> jstring \<times> bool) part list" where
  "group_lines p =
     shown_if (gp_loading p) (Busy txt_groups_loading) @
     shown_if (\<not> gp_loading p \<and> gp_groups p = []) (Nothing txt_no_groups) @
     (if gp_loading p then []
      else map (\<lambda>g. Row (g_name g, js ''GID '' @ int_str (g_gid g) @ [32, 0xB7, 32] @ js ''Owner '' @ g_owner_id g,
                        map_option g_gid (selectedGroup p) = Some (g_gid g))) (gp_groups p))"

datatype group_panel =
    ChooseGroup jstring
  | GroupShown jstring jstring "(int \<times> jstring) part list"

definition group_detail :: "date_env \<Rightarrow> groups_page \<Rightarrow> group_panel" where
  "group_detail env p =
     (case selectedGroup p of
        None \<Rightarrow> ChooseGroup txt_choose_group
      | Some g \<Rightarrow>
        GroupShown (g_name g)
          (txt_group_created_at @ formatDate env (Some (g_created_at g)) @ txt_group_members @
             nat_str (length (currentMembers p)))
          (shown_if (currentMembers p = []) (Nothing txt_no_members) @
             map (\<lambda>m. Row (gm_gid m, gm_uid m)) (currentMembers p)))"

definition group_buttons :: "groups_page \<Rightarrow> bool \<times> bool" where
  "group_buttons p =
     (\<not> (gp_submitting p \<or> trim (gp_groupName p) = []), \<not> (gp_submitting p \<or> trim (gp_memberUid p) = []))"

section \<open>Settings\<close>

definition lbl_timeout_setting :: jstring where \<comment> \<open>request timeout\<close>
  [msg_defs]: "lbl_timeout_setting = [0x8BF7, 0x6C42, 0x8D85, 0x65F6]"
definition lbl_cookie_auth :: jstring where \<comment> \<open>authentication by cookies\<close>
  [msg_defs]: "lbl_cookie_auth = [67, 111, 111, 107, 105, 101, 32, 0x9274, 0x6743]"
definition lbl_health :: jstring where \<comment> \<open>health of the API\<close>
  [msg_defs]: "lbl_health = [65, 80, 73, 32, 0x5065, 0x5EB7, 0x72B6, 0x6001]"
definition txt_checking :: jstring where \<comment> \<open>checking\<close>
  [msg_defs]: "txt_checking = [0x68C0, 0x67E5, 0x4E2D]"
definition txt_healthy :: jstring where \<comment> \<open>fine\<close>
  [msg_defs]: "txt_healthy = [0x6B63, 0x5E38]"
definition txt_unhealthy :: jstring where \<comment> \<open>broken\<close>
  [msg_defs]: "txt_unhealthy = [0x5F02, 0x5E38]"
definition txt_token_set :: jstring where \<comment> \<open>configured\<close>
  [msg_defs]: "txt_token_set = [0x5DF2, 0x914D, 0x7F6E]"
definition txt_token_unset :: jstring where \<comment> \<open>not configured\<close>
  [msg_defs]: "txt_token_unset = [40, 0x672A, 0x914D, 0x7F6E, 41]"
definition hint_keep_token :: jstring where \<comment> \<open>leave empty to keep the token\<close>
  [msg_defs]: "hint_keep_token = [0x7559, 0x7A7A, 0x5219, 0x4FDD, 0x7559, 0x5F53, 0x524D, 32, 116, 111, 107, 101, 110]"

definition settings_rows :: "settings_page \<Rightarrow> (jstring \<times> jstring) list" where
  "settings_rows p =
     [(js ''API Base URL'', js ''/api/v1''), (lbl_timeout_setting, js ''30000 ms''),
      (lbl_cookie_auth, js ''Drop_user_uid / Drop_user_name''),
      (lbl_health, case se_apiHealthy p of Checking \<Rightarrow> txt_checking | Ok \<Rightarrow> txt_healthy | Fail \<Rightarrow> txt_unhealthy)]"

definition token_label :: "settings_page \<Rightarrow> jstring" where
  "token_label p =
     (if ls_token_configured (se_llm p) = Some True
      then js ''('' @ or_str (opt_str (ls_token_masked (se_llm p))) txt_token_set @ js '')''
      else txt_token_unset)"

definition token_placeholder :: "settings_page \<Rightarrow> jstring" where
  "token_placeholder p = (if ls_token_configured (se_llm p) = Some True then hint_keep_token else js ''sk-...'')"

text \<open>The edits of the settings, and whether the two buttons can be pressed.\<close>

definition set_base_url :: "jstring \<Rightarrow> settings_page \<Rightarrow> settings_page" where
  "set_base_url v p = p\<lparr>se_llm := (se_llm p)\<lparr>ls_base_url := v\<rparr>\<rparr>"

definition set_model :: "jstring \<Rightarrow> settings_page \<Rightarrow> settings_page" where
  "set_model v p = p\<lparr>se_llm := (se_llm p)\<lparr>ls_model := v\<rparr>\<rparr>"

definition set_token_input :: "jstring \<Rightarrow> settings_page \<Rightarrow> settings_page" where
  "set_token_input v p = p\<lparr>se_llmTokenInput := v\<rparr>"

definition settings_buttons :: "settings_page \<Rightarrow> bool \<times> bool" where
  "settings_buttons p =
     (\<not> se_savingLLM p, \<not> (se_savingLLM p \<or> ls_token_configured (se_llm p) \<noteq> Some True))"

section \<open>The comparison\<close>

definition txt_comparing :: jstring where \<comment> \<open>comparing\<close>
  [msg_defs]: "txt_comparing = [0x5BF9, 0x6BD4, 0x4E2D, 46, 46, 46]"
definition txt_compare :: jstring where \<comment> \<open>compare\<close>
  [msg_defs]: "txt_compare = [0x5BF9, 0x6BD4]"
definition txt_diff_empty :: jstring where \<comment> \<open>nothing here\<close>
  [msg_defs]: "txt_diff_empty = [0x8FD9, 0x91CC, 0x7A7A, 0x7A7A, 0x5982, 0x4E5F]"
definition txt_diff_hint :: jstring where \<comment> \<open>enter two ids\<close>
  [msg_defs]: "txt_diff_hint = [0x8F93, 0x5165, 0x4E24, 0x4E2A, 0x4EFB, 0x52A1, 32, 73, 68, 32, 0x5F00, 0x59CB, 0x5BF9, 0x6BD4]"
definition txt_no_tree :: jstring where \<comment> \<open>no tree to draw\<close>
  [msg_defs]: "txt_no_tree = [0x6682, 0x65E0, 0x5C42, 0x6B21, 0x706B, 0x7130, 0x56FE, 0x6570, 0x636E, 0xFF08, 0x9700, 0x8981, 32, 99, 111, 108, 108, 97, 112, 115, 101, 100, 46, 116, 120, 116, 0xFF09]"
definition txt_flat_diff :: jstring where \<comment> \<open>flat difference\<close>
  [msg_defs]: "txt_flat_diff = [0x540E, 0x7AEF, 0x8FD4, 0x56DE, 0x6241, 0x5E73, 32, 100, 105, 102, 102, 58, 32]"
definition txt_changed :: jstring where \<comment> \<open>changed functions\<close>
  [msg_defs]: "txt_changed = [32, 0x4E2A, 0x53D8, 0x5316, 0x51FD, 0x6570, 44, 32]"
definition txt_added :: jstring where \<comment> \<open>added\<close>
  [msg_defs]: "txt_added = [32, 0x4E2A, 0x65B0, 0x589E, 44, 32]"
definition txt_removed :: jstring where \<comment> \<open>removed\<close>
  [msg_defs]: "txt_removed = [32, 0x4E2A, 0x79FB, 0x9664]"

datatype diff_part =
    DiffError jstring
  | DiffTree jstring jstring DiffTreeNode
  | DiffFlat jstring jstring
  | DiffEmpty jstring jstring

definition flat_diff_text :: "FlameDiffResult \<Rightarrow> jstring" where
  "flat_diff_text res =
     txt_flat_diff @ nat_str (length (fr_changed res)) @ txt_changed @ nat_str (length (fr_added res)) @ txt_added @
     nat_str (length (fr_removed res)) @ txt_removed"

definition diff_result_part :: "FlameDiffResult \<Rightarrow> diff_part" where
  "diff_result_part res =
     (case fr_tree res of
        None \<Rightarrow> DiffFlat txt_no_tree (flat_diff_text res)
      | Some t \<Rightarrow> DiffTree (fr_base_tid res) (fr_curr_tid res) t)"

definition diff_parts :: "diff_page \<Rightarrow> diff_part list" where
  "diff_parts p =
     shown_if (df_error p \<noteq> []) (DiffError (df_error p)) @
     (case df_result p of None \<Rightarrow> [] | Some res \<Rightarrow> [diff_result_part res]) @
     shown_if (df_result p = None \<and> \<not> df_loading p \<and> df_error p = []) (DiffEmpty txt_diff_empty txt_diff_hint)"

definition diff_button :: "diff_page \<Rightarrow> jstring" where
  "diff_button p = (if df_loading p then txt_comparing else txt_compare)"

section \<open>Properties\<close>

interpretation agent_rows: list_handler agents_loadAgents ap_loading ap_error "\<lambda>_. True" "\<lambda>srv _. isl (sa_agents srv)"
  "\<lambda>p. map (agent_card env p) (filtered_agents p)" for env
  by unfold_locales (auto simp: agents_loadAgents_def filtered_agents_def Let_def split: sum.split)

lemma stats_online:
  "map_of (from_entries (stat_entries srv agents)) ip = Some d \<Longrightarrow> \<exists>a \<in> set agents. ag_online a \<and> ag_ip_addr a = ip"
proof -
  assume "map_of (from_entries (stat_entries srv agents)) ip = Some d"
  then have "(ip, d) \<in> set (rev (stat_entries srv agents))"
    unfolding from_entries_look by (rule map_of_SomeD)
  then show ?thesis
    by (fastforce simp: stat_entries_def List.map_filter_def split: sum.splits option.splits)
qed

text \<open>
  After any sequence of loads the agent page shows the error alone, the note that there are
  no agents alone, or one card per agent that matches the search, in order; and when the addresses
  of the agents are distinct, a card of an agent that is offline shows no figures, never those of
  an earlier time.
\<close>

theorem agent_cards_truthful:
  assumes "p = fold agents_loadAgents (srvs @ [srv]) q"
  shows "agent_cards env p =
      (if isl (sa_agents srv) then [Failed (ap_error p)]
       else if filtered_agents p = [] then [Nothing txt_agents_none]
       else map (Row \<circ> agent_card env p) (filtered_agents p)) \<and>
    (\<not> isl (sa_agents srv) \<and> distinct (map ag_ip_addr (ap_agents p)) \<longrightarrow>
       (\<forall>a \<in> set (ap_agents p). \<not> ag_online a \<longrightarrow>
          ac_cpu (agent_card env p a) = dash \<and> ac_rss (agent_card env p a) = dash))"
proof -
  have parts: "agent_cards env p =
      (if isl (sa_agents srv) then [Failed (ap_error p)]
       else if filtered_agents p = [] then [Nothing txt_agents_none]
       else map (Row \<circ> agent_card env p) (filtered_agents p))"
    using agent_rows.parts_after_runs [where outs = srvs and s = q and out = srv and t = txt_agents_loading and
        u = txt_agents_none and env = env]
    unfolding assms agent_cards_def by simp
  have "ac_cpu (agent_card env p a) = dash \<and> ac_rss (agent_card env p a) = dash"
    if ok: "\<not> isl (sa_agents srv)" and d: "distinct (map ag_ip_addr (ap_agents p))" and a: "a \<in> set (ap_agents p)" "\<not> ag_online a"
    for a
  proof -
    have stats: "ap_stats p = from_entries (stat_entries srv (ap_agents p))"
      using ok by (auto simp: assms agents_loadAgents_def Let_def split: sum.split)
    have "map_of (ap_stats p) (ag_ip_addr a) = None"
    proof (rule ccontr)
      assume "map_of (ap_stats p) (ag_ip_addr a) \<noteq> None"
      then obtain b where "b \<in> set (ap_agents p)" "ag_online b" "ag_ip_addr b = ag_ip_addr a"
        using stats_online unfolding stats by blast
      with d a show False
        by (auto simp: distinct_map inj_on_def)
    qed
    then show ?thesis
      by (simp add: agent_card_def cpu_text_def rss_text_def dash_def)
  qed
  with parts show ?thesis by blast
qed

theorem agent_cards_truthful_witness:
  "agent_cards sample_env (agents_loadAgents sample_agents_server agents_initial) =
     map (Row \<circ> agent_card sample_env (agents_loadAgents sample_agents_server agents_initial))
       (filtered_agents (agents_loadAgents sample_agents_server agents_initial))"
proof -
  let ?p = "agents_loadAgents sample_agents_server agents_initial"
  have ne: "(filtered_agents ?p = []) = False" "isl (sa_agents sample_agents_server) = False"
    by (simp_all add: sample_agents_server_def agents_initial_def agents_loadAgents_def filtered_agents_def opt_items_def
        Let_def)
  have "?p = fold agents_loadAgents ([] @ [sample_agents_server]) agents_initial"
    by simp
  from conjunct1 [OF agent_cards_truthful [OF this, of sample_env]] show ?thesis
    by (simp only: ne if_False)
qed

text \<open>
  Once a comparison between two different ids has ended, the page shows one part: the error, the
  drawing of the tree, or the summary of a difference without a tree.
\<close>

theorem diff_one_part:
  assumes "trim (df_tid1 p) \<noteq> []" and "trim (df_tid2 p) \<noteq> []" and "trim (df_tid1 p) \<noteq> trim (df_tid2 p)"
    and "q = doDiff api p"
  shows "(\<exists>e. e \<noteq> [] \<and> diff_parts q = [DiffError e]) \<or>
    (\<exists>res. df_result q = Some res \<and> diff_parts q = [diff_result_part res])"
proof -
  have "df_result q = None \<longleftrightarrow> df_error q \<noteq> []" "\<not> df_loading q"
    using assms by (auto simp: doDiff_def doDiff_start_def doDiff_end_def err_text_nonempty split: sum.splits option.splits)
  then show ?thesis
    by (cases "df_result q") (auto simp: diff_parts_def shown_if_def)
qed

end
