(* ===== verification/Timeline_View.thy ===== *)
theory Timeline_View
  imports Timeline
begin

text \<open>
  What the timeline page puts on screen for a state of \<open>Timeline\<close>: the toolbar, the list of windows and the panel
  of the selected window (\<open>src/web/src/pages/ContinuousTimeline.tsx\<close> from \<open>formatTime\<close> to the end of the
  component). Styles are left out; the flame graph element carries the properties it is given.
\<close>

section \<open>Times\<close>

text \<open>An invalid date is printed as such by both methods; neither raises.\<close>

record time_env = date_env +
  to_locale_time_string :: "int \<Rightarrow> jstring"

definition invalid_date :: jstring where
  "invalid_date = js ''Invalid Date''"

definition formatTime :: "time_env \<Rightarrow> jstring \<Rightarrow> jstring" where
  "formatTime env ts =
     (case date_parse env ts of None \<Rightarrow> invalid_date | Some t \<Rightarrow> to_locale_time_string env t)"

definition full_time :: "time_env \<Rightarrow> jstring \<Rightarrow> jstring" where
  "full_time env ts = (case date_parse env ts of None \<Rightarrow> invalid_date | Some t \<Rightarrow> to_locale_string env t)"

section \<open>The toolbar\<close>

definition txt_windows_counted :: jstring where \<comment> \<open>windows\<close>
  [msg_defs]: "txt_windows_counted = [32, 0x4E2A, 0x7A97, 0x53E3]"
definition txt_stopping_now :: jstring where \<comment> \<open>stopping\<close>
  [msg_defs]: "txt_stopping_now = [0x505C, 0x6B62, 0x4E2D, 46, 46, 46]"
definition txt_stop :: jstring where \<comment> \<open>stop\<close>
  [msg_defs]: "txt_stop = [0x505C, 0x6B62]"
definition txt_filter_active :: jstring where \<comment> \<open>a filter is active and polling is paused\<close>
  [msg_defs]: "txt_filter_active = [0x5DF2, 0x542F, 0x7528, 0x65F6, 0x95F4, 0x8FC7, 0x6EE4, 0xFF0C, 0x81EA, 0x52A8, 0x8F6E, 0x8BE2, 0x5DF2, 0x6682, 0x505C]"
definition txt_no_window_in_range :: jstring where \<comment> \<open>no windows in this range\<close>
  [msg_defs]: "txt_no_window_in_range = [0x8BE5, 0x65F6, 0x95F4, 0x8303, 0x56F4, 0x5185, 0x65E0, 0x7A97, 0x53E3, 0x6570, 0x636E]"
definition txt_first_window :: jstring where \<comment> \<open>waiting for the first window\<close>
  [msg_defs]: "txt_first_window = [0x7B49, 0x5F85, 0x7B2C, 0x4E00, 0x4E2A, 0x7A97, 0x53E3, 0x5B8C, 0x6210, 46, 46, 46]"
definition txt_window_title :: jstring where \<comment> \<open>window\<close>
  [msg_defs]: "txt_window_title = [0x7A97, 0x53E3, 32, 35]"
definition txt_window_done :: jstring where \<comment> \<open>completed\<close>
  [msg_defs]: "txt_window_done = [0x5B8C, 0x6210]"
definition txt_window_broken :: jstring where \<comment> \<open>failed\<close>
  [msg_defs]: "txt_window_broken = [0x5931, 0x8D25]"
definition txt_window_busy :: jstring where \<comment> \<open>being collected\<close>
  [msg_defs]: "txt_window_busy = [0x91C7, 0x96C6, 0x4E2D]"
definition txt_flame_loading :: jstring where \<comment> \<open>loading the flame graph\<close>
  [msg_defs]: "txt_flame_loading = [0x52A0, 0x8F7D, 0x706B, 0x7130, 0x56FE, 0x4E2D, 46, 46, 46]"
definition txt_window_no_flame :: jstring where \<comment> \<open>no flame graph\<close>
  [msg_defs]: "txt_window_no_flame = [0x8BE5, 0x7A97, 0x53E3, 0x6682, 0x65E0, 0x706B, 0x7130, 0x56FE, 0x6570, 0x636E]"
definition txt_choose_window :: jstring where \<comment> \<open>choose a window\<close>
  [msg_defs]: "txt_choose_window = [0x9009, 0x62E9, 0x7A97, 0x53E3, 0x67E5, 0x770B, 0x706B, 0x7130, 0x56FE]"
definition txt_choose_left :: jstring where \<comment> \<open>choose a window on the left\<close>
  [msg_defs]: "txt_choose_left = [0x9009, 0x62E9, 0x5DE6, 0x4FA7, 0x7A97, 0x53E3, 0x67E5, 0x770B, 0x706B, 0x7130, 0x56FE]"

text \<open>The head line, the two fields, and for every button whether it can be pressed (the reset button: whether it is there).\<close>

record timeline_toolbar =
  tb_head :: jstring
  tb_stop :: jstring
  tb_stop_enabled :: bool
  tb_from :: jstring
  tb_to :: jstring
  tb_five_enabled :: bool
  tb_search_enabled :: bool
  tb_reset :: bool
  tb_notice :: jstring

definition timeline_bar :: "timeline \<Rightarrow> timeline_toolbar" where
  "timeline_bar s =
     \<lparr>tb_head = tm_tid s @ js '' / '' @ nat_str (length (tm_windows s)) @ txt_windows_counted,
      tb_stop = (if tm_stopping s then txt_stopping_now else txt_stop),
      tb_stop_enabled = (\<not> tm_stopping s),
      tb_from = tm_fromTime s,
      tb_to = tm_toTime s,
      tb_five_enabled = (tm_toTime s \<noteq> []),
      tb_search_enabled = (\<not> (tm_fromTime s = [] \<and> tm_toTime s = [])),
      tb_reset = tm_isFiltering s,
      tb_notice = (if tm_isFiltering s then txt_filter_active else [])\<rparr>"

section \<open>The list of windows\<close>

record window_line =
  wl_window :: ContinuousWindow
  wl_title :: jstring
  wl_state :: jstring
  wl_span :: jstring
  wl_selected :: bool

definition window_state :: "ContinuousWindow \<Rightarrow> jstring" where
  "window_state w =
     (if w_status w = 1 then txt_window_done else if w_status w = 2 then txt_window_broken else txt_window_busy)"

definition window_title :: "ContinuousWindow \<Rightarrow> jstring" where
  "window_title w = txt_window_title @ int_str (w_seq w)"

definition window_line_of :: "time_env \<Rightarrow> timeline \<Rightarrow> ContinuousWindow \<Rightarrow> window_line" where
  "window_line_of env s w =
     \<lparr>wl_window = w, wl_title = window_title w, wl_state = window_state w,
      wl_span = formatTime env (w_start_time w) @ js '' ~ '' @ formatTime env (w_end_time w),
      wl_selected = (map_option w_window_tid (tm_selected s) = Some (w_window_tid w))\<rparr>"

definition window_lines :: "time_env \<Rightarrow> timeline \<Rightarrow> window_line part list" where
  "window_lines env s =
     shown_if (tm_windows s = []) (Nothing (if tm_isFiltering s then txt_no_window_in_range else txt_first_window)) @
     map (Row \<circ> window_line_of env s) (tm_windows s)"

section \<open>The panel\<close>

datatype window_content =
    FlameLoading jstring
  | FlameElement jstring "jsval list"
  | SvgElement jstring
  | FlameMissing jstring

datatype main_panel =
    ChooseWindow jstring
  | WindowPanel jstring jstring jstring window_content

definition window_content_of :: "timeline \<Rightarrow> window_content" where
  "window_content_of s =
     (if tm_loading s then FlameLoading txt_flame_loading
      else if tm_collapsedText s \<noteq> [] \<or> length (tm_topn s) > 0 then FlameElement (tm_collapsedText s) (tm_topn s)
      else if tm_svgMarkup s \<noteq> [] then SvgElement (tm_svgMarkup s)
      else FlameMissing (or_str (tm_flameError s) txt_window_no_flame))"

definition timeline_panel :: "time_env \<Rightarrow> timeline \<Rightarrow> main_panel" where
  "timeline_panel env s =
     (case tm_selected s of
        None \<Rightarrow> ChooseWindow (if tm_isFiltering s then txt_choose_window else txt_choose_left)
      | Some w \<Rightarrow>
        WindowPanel (window_title w) (w_window_tid w)
          (full_time env (w_start_time w) @ js '' ~ '' @ full_time env (w_end_time w)) (window_content_of s))"

section \<open>Properties\<close>

text \<open>The content that the server gives for a window under the artifact it names for it.\<close>

definition server_content :: "server \<Rightarrow> ContinuousWindow \<Rightarrow> jstring \<Rightarrow> jsval \<Rightarrow> bool" where
  "server_content srv w type v \<longleftrightarrow>
     (\<exists>key. flame_kind srv w type key \<and>
        (if type = js ''json'' then srv_json srv (w_window_tid w) key = Inr v
         else srv_text srv (w_window_tid w) key = Inr v))"

lemma shown_collapsed:
  "shown_ok srv s \<Longrightarrow> tm_selected s = Some w \<Longrightarrow> tm_collapsedText s \<noteq> [] \<Longrightarrow>
     \<exists>v. server_content srv w (js ''collapsed'') v \<and> tm_collapsedText s = str_of v"
  by (auto simp: shown_ok_def server_content_def)

lemma shown_topn:
  "shown_ok srv s \<Longrightarrow> tm_selected s = Some w \<Longrightarrow> tm_topn s \<noteq> [] \<Longrightarrow>
     \<exists>v. server_content srv w (js ''json'') v \<and> tm_topn s = elems v"
  by (auto simp: shown_ok_def server_content_def)

lemma shown_svg:
  "shown_ok srv s \<Longrightarrow> tm_selected s = Some w \<Longrightarrow> tm_svgMarkup s \<noteq> [] \<Longrightarrow>
     \<exists>v. server_content srv w (js ''svg'') v \<and> tm_svgMarkup s = str_of v"
  by (auto simp: shown_ok_def server_content_def)

text \<open>A window has one artifact, so two kinds of content are never there at once.\<close>

lemma flame_kind_unique:
  "flame_kind srv w type key \<Longrightarrow> flame_kind srv w type' key' \<Longrightarrow> type = type' \<and> key = key'"
  by (auto simp: flame_kind_def)

lemma collapsed_excludes_topn:
  assumes "shown_ok srv s" and "tm_collapsedText s \<noteq> []"
  shows "tm_topn s = []"
proof (rule ccontr)
  assume "tm_topn s \<noteq> []"
  with assms obtain w k k' where "flame_kind srv w (js ''collapsed'') k" and "flame_kind srv w (js ''json'') k'"
    by (auto simp: shown_ok_def)
  from flame_kind_unique [OF this] show False by simp
qed

text \<open>
  C33: in every state the page can reach, the panel is headed by the selected window, and what
  stands below it is one of four things: the note that it is loading; the flame graph of the collapsed text that the
  server gives for that window, or else of its top list, never of both; its SVG; or a message that is not empty.
  Without a selection there is no graph at all.
\<close>

theorem timeline_panel_truthful:
  assumes "tm_reachable srv ck tid s"
  shows "case timeline_panel env s of
      ChooseWindow m \<Rightarrow> tm_selected s = None \<and> m \<noteq> []
    | WindowPanel title wtid period content \<Rightarrow>
        (\<exists>w. tm_selected s = Some w \<and> title = window_title w \<and> wtid = w_window_tid w \<and>
           (case content of
              FlameLoading m \<Rightarrow> tm_loading s
            | FlameElement text topn \<Rightarrow>
                (\<exists>v. server_content srv w (js ''collapsed'') v \<and> text = str_of v \<and> text \<noteq> [] \<and> topn = []) \<or>
                (\<exists>v. server_content srv w (js ''json'') v \<and> topn = elems v \<and> topn \<noteq> [] \<and> text = [])
            | SvgElement svg \<Rightarrow> (\<exists>v. server_content srv w (js ''svg'') v \<and> svg = str_of v)
            | FlameMissing m \<Rightarrow> m \<noteq> []))"
proof (cases "tm_selected s")
  case None
  then show ?thesis
    by (simp add: timeline_panel_def txt_choose_window_def txt_choose_left_def)
next
  case (Some w)
  have ok: "shown_ok srv s"
    using tm_reachable_inv [OF assms] by (simp add: tm_inv_def)
  note shown = shown_collapsed [OF ok Some] shown_topn [OF ok Some] shown_svg [OF ok Some]
  show ?thesis
    using shown collapsed_excludes_topn [OF ok]
    by (auto simp: timeline_panel_def window_content_of_def Some or_str_def txt_window_no_flame_def)
qed

definition sample_time_env :: time_env where
  "sample_time_env = date_env.extend sample_env \<lparr>to_locale_time_string = int_str\<rparr>"

theorem timeline_panel_truthful_witness:
  "\<exists>v. server_content sample_server (sample_window 2 1) (js ''collapsed'') v \<and> str_of v = [2, 107]"
proof -
  have "timeline_panel sample_time_env shown =
      WindowPanel (window_title (sample_window 2 1)) [2]
        (full_time sample_time_env [] @ js '' ~ '' @ full_time sample_time_env []) (FlameElement [2, 107] (tm_topn shown))"
    using shown_fields by (simp add: timeline_panel_def window_content_of_def sample_window_def)
  then show ?thesis
    using timeline_panel_truthful [OF shown_reachable, of sample_time_env] shown_fields(2) by auto
qed

text \<open>
  The list shows every window the server returned, in its order and with its own state, and
  when the windows have distinct ids at most one line is marked, namely that of the selected window.
\<close>

theorem timeline_highlight:
  assumes "tm_windows s \<noteq> []" and "distinct (map w_window_tid (tm_windows s))"
  shows "\<exists>ls. window_lines env s = map Row ls \<and> map wl_window ls = tm_windows s \<and>
    map wl_state ls = map window_state (tm_windows s) \<and>
    length (filter wl_selected ls) \<le> 1 \<and>
    (\<forall>l \<in> set ls. wl_selected l \<longrightarrow> map_option w_window_tid (tm_selected s) = Some (w_window_tid (wl_window l)))"
proof (intro exI conjI)
  let ?ls = "map (window_line_of env s) (tm_windows s)"
  show "window_lines env s = map Row ?ls"
    using assms(1) by (simp add: window_lines_def shown_if_def)
  show "map wl_window ?ls = tm_windows s"
    by (simp add: window_line_of_def comp_def)
  show "map wl_state ?ls = map window_state (tm_windows s)"
    by (simp add: window_line_of_def)
  show "\<forall>l \<in> set ?ls. wl_selected l \<longrightarrow> map_option w_window_tid (tm_selected s) = Some (w_window_tid (wl_window l))"
    by (simp add: window_line_of_def)
  have "length (filter (\<lambda>w. t = Some (w_window_tid w)) ws) \<le> 1" if "distinct (map w_window_tid ws)" for t ws
    using that by (induction ws) (auto simp: filter_empty_conv)
  from this [OF assms(2), of "map_option w_window_tid (tm_selected s)"] show "length (filter wl_selected ?ls) \<le> 1"
    by (simp add: filter_map comp_def window_line_of_def)
qed

theorem timeline_highlight_witness:
  "\<exists>ls. window_lines sample_time_env opened = map Row ls \<and> length (filter wl_selected ls) \<le> 1"
proof -
  have "tm_windows opened = [sample_window 1 1, sample_window 2 1, sample_window 3 0]"
    by (simp add: opened_def two_windows_def sample_defs)
  then show ?thesis
    using timeline_highlight [of opened sample_time_env] by (auto simp: sample_window_def)
qed

end
