(* ===== verification/Login_View.thy ===== *)
theory Login_View
  imports Session
begin

text \<open>
  The login form around the handler of \<open>Session\<close>: its fields, the two ways to submit it (the button and the Enter
  key) and the texts it shows (\<open>src/web/src/pages/Login.tsx\<close> from the fields to the end of the component).
\<close>

section \<open>Fields\<close>

definition login_initial :: "session \<Rightarrow> login_page" where
  "login_initial s =
     \<lparr>lp_username = [], lp_password = [], lp_mode = LoginMode, lp_showPassword = False, lp_loading = False,
      lp_error = [], lp_navigated = False, lp_session = s\<rparr>"

definition setUsername :: "jstring \<Rightarrow> login_page \<Rightarrow> login_page" where
  "setUsername v p = p\<lparr>lp_username := v\<rparr>"

definition setPassword :: "jstring \<Rightarrow> login_page \<Rightarrow> login_page" where
  "setPassword v p = p\<lparr>lp_password := v\<rparr>"

definition toggleShowPassword :: "login_page \<Rightarrow> login_page" where
  "toggleShowPassword p = p\<lparr>lp_showPassword := \<not> lp_showPassword p\<rparr>"

text \<open>Both fields submit on the Enter key; the button does so only when it is enabled.\<close>

definition onKeyDown :: "login_api \<times> login_api \<Rightarrow> jstring \<Rightarrow> login_page \<Rightarrow> login_page" where
  "onKeyDown apis key p = (if key = js ''Enter'' then handleSubmit apis p else p)"

definition press_submit :: "login_api \<times> login_api \<Rightarrow> login_page \<Rightarrow> login_page" where
  "press_submit apis p = (if login_canSubmit p then handleSubmit apis p else p)"

section \<open>Texts\<close>

definition txt_hide_password :: jstring where \<comment> \<open>hide\<close>
  [msg_defs]: "txt_hide_password = [0x9690, 0x85CF]"
definition txt_show_password :: jstring where \<comment> \<open>show\<close>
  [msg_defs]: "txt_show_password = [0x663E, 0x793A]"
definition txt_processing :: jstring where \<comment> \<open>processing\<close>
  [msg_defs]: "txt_processing = [0x5904, 0x7406, 0x4E2D, 46, 46, 46]"
definition txt_do_login :: jstring where \<comment> \<open>log in\<close>
  [msg_defs]: "txt_do_login = [0x767B, 32, 0x5F55]"
definition txt_do_register :: jstring where \<comment> \<open>register\<close>
  [msg_defs]: "txt_do_register = [0x6CE8, 32, 0x518C]"
definition txt_no_account :: jstring where \<comment> \<open>no account yet\<close>
  [msg_defs]: "txt_no_account = [0x8FD8, 0x6CA1, 0x6709, 0x8D26, 0x53F7, 0xFF1F]"
definition txt_has_account :: jstring where \<comment> \<open>already registered\<close>
  [msg_defs]: "txt_has_account = [0x5DF2, 0x6709, 0x8D26, 0x53F7, 0xFF1F]"
definition txt_to_register :: jstring where \<comment> \<open>to the registration\<close>
  [msg_defs]: "txt_to_register = [0x53BB, 0x6CE8, 0x518C]"
definition txt_to_login :: jstring where \<comment> \<open>to the login\<close>
  [msg_defs]: "txt_to_login = [0x53BB, 0x767B, 0x5F55]"

definition txt_platform :: jstring where \<comment> \<open>platform for profiling and analysis\<close>
  [msg_defs]: "txt_platform = [0x6027, 0x80FD, 0x91C7, 0x96C6, 0x4E0E, 0x5206, 0x6790, 0x5E73, 0x53F0]"
definition lbl_login_name :: jstring where \<comment> \<open>user name\<close>
  [msg_defs]: "lbl_login_name = [0x7528, 0x6237, 0x540D]"
definition ph_login_name :: jstring where \<comment> \<open>two to 32 characters\<close>
  [msg_defs]: "ph_login_name = [50, 45, 51, 50, 32, 0x4E2A, 0x5B57, 0x7B26]"
definition lbl_login_password :: jstring where \<comment> \<open>password\<close>
  [msg_defs]: "lbl_login_password = [0x5BC6, 0x7801]"
definition ph_login_password :: jstring where \<comment> \<open>at least four characters\<close>
  [msg_defs]: "ph_login_password = [0x81F3, 0x5C11, 32, 52, 32, 0x4E2A, 0x5B57, 0x7B26]"

record login_view =
  lv_heading :: "jstring \<times> jstring"
  lv_fields :: "(jstring \<times> jstring \<times> jstring) list"
  lv_field_type :: jstring
  lv_toggle :: jstring
  lv_error :: "jstring option"
  lv_enabled :: bool
  lv_submit :: jstring
  lv_hint :: jstring
  lv_switch :: jstring

definition Login :: "login_page \<Rightarrow> login_view" where
  "Login p =
     \<lparr>lv_heading = (js ''Mini-Drop'', txt_platform),
      lv_fields = [(lbl_login_name, ph_login_name, lp_username p), (lbl_login_password, ph_login_password, lp_password p)],
      lv_field_type = (if lp_showPassword p then js ''text'' else js ''password''),
      lv_toggle = (if lp_showPassword p then txt_hide_password else txt_show_password),
      lv_error = (if lp_error p = [] then None else Some (lp_error p)),
      lv_enabled = login_canSubmit p,
      lv_submit = (if lp_loading p then txt_processing
        else if lp_mode p = LoginMode then txt_do_login else txt_do_register),
      lv_hint = (if lp_mode p = LoginMode then txt_no_account else txt_has_account),
      lv_switch = (if lp_mode p = LoginMode then txt_to_register else txt_to_login)\<rparr>"

section \<open>Properties\<close>

text \<open>What the user can do with the form before it is left; a submission is one step with its answers.\<close>

inductive login_step :: "login_page \<Rightarrow> login_page \<Rightarrow> bool" where
  name: "login_step p (setUsername v p)"
| password: "login_step p (setPassword v p)"
| toggle: "login_step p (toggleShowPassword p)"
| switch: "login_step p (switch_mode p)"
| key: "\<not> lp_navigated p \<Longrightarrow> login_step p (onKeyDown apis key p)"
| button: "\<not> lp_navigated p \<Longrightarrow> login_step p (press_submit apis p)"

definition login_reachable :: "session \<Rightarrow> login_page \<Rightarrow> bool" where
  "login_reachable s p \<longleftrightarrow> login_step\<^sup>*\<^sup>* (login_initial s) p"

lemmas login_step_defs = setUsername_def setPassword_def toggleShowPassword_def switch_mode_def

text \<open>The form is left only with a session that is signed in.\<close>

definition login_inv :: "login_page \<Rightarrow> bool" where
  "login_inv p \<longleftrightarrow> \<not> lp_loading p \<and> (lp_navigated p \<longrightarrow> AppLayout (lp_session p) = Content)"

lemma authenticate_signs_in: "fst (authenticate apis p) = Inr u \<Longrightarrow> AppLayout (snd (authenticate apis p)) = Content"
  by (cases "lp_mode p")
    (auto simp: authenticate_def login_def register_def sign_in_def AppLayout_def Let_def split: sum.splits option.splits if_splits)

lemma handleSubmit_inv: "login_inv p \<Longrightarrow> \<not> lp_navigated p \<Longrightarrow> login_inv (handleSubmit apis p)"
  using authenticate_signs_in [of apis "p\<lparr>lp_loading := True, lp_error := []\<rparr>"]
  by (auto simp: login_inv_def handleSubmit_def Let_def split: prod.split sum.split)

lemma login_step_inv: "login_step p q \<Longrightarrow> login_inv p \<Longrightarrow> login_inv q"
proof (induction rule: login_step.induct)
  case (key p apis key)
  then show ?case by (simp add: onKeyDown_def handleSubmit_inv)
next
  case (button p apis)
  then show ?case by (simp add: press_submit_def handleSubmit_inv)
qed (simp_all add: login_inv_def login_step_defs)

lemma login_initial_inv: "login_inv (login_initial s)"
  by (simp add: login_inv_def login_initial_def)

interpretation login_forms: machine "\<lambda>p. \<exists>s. p = login_initial s" login_step login_inv
  by unfold_locales (auto intro: login_initial_inv login_step_inv)

lemma login_reachable_inv: "login_reachable s p \<Longrightarrow> login_inv p"
  unfolding login_reachable_def using login_forms.reachable by blast

text \<open>
  Whatever is typed, pressed and answered, the login page is left for the home page only with a
  store for which the layout shows its content at once and does not send the user back; and between two
  submissions it shows the label of its mode, never the one of a submission under way.
\<close>

theorem login_admits:
  assumes "login_reachable s p"
  shows "(lp_navigated p \<longrightarrow> AppLayout (lp_session p) = Content) \<and>
    lv_submit (Login p) = (if lp_mode p = LoginMode then txt_do_login else txt_do_register)"
  using login_reachable_inv [OF assms] by (simp add: login_inv_def Login_def)

theorem login_admits_witness:
  "lv_submit (Login (switch_mode (login_initial (store_initial [])))) = txt_do_register"
proof -
  have "login_reachable (store_initial []) (switch_mode (login_initial (store_initial [])))"
    unfolding login_reachable_def by (rule r_into_rtranclp) (rule login_step.switch)
  from login_admits [OF this] show ?thesis
    by (simp add: switch_mode_def login_initial_def)
qed

text \<open>
  The Enter key submits what the button refuses. With a name of one character and a password of
  one character the button is disabled, but the key sends the request and signs in.
\<close>

theorem enter_skips_checks:
  assumes "length (trim (lp_username p)) = 1" and "length (lp_password p) < 4" and "lp_password p \<noteq> []"
    and "fst (authenticate apis (p\<lparr>lp_loading := True, lp_error := []\<rparr>)) = Inr ()"
  shows "\<not> lv_enabled (Login p) \<and> press_submit apis p = p \<and> lp_navigated (onKeyDown apis (js ''Enter'') p)"
  using assms by (auto simp: Login_def login_canSubmit_def press_submit_def onKeyDown_def handleSubmit_def Let_def
      split: prod.split)

end
