(* ===== verification/Modal_View.thy ===== *)
theory Modal_View
  imports Task_Views
begin

text \<open>
  What the creation dialog shows for a form: its fields with their values and options, the natural language part,
  the mode buttons and the submit button with the handler it calls
  (\<open>src/web/src/components/CreateTaskModal.tsx\<close> from the first element to the end of the component).
\<close>

section \<open>Fields\<close>

definition lbl_name :: jstring where \<comment> \<open>name\<close>
  [msg_defs]: "lbl_name = [0x4EFB, 0x52A1, 0x540D, 0x79F0]"
definition lbl_target_agent :: jstring where \<comment> \<open>target\<close>
  [msg_defs]: "lbl_target_agent = [0x76EE, 0x6807, 32, 65, 103, 101, 110, 116]"
definition opt_choose_agent :: jstring where \<comment> \<open>choose an agent\<close>
  [msg_defs]: "opt_choose_agent = [0x9009, 0x62E9, 0x5728, 0x7EBF, 32, 65, 103, 101, 110, 116]"
definition lbl_type :: jstring where \<comment> \<open>kind\<close>
  [msg_defs]: "lbl_type = [0x91C7, 0x96C6, 0x7C7B, 0x578B]"
definition lbl_pid :: jstring where \<comment> \<open>process\<close>
  [msg_defs]: "lbl_pid = [0x76EE, 0x6807, 32, 80, 73, 68]"
definition lbl_window :: jstring where \<comment> \<open>length of a window\<close>
  [msg_defs]: "lbl_window = [0x7A97, 0x53E3, 0x65F6, 0x957F]"
definition lbl_duration :: jstring where \<comment> \<open>duration\<close>
  [msg_defs]: "lbl_duration = [0x91C7, 0x6837, 0x65F6, 0x957F]"
definition lbl_rate :: jstring where \<comment> \<open>rate\<close>
  [msg_defs]: "lbl_rate = [0x91C7, 0x6837, 0x9891, 0x7387]"
definition lbl_event :: jstring where \<comment> \<open>event\<close>
  [msg_defs]: "lbl_event = [101, 66, 80, 70, 32, 0x4E8B, 0x4EF6]"
definition lbl_intent :: jstring where \<comment> \<open>intent\<close>
  [msg_defs]: "lbl_intent = [0x91C7, 0x96C6, 0x610F, 0x56FE]"
definition txt_no_online_agent :: jstring where \<comment> \<open>no agent is online\<close>
  [msg_defs]: "txt_no_online_agent = [0x5F53, 0x524D, 0x6CA1, 0x6709, 0x5728, 0x7EBF, 32, 65, 103, 101, 110, 116, 0xFF0C, 0x65E0, 0x6CD5, 0x521B, 0x5EFA, 0x91C7, 0x96C6, 0x4EFB, 0x52A1, 0x3002]"
definition txt_modal_title :: jstring where \<comment> \<open>new task\<close>
  [msg_defs]: "txt_modal_title = [0x65B0, 0x5EFA, 0x91C7, 0x96C6, 0x4EFB, 0x52A1]"
definition txt_mode_natural :: jstring where \<comment> \<open>natural language\<close>
  [msg_defs]: "txt_mode_natural = [0x81EA, 0x7136, 0x8BED, 0x8A00]"

text \<open>A label, the value on screen, and for a choice the values and labels of its options.\<close>

record modal_field =
  mf_label :: jstring
  mf_value :: jstring
  mf_options :: "(jstring \<times> jstring) list"

definition plain_field :: "jstring \<Rightarrow> jstring \<Rightarrow> modal_field" where
  "plain_field l v = \<lparr>mf_label = l, mf_value = v, mf_options = []\<rparr>"

definition type_choices :: "(int \<times> jstring) list" where
  "type_choices =
     [(0, js ''CPU / perf''), (1, js ''Java / async-profiler''), (6, js ''eBPF / bpftrace''), (10, js ''pprof CPU''),
      (11, js ''pprof Heap''), (5, js ''Resource Analysis''), (4, js ''Python / memray''), (12, js ''Java Heap'')]"

definition agent_field :: "AgentInfo list \<Rightarrow> task_form \<Rightarrow> modal_field" where
  "agent_field agents s =
     \<lparr>mf_label = lbl_target_agent, mf_value = ct_target_ip (fm_form s),
      mf_options = ([], opt_choose_agent) # map (\<lambda>(ip, text, _). (ip, text)) (agent_options agents)\<rparr>"

definition type_field :: "task_form \<Rightarrow> modal_field" where
  "type_field s =
     \<lparr>mf_label = lbl_type, mf_value = int_str (ct_type (fm_form s)),
      mf_options = map (\<lambda>(t, l). (int_str t, l)) type_choices\<rparr>"

text \<open>An empty field stands for the pid 0.\<close>

definition pid_field :: "task_form \<Rightarrow> modal_field" where
  "pid_field s =
     plain_field lbl_pid (if num_truthy (ct_pid (fm_form s)) then num_str (ct_pid (fm_form s)) else [])"

definition time_field :: "task_form \<Rightarrow> modal_field" where
  "time_field s =
     (if fm_mode s = Continuous
      then plain_field lbl_window (num_str (num_or (opt_num (cc_window_sec (fm_continuousForm s))) (Fin 300)))
      else plain_field lbl_duration (num_str (ct_duration (fm_form s))))"

definition rate_field :: "task_form \<Rightarrow> modal_field" where
  "rate_field s =
     plain_field lbl_rate
       (if fm_mode s = Continuous then num_str (num_or (opt_num (cc_hz (fm_continuousForm s))) (Fin 10))
        else (case ct_hz (fm_form s) of None \<Rightarrow> [] | Some hz \<Rightarrow> num_str hz))"

definition callgraph_field :: "task_form \<Rightarrow> modal_field" where
  "callgraph_field s =
     \<lparr>mf_label = js ''Callgraph'',
      mf_value = (if fm_mode s = Continuous then or_str (opt_str (cc_callgraph (fm_continuousForm s))) (js ''dwarf'')
        else opt_str (ct_callgraph (fm_form s))),
      mf_options = map (\<lambda>o'. (js o', js o')) [''dwarf'', ''fp'', ''lbr'']\<rparr>"

definition event_field :: "task_form \<Rightarrow> modal_field list" where
  "event_field s =
     shown_if (fm_mode s \<noteq> Continuous \<and> ct_type (fm_form s) = 6)
       \<lparr>mf_label = lbl_event, mf_value = or_str (opt_str (ct_event (fm_form s))) (js ''io''),
        mf_options = [(js ''io'', js ''IO latency''), (js ''sched'', js ''Scheduler latency'')]\<rparr>"

definition modal_fields :: "AgentInfo list \<Rightarrow> task_form \<Rightarrow> modal_field list" where
  "modal_fields agents s =
     [plain_field lbl_name (ct_name (fm_form s)), agent_field agents s, type_field s, pid_field s, time_field s,
      rate_field s, callgraph_field s] @ event_field s"

section \<open>The dialog\<close>

definition setNlText :: "jstring \<Rightarrow> task_form \<Rightarrow> task_form" where
  "setNlText v s = s\<lparr>fm_nlText := v\<rparr>"

text \<open>The natural language part: the text, whether it can be analysed, an error and the lines of the plan.\<close>

datatype modal_body =
    IntentBody modal_field bool jstring "jstring list"
  | FieldsBody "modal_field list" "jstring list"

definition modal_body_of :: "AgentInfo list \<Rightarrow> task_form \<Rightarrow> modal_body" where
  "modal_body_of agents s =
     (if fm_mode s = Natural then
        IntentBody (plain_field lbl_intent (fm_nlText s)) (\<not> (trim (fm_nlText s) = [] \<or> fm_nlSubmitting s)) (fm_nlError s)
          (case fm_nlPlan s of None \<Rightarrow> [] | Some pl \<Rightarrow> plan_lines pl)
      else FieldsBody (modal_fields agents s) (shown_if (filter ag_online agents = []) txt_no_online_agent))"

definition mode_buttons :: "task_form \<Rightarrow> (TaskCreateMode \<times> jstring \<times> bool) list" where
  "mode_buttons s =
     map (\<lambda>(m, l). (m, l, fm_mode s = m))
       [(Oneshot, txt_mode_oneshot), (Continuous, txt_mode_continuous), (Natural, txt_mode_natural)]"

text \<open>The handler behind the submit button.\<close>

datatype submit_handler = RunIntent | SubmitContinuous | SubmitOneshot

definition submit_handler_of :: "task_form \<Rightarrow> submit_handler" where
  "submit_handler_of s =
     (case fm_mode s of Natural \<Rightarrow> RunIntent | Continuous \<Rightarrow> SubmitContinuous | Oneshot \<Rightarrow> SubmitOneshot)"

record modal_view =
  mv_title :: jstring
  mv_hint :: jstring
  mv_modes :: "(TaskCreateMode \<times> jstring \<times> bool) list"
  mv_body :: modal_body
  mv_enabled :: bool
  mv_handler :: submit_handler
  mv_submit :: jstring

definition CreateTaskModal :: "jstring option \<Rightarrow> AgentInfo list \<Rightarrow> task_form \<Rightarrow> modal_view" where
  "CreateTaskModal title agents s =
     \<lparr>mv_title = (case title of None \<Rightarrow> txt_modal_title | Some t \<Rightarrow> t), mv_hint = modal_hint (fm_mode s),
      mv_modes = mode_buttons s, mv_body = modal_body_of agents s, mv_enabled = form_canSubmit s,
      mv_handler = submit_handler_of s, mv_submit = submit_text s\<rparr>"

section \<open>Properties\<close>

text \<open>The choice of the kind offers exactly the values its handler is made for.\<close>

lemma type_choices_options: "map fst type_choices = type_options"
  by (simp add: type_choices_def type_options_def)

lemmas modal_defs = modal_fields_def plain_field_def agent_field_def type_field_def pid_field_def time_field_def
  rate_field_def callgraph_field_def event_field_def shown_if_def

lemma num_or_number: "x = NaN \<or> int_in lo hi x \<Longrightarrow> 0 < lo \<Longrightarrow> x \<noteq> NaN \<Longrightarrow> num_or x d = x"
  by (auto simp: num_or_def num_truthy_def int_in_def)

text \<open>The two forms one by one.\<close>

lemma oneshot_values:
  assumes "form_inv s" and "form_canSubmit s" and "fm_mode s = Oneshot" and "ct_hz (fm_form s) \<noteq> Some NaN"
  shows "\<exists>p h. task_payload s = Some p \<and> ct_hz p = Some h \<and>
    {(lbl_target_agent, ct_target_ip p), (lbl_type, int_str (ct_type p)), (lbl_pid, num_str (ct_pid p)),
     (lbl_duration, num_str (ct_duration p)), (lbl_rate, num_str h)}
      \<subseteq> set (map (\<lambda>f. (mf_label f, mf_value f)) (modal_fields agents s))"
proof -
  have pid: "num_truthy (ct_pid (fm_form s))"
    using assms(2,3) pidValid_int [of "fm_form s"] by (auto simp: form_canSubmit_def)
  obtain hz where hz: "ct_hz (fm_form s) = Some hz" "hz = NaN \<or> int_in 1 1000 hz"
    using assms(1) by (auto simp: form_inv_def Let_def)
  with assms(4) have "num_or hz (Fin 99) = hz"
    by (intro num_or_number [where lo = 1]) auto
  moreover obtain p where p: "task_payload s = Some p"
    using canSubmit_payload [OF assms(3,2)] by blast
  ultimately have "ct_hz p = Some hz" "ct_target_ip p = ct_target_ip (fm_form s)" "ct_type p = ct_type (fm_form s)"
    "ct_pid p = ct_pid (fm_form s)" "ct_duration p = ct_duration (fm_form s)"
    by (auto simp: task_payload_def Let_def hz(1) opt_num_def split: if_splits)
  with p show ?thesis
    using assms(3) hz(1) pid by (intro exI [of _ p] exI [of _ hz]) (simp add: modal_defs)
qed

lemma continuous_values:
  assumes "form_inv s" and "form_canSubmit s" and "fm_mode s = Continuous"
  shows "\<exists>p h w. continuous_payload s = Some p \<and> cc_hz p = Some h \<and> cc_window_sec p = Some w \<and>
    {(lbl_target_agent, cc_target_ip p), (lbl_pid, num_str (cc_pid p)), (lbl_window, num_str w), (lbl_rate, num_str h)}
      \<subseteq> set (map (\<lambda>f. (mf_label f, mf_value f)) (modal_fields agents s))"
proof -
  have "cc_target_ip (fm_continuousForm s) \<noteq> []" "num_truthy (ct_pid (fm_form s))"
    using assms(2,3) pidValid_int [of "fm_form s"] by (auto simp: form_canSubmit_def)
  moreover have "cc_target_ip (fm_continuousForm s) = ct_target_ip (fm_form s)"
    "cc_pid (fm_continuousForm s) = ct_pid (fm_form s)"
    using assms(1) by (simp_all add: form_inv_def Let_def)
  ultimately show ?thesis
    using assms(3) by (simp add: continuous_payload_def Let_def modal_defs)
qed

text \<open>
  C16: what stands in the dialog is what is sent. Whatever was typed before, when a one-shot form
  can be submitted and its rate is a number, the request has the target, the kind, the pid, the duration and the rate
  that stand in the fields; and when a continuous form can be submitted, its request has the target, the pid, the
  window length and the rate that stand there, although they are read from another record than the one the target and
  pid fields show.
\<close>

theorem dialog_shows_request:
  assumes "form_reachable s" and "form_canSubmit s"
    and "values = map (\<lambda>f. (mf_label f, mf_value f)) (modal_fields agents s)"
  shows "(fm_mode s = Oneshot \<and> ct_hz (fm_form s) \<noteq> Some NaN \<longrightarrow>
      (\<exists>p h. task_payload s = Some p \<and> ct_hz p = Some h \<and>
        {(lbl_target_agent, ct_target_ip p), (lbl_type, int_str (ct_type p)), (lbl_pid, num_str (ct_pid p)),
         (lbl_duration, num_str (ct_duration p)), (lbl_rate, num_str h)} \<subseteq> set values)) \<and>
    (fm_mode s = Continuous \<longrightarrow>
      (\<exists>p h w. continuous_payload s = Some p \<and> cc_hz p = Some h \<and> cc_window_sec p = Some w \<and>
        {(lbl_target_agent, cc_target_ip p), (lbl_pid, num_str (cc_pid p)), (lbl_window, num_str w),
         (lbl_rate, num_str h)} \<subseteq> set values))"
  using oneshot_values continuous_values form_reachable_inv [OF assms(1)] assms(2)
  unfolding assms(3) by blast

theorem dialog_shows_request_witness:
  "(lbl_pid, num_str (Fin 42)) \<in> set (map (\<lambda>f. (mf_label f, mf_value f)) (modal_fields [] sample_form))"
  using dialog_shows_request [OF sample_form_submits(1,3) refl, of "[]"] sample_form_submits(2,4)
  by (auto simp: defaultForm_def sample_form_def form_initial_def form_ops)

text \<open>
  In continuous mode the field for the kind is shown and can be changed, but the request
  does not depend on it: no choice of a Java, Python or eBPF collector reaches the server.
\<close>

theorem continuous_ignores_type:
  assumes "fm_mode s = Continuous"
  shows "type_field s \<in> set (modal_fields agents s) \<and> mf_value (type_field (set_type t s)) = int_str t \<and>
    continuous_payload (set_type t s) = continuous_payload (sync_continuous s)"
  by (simp add: modal_fields_def type_field_def set_type_def onChange_def sync_continuous_def continuous_payload_def Let_def)

end
