(* ===== verification/Result_Steps.thy ===== *)
theory Result_Steps
  imports Result_Load
begin

text \<open>
  The load of the result page request by request (\<open>loadTask\<close> in \<open>src/web/src/pages/TaskResult.tsx\<close>). The
  function is cut at every \<open>await\<close>: a load that is under way waits at a point, and an answer runs the code from there
  to the next point. Main result: answered one request after the other, the points make up exactly the load of
  \<open>Result_Load\<close>, after at most fifteen answers.
\<close>

section \<open>Points\<close>

datatype row_field = RowMemory | RowHeap | RowResource | RowEvidence

datatype load_point =
    AtDetail
  | AtSuggestions TaskDetailData
  | AtFlame TaskDetailData
  | AtFlameArtifact jstring jstring TaskDetailData
  | AtFiles
  | AtTop jstring "CosFile list"
  | AtCollapsed jstring "CosFile list"
  | AtEbpf jstring "CosFile list"
  | AtPprofCpu jstring "CosFile list"
  | AtPprofHeap jstring "CosFile list"
  | AtRow jstring row_field "(jstring \<times> row_field) list" "CosFile list"
  | AtMemray jstring
  | Finished

section \<open>From one point to the next\<close>

definition finish :: "result_page \<Rightarrow> load_point \<times> result_page" where
  "finish p = (Finished, p\<lparr>rp_loading := False\<rparr>)"

definition to_memray :: "CosFile list \<Rightarrow> result_page \<Rightarrow> load_point \<times> result_page" where
  "to_memray files p =
     (let key = file_key (List.find isMemrayHtmlArtifact files)
      in if key = [] \<or> mr_ref (rp_memray p) \<noteq> None then finish p
         else (AtMemray key, p\<lparr>rp_memray := memray_start (rp_memray p), rp_memrayLoading := True\<rparr>))"

fun store_row :: "row_field \<Rightarrow> jsval \<Rightarrow> result_page \<Rightarrow> result_page" where
  "store_row RowMemory v p = p\<lparr>rp_memoryData := v\<rparr>"
| "store_row RowHeap v p = p\<lparr>rp_heapData := v\<rparr>"
| "store_row RowResource v p = p\<lparr>rp_resourceData := v\<rparr>"
| "store_row RowEvidence v p = p\<lparr>rp_attributionEvidence := v\<rparr>"

fun to_row :: "CosFile list \<Rightarrow> (jstring \<times> row_field) list \<Rightarrow> result_page \<Rightarrow> load_point \<times> result_page" where
  "to_row files [] p = to_memray files p"
| "to_row files ((key, f) # row) p = (if key = [] then to_row files row p else (AtRow key f row files, p))"

definition row_of :: "CosFile list \<Rightarrow> (jstring \<times> row_field) list" where
  "row_of files =
     [(file_key (find_named ''memleak.json'' files), RowMemory),
      (file_key (find_named ''heap_stats.json'' files), RowHeap),
      (file_key (find_named ''resource_stats.json'' files), RowResource),
      (file_key (find_named ''attribution_evidence.json'' files), RowEvidence)]"

text \<open>The \<open>finally\<close> block of the pprof part, and what follows it.\<close>

definition end_pprof :: "CosFile list \<Rightarrow> result_page \<Rightarrow> load_point \<times> result_page" where
  "end_pprof files p = to_row files (row_of files) (p\<lparr>rp_pprofLoading := False\<rparr>)"

definition to_pprof_heap :: "CosFile list \<Rightarrow> result_page \<Rightarrow> load_point \<times> result_page" where
  "to_pprof_heap files p =
     (let key = file_key (find_named ''pprof_heap.json'' files)
      in if key = [] then end_pprof files p else (AtPprofHeap key files, p))"

definition to_pprof :: "CosFile list \<Rightarrow> result_page \<Rightarrow> load_point \<times> result_page" where
  "to_pprof files p =
     (let ck = file_key (find_named ''pprof_cpu.json'' files); hk = file_key (find_named ''pprof_heap.json'' files)
      in if ck = [] \<and> hk = [] then to_row files (row_of files) p
         else if ck = [] then to_pprof_heap files (p\<lparr>rp_pprofLoading := True\<rparr>)
         else (AtPprofCpu ck files, p\<lparr>rp_pprofLoading := True\<rparr>))"

definition to_ebpf :: "CosFile list \<Rightarrow> result_page \<Rightarrow> load_point \<times> result_page" where
  "to_ebpf files p =
     (let key = file_key (find_named ''biosnoop_stats.json'' files)
      in if key = [] then to_pprof files p else (AtEbpf key files, p\<lparr>rp_eBpfLoading := True\<rparr>))"

definition to_collapsed :: "CosFile list \<Rightarrow> result_page \<Rightarrow> load_point \<times> result_page" where
  "to_collapsed files p =
     (let key = file_key (collapsedFile files) in if key = [] then to_ebpf files p else (AtCollapsed key files, p))"

definition to_top :: "CosFile list \<Rightarrow> result_page \<Rightarrow> load_point \<times> result_page" where
  "to_top files p =
     (let key = file_key (find_named ''top.json'' files) in if key = [] then to_collapsed files p else (AtTop key files, p))"

definition to_files :: "TaskDetailData \<Rightarrow> result_page \<Rightarrow> load_point \<times> result_page" where
  "to_files d p = (if opt_items (td_cos_files d) = [] then (AtFiles, p) else to_top (opt_items (td_cos_files d)) p)"

section \<open>Answers\<close>

definition flame_failed :: "result_page \<Rightarrow> result_page" where
  "flame_failed p = p\<lparr>rp_flameError := msg_no_flame_data\<rparr>"

text \<open>The kinds of artifact the page can draw; the request for any other is not sent.\<close>

definition drawable :: "jstring \<Rightarrow> bool" where
  "drawable type \<longleftrightarrow> type \<in> {js ''svg'', js ''json'', js ''collapsed''}"

definition answer_flame :: "result_server \<Rightarrow> TaskDetailData \<Rightarrow> result_page \<Rightarrow> load_point \<times> result_page" where
  "answer_flame srv d p =
     (case rs_flame srv of
        Inl e \<Rightarrow> to_files d (flame_failed p)
      | Inr res \<Rightarrow>
        (let p = p\<lparr>rp_flameError := []\<rparr>
         in case res_data res of
              None \<Rightarrow> to_files d p
            | Some f \<Rightarrow>
              (let key = opt_str (fd_key f)
               in if res_code res = 0 \<and> key \<noteq> [] \<and> drawable (fd_type f) then (AtFlameArtifact (fd_type f) key d, p)
                  else to_files d p)))"

definition flame_stored :: "result_server \<Rightarrow> jstring \<Rightarrow> jstring \<Rightarrow> result_page \<Rightarrow> result_page" where
  "flame_stored srv type key p =
     (if type = js ''json'' then
        (case rs_json srv key of Inl e \<Rightarrow> flame_failed p | Inr v \<Rightarrow> p\<lparr>rp_topn := elems v\<rparr>)
      else
        (case rs_text srv key of
           Inl e \<Rightarrow> flame_failed p
         | Inr v \<Rightarrow> if type = js ''svg'' then p\<lparr>rp_svgMarkup := str_of v\<rparr> else p\<lparr>rp_collapsedText := str_of v\<rparr>))"

definition pprof_failed :: "result_page \<Rightarrow> result_page" where
  "pprof_failed p = p\<lparr>rp_pprofCpuData := Null, rp_pprofHeapData := Null\<rparr>"

definition memray_answered :: "api_exn + jsval \<Rightarrow> result_page \<Rightarrow> result_page" where
  "memray_answered a p =
     (case a of
        Inl e \<Rightarrow>
          p\<lparr>rp_memrayError := or_str (opt_str (exn_message e)) msg_memray_failed,
            rp_memray := memray_done [] (rp_memray p), rp_memrayLoading := False\<rparr>
      | Inr v \<Rightarrow> p\<lparr>rp_memray := memray_done (str_of v) (rp_memray p), rp_memrayLoading := False\<rparr>)"

fun answer :: "result_server \<Rightarrow> load_point \<times> result_page \<Rightarrow> load_point \<times> result_page" where
  "answer srv (AtDetail, p) =
     (case detail_result srv of
        Inl e \<Rightarrow> finish (p\<lparr>rp_error := err_text e msg_detail_failed\<rparr>)
      | Inr (t, d) \<Rightarrow> (AtSuggestions d, load_detail (t, d) p))"
| "answer srv (AtSuggestions d, p) = (AtFlame d, load_suggestions srv p)"
| "answer srv (AtFlame d, p) = answer_flame srv d p"
| "answer srv (AtFlameArtifact type key d, p) = to_files d (flame_stored srv type key p)"
| "answer srv (AtFiles, p) =
     (case rs_files srv of
        Inl e \<Rightarrow> to_top [] (p\<lparr>rp_cosFiles := []\<rparr>)
      | Inr res \<Rightarrow> to_top (opt_items (res_data res)) (p\<lparr>rp_cosFiles := opt_items (res_data res)\<rparr>))"
| "answer srv (AtTop key files, p) =
     to_collapsed files (case rs_json srv key of Inl e \<Rightarrow> p\<lparr>rp_topn := []\<rparr> | Inr v \<Rightarrow> p\<lparr>rp_topn := elems v\<rparr>)"
| "answer srv (AtCollapsed key files, p) =
     to_ebpf files (case rs_text srv key of
                      Inl e \<Rightarrow> p | Inr v \<Rightarrow> if str_of v \<noteq> [] then p\<lparr>rp_collapsedText := str_of v\<rparr> else p)"
| "answer srv (AtEbpf key files, p) =
     to_pprof files
       (p\<lparr>rp_eBpfData := (case rs_json srv key of Inl e \<Rightarrow> Null | Inr v \<Rightarrow> v), rp_eBpfLoading := False\<rparr>)"
| "answer srv (AtPprofCpu key files, p) =
     (case rs_json srv key of
        Inl e \<Rightarrow> end_pprof files (pprof_failed p)
      | Inr v \<Rightarrow> to_pprof_heap files (p\<lparr>rp_pprofCpuData := cpu_samples v\<rparr>))"
| "answer srv (AtPprofHeap key files, p) =
     end_pprof files
       (case rs_json srv key of Inl e \<Rightarrow> pprof_failed p | Inr v \<Rightarrow> p\<lparr>rp_pprofHeapData := heap_samples v\<rparr>)"
| "answer srv (AtRow key f row files, p) =
     (case rs_json srv key of Inl e \<Rightarrow> to_memray files p | Inr v \<Rightarrow> to_row files row (store_row f v p))"
| "answer srv (AtMemray key, p) = finish (memray_answered (rs_text srv key) p)"
| "answer srv (Finished, p) = (Finished, p)"

section \<open>The points make up the load\<close>

text \<open>\<open>ends srv n c q\<close>: after at most \<open>n\<close> answers the load at \<open>c\<close> is finished and has left the page \<open>q\<close>.\<close>

definition ends :: "result_server \<Rightarrow> nat \<Rightarrow> load_point \<times> result_page \<Rightarrow> result_page \<Rightarrow> bool" where
  "ends srv n c q \<longleftrightarrow> (answer srv ^^ n) c = (Finished, q)"

lemma answer_Finished: "(answer srv ^^ n) (Finished, q) = (Finished, q)"
  by (induction n) simp_all

lemma ends_more: "ends srv m c q \<Longrightarrow> m \<le> n \<Longrightarrow> ends srv n c q"
  by (metis answer_Finished ends_def funpow_add le_add_diff_inverse2 comp_apply)

lemma ends_step: "ends srv n (answer srv c) q \<Longrightarrow> ends srv (Suc n) c q"
  by (simp add: ends_def funpow_swap1)

lemma ends_finish: "ends srv n (finish p) (p\<lparr>rp_loading := False\<rparr>)"
  by (simp add: ends_def finish_def answer_Finished)

lemma ends_memray: "ends srv (Suc 0) (to_memray files p) ((load_memray srv files p)\<lparr>rp_loading := False\<rparr>)"
proof (cases "file_key (List.find isMemrayHtmlArtifact files) = [] \<or> mr_ref (rp_memray p) \<noteq> None")
  case True
  then show ?thesis
    using ends_finish [of srv "Suc 0" p] by (auto simp: to_memray_def load_memray_def Let_def)
next
  case False
  then show ?thesis
    by (intro ends_step)
      (auto simp: ends_def finish_def to_memray_def load_memray_def memray_answered_def Let_def split: sum.splits)
qed

abbreviation tail_of :: "result_server \<Rightarrow> CosFile list \<Rightarrow> result_page \<Rightarrow> result_page" where
  "tail_of srv files p \<equiv> (load_memray srv files (load_extended srv files p))\<lparr>rp_loading := False\<rparr>"

lemma ends_row:
  "ends srv (Suc (length row)) (to_row files row p)
     ((load_memray srv files (load_row srv (map (\<lambda>(key, f). (key, store_row f)) row) p))\<lparr>rp_loading := False\<rparr>)"
proof (induction row arbitrary: p)
  case Nil
  show ?case by (simp add: ends_memray)
next
  case (Cons kf row)
  obtain key f where kf: "kf = (key, f)" by (cases kf)
  show ?case
  proof (cases "key = []")
    case True
    with Cons.IH [of p] show ?thesis
      by (auto simp: kf intro: ends_more)
  next
    case False
    then show ?thesis
      using Cons.IH ends_more [OF ends_memray, of "Suc (length row)" srv files p]
        ends_step [of srv "Suc (length row)" "(AtRow key f row files, p)"]
      by (simp add: kf split: sum.splits)
  qed
qed

lemma ends_extended: "ends srv 5 (to_row files (row_of files) p) (tail_of srv files p)"
proof -
  have "load_row srv (map (\<lambda>(key, f). (key, store_row f)) (row_of files)) p = load_extended srv files p"
  proof -
    have "store_row RowMemory = (\<lambda>v p. p\<lparr>rp_memoryData := v\<rparr>)" "store_row RowHeap = (\<lambda>v p. p\<lparr>rp_heapData := v\<rparr>)"
      "store_row RowResource = (\<lambda>v p. p\<lparr>rp_resourceData := v\<rparr>)"
      "store_row RowEvidence = (\<lambda>v p. p\<lparr>rp_attributionEvidence := v\<rparr>)"
      by (auto simp: fun_eq_iff)
    then show ?thesis by (simp only: row_of_def load_extended_def list.map prod.case)
  qed
  then show ?thesis
    using ends_row [of srv "row_of files" files p] by (simp add: row_of_def eval_nat_numeral)
qed

lemma ends_end_pprof: "ends srv 5 (end_pprof files p) (tail_of srv files (p\<lparr>rp_pprofLoading := False\<rparr>))"
  unfolding end_pprof_def by (rule ends_extended)

lemma ends_pprof_heap:
  "ends srv 6 (to_pprof_heap files p)
     (tail_of srv files
       ((let hk = file_key (find_named ''pprof_heap.json'' files)
         in if hk = [] then p
            else (case rs_json srv hk of Inl e \<Rightarrow> pprof_failed p | Inr v \<Rightarrow> p\<lparr>rp_pprofHeapData := heap_samples v\<rparr>))
        \<lparr>rp_pprofLoading := False\<rparr>))"
proof (cases "file_key (find_named ''pprof_heap.json'' files) = []")
  case True
  then show ?thesis
    using ends_more [OF ends_end_pprof, of 6] by (simp add: to_pprof_heap_def Let_def)
next
  case False
  then show ?thesis
    using ends_step [of srv 5 "(AtPprofHeap (file_key (find_named ''pprof_heap.json'' files)) files, p)"] ends_end_pprof
    by (simp add: to_pprof_heap_def Let_def)
qed

lemma ends_pprof: "ends srv 7 (to_pprof files p) (tail_of srv files (load_pprof srv files p))"
proof -
  let ?ck = "file_key (find_named ''pprof_cpu.json'' files)"
  let ?hk = "file_key (find_named ''pprof_heap.json'' files)"
  consider "?ck = []" "?hk = []" | "?ck = []" "?hk \<noteq> []" | "?ck \<noteq> []" by blast
  then show ?thesis
  proof cases
    case 1
    then show ?thesis
      using ends_more [OF ends_extended, of 7] by (simp add: to_pprof_def load_pprof_def Let_def)
  next
    case 2
    then show ?thesis
      using ends_more [OF ends_pprof_heap, of 7 srv files "p\<lparr>rp_pprofLoading := True\<rparr>"]
      by (simp add: to_pprof_def load_pprof_def pprof_failed_def Let_def split: sum.splits)
  next
    case 3
    have "ends srv 6 (answer srv (AtPprofCpu ?ck files, p\<lparr>rp_pprofLoading := True\<rparr>)) (tail_of srv files (load_pprof srv files p))"
    proof (cases "rs_json srv ?ck")
      case (Inl e)
      then show ?thesis
        using 3 ends_more [OF ends_end_pprof, of 6 srv files "pprof_failed (p\<lparr>rp_pprofLoading := True\<rparr>)"]
        by (simp add: load_pprof_def pprof_failed_def Let_def)
    next
      case (Inr v)
      then show ?thesis
        using 3 ends_pprof_heap [of srv files "p\<lparr>rp_pprofLoading := True, rp_pprofCpuData := cpu_samples v\<rparr>"]
        by (cases "?hk = []") (simp_all add: load_pprof_def pprof_failed_def Let_def split: sum.splits)
    qed
    then show ?thesis
      using 3 ends_step [of srv 6 "(AtPprofCpu ?ck files, p\<lparr>rp_pprofLoading := True\<rparr>)"]
      by (simp add: to_pprof_def Let_def)
  qed
qed

lemma ends_ebpf: "ends srv 8 (to_ebpf files p) (tail_of srv files (load_pprof srv files (load_ebpf srv files p)))"
proof (cases "file_key (find_named ''biosnoop_stats.json'' files) = []")
  case True
  then show ?thesis
    using ends_more [OF ends_pprof, of 8] by (simp add: to_ebpf_def load_ebpf_def Let_def)
next
  case False
  then show ?thesis
    using ends_step [of srv 7 "(AtEbpf (file_key (find_named ''biosnoop_stats.json'' files)) files, p\<lparr>rp_eBpfLoading := True\<rparr>)"]
      ends_pprof by (simp add: to_ebpf_def load_ebpf_def Let_def)
qed

lemma ends_collapsed:
  "ends srv 9 (to_collapsed files p)
     (tail_of srv files (load_pprof srv files (load_ebpf srv files (load_collapsed srv files p))))"
proof (cases "file_key (collapsedFile files) = []")
  case True
  then show ?thesis
    using ends_more [OF ends_ebpf, of 9] by (simp add: to_collapsed_def load_collapsed_def Let_def)
next
  case False
  then show ?thesis
    using ends_step [of srv 8 "(AtCollapsed (file_key (collapsedFile files)) files, p)"] ends_ebpf
    by (simp add: to_collapsed_def load_collapsed_def Let_def)
qed

lemma ends_top: "ends srv 10 (to_top files p) ((load_artifacts srv files p)\<lparr>rp_loading := False\<rparr>)"
proof (cases "file_key (find_named ''top.json'' files) = []")
  case True
  then show ?thesis
    using ends_more [OF ends_collapsed, of 10] by (simp add: to_top_def load_top_def load_artifacts_def Let_def)
next
  case False
  then show ?thesis
    using ends_step [of srv 9 "(AtTop (file_key (find_named ''top.json'' files)) files, p)"] ends_collapsed
    by (simp add: to_top_def load_top_def load_artifacts_def Let_def)
qed

abbreviation rest_of :: "result_server \<Rightarrow> TaskDetailData \<Rightarrow> result_page \<Rightarrow> result_page" where
  "rest_of srv d p \<equiv> (load_artifacts srv (files_of srv d) (load_files srv d p))\<lparr>rp_loading := False\<rparr>"

lemma ends_files:
  assumes "rp_cosFiles p = opt_items (td_cos_files d)"
  shows "ends srv 11 (to_files d p) (rest_of srv d p)"
proof (cases "opt_items (td_cos_files d) = []")
  case True
  have "ends srv 10 (answer srv (AtFiles, p)) (rest_of srv d p)"
    using ends_top by (simp add: True files_of_def load_files_def split: sum.split)
  then show ?thesis
    using ends_step [of srv 10 "(AtFiles, p)"] by (simp add: to_files_def True)
next
  case False
  then have "p\<lparr>rp_cosFiles := files_of srv d\<rparr> = p"
    using assms by (simp add: files_of_def)
  then show ?thesis
    using False ends_more [OF ends_top, of 11] by (simp add: to_files_def files_of_def load_files_def)
qed

lemma flame_stored_files: "rp_cosFiles (flame_stored srv type key p) = rp_cosFiles p"
  by (simp add: flame_stored_def flame_failed_def split: sum.split)

lemma load_flame_drawn:
  assumes "rs_flame srv = Inr res" and "res_data res = Some f" and "opt_str (fd_key f) = key"
  shows "load_flame srv p =
    (if res_code res = 0 \<and> key \<noteq> [] \<and> drawable (fd_type f)
     then flame_stored srv (fd_type f) key (p\<lparr>rp_flameError := []\<rparr>) else p\<lparr>rp_flameError := []\<rparr>)"
  using assms by (auto simp: load_flame_def drawable_def flame_stored_def flame_failed_def Let_def split: sum.split)

lemma ends_flame:
  assumes "rp_cosFiles p = opt_items (td_cos_files d)"
  shows "ends srv 12 (answer_flame srv d p) (rest_of srv d (load_flame srv p))"
proof (cases "rs_flame srv")
  case (Inl e)
  then show ?thesis
    using ends_more [OF ends_files, of "flame_failed p" d 12] assms
    by (simp add: answer_flame_def load_flame_def flame_failed_def)
next
  case (Inr res)
  show ?thesis
  proof (cases "res_data res")
    case None
    with Inr show ?thesis
      using ends_more [OF ends_files, of "p\<lparr>rp_flameError := []\<rparr>" d 12] assms
      by (simp add: answer_flame_def load_flame_def Let_def)
  next
    case (Some f)
    let ?p = "p\<lparr>rp_flameError := []\<rparr>"
    note drawn = load_flame_drawn [OF Inr Some refl, of p]
    show ?thesis
    proof (cases "res_code res = 0 \<and> opt_str (fd_key f) \<noteq> [] \<and> drawable (fd_type f)")
      case True
      then show ?thesis
        using ends_step [of srv 11 "(AtFlameArtifact (fd_type f) (opt_str (fd_key f)) d, ?p)"]
          ends_files [of "flame_stored srv (fd_type f) (opt_str (fd_key f)) ?p" d srv] assms
        by (simp add: answer_flame_def Inr Some drawn flame_stored_files Let_def)
    next
      case False
      then show ?thesis
        using ends_more [OF ends_files, of ?p d 12] assms
        by (auto simp: answer_flame_def Inr Some drawn Let_def)
    qed
  qed
qed

text \<open>
  C3: answered one request after the other by the same server, the load that is cut at its requests
  ends after at most fifteen answers, whatever is missing or rejected on the way, and leaves exactly the page of the
  load as one function. Every request the code sends is one of the points, so a load can never wait for more than
  fifteen answers.
\<close>

theorem load_steps_refine:
  assumes "rp_tid p \<noteq> []"
  shows "\<exists>n \<le> 15. (answer srv ^^ n) (AtDetail, load_begin p) = (Finished, result_loadTask srv p)"
proof -
  let ?b = "load_begin p"
  have "ends srv 14 (answer srv (AtDetail, ?b)) (result_loadTask srv p)"
  proof (cases "detail_result srv")
    case (Inl e)
    then show ?thesis
      using ends_finish [of srv 14 "?b\<lparr>rp_error := err_text e msg_detail_failed\<rparr>"] assms
      by (simp add: result_loadTask_def Let_def)
  next
    case (Inr td)
    obtain t d where td: "td = (t, d)" by (cases td)
    let ?q = "load_suggestions srv (load_detail (t, d) ?b)"
    have "rp_cosFiles ?q = opt_items (td_cos_files d)"
      by (simp add: load_suggestions_def load_detail_def split: sum.split)
    from ends_flame [OF this, of srv] have "ends srv 13 (AtFlame d, ?q) (rest_of srv d (load_flame srv ?q))"
      using ends_step [of srv 12 "(AtFlame d, ?q)"] by simp
    then have "ends srv 14 (AtSuggestions d, load_detail (t, d) ?b) (rest_of srv d (load_flame srv ?q))"
      using ends_step [of srv 13 "(AtSuggestions d, load_detail (t, d) ?b)"] by simp
    then show ?thesis
      using assms by (simp add: Inr td result_loadTask_def Let_def)
  qed
  then have "ends srv 15 (AtDetail, ?b) (result_loadTask srv p)"
    using ends_step [of srv 14 "(AtDetail, ?b)"] by simp
  then show ?thesis
    unfolding ends_def by blast
qed

theorem load_steps_refine_witness:
  "\<exists>n \<le> 15. fst ((answer sample_result_server ^^ n) (AtDetail, load_begin (page_of [49]))) = Finished"
proof -
  have "rp_tid (page_of [49]) \<noteq> []"
    by (simp add: page_of_def reset_page_def)
  from load_steps_refine [OF this, of sample_result_server] show ?thesis
    by (metis fst_conv)
qed

section \<open>Spinners\<close>

text \<open>The panels that can spin, and the points at which a load makes them spin.\<close>

datatype spinner = EbpfSpinner | PprofSpinner | MemraySpinner

fun spins :: "spinner \<Rightarrow> result_page \<Rightarrow> bool" where
  "spins EbpfSpinner p = rp_eBpfLoading p"
| "spins PprofSpinner p = rp_pprofLoading p"
| "spins MemraySpinner p = rp_memrayLoading p"

fun waits :: "spinner \<Rightarrow> load_point \<Rightarrow> bool" where
  "waits EbpfSpinner (AtEbpf key files) = True"
| "waits PprofSpinner (AtPprofCpu key files) = True"
| "waits PprofSpinner (AtPprofHeap key files) = True"
| "waits MemraySpinner (AtMemray key) = True"
| "waits _ _ = False"

text \<open>
  What the code between two points does to the page: it starts a spinner only on the way to the point that stops it,
  takes a Memray slot only on the way to its download, leaves the task and its id alone, and ends the main flag
  exactly when the load ends.
\<close>

definition moves :: "load_point \<times> result_page \<Rightarrow> result_page \<Rightarrow> bool" where
  "moves c p \<longleftrightarrow>
     (\<forall>k. spins k (snd c) \<longrightarrow> spins k p \<or> waits k (fst c)) \<and>
     rp_task (snd c) = rp_task p \<and> rp_tid (snd c) = rp_tid p \<and>
     rp_memray (snd c) = (if waits MemraySpinner (fst c) then memray_start (rp_memray p) else rp_memray p) \<and>
     (waits MemraySpinner (fst c) \<longrightarrow> mr_ref (rp_memray p) = None) \<and>
     (rp_loading (snd c) \<longrightarrow> rp_loading p \<and> fst c \<noteq> Finished)"

text \<open>Updates of the page that none of this depends on, except that they may stop a spinner.\<close>

definition quiet :: "result_page \<Rightarrow> result_page \<Rightarrow> bool" where
  "quiet q p \<longleftrightarrow>
     (\<forall>k. spins k q \<longrightarrow> spins k p) \<and> rp_task q = rp_task p \<and> rp_tid q = rp_tid p \<and>
     rp_memray q = rp_memray p \<and> rp_loading q = rp_loading p"

lemma spinner_all: "(\<forall>k. P k) \<longleftrightarrow> P EbpfSpinner \<and> P PprofSpinner \<and> P MemraySpinner"
  by (metis spinner.exhaust)

lemma moves_quiet: "moves c q \<Longrightarrow> quiet q p \<Longrightarrow> moves c p"
  by (auto simp: moves_def quiet_def split: if_splits)

lemma waits_none [simp]:
  "\<not> waits k AtDetail" "\<not> waits k (AtSuggestions d)" "\<not> waits k (AtFlame d)" "\<not> waits k (AtFlameArtifact t key d)"
  "\<not> waits k AtFiles" "\<not> waits k (AtTop key files)" "\<not> waits k (AtCollapsed key files)"
  "\<not> waits k (AtRow key f row files)" "\<not> waits k Finished"
  by (cases k, simp_all)+

lemma waits_one [simp]:
  "waits k (AtEbpf key files) \<longleftrightarrow> k = EbpfSpinner" "waits k (AtPprofCpu key files) \<longleftrightarrow> k = PprofSpinner"
  "waits k (AtPprofHeap key files) \<longleftrightarrow> k = PprofSpinner" "waits k (AtMemray key) \<longleftrightarrow> k = MemraySpinner"
  by (cases k, simp_all)+

lemma moves_at:
  "moves (AtFiles, p) p" "moves (AtTop key files, p) p" "moves (AtCollapsed key files, p) p"
  "moves (AtRow key f row files, p) p" "moves (AtPprofHeap key files, p) p"
  "moves (AtEbpf key files, p\<lparr>rp_eBpfLoading := True\<rparr>) p" "moves (AtPprofCpu key files, p\<lparr>rp_pprofLoading := True\<rparr>) p"
  by (simp_all add: moves_def spinner_all)

lemma moves_finish: "moves (finish p) p"
  by (simp add: moves_def finish_def spinner_all)

lemma moves_memray: "moves (to_memray files p) p"
proof -
  have "mr_ref (rp_memray p) = None \<Longrightarrow>
      moves (AtMemray key, p\<lparr>rp_memray := memray_start (rp_memray p), rp_memrayLoading := True\<rparr>) p" for key
    by (simp add: moves_def spinner_all)
  then show ?thesis
    using moves_finish [of p] by (auto simp: to_memray_def Let_def)
qed

lemma moves_row: "moves (to_row files row p) p"
  by (induction files row p rule: to_row.induct) (simp_all add: moves_memray moves_at)

lemma moves_end_pprof:
  "moves (end_pprof files p) p" "\<not> rp_pprofLoading (snd (end_pprof files p))"
proof -
  have "moves (end_pprof files p) (p\<lparr>rp_pprofLoading := False\<rparr>)"
    unfolding end_pprof_def by (rule moves_row)
  then show "moves (end_pprof files p) p"
    by (rule moves_quiet) (simp add: quiet_def spinner_all)
  have "rp_pprofLoading (snd (to_row files row q)) = rp_pprofLoading q" for row q
    by (induction files row q rule: to_row.induct) (auto simp: to_memray_def finish_def Let_def)
  then show "\<not> rp_pprofLoading (snd (end_pprof files p))"
    by (simp add: end_pprof_def)
qed

lemma moves_pprof_heap:
  "moves (to_pprof_heap files p) p"
  "rp_pprofLoading (snd (to_pprof_heap files p)) \<Longrightarrow> waits PprofSpinner (fst (to_pprof_heap files p))"
  using moves_end_pprof [of files p] by (auto simp: to_pprof_heap_def Let_def moves_at split: if_splits)

lemma moves_pprof_start: "moves (to_pprof_heap files (p\<lparr>rp_pprofLoading := True\<rparr>)) p"
  using moves_pprof_heap [of files "p\<lparr>rp_pprofLoading := True\<rparr>"]
  by (simp add: moves_def spinner_all del: waits_one)

lemma moves_pprof: "moves (to_pprof files p) p"
  by (simp add: to_pprof_def Let_def moves_row moves_pprof_start moves_at)

lemma moves_ebpf: "moves (to_ebpf files p) p"
  by (simp add: to_ebpf_def Let_def moves_pprof moves_at)

lemma moves_collapsed: "moves (to_collapsed files p) p"
  by (simp add: to_collapsed_def Let_def moves_ebpf moves_at)

lemma moves_top: "moves (to_top files p) p"
  by (simp add: to_top_def Let_def moves_collapsed moves_at)

lemma moves_files: "moves (to_files d p) p"
  by (simp add: to_files_def moves_top moves_at)

lemmas moves_all = moves_files moves_top moves_collapsed moves_ebpf moves_pprof moves_row moves_memray

text \<open>
  The whole answer: besides, it stops the spinner of its own point; it changes the task only at the first point; and
  it gives the Memray slot back at the last.
\<close>

definition answered :: "load_point \<Rightarrow> load_point \<times> result_page \<Rightarrow> result_page \<Rightarrow> bool" where
  "answered pt c p \<longleftrightarrow>
     (\<forall>k. spins k (snd c) \<longrightarrow> spins k p \<and> \<not> waits k pt \<or> waits k (fst c)) \<and>
     rp_tid (snd c) = rp_tid p \<and> (pt \<noteq> AtDetail \<longrightarrow> rp_task (snd c) = rp_task p) \<and>
     (\<exists>html. rp_memray (snd c) =
        (if waits MemraySpinner (fst c) then memray_start (rp_memray p)
         else if waits MemraySpinner pt then memray_done html (rp_memray p) else rp_memray p)) \<and>
     (waits MemraySpinner (fst c) \<longrightarrow> \<not> waits MemraySpinner pt \<and> mr_ref (rp_memray p) = None) \<and>
     (rp_loading (snd c) \<longrightarrow> rp_loading p \<and> fst c \<noteq> Finished)"

lemma answered_moves:
  assumes "moves c q" and "quiet q p" and "\<And>k. waits k pt \<Longrightarrow> spins k (snd c) \<Longrightarrow> waits k (fst c)"
    and "\<not> waits MemraySpinner pt"
  shows "answered pt c p"
  using moves_quiet [OF assms(1,2)] assms(3,4) by (auto simp: answered_def moves_def)

lemma answered_plain:
  assumes "moves c q" and "quiet q p" and "\<And>k. \<not> waits k pt"
  shows "answered pt c p"
  using assms by (intro answered_moves) auto

lemma quiet_updates:
  "quiet (load_suggestions srv p) p" "quiet (flame_stored srv type key p) p" "quiet (flame_failed p) p"
  "quiet (p\<lparr>rp_flameError := x\<rparr>) p" "quiet (p\<lparr>rp_cosFiles := fs\<rparr>) p" "quiet (p\<lparr>rp_topn := t\<rparr>) p"
  "quiet (p\<lparr>rp_collapsedText := y\<rparr>) p" "quiet p p" "quiet (pprof_failed p) p" "quiet (p\<lparr>rp_pprofCpuData := v\<rparr>) p"
  "quiet (p\<lparr>rp_pprofHeapData := v\<rparr>) p" "quiet (p\<lparr>rp_eBpfData := v, rp_eBpfLoading := False\<rparr>) p"
  by (simp_all add: quiet_def spinner_all load_suggestions_def flame_stored_def flame_failed_def pprof_failed_def split: sum.split)

lemma quiet_row: "quiet (store_row f v p) p"
  by (cases f) (simp_all add: quiet_def spinner_all)

lemma moves_flame: "moves (answer_flame srv d p) p"
proof -
  have a: "moves (AtFlameArtifact t key d, p\<lparr>rp_flameError := x\<rparr>) p" for t key x
    by (simp add: moves_def spinner_all)
  have b: "moves (to_files d (p\<lparr>rp_flameError := x\<rparr>)) p" for x
    using moves_files quiet_updates(4) by (rule moves_quiet)
  from a b show ?thesis
    by (simp add: answer_flame_def flame_failed_def Let_def split: sum.split option.split)
qed

lemma answer_detail: "answered AtDetail (answer srv (AtDetail, p)) p"
  by (simp add: answered_def finish_def load_detail_def spinner_all split: sum.split prod.split)

lemma answer_pprof_cpu: "answered (AtPprofCpu key files) (answer srv (AtPprofCpu key files, p)) p"
proof (cases "rs_json srv key")
  case (Inl e)
  then show ?thesis
    using moves_end_pprof [of files "pprof_failed p"] quiet_updates(9) by (intro answered_moves) auto
next
  case (Inr v)
  then show ?thesis
    using moves_pprof_heap [of files "p\<lparr>rp_pprofCpuData := cpu_samples v\<rparr>"] quiet_updates(10)
    by (intro answered_moves) auto
qed

lemma answer_pprof_heap: "answered (AtPprofHeap key files) (answer srv (AtPprofHeap key files, p)) p"
proof -
  have "answered (AtPprofHeap key files) (end_pprof files q) p" if "quiet q p" for q
    using moves_end_pprof [of files q] that by (intro answered_moves) auto
  then show ?thesis
    using quiet_updates(9,11) by (simp split: sum.split)
qed

lemma answer_ebpf: "answered (AtEbpf key files) (answer srv (AtEbpf key files, p)) p"
proof -
  let ?q = "p\<lparr>rp_eBpfData := (case rs_json srv key of Inl e \<Rightarrow> Null | Inr v \<Rightarrow> v), rp_eBpfLoading := False\<rparr>"
  have "spins EbpfSpinner (snd (to_pprof files ?q)) \<longrightarrow> spins EbpfSpinner ?q \<or> waits EbpfSpinner (fst (to_pprof files ?q))"
    using moves_pprof [of files ?q] unfolding moves_def by blast
  then show ?thesis
    by (auto intro!: answered_moves [OF moves_pprof quiet_updates(12)])
qed

lemma answer_memray: "answered (AtMemray key) (answer srv (AtMemray key, p)) p"
  by (auto simp: answered_def finish_def memray_answered_def spinner_all split: sum.split)

lemma answer_answered:
  assumes "pt \<noteq> Finished"
  shows "answered pt (answer srv (pt, p)) p"
proof (cases pt)
  case (AtSuggestions d)
  have "moves (AtFlame d, load_suggestions srv p) (load_suggestions srv p)"
    by (simp add: moves_def spinner_all)
  then show ?thesis
    unfolding AtSuggestions answer.simps by (rule answered_plain) (simp_all add: quiet_updates)
next
  case (AtFlame d)
  show ?thesis
    unfolding AtFlame answer.simps by (rule answered_plain [OF moves_flame]) (simp_all add: quiet_updates)
next
  case (AtFlameArtifact t key d)
  show ?thesis
    unfolding AtFlameArtifact answer.simps by (rule answered_plain [OF moves_files]) (simp_all add: quiet_updates)
next
  case AtFiles
  show ?thesis
    unfolding AtFiles answer.simps
    by (auto intro!: answered_plain [OF moves_top] simp: quiet_updates split: sum.split)
next
  case (AtTop key files)
  show ?thesis
    unfolding AtTop answer.simps
    by (rule answered_plain [OF moves_collapsed]) (simp_all add: quiet_updates split: sum.split)
next
  case (AtCollapsed key files)
  show ?thesis
    unfolding AtCollapsed answer.simps
    by (rule answered_plain [OF moves_ebpf]) (simp_all add: quiet_updates split: sum.split)
next
  case (AtRow key f row files)
  show ?thesis
    unfolding AtRow answer.simps
    by (auto intro!: answered_plain [OF moves_row] answered_plain [OF moves_memray] simp: quiet_updates quiet_row split: sum.split)
qed (use assms in \<open>simp_all only: answer_detail answer_ebpf answer_pprof_cpu answer_pprof_heap answer_memray simp_thms\<close>)

end
