(* ===== verification/Result_Race.thy ===== *)
theory Result_Race
  imports Result_Steps
begin

text \<open>
  Loads of the result page that overlap (\<open>src/web/src/pages/TaskResult.tsx\<close>): the interval, the refresh button and a
  new analysis start a load while others are under way, each of which waits at one of the points of
  \<open>Result_Steps\<close>, and the task id in the address can change meanwhile. Any load can be answered next.
\<close>

section \<open>Steps\<close>

text \<open>\<open>rh_loads\<close> holds the loads under way with the task id of their closure, \<open>rh_timer\<close> says that the interval is set.\<close>

record result_host =
  rh_page :: result_page
  rh_loads :: "(jstring \<times> load_point) list"
  rh_timer :: bool

definition start_load :: "result_host \<Rightarrow> result_host" where
  "start_load h =
     (let p = rh_page h
      in if rp_tid p = [] then h\<lparr>rh_page := p\<lparr>rp_error := msg_no_tid, rp_loading := False\<rparr>\<rparr>
         else h\<lparr>rh_page := load_begin p, rh_loads := rh_loads h @ [(rp_tid p, AtDetail)]\<rparr>)"

text \<open>The answer to the request of the load number \<open>i\<close>.\<close>

definition answer_load :: "nat \<Rightarrow> result_server \<Rightarrow> result_host \<Rightarrow> result_host" where
  "answer_load i srv h =
     (let (tid, pt) = rh_loads h ! i; (pt', p) = answer srv (pt, rh_page h)
      in h\<lparr>rh_page := p,
           rh_loads := take i (rh_loads h) @ (if pt' = Finished then [] else [(tid, pt')]) @ drop (Suc i) (rh_loads h)\<rparr>)"

text \<open>A tick of the interval; \<open>taskRef.current\<close> is the task of the last render.\<close>

definition tick :: "result_host \<Rightarrow> result_host" where
  "tick h = (if \<not> shouldPollTask (rp_task (rh_page h)) then h\<lparr>rh_timer := False\<rparr> else start_load h)"

text \<open>A new task id in the address: the reset, then the loading flag and a load, and a new interval.\<close>

definition open_tid :: "jstring \<Rightarrow> result_host \<Rightarrow> result_host" where
  "open_tid tid h = start_load (h\<lparr>rh_page := (reset_page tid (rh_page h))\<lparr>rp_loading := True\<rparr>, rh_timer := True\<rparr>)"

text \<open>The server answers for the task it was asked about.\<close>

definition answers_for :: "jstring \<Rightarrow> result_server \<Rightarrow> bool" where
  "answers_for tid srv \<longleftrightarrow> (\<forall>t d. detail_result srv = Inr (t, d) \<longrightarrow> t_tid t = tid)"

text \<open>With \<open>free\<close> the address may change at any time, without it only while no load is under way.\<close>

inductive result_step :: "bool \<Rightarrow> result_host \<Rightarrow> result_host \<Rightarrow> bool" for free where
  ticked: "rh_timer h \<Longrightarrow> result_step free h (tick h)"
| reload: "result_step free h (start_load h)"
| answered: "i < length (rh_loads h) \<Longrightarrow> answers_for (fst (rh_loads h ! i)) srv \<Longrightarrow> result_step free h (answer_load i srv h)"
| navigate: "free \<or> rh_loads h = [] \<Longrightarrow> tid \<noteq> rp_tid (rh_page h) \<Longrightarrow> result_step free h (open_tid tid h)"

definition result_opened :: "jstring \<Rightarrow> result_host" where
  "result_opened tid = start_load \<lparr>rh_page = page_of tid, rh_loads = [], rh_timer = True\<rparr>"

definition result_reachable :: "bool \<Rightarrow> jstring \<Rightarrow> result_host \<Rightarrow> bool" where
  "result_reachable free tid h \<longleftrightarrow> (result_step free)\<^sup>*\<^sup>* (result_opened tid) h"

section \<open>Invariants\<close>

definition downloads :: "(jstring \<times> load_point) list \<Rightarrow> nat" where
  "downloads loads = length (filter (\<lambda>ld. waits MemraySpinner (snd ld)) loads)"

text \<open>What spins is waited for, and the Memray component is in step with the downloads under way.\<close>

definition spin_inv :: "result_host \<Rightarrow> bool" where
  "spin_inv h \<longleftrightarrow>
     (\<forall>k. spins k (rh_page h) \<longrightarrow> (\<exists>ld \<in> set (rh_loads h). waits k (snd ld))) \<and>
     (rp_loading (rh_page h) \<longrightarrow> rh_loads h \<noteq> []) \<and> Finished \<notin> snd ` set (rh_loads h)"

definition memray_sim :: "result_host \<Rightarrow> bool" where
  "memray_sim h \<longleftrightarrow>
     memray_reachable (rp_memray (rh_page h)) \<and> mr_mounted (rp_memray (rh_page h)) \<and>
     mr_pending (rp_memray (rh_page h)) = downloads (rh_loads h)"

definition own_inv :: "result_host \<Rightarrow> bool" where
  "own_inv h \<longleftrightarrow>
     (\<forall>ld \<in> set (rh_loads h). fst ld = rp_tid (rh_page h)) \<and>
     (\<forall>t. rp_task (rh_page h) = Some t \<longrightarrow> t_tid t = rp_tid (rh_page h))"

lemmas result_invs = spin_inv_def memray_sim_def own_inv_def downloads_def

text \<open>The load that is answered, among the others.\<close>

lemma answer_load_split:
  assumes "rh_loads h = xs @ (tid, pt) # ys" and "i = length xs" and "answer srv (pt, rh_page h) = (pt', p)"
  shows "answer_load i srv h = h\<lparr>rh_page := p, rh_loads := xs @ (if pt' = Finished then [] else [(tid, pt')]) @ ys\<rparr>"
  using assms by (simp add: answer_load_def)

lemma nth_split:
  assumes "i < length loads"
  obtains xs tid pt ys where "loads = xs @ (tid, pt) # ys" and "i = length xs" and "loads ! i = (tid, pt)"
  using id_take_nth_drop [OF assms] assms by (cases "loads ! i") (metis length_take min.absorb4)

lemma start_load_spin:
  assumes "\<forall>k. spins k (rh_page h) \<longrightarrow> (\<exists>ld \<in> set (rh_loads h). waits k (snd ld))" and "Finished \<notin> snd ` set (rh_loads h)"
  shows "spin_inv (start_load h)"
  using assms by (auto simp: spin_inv_def start_load_def load_begin_def spinner_all Let_def)

lemma start_load_memray: "memray_sim h \<Longrightarrow> memray_sim (start_load h)"
  by (simp add: memray_sim_def start_load_def load_begin_def downloads_def Let_def)

lemma start_load_own: "own_inv h \<Longrightarrow> own_inv (start_load h)"
  by (auto simp: own_inv_def start_load_def load_begin_def Let_def)

lemma answer_load_spin:
  assumes "spin_inv h" and "i < length (rh_loads h)"
  shows "spin_inv (answer_load i srv h)"
proof -
  obtain xs tid pt ys where l: "rh_loads h = xs @ (tid, pt) # ys" "i = length xs"
    using assms(2) by (rule nth_split)
  obtain pt' p where a: "answer srv (pt, rh_page h) = (pt', p)" by fastforce
  have "pt \<noteq> Finished"
    using assms(1) l by (force simp: spin_inv_def)
  then have "answered pt (pt', p) (rh_page h)"
    using answer_answered [of pt srv "rh_page h"] a by simp
  then have spin: "\<forall>k. spins k p \<longrightarrow> spins k (rh_page h) \<and> \<not> waits k pt \<or> waits k pt'"
    and loading: "rp_loading p \<longrightarrow> rp_loading (rh_page h) \<and> pt' \<noteq> Finished"
    by (simp_all add: answered_def)
  let ?new = "xs @ (if pt' = Finished then [] else [(tid, pt')]) @ ys"
  have "\<exists>ld \<in> set ?new. waits k (snd ld)" if "spins k p" for k
  proof (cases "waits k pt'")
    case True
    then have "pt' \<noteq> Finished" by auto
    with True show ?thesis by auto
  next
    case False
    with spin that have "spins k (rh_page h)" "\<not> waits k pt" by auto
    with assms(1) obtain ld where "ld \<in> set (rh_loads h)" "waits k (snd ld)"
      by (auto simp: spin_inv_def)
    with \<open>\<not> waits k pt\<close> show ?thesis by (auto simp: l)
  qed
  moreover have "Finished \<notin> snd ` set ?new"
    using assms(1) by (auto simp: spin_inv_def l)
  ultimately show ?thesis
    using loading by (auto simp: spin_inv_def answer_load_split [OF l a])
qed

lemma answer_load_memray:
  assumes "memray_sim h" and "spin_inv h" and "i < length (rh_loads h)"
  shows "memray_sim (answer_load i srv h)"
proof -
  obtain xs tid pt ys where l: "rh_loads h = xs @ (tid, pt) # ys" "i = length xs"
    using assms(3) by (rule nth_split)
  obtain pt' p where a: "answer srv (pt, rh_page h) = (pt', p)" by fastforce
  let ?m = "rp_memray (rh_page h)"
  have sim: "memray_reachable ?m" "mr_mounted ?m" "mr_pending ?m = downloads (xs @ (tid, pt) # ys)"
    using assms(1) by (simp_all add: memray_sim_def l)
  have "pt \<noteq> Finished"
    using assms(2) l by (force simp: spin_inv_def)
  then have "answered pt (pt', p) (rh_page h)"
    using answer_answered [of pt srv "rh_page h"] a by simp
  then obtain html where m: "rp_memray p =
        (if waits MemraySpinner pt' then memray_start ?m else if waits MemraySpinner pt then memray_done html ?m else ?m)"
    and free: "waits MemraySpinner pt' \<longrightarrow> \<not> waits MemraySpinner pt \<and> mr_ref ?m = None"
    by (auto simp: answered_def)
  have fin: "memray_reachable (memray_done html ?m)" if "waits MemraySpinner pt"
    using sim that by (intro memray_reachable.finished) (simp_all add: downloads_def)
  have frame: "mr_mounted (memray_done html ?m) = mr_mounted ?m" "mr_pending (memray_done html ?m) = mr_pending ?m - 1"
    by (simp_all add: memray_done_def revoke_def Let_def)
  have "memray_reachable (memray_start ?m)" "mr_mounted (memray_start ?m)"
    using sim memray_reachable.load [of ?m] by (simp_all add: memray_start_def)
  moreover have "waits MemraySpinner pt' \<longrightarrow> mr_pending (memray_start ?m) = Suc (mr_pending ?m)"
    using free by (simp add: memray_start_def)
  ultimately show ?thesis
    using fin frame m free sim by (auto simp: memray_sim_def answer_load_split [OF l a] downloads_def)
qed

lemma answer_load_own:
  assumes "own_inv h" and "spin_inv h" and "i < length (rh_loads h)" and "answers_for (fst (rh_loads h ! i)) srv"
  shows "own_inv (answer_load i srv h)"
proof -
  obtain xs tid pt ys where l: "rh_loads h = xs @ (tid, pt) # ys" "i = length xs"
    using assms(3) by (rule nth_split)
  obtain pt' p where a: "answer srv (pt, rh_page h) = (pt', p)" by fastforce
  have "pt \<noteq> Finished"
    using assms(2) l by (force simp: spin_inv_def)
  then have ans: "rp_tid p = rp_tid (rh_page h)" "pt \<noteq> AtDetail \<longrightarrow> rp_task p = rp_task (rh_page h)"
    using answer_answered [of pt srv "rh_page h"] a by (simp_all add: answered_def)
  have "t_tid t = rp_tid (rh_page h)" if "rp_task p = Some t" for t
  proof (cases "pt = AtDetail")
    case True
    have own: "answers_for tid srv" "tid = rp_tid (rh_page h)"
      using assms(1,4) by (simp_all add: l own_inv_def)
    show ?thesis
      using a that own assms(1)
      by (auto simp: True answers_for_def own_inv_def finish_def load_detail_def split: sum.splits prod.splits)
  next
    case False
    with ans that assms(1) show ?thesis by (simp add: own_inv_def)
  qed
  with ans(1) assms(1) show ?thesis
    unfolding answer_load_split [OF l a] by (auto simp: own_inv_def l)
qed

lemma reset_page_frame:
  "\<not> spins k (reset_page tid p)" "rp_task (reset_page tid p) = None" "rp_tid (reset_page tid p) = tid"
  "rp_memray (reset_page tid p) = clearMemrayHtmlUrl (rp_memray p)"
  by (cases k) (simp_all add: reset_page_def)

lemma clear_frame:
  "mr_mounted (clearMemrayHtmlUrl m) = mr_mounted m" "mr_pending (clearMemrayHtmlUrl m) = mr_pending m"
  by (simp_all add: clearMemrayHtmlUrl_def revoke_def)

lemma result_step_inv_spin: "result_step free h h' \<Longrightarrow> spin_inv h \<Longrightarrow> spin_inv h'"
proof (induction rule: result_step.induct)
  case (ticked h)
  then show ?case using start_load_spin [of h] by (simp add: tick_def spin_inv_def)
next
  case (reload h)
  then show ?case using start_load_spin [of h] by (simp add: spin_inv_def)
next
  case (answered i h srv)
  then show ?case using answer_load_spin by blast
next
  case (navigate h tid)
  have "spins k (p\<lparr>rp_loading := b\<rparr>) = spins k p" for k p b
    by (cases k) simp_all
  then show ?case
    unfolding open_tid_def using navigate by (intro start_load_spin) (simp_all add: reset_page_frame spin_inv_def)
qed

lemma result_step_inv_memray: "result_step free h h' \<Longrightarrow> memray_sim h \<and> spin_inv h \<Longrightarrow> memray_sim h'"
proof (induction rule: result_step.induct)
  case (ticked h)
  then show ?case using start_load_memray [of h] by (simp add: tick_def memray_sim_def)
next
  case (reload h)
  then show ?case using start_load_memray [of h] by blast
next
  case (answered i h srv)
  then show ?case using answer_load_memray by blast
next
  case (navigate h tid)
  then show ?case
    unfolding open_tid_def
    by (intro start_load_memray) (auto simp: reset_page_frame clear_frame memray_sim_def intro: memray_reachable.clear)
qed

lemma opened_inv: "spin_inv (result_opened tid)" "memray_sim (result_opened tid)"
proof -
  have "memray_reachable (clearMemrayHtmlUrl memray_initial)"
    by (intro memray_reachable.clear memray_reachable.init) (simp add: memray_initial_def)
  then show "spin_inv (result_opened tid)" "memray_sim (result_opened tid)"
    unfolding result_opened_def
    by (intro start_load_spin start_load_memray;
        auto simp: page_of_def reset_page_frame clear_frame memray_sim_def downloads_def memray_initial_def)+
qed

interpretation result_loads: machine "\<lambda>h. \<exists>tid. h = result_opened tid" "result_step free" "\<lambda>h. spin_inv h \<and> memray_sim h" for free
  by unfold_locales (auto intro: opened_inv result_step_inv_spin result_step_inv_memray)

lemma result_reachable_inv: "result_reachable free tid h \<Longrightarrow> spin_inv h \<and> memray_sim h"
  unfolding result_reachable_def using result_loads.reachable by blast

lemma opened_own: "own_inv (result_opened tid)"
  unfolding result_opened_def by (rule start_load_own) (simp add: own_inv_def page_of_def reset_page_frame)

lemma result_step_own: "result_step False h h' \<Longrightarrow> own_inv h \<and> spin_inv h \<Longrightarrow> own_inv h'"
proof (induction rule: result_step.induct)
  case (ticked h)
  then show ?case using start_load_own [of h] by (simp add: tick_def own_inv_def)
next
  case (reload h)
  then show ?case using start_load_own [of h] by blast
next
  case (answered i h srv)
  then show ?case using answer_load_own by blast
next
  case (navigate h tid)
  then show ?case
    unfolding open_tid_def by (intro start_load_own) (simp add: own_inv_def reset_page_frame)
qed

interpretation result_owner: machine "\<lambda>h. \<exists>tid. h = result_opened tid" "result_step False" "\<lambda>h. own_inv h \<and> spin_inv h"
  by unfold_locales (auto intro: opened_own opened_inv(1) result_step_own result_step_inv_spin)

section \<open>Answers end every load\<close>

text \<open>How many requests can still follow at a point, this one included.\<close>

fun rank :: "load_point \<Rightarrow> nat" where
  "rank AtDetail = 15"
| "rank (AtSuggestions d) = 14"
| "rank (AtFlame d) = 13"
| "rank (AtFlameArtifact type key d) = 12"
| "rank AtFiles = 11"
| "rank (AtTop key files) = 10"
| "rank (AtCollapsed key files) = 9"
| "rank (AtEbpf key files) = 8"
| "rank (AtPprofCpu key files) = 7"
| "rank (AtPprofHeap key files) = 6"
| "rank (AtRow key f row files) = 2 + length row"
| "rank (AtMemray key) = 1"
| "rank Finished = 0"

lemma rank_finish: "rank (fst (finish p)) = 0"
  by (simp add: finish_def)

lemma rank_memray: "rank (fst (to_memray files p)) \<le> 1"
  by (simp add: to_memray_def rank_finish Let_def)

lemma rank_row: "rank (fst (to_row files row p)) \<le> Suc (length row)"
proof (induction files row p rule: to_row.induct)
  case (1 files p)
  then show ?case using rank_memray by simp
next
  case (2 files key f row p)
  then show ?case by auto
qed

lemma rank_row_of: "rank (fst (to_row files (row_of files) p)) \<le> 5"
  using rank_row [of files "row_of files" p] by (simp add: row_of_def)

lemma rank_end_pprof: "rank (fst (end_pprof files p)) \<le> 5"
  by (simp add: end_pprof_def rank_row_of)

lemma rank_pprof_heap: "rank (fst (to_pprof_heap files p)) \<le> 6"
  using rank_end_pprof [of files p] by (simp add: to_pprof_heap_def Let_def)

lemma rank_pprof: "rank (fst (to_pprof files p)) \<le> 7"
  using rank_row_of [of files p] rank_pprof_heap [of files "p\<lparr>rp_pprofLoading := True\<rparr>"]
  by (simp add: to_pprof_def Let_def)

lemma rank_ebpf: "rank (fst (to_ebpf files p)) \<le> 8"
  using rank_pprof [of files p] by (simp add: to_ebpf_def Let_def)

lemma rank_collapsed: "rank (fst (to_collapsed files p)) \<le> 9"
  using rank_ebpf [of files p] by (simp add: to_collapsed_def Let_def)

lemma rank_top: "rank (fst (to_top files p)) \<le> 10"
  using rank_collapsed [of files p] by (simp add: to_top_def Let_def)

lemma rank_files: "rank (fst (to_files d p)) \<le> 11"
  using rank_top [of "opt_items (td_cos_files d)" p] by (simp add: to_files_def)

lemma rank_flame: "rank (fst (answer_flame srv d p)) \<le> 12"
  by (auto simp: answer_flame_def Let_def intro: rank_files [THEN order_trans] split: sum.split option.split)

lemma rank_answer: "pt \<noteq> Finished \<Longrightarrow> rank (fst (answer srv (pt, p))) < rank pt"
  by (cases pt) (auto simp: rank_finish less_Suc_eq_le rank_flame rank_files rank_top rank_collapsed rank_ebpf rank_pprof
    rank_pprof_heap rank_end_pprof rank_row rank_memray [THEN order_trans] split: sum.split
    intro: rank_flame [THEN le_less_trans] rank_files [THEN le_less_trans] rank_top [THEN le_less_trans]
      rank_collapsed [THEN le_less_trans] rank_ebpf [THEN le_less_trans] rank_pprof [THEN le_less_trans]
      rank_end_pprof [THEN le_less_trans] rank_pprof_heap [THEN le_less_trans])

text \<open>Steps in which only answers arrive, and the requests the loads under way can still make.\<close>

inductive answer_step :: "result_host \<Rightarrow> result_host \<Rightarrow> bool" where
  "i < length (rh_loads h) \<Longrightarrow> answers_for (fst (rh_loads h ! i)) srv \<Longrightarrow> answer_step h (answer_load i srv h)"

definition requests_left :: "result_host \<Rightarrow> nat" where
  "requests_left h = sum_list (map (rank \<circ> snd) (rh_loads h))"

lemma answer_step_left: "answer_step h h' \<Longrightarrow> spin_inv h \<Longrightarrow> requests_left h' < requests_left h"
proof (induction rule: answer_step.induct)
  case (1 i h srv)
  obtain xs tid pt ys where l: "rh_loads h = xs @ (tid, pt) # ys" "i = length xs"
    using 1(1) by (rule nth_split)
  obtain pt' p where a: "answer srv (pt, rh_page h) = (pt', p)" by fastforce
  have "pt \<noteq> Finished"
    using 1(3) l by (force simp: spin_inv_def)
  then have "rank pt' < rank pt"
    using rank_answer [of pt srv "rh_page h"] a by simp
  then show ?case
    unfolding answer_load_split [OF l a] by (simp add: requests_left_def l)
qed

lemma answer_step_spin: "answer_step h h' \<Longrightarrow> spin_inv h \<Longrightarrow> spin_inv h'"
  by (induction rule: answer_step.induct) (rule answer_load_spin)

interpretation result_answers: machine spin_inv answer_step spin_inv
  by unfold_locales (auto intro: answer_step_spin)

lemma answer_steps_bound: "(answer_step ^^ n) h h' \<Longrightarrow> spin_inv h \<Longrightarrow> n + requests_left h' \<le> requests_left h"
proof (induction n arbitrary: h')
  case (Suc n)
  then obtain m where "(answer_step ^^ n) h m" "answer_step m h'" by auto
  with Suc.IH [of m] Suc.prems(2) answer_step_left [of m h'] result_answers.counted_run [of n h m] show ?case by simp
qed simp

section \<open>Properties\<close>

text \<open>
  C17: in every order of ticks, reloads, answers and changes of the address, a panel of the result
  page spins only while a load that will stop it waits for its answer, and the page says that it is loading only while
  a load is under way. So when nothing is under way, nothing spins, however the loads overlapped and whatever failed.
\<close>

theorem result_spinners_end:
  assumes "result_reachable free tid h"
  shows "(\<forall>k. spins k (rh_page h) \<longrightarrow> (\<exists>ld \<in> set (rh_loads h). waits k (snd ld))) \<and>
    (rp_loading (rh_page h) \<longrightarrow> rh_loads h \<noteq> [])"
  using result_reachable_inv [OF assms] by (simp add: spin_inv_def)

text \<open>
  C24: the Memray part of the page is a run of the machine of object URLs: in every state that
  overlapping loads can reach, the downloads it counts are the loads that wait for a report, the URL in the panel is
  the only one that was created and not revoked, and it is the one the page will revoke.
\<close>

theorem result_memray_refined:
  assumes "result_reachable free tid h" and "m = rp_memray (rh_page h)"
  shows "memray_reachable m \<and> mr_pending m = length (filter (\<lambda>ld. waits MemraySpinner (snd ld)) (rh_loads h)) \<and>
    mr_live m = set_option (mr_url m) \<and> mr_url m = mr_ref m"
proof -
  have "memray_reachable m" "mr_mounted m" "mr_pending m = downloads (rh_loads h)"
    using result_reachable_inv [OF assms(1)] assms(2) by (simp_all add: memray_sim_def)
  with memray_reachable_inv show ?thesis
    by (auto simp: memray_inv_def downloads_def)
qed


text \<open>
  C8: in every state that overlapping loads can reach, the answers still to come are bounded by the
  requests left in the loads under way, whatever the order in which they arrive and whatever fails; as long as a load
  is under way another answer can arrive, and when none is, the page neither loads nor spins. So the loads of the page
  always settle, and only a tick, a reload or a new address sends another request.
\<close>

theorem result_loads_settle:
  assumes "result_reachable free tid h" and "(answer_step ^^ n) h h'"
  shows "n \<le> requests_left h \<and> (rh_loads h' \<noteq> [] \<longrightarrow> (\<exists>h''. answer_step h' h'')) \<and>
    (rh_loads h' = [] \<longrightarrow> \<not> rp_loading (rh_page h') \<and> (\<forall>k. \<not> spins k (rh_page h')))"
proof -
  have inv: "n + requests_left h' \<le> requests_left h" "spin_inv h'"
    using answer_steps_bound [OF assms(2)] result_answers.counted_run [OF assms(2)] result_reachable_inv [OF assms(1)]
    by simp_all
  have "answers_for (fst (rh_loads h' ! 0)) (sample_result_server\<lparr>rs_detail := Inl (mk_error [])\<rparr>)"
    by (simp add: answers_for_def detail_result_def)
  then have "\<exists>h''. answer_step h' h''" if "rh_loads h' \<noteq> []"
    using answer_step.intros [of 0 h'] that by blast
  with inv show ?thesis by (auto simp: spin_inv_def)
qed

section \<open>A run\<close>

text \<open>A server that knows the tasks and nothing else: the detail is answered, all other requests fail.\<close>

definition answer_of :: "jstring \<Rightarrow> result_server" where
  "answer_of tid =
     sample_result_server\<lparr>rs_detail := Inr \<lparr>res_code = 0, res_data = Some \<lparr>td_task = Some (sample_ebpf_task\<lparr>t_tid := tid\<rparr>),
       td_suggestions = None, td_cos_files = None, td_state_history = None\<rparr>, res_message = None\<rparr>\<rparr>"

lemma answer_of_detail:
  "detail_result (answer_of tid) = Inr (sample_ebpf_task\<lparr>t_tid := tid\<rparr>, \<lparr>td_task = Some (sample_ebpf_task\<lparr>t_tid := tid\<rparr>),
     td_suggestions = None, td_cos_files = None, td_state_history = None\<rparr>)"
  by (simp add: answer_of_def detail_result_def Let_def)

lemma answers_for_answer_of: "answers_for tid (answer_of tid)"
  by (simp add: answers_for_def answer_of_detail)

lemma result_opened_loads: "rh_loads (result_opened [49]) = [([49], AtDetail)]" "rh_timer (result_opened [49])"
  by (simp_all add: result_opened_def start_load_def page_of_def reset_page_def Let_def)

text \<open>Four answers end a load of this server.\<close>

lemma answer_of_fails:
  "rs_suggestions (answer_of tid) = Inl (mk_error [])" "rs_flame (answer_of tid) = Inl (mk_error [])"
  "rs_files (answer_of tid) = Inl (mk_error [])"
  by (simp_all add: answer_of_def sample_result_server_def)

lemma no_files: "to_top [] p = finish p"
  by (simp add: to_top_def to_collapsed_def to_ebpf_def to_pprof_def row_of_def to_memray_def find_named_def
    collapsedFile_def file_key_def)

lemma answer_of_ends:
  "\<exists>q. (answer (answer_of tid) ^^ 4) (AtDetail, p) = (Finished, q) \<and> rp_tid q = rp_tid p \<and> \<not> rp_loading q \<and>
    rp_task q = Some (sample_ebpf_task\<lparr>t_tid := tid\<rparr>)"
  by (simp add: numeral_eq_Suc answer_of_detail answer_of_fails answer_flame_def to_files_def opt_items_def no_files
    finish_def flame_failed_def load_detail_def load_suggestions_def)

text \<open>The answers to one load, while the others wait.\<close>

lemma run_load:
  assumes "(answer srv ^^ n) (pt, rh_page h) = (Finished, q)" and "rh_loads h = xs @ (tid, pt) # ys" and "pt \<noteq> Finished"
    and "answers_for tid srv"
  shows "answer_step\<^sup>*\<^sup>* h (h\<lparr>rh_page := q, rh_loads := xs @ ys\<rparr>)"
  using assms(1-3)
proof (induction n arbitrary: h pt)
  case 0
  then show ?case by simp
next
  case (Suc n)
  obtain pt' p where a: "answer srv (pt, rh_page h) = (pt', p)" by fastforce
  let ?h = "h\<lparr>rh_page := p, rh_loads := xs @ (if pt' = Finished then [] else [(tid, pt')]) @ ys\<rparr>"
  have rest: "(answer srv ^^ n) (pt', p) = (Finished, q)"
    using Suc.prems(1) a by (simp add: funpow_swap1)
  have step: "answer_step h ?h"
    using answer_step.intros [of "length xs" h srv] answer_load_split [OF Suc.prems(2) refl a] Suc.prems(2) assms(4) by simp
  show ?case
  proof (cases "pt' = Finished")
    case True
    with rest have "p = q" by (simp add: answer_Finished)
    with step True show ?thesis by (simp add: r_into_rtranclp)
  next
    case False
    with Suc.IH [of pt' ?h] rest have "answer_step\<^sup>*\<^sup>* ?h (h\<lparr>rh_page := q, rh_loads := xs @ ys\<rparr>)" by simp
    with step show ?thesis by (rule converse_rtranclp_into_rtranclp)
  qed
qed

lemma answer_steps_reach: "answer_step\<^sup>*\<^sup>* h h' \<Longrightarrow> result_reachable free tid h \<Longrightarrow> result_reachable free tid h'"
proof (induction rule: rtranclp_induct)
  case (step m h')
  then show ?case
    by (auto simp: result_reachable_def elim!: answer_step.cases intro: rtranclp.rtrancl_into_rtrancl result_step.answered)
qed simp

lemma run_answer_of:
  assumes "rh_loads h = xs @ (tid, AtDetail) # ys" and "result_reachable free tid' h"
  obtains q where "result_reachable free tid' (h\<lparr>rh_page := q, rh_loads := xs @ ys\<rparr>)" and "rp_tid q = rp_tid (rh_page h)"
    and "\<not> rp_loading q" and "rp_task q = Some (sample_ebpf_task\<lparr>t_tid := tid\<rparr>)"
proof -
  obtain q where q: "(answer (answer_of tid) ^^ 4) (AtDetail, rh_page h) = (Finished, q)" "rp_tid q = rp_tid (rh_page h)"
    "\<not> rp_loading q" "rp_task q = Some (sample_ebpf_task\<lparr>t_tid := tid\<rparr>)"
    using answer_of_ends by blast
  have "answer_step\<^sup>*\<^sup>* h (h\<lparr>rh_page := q, rh_loads := xs @ ys\<rparr>)"
    by (rule run_load [OF q(1) assms(1)]) (simp_all add: answers_for_answer_of)
  then show ?thesis
    using that [of q] answer_steps_reach assms(2) q(2-4) by blast
qed

lemma result_opened_reachable: "result_reachable free tid (result_opened tid)"
  by (simp add: result_reachable_def)

theorem result_spinners_end_witness:
  "\<exists>h. result_reachable True [49] h \<and> rp_task (rh_page h) \<noteq> None \<and> \<not> rp_loading (rh_page h) \<and> (\<forall>k. \<not> spins k (rh_page h))"
proof -
  from run_answer_of [OF _ result_opened_reachable [of True "[49]"], of "[]" "[49]" "[]"] obtain q
    where q: "result_reachable True [49] ((result_opened [49])\<lparr>rh_page := q, rh_loads := []\<rparr>)" "rp_task q \<noteq> None"
    by (simp add: result_opened_loads) blast
  from result_spinners_end [OF q(1)] q show ?thesis
    by (intro exI [of _ "(result_opened [49])\<lparr>rh_page := q, rh_loads := []\<rparr>"]) simp
qed

theorem result_memray_refined_witness:
  "memray_reachable (rp_memray (rh_page (result_opened [49]))) \<and> mr_pending (rp_memray (rh_page (result_opened [49]))) = 0"
  using result_memray_refined [OF result_opened_reachable [of True "[49]"] refl] by (simp add: result_opened_loads)

theorem result_loads_settle_witness: "requests_left (result_opened [49]) = 15 \<and> (\<exists>h. answer_step (result_opened [49]) h)"
  using result_loads_settle [OF result_opened_reachable [of True "[49]"], of 0 "result_opened [49]"]
  by (simp add: result_opened_loads requests_left_def)


text \<open>
  When the address changes during a load, the late answers of the old load replace the task of the new one: with all
  loads finished, the page of task \<open>2\<close> shows task \<open>1\<close>.
\<close>

theorem late_load_shows_other_task:
  "\<exists>h. result_reachable True [49] h \<and> rh_loads h = [] \<and> \<not> rp_loading (rh_page h) \<and> rp_tid (rh_page h) = [50] \<and>
    rp_task (rh_page h) = Some sample_ebpf_task \<and> t_tid sample_ebpf_task = [49]"
proof -
  let ?h = "open_tid [50] (result_opened [49])"
  have page: "rp_tid (rh_page (result_opened [49])) = [49]"
    by (simp add: result_opened_def start_load_def page_of_def reset_page_def load_begin_def Let_def)
  have loads: "rh_loads ?h = [([49], AtDetail)] @ ([50], AtDetail) # []" "rp_tid (rh_page ?h) = [50]"
    by (simp_all add: open_tid_def start_load_def result_opened_loads reset_page_frame load_begin_def Let_def)
  have "result_step True (result_opened [49]) ?h"
    by (rule result_step.navigate) (simp_all add: page)
  then have "result_reachable True [49] ?h"
    by (simp add: result_reachable_def r_into_rtranclp)
  from run_answer_of [OF loads(1) this] obtain q1
    where one: "result_reachable True [49] (?h\<lparr>rh_page := q1, rh_loads := [([49], AtDetail)]\<rparr>)" "rp_tid q1 = [50]"
    using loads(2) by auto
  from run_answer_of [OF _ one(1), of "[]" "[49]" "[]"] one(2) obtain q2
    where "result_reachable True [49] (?h\<lparr>rh_page := q2, rh_loads := []\<rparr>)" "rp_tid q2 = [50]" "\<not> rp_loading q2"
      "rp_task q2 = Some (sample_ebpf_task\<lparr>t_tid := [49]\<rparr>)"
    by auto
  moreover have "sample_ebpf_task\<lparr>t_tid := [49]\<rparr> = sample_ebpf_task" "t_tid sample_ebpf_task = [49]"
    by (simp_all add: sample_ebpf_task_def)
  ultimately show ?thesis by (intro exI [of _ "?h\<lparr>rh_page := q2, rh_loads := []\<rparr>"]) simp
qed

end
