(* ===== verification/App.thy ===== *)
theory App
  imports Router Login_View
begin

text \<open>
  The application as one machine (\<open>src/web/src/App.tsx\<close>, \<open>src/web/src/main.tsx\<close>): the authentication store, the address,
  the login page, the layout with its guard and the error boundary, with the requests of the store that are under
  way. Requests are cut at their \<open>await\<close>, so their answers can arrive in any order. Main results: no redirect leads
  to another redirect; the waiting screen always ends; a protected page is on the screen only for the user the server
  vouched for last; and the user the header names is the one every request carries, unless a login overtakes the
  check of the session.
\<close>

section \<open>State\<close>

text \<open>
  A submission of the login form: the form it belongs to, its mode, and the headers it was sent with or the error of
  the request interceptor. The form holds the store; its other fields matter while the login page is mounted, and
  \<open>ap_form_no\<close> tells its mounts apart.
\<close>

record submission =
  sb_form :: nat
  sb_mode :: login_mode
  sb_sent :: "api_exn + auth_headers"

record app =
  ap_url :: jstring
  ap_form :: login_page
  ap_form_no :: nat
  ap_boundary :: boundary
  ap_check :: "(api_exn + auth_headers) option"
  ap_submits :: "submission list"

abbreviation ap_session :: "app \<Rightarrow> session" where
  "ap_session a \<equiv> lp_session (ap_form a)"

definition set_session :: "session \<Rightarrow> app \<Rightarrow> app" where
  "set_session s a = a\<lparr>ap_form := (ap_form a)\<lparr>lp_session := s\<rparr>\<rparr>"

section \<open>Screens\<close>

datatype screen =
    LoginScreen login_view
  | WaitScreen
  | PageScreen page jstring
  | CrashScreen jstring
  | Redirecting jstring
  | NoRoute

definition layout_screen :: "route_element \<Rightarrow> app \<Rightarrow> screen" where
  "layout_screen el a =
     (if eb_hasError (ap_boundary a) then CrashScreen (or_str (opt_str (eb_error (ap_boundary a))) txt_unknown_error)
      else
        (case AppLayout (ap_session a) of
           LoadingView \<Rightarrow> WaitScreen
         | NavigateLogin \<Rightarrow> Redirecting (js ''/login'')
         | Content \<Rightarrow>
           (case el of
              Inside pg \<Rightarrow> PageScreen pg (shown_user (ap_session a))
            | Alone pg \<Rightarrow> PageScreen pg (shown_user (ap_session a))
            | Navigate u \<Rightarrow> Redirecting u)))"

definition screen_of :: "matcher \<Rightarrow> app \<Rightarrow> screen" where
  "screen_of m a =
     (case route_for m (ap_url a) of
        None \<Rightarrow> NoRoute
      | Some (Alone pg) \<Rightarrow> LoginScreen (Login (ap_form a))
      | Some el \<Rightarrow> layout_screen el a)"

definition at_login :: "matcher \<Rightarrow> jstring \<Rightarrow> bool" where
  "at_login m u \<longleftrightarrow> (case route_for m u of Some (Alone pg) \<Rightarrow> True | _ \<Rightarrow> False)"

definition in_layout :: "matcher \<Rightarrow> jstring \<Rightarrow> bool" where
  "in_layout m u \<longleftrightarrow> (case route_for m u of Some (Alone pg) \<Rightarrow> False | Some el \<Rightarrow> True | None \<Rightarrow> False)"

section \<open>Operations\<close>

text \<open>A new address: the login page is mounted with an empty form, and the boundary is dropped with the layout.\<close>

definition visit :: "matcher \<Rightarrow> jstring \<Rightarrow> app \<Rightarrow> app" where
  "visit m u a =
     (let a' = a\<lparr>ap_url := u, ap_boundary := (if in_layout m u then ap_boundary a else boundary_initial)\<rparr>
      in if at_login m u \<and> \<not> at_login m (ap_url a)
         then a'\<lparr>ap_form := login_initial (ap_session a), ap_form_no := Suc (ap_form_no a)\<rparr> else a')"

text \<open>The effects of a render: the layout or a route leads elsewhere.\<close>

definition app_effect :: "matcher \<Rightarrow> app \<Rightarrow> app" where
  "app_effect m a = (case screen_of m a of Redirecting u \<Rightarrow> visit m u a | _ \<Rightarrow> a)"

text \<open>The page is opened: the modules are initialised, and the store checks its session.\<close>

definition app_boot :: "jar \<Rightarrow> jstring \<Rightarrow> app" where
  "app_boot j u =
     (let (s, asked) = checkAuth_start (store_initial j)
      in \<lparr>ap_url = u, ap_form = login_initial s, ap_form_no = 0, ap_boundary = boundary_initial,
          ap_check = (if asked then Some (request_interceptor j) else None), ap_submits = []\<rparr>)"

definition check_answered :: "api_exn + user_data ApiResponse \<Rightarrow> app \<Rightarrow> app" where
  "check_answered answer a = (set_session (checkAuth_end answer (ap_session a)) a)\<lparr>ap_check := None\<rparr>"

text \<open>\<open>handleSubmit\<close> up to its request, and from the answer on.\<close>

definition submit_start :: "app \<Rightarrow> app" where
  "submit_start a =
     (let p = ap_form a
      in if trim (lp_username p) = [] \<or> lp_password p = [] then a
         else a\<lparr>ap_form := p\<lparr>lp_loading := True, lp_error := []\<rparr>,
                ap_submits := ap_submits a @
                  [\<lparr>sb_form = ap_form_no a, sb_mode = lp_mode p, sb_sent = request_interceptor (ss_jar (lp_session p))\<rparr>]\<rparr>)"

definition refused_text :: "login_mode \<Rightarrow> jstring" where
  "refused_text md = (case md of LoginMode \<Rightarrow> js ''login failed'' | RegisterMode \<Rightarrow> js ''register failed'')"

definition submit_end :: "matcher \<Rightarrow> nat \<Rightarrow> api_exn + login_data ApiResponse \<Rightarrow> app \<Rightarrow> app" where
  "submit_end m i answer a =
     (let sb = ap_submits a ! i; (r, s) = sign_in (refused_text (sb_mode sb)) answer (ap_session a);
          a' = (set_session s a)\<lparr>ap_submits := drop_nth i (ap_submits a)\<rparr>;
          alive = (at_login m (ap_url a) \<and> sb_form sb = ap_form_no a)
      in case r of
           Inr _ \<Rightarrow> visit m (js ''/index'') (if alive then a'\<lparr>ap_form := (ap_form a')\<lparr>lp_loading := False\<rparr>\<rparr> else a')
         | Inl e \<Rightarrow>
           if alive then a'\<lparr>ap_form := (ap_form a')\<lparr>lp_error := or_str (opt_str (exn_message e)) (login_failed_text (sb_mode sb)),
                             lp_loading := False\<rparr>\<rparr>
           else a')"

definition press_logout :: "app \<Rightarrow> app" where
  "press_logout a = set_session (logout (ap_session a)) a"

text \<open>A page below the boundary raises.\<close>

definition page_raises :: "jstring \<Rightarrow> app \<Rightarrow> app" where
  "page_raises msg a = a\<lparr>ap_boundary := fst (boundary_render (Inl msg :: jstring + unit) (ap_boundary a))\<rparr>"

section \<open>The frame of the layout\<close>

definition txt_expand :: jstring where \<comment> \<open>expand\<close>
  [msg_defs]: "txt_expand = [0x2192]"

record layout_frame =
  lf_title :: jstring
  lf_user :: jstring
  lf_width :: nat
  lf_toggle :: jstring
  lf_nav :: "(jstring option \<times> bool) list"
  lf_footer :: "jstring option"
  lf_margin :: nat

definition sidebar_width :: "bool \<Rightarrow> nat" where
  "sidebar_width collapsed = (if collapsed then 60 else 220)"

definition layout_header :: "session \<Rightarrow> jstring \<times> jstring" where
  "layout_header s = (js ''Mini-Drop'', shown_user s)"

definition toggle_text :: "bool \<Rightarrow> jstring" where
  "toggle_text collapsed = (if collapsed then txt_expand else txt_collapse)"

definition sidebar_footer :: "bool \<Rightarrow> jstring option" where
  "sidebar_footer collapsed = (if \<not> collapsed then Some txt_platform else None)"

definition layout_frame_of :: "bool \<Rightarrow> jstring \<Rightarrow> session \<Rightarrow> layout_frame" where
  "layout_frame_of collapsed pathname s =
     \<lparr>lf_title = fst (layout_header s), lf_user = snd (layout_header s), lf_width = sidebar_width collapsed,
      lf_toggle = toggle_text collapsed, lf_nav = nav_view collapsed pathname, lf_footer = sidebar_footer collapsed,
      lf_margin = sidebar_width collapsed\<rparr>"

section \<open>Runs\<close>

text \<open>What the user and the server do; \<open>Vouched\<close> and \<open>Revoked\<close> are the events that change who is signed in.\<close>

datatype app_event = Vouched user_data | Revoked | Other

text \<open>An error of the interceptor is the answer to its request.\<close>

definition fits :: "api_exn + auth_headers \<Rightarrow> api_exn + 'a \<Rightarrow> bool" where
  "fits sent answer \<longleftrightarrow> (case sent of Inl e \<Rightarrow> answer = Inl e | Inr h \<Rightarrow> True)"

definition check_event :: "api_exn + user_data ApiResponse \<Rightarrow> app_event" where
  "check_event answer =
     (case answer of
        Inl e \<Rightarrow> Revoked
      | Inr res \<Rightarrow> if res_code res = 0 then (case res_data res of None \<Rightarrow> Revoked | Some d \<Rightarrow> Vouched d) else Revoked)"

definition login_event :: "api_exn + login_data ApiResponse \<Rightarrow> app_event" where
  "login_event answer =
     (case answer of
        Inl e \<Rightarrow> Other
      | Inr res \<Rightarrow>
        if res_code res \<noteq> 0 then Other
        else (case res_data res of
                None \<Rightarrow> Other
              | Some d \<Rightarrow> (case encodeURIComponent (ud_user_name d) of None \<Rightarrow> Other | Some n \<Rightarrow> Vouched (user_data.truncate d))))"

text \<open>
  The laws of the server. A check that is accepted answers for the user whose id and name the request carried; an
  accepted login gives an id and a token of visible characters without percent signs and semicolons, and a name.
\<close>

definition check_lawful :: "api_exn + auth_headers \<Rightarrow> api_exn + user_data ApiResponse \<Rightarrow> bool" where
  "check_lawful sent answer \<longleftrightarrow>
     (\<forall>h d. sent = Inr h \<longrightarrow> check_event answer = Vouched d \<longrightarrow>
        h_uid h = Some (ud_uid d) \<and> h_user_name h = Some (ud_user_name d))"

definition login_lawful :: "api_exn + login_data ApiResponse \<Rightarrow> bool" where
  "login_lawful answer \<longleftrightarrow>
     (\<forall>res d. answer = Inr res \<longrightarrow> res_data res = Some d \<longrightarrow>
        plain (ud_uid d) \<and> 37 \<notin> set (ud_uid d) \<and> plain (ud_token d) \<and> 37 \<notin> set (ud_token d) \<and>
        ud_user_name d \<noteq> [] \<and> list_all (\<lambda>u. u < 0x10000) (ud_user_name d) \<and> encodeURIComponent (ud_user_name d) \<noteq> None)"

text \<open>
  With \<open>free\<close> the form can be submitted at any time, without it only when no check is under way.
  A reload and a refusal with the code of an expired session open the page anew.
\<close>

inductive app_step :: "matcher \<Rightarrow> bool \<Rightarrow> app \<Rightarrow> app_event \<Rightarrow> app \<Rightarrow> bool" for m free where
  effect: "app_step m free a Other (app_effect m a)"
| checked: "ap_check a = Some sent \<Longrightarrow> fits sent answer \<Longrightarrow> check_lawful sent answer \<Longrightarrow>
    app_step m free a (check_event answer) (check_answered answer a)"
| edited: "at_login m (ap_url a) \<Longrightarrow>
    p \<in> {setUsername v (ap_form a), setPassword v (ap_form a), toggleShowPassword (ap_form a), switch_mode (ap_form a)} \<Longrightarrow>
    app_step m free a Other (a\<lparr>ap_form := p\<rparr>)"
| submitted: "at_login m (ap_url a) \<Longrightarrow> free \<or> ap_check a = None \<Longrightarrow> app_step m free a Other (submit_start a)"
| signed: "i < length (ap_submits a) \<Longrightarrow> fits (sb_sent (ap_submits a ! i)) answer \<Longrightarrow> login_lawful answer \<Longrightarrow>
    app_step m free a (login_event answer) (submit_end m i answer a)"
| logged_out: "screen_of m a = PageScreen pg name \<Longrightarrow> app_step m free a Revoked (press_logout a)"
| visited: "app_step m free a Other (visit m u a)"
| raised: "screen_of m a = PageScreen pg name \<Longrightarrow> app_step m free a Other (page_raises msg a)"
| opened: "app_step m free a Revoked (app_boot (ss_jar (ap_session a)) u)"

inductive app_run :: "matcher \<Rightarrow> bool \<Rightarrow> app_event list \<Rightarrow> app \<Rightarrow> bool" for m free where
  start: "jar_ok j \<Longrightarrow> app_run m free [Revoked] (app_boot j u)"
| step: "app_run m free evs a \<Longrightarrow> app_step m free a ev a' \<Longrightarrow> app_run m free (evs @ [ev]) a'"

text \<open>The abstract session: the user vouched for last, until it is revoked.\<close>

fun who_step :: "app_event \<Rightarrow> user_data option \<Rightarrow> user_data option" where
  "who_step (Vouched d) w = Some d"
| "who_step Revoked w = None"
| "who_step Other w = w"

definition who :: "app_event list \<Rightarrow> user_data option" where
  "who evs = fold who_step evs None"

definition session_user :: "session \<Rightarrow> user_data option" where
  "session_user s = (if ss_isAuth s then Some \<lparr>ud_uid = ss_uid s, ud_user_name = ss_userName s\<rparr> else None)"

lemma who_snoc: "who (evs @ [ev]) = who_step ev (who evs)"
  by (simp add: who_def)

section \<open>What the operations keep\<close>

lemma visit_keeps [simp]:
  "ap_session (visit m u a) = ap_session a" "ap_check (visit m u a) = ap_check a"
  "ap_submits (visit m u a) = ap_submits a" "ap_url (visit m u a) = u"
  by (simp_all add: visit_def login_initial_def Let_def)

lemma effect_keeps [simp]:
  "ap_session (app_effect m a) = ap_session a" "ap_check (app_effect m a) = ap_check a"
  "ap_submits (app_effect m a) = ap_submits a"
  by (simp_all add: app_effect_def split: screen.split)

lemma submit_start_keeps [simp]:
  "ap_session (submit_start a) = ap_session a" "ap_check (submit_start a) = ap_check a"
  by (simp_all add: submit_start_def Let_def)

lemma submit_end_frame:
  "ap_session (submit_end m i answer a) = snd (sign_in (refused_text (sb_mode (ap_submits a ! i))) answer (ap_session a))"
  "ap_check (submit_end m i answer a) = ap_check a"
  "ap_submits (submit_end m i answer a) = drop_nth i (ap_submits a)"
  by (simp_all add: submit_end_def set_session_def Let_def split: prod.split sum.split)

lemma check_answered_frame [simp]:
  "ap_session (check_answered answer a) = checkAuth_end answer (ap_session a)" "ap_check (check_answered answer a) = None"
  "ap_submits (check_answered answer a) = ap_submits a"
  by (simp_all add: check_answered_def set_session_def)

lemma boot_frame:
  "ss_jar (ap_session (app_boot j u)) = j" "\<not> ss_isAuth (ap_session (app_boot j u))"
  "ap_submits (app_boot j u) = []"
  "ap_check (app_boot j u) = None \<and> \<not> ss_loading (ap_session (app_boot j u)) \<or>
   ap_check (app_boot j u) = Some (request_interceptor j) \<and> ss_loading (ap_session (app_boot j u))"
  by (simp_all add: app_boot_def checkAuth_start_def store_initial_def login_initial_def Let_def split: option.split)

lemma session_edits:
  "p \<in> {setUsername v q, setPassword v q, toggleShowPassword q, switch_mode q} \<Longrightarrow> lp_session p = lp_session q"
  by (auto simp: login_step_defs)

lemma session_other [simp]:
  "ap_session (press_logout a) = logout (ap_session a)" "ap_check (press_logout a) = ap_check a"
  "ap_submits (press_logout a) = ap_submits a"
  "ap_session (page_raises msg a) = ap_session a" "ap_check (page_raises msg a) = ap_check a"
  "ap_submits (page_raises msg a) = ap_submits a"
  by (simp_all add: press_logout_def page_raises_def set_session_def)

text \<open>The user of the store follows the events.\<close>

lemma check_user: "session_user (checkAuth_end answer s) = who_step (check_event answer) w"
  by (auto simp: session_user_def checkAuth_end_def check_event_def split: sum.split option.split)

lemma sign_in_user: "session_user (snd (sign_in f answer s)) = who_step (login_event answer) (session_user s)"
  by (auto simp: session_user_def sign_in_def login_event_def user_data.truncate_def Let_def split: sum.split option.split)

lemma sign_in_loading: "ss_loading (snd (sign_in f answer s)) \<longrightarrow> ss_loading s"
  by (auto simp: sign_in_def Let_def split: sum.split option.split)

lemma checkAuth_end_loading: "\<not> ss_loading (checkAuth_end answer s)"
  by (simp add: checkAuth_end_def split: sum.split option.split)

definition wait_inv :: "app \<Rightarrow> bool" where
  "wait_inv a \<longleftrightarrow> (ss_loading (ap_session a) \<longrightarrow> ap_check a \<noteq> None)"

lemma app_step_wait: "app_step m free a ev a' \<Longrightarrow> wait_inv a \<Longrightarrow> wait_inv a'"
proof (induction rule: app_step.induct)
  case (checked a sent answer)
  then show ?case by (simp add: wait_inv_def checkAuth_end_loading)
next
  case (signed i a answer)
  then show ?case
    using sign_in_loading by (auto simp: wait_inv_def submit_end_frame)
next
  case (edited a p v)
  then show ?case using session_edits [OF edited(2)] by (simp add: wait_inv_def)
next
  case (opened a u)
  then show ?case using boot_frame(4) [of "ss_jar (ap_session a)" u] by (auto simp: wait_inv_def)
qed (simp_all add: wait_inv_def logout_def)

lemma app_run_wait: "app_run m free evs a \<Longrightarrow> wait_inv a"
proof (induction rule: app_run.induct)
  case (start j u)
  then show ?case using boot_frame(4) [of j u] by (auto simp: wait_inv_def)
next
  case (step evs a ev a')
  then show ?case using app_step_wait by blast
qed

lemma app_step_user: "app_step m free a ev a' \<Longrightarrow> session_user (ap_session a') = who_step ev (session_user (ap_session a))"
proof (induction rule: app_step.induct)
  case (checked a sent answer)
  show ?case using check_user by simp
next
  case (signed i a answer)
  show ?case by (simp add: submit_end_frame sign_in_user)
next
  case (edited a p v)
  then show ?case using session_edits [OF edited(2)] by simp
qed (simp_all add: boot_frame session_user_def logout_def)

lemma app_run_user: "app_run m free evs a \<Longrightarrow> session_user (ap_session a) = who evs"
proof (induction rule: app_run.induct)
  case (start j u)
  then show ?case by (simp add: boot_frame session_user_def who_def)
next
  case (step evs a ev a')
  then show ?case by (simp add: who_snoc app_step_user)
qed

text \<open>A protected page is on the screen only inside the layout, with its content.\<close>

lemma page_screen:
  assumes "screen_of m a = PageScreen pg name"
  shows "ss_isAuth (ap_session a) \<and> \<not> ss_loading (ap_session a) \<and> name = shown_user (ap_session a)"
  using assms
  by (auto simp: screen_of_def layout_screen_def AppLayout_def split: option.splits route_element.splits layout_view.splits if_splits)

text \<open>The requests carry the user of the store.\<close>

definition carries :: "session \<Rightarrow> bool" where
  "carries s \<longleftrightarrow> (\<exists>h. request_interceptor (ss_jar s) = Inr h \<and> h_uid h = Some (ss_uid s) \<and> h_user_name h = Some (ss_userName s))"

definition identity_inv :: "app \<Rightarrow> bool" where
  "identity_inv a \<longleftrightarrow>
     jar_ok (ss_jar (ap_session a)) \<and> (ss_isAuth (ap_session a) \<longrightarrow> carries (ap_session a)) \<and>
     (ap_check a \<noteq> None \<longrightarrow>
        ap_check a = Some (request_interceptor (ss_jar (ap_session a))) \<and> ap_submits a = [] \<and>
        \<not> ss_isAuth (ap_session a))"

lemma sign_in_carries:
  assumes "jar_ok (ss_jar s)" and "ss_isAuth s \<longrightarrow> carries s" and "login_lawful answer"
  shows "jar_ok (ss_jar (snd (sign_in f answer s))) \<and>
    (ss_isAuth (snd (sign_in f answer s)) \<longrightarrow> carries (snd (sign_in f answer s)))"
proof (cases "login_event answer")
  case (Vouched u)
  then obtain res d n where a: "answer = Inr res" "res_code res = 0" "res_data res = Some d"
    "encodeURIComponent (ud_user_name d) = Some n"
    by (auto simp: login_event_def split: sum.splits option.splits if_splits)
  with assms(3) have law: "plain (ud_uid d)" "37 \<notin> set (ud_uid d)" "plain (ud_token d)" "37 \<notin> set (ud_token d)"
    "ud_user_name d \<noteq> []" "list_all (\<lambda>u. u < 0x10000) (ud_user_name d)"
    by (simp_all add: login_lawful_def)
  have n: "plain n" using a(4) law(5,6) plain_encoded by blast
  have res: "answer = Inr \<lparr>res_code = 0, res_data = Some d, res_message = res_message res\<rparr>"
    using a by simp
  note signed = sign_in_ok [OF res law(1) law(3) a(4) n, of f s]
  have "request_interceptor (signed_jar d n (ss_jar s)) =
      Inr \<lparr>h_uid = Some (ud_uid d), h_user_name = Some (ud_user_name d), h_token = Some (ud_token d)\<rparr>"
    using assms(1) law a(4) by (intro signed_jar_headers)
  then show ?thesis
    using signed_jar_facts(1) [OF assms(1) law(1) law(3) n] by (simp add: signed carries_def)
next
  case Revoked
  then show ?thesis by (auto simp: login_event_def split: sum.splits option.splits if_splits)
next
  case Other
  then have "snd (sign_in f answer s) = s"
    using assms(3) by (auto simp: login_event_def sign_in_def login_lawful_def Let_def split: sum.splits option.splits if_splits)
  with assms show ?thesis by simp
qed

lemma check_carries:
  assumes "check_lawful (request_interceptor (ss_jar s)) answer" and "fits (request_interceptor (ss_jar s)) answer"
  shows "ss_isAuth (checkAuth_end answer s) \<longrightarrow> carries (checkAuth_end answer s)"
proof (cases "request_interceptor (ss_jar s)")
  case (Inl e)
  with assms(2) show ?thesis by (simp add: fits_def checkAuth_end_def)
next
  case (Inr h)
  with assms(1) show ?thesis
    by (auto simp: carries_def check_lawful_def check_event_def checkAuth_end_def split: sum.splits option.splits if_splits)
qed

lemma jar_kept: "ss_jar (checkAuth_end answer s) = ss_jar s"
  by (simp add: checkAuth_end_def split: sum.split option.split)

lemma app_step_identity: "app_step m False a ev a' \<Longrightarrow> identity_inv a \<Longrightarrow> identity_inv a'"
proof (induction rule: app_step.induct)
  case (checked a sent answer)
  then show ?case
    using check_carries [of "ap_session a" answer] by (simp add: identity_inv_def jar_kept)
next
  case (edited a p v)
  then show ?case using session_edits [OF edited(2)] by (simp add: identity_inv_def)
next
  case (submitted a)
  then show ?case by (simp add: identity_inv_def)
next
  case (signed i a answer)
  then have "ap_check a = None" by (auto simp: identity_inv_def)
  with signed show ?case
    using sign_in_carries [of "ap_session a" answer "refused_text (sb_mode (ap_submits a ! i))"]
    by (simp add: identity_inv_def submit_end_frame)
next
  case (logged_out a pg name)
  then have "ss_isAuth (ap_session a)" by (simp add: page_screen)
  with logged_out show ?case by (auto simp: identity_inv_def logout_def expire_cookie_def jar_ok_del)
next
  case (opened a u)
  then show ?case using boot_frame [of "ss_jar (ap_session a)" u] by (auto simp: identity_inv_def)
qed (simp_all add: identity_inv_def)

lemma app_run_identity: "app_run m False evs a \<Longrightarrow> identity_inv a"
proof (induction rule: app_run.induct)
  case (start j u)
  then show ?case using boot_frame [of j u] by (auto simp: identity_inv_def)
next
  case (step evs a ev a')
  then show ?case using app_step_identity by blast
qed

text \<open>Where a redirect leads, and what is shown there.\<close>

lemma redirect_from:
  assumes "screen_of m a = Redirecting u"
  shows "in_layout m (ap_url a) \<and> \<not> at_login m (ap_url a) \<and> \<not> eb_hasError (ap_boundary a) \<and>
    (u = js ''/login'' \<or> AppLayout (ap_session a) = Content \<and> u \<in> {js ''/index'', js ''/tasks?view=schedules''})"
  using assms route_for_targets [of m "ap_url a"]
  by (auto simp: screen_of_def layout_screen_def in_layout_def at_login_def
      split: option.splits route_element.splits layout_view.splits if_splits)

lemma visit_login:
  assumes "route_for m u = Some (Alone pg)" and "\<not> at_login m (ap_url a)"
  shows "screen_of m (visit m u a) = LoginScreen (Login (login_initial (ap_session a)))"
proof -
  have "at_login m u" using assms(1) by (simp add: at_login_def)
  with assms show ?thesis by (simp add: screen_of_def visit_def Let_def)
qed

lemma visit_inside:
  assumes "route_for m u = Some (Inside pg)" and "AppLayout (ap_session a) = Content" and "\<not> eb_hasError (ap_boundary a)"
  shows "screen_of m (visit m u a) = PageScreen pg (shown_user (ap_session a))"
  using assms by (simp add: screen_of_def layout_screen_def visit_def at_login_def in_layout_def Let_def)

lemma no_second_redirect:
  assumes "router_lawful m"
  shows "screen_of m (app_effect m a) \<noteq> Redirecting u"
proof (cases "screen_of m a")
  case (Redirecting v)
  note src = redirect_from [OF this]
  have "screen_of m (visit m v a) \<noteq> Redirecting u"
  proof (cases "v = js ''/login''")
    case True
    with src visit_login [OF redirect_routes(5) [OF assms], of a] show ?thesis by simp
  next
    case False
    with src have "\<exists>pg. route_for m v = Some (Inside pg)"
      using redirect_routes(3,4) [OF assms] by blast
    with False src visit_inside [of m v _ a] show ?thesis by auto
  qed
  with Redirecting show ?thesis by (simp add: app_effect_def)
qed (simp_all add: app_effect_def)

section \<open>Properties\<close>

text \<open>
  C1: the store of the application implements the abstract session of its events, in which the
  user is the one of the last answer that vouched for someone unless a logout, a refused check or a new start came
  after it. A protected page is on the screen only for that user, and the header names that user, in every order of
  clicks, submissions, answers, redirects, crashes and reloads.
\<close>

theorem app_session_refined:
  assumes "app_run m free evs a"
  shows "session_user (ap_session a) = who evs \<and>
    (\<forall>pg name. screen_of m a = PageScreen pg name \<longrightarrow>
       (\<exists>d. who evs = Some d \<and> name = or_str (ud_user_name d) txt_user))"
proof -
  have user: "session_user (ap_session a) = who evs"
    using assms by (rule app_run_user)
  moreover have "\<exists>d. who evs = Some d \<and> name = or_str (ud_user_name d) txt_user" if "screen_of m a = PageScreen pg name" for pg name
    using page_screen [OF that] by (simp add: user [symmetric] session_user_def shown_user_def)
  ultimately show ?thesis by blast
qed

text \<open>
  C13: whatever the address is, one redirect is enough: it never leads to another one, and a user who is
  not signed in and opens any page of the layout ends at an empty login form. The waiting screen is shown only while
  the check of the session is under way, and every answer to it ends the waiting.
\<close>

theorem app_settles:
  assumes "router_lawful m" and "app_run m free evs a"
  shows "(\<forall>u. screen_of m (app_effect m a) \<noteq> Redirecting u) \<and>
    (in_layout m (ap_url a) \<and> \<not> eb_hasError (ap_boundary a) \<and> AppLayout (ap_session a) = NavigateLogin \<longrightarrow>
       screen_of m (app_effect m a) = LoginScreen (Login (login_initial (ap_session a)))) \<and>
    (screen_of m a = WaitScreen \<longrightarrow> ap_check a \<noteq> None) \<and>
    (\<forall>answer. screen_of m (check_answered answer a) \<noteq> WaitScreen)"
proof -
  have out: "screen_of m (app_effect m a) = LoginScreen (Login (login_initial (ap_session a)))"
    if "in_layout m (ap_url a)" "\<not> eb_hasError (ap_boundary a)" "AppLayout (ap_session a) = NavigateLogin"
  proof -
    have "screen_of m a = Redirecting (js ''/login'')" "\<not> at_login m (ap_url a)"
      using that by (auto simp: screen_of_def layout_screen_def in_layout_def at_login_def
          split: option.splits route_element.splits)
    then show ?thesis
      using visit_login [OF redirect_routes(5) [OF assms(1)], of a] by (simp add: app_effect_def)
  qed
  have wait: "screen_of m b = WaitScreen \<Longrightarrow> ss_loading (ap_session b)" for b
    by (auto simp: screen_of_def layout_screen_def AppLayout_def
        split: option.splits route_element.splits layout_view.splits if_splits)
  have ended: "screen_of m (check_answered answer a) \<noteq> WaitScreen" for answer
    using wait [of "check_answered answer a"] by (auto simp: checkAuth_end_loading)
  show ?thesis
    using no_second_redirect [OF assms(1), of a] out wait [of a] app_run_wait [OF assms(2)] ended by (simp add: wait_inv_def)
qed



text \<open>
  C40: cut at its request, the submit handler does what it does as one function. Answered without
  anything in between, the two halves leave the store, the form and the address exactly as \<open>handleSubmit\<close> does: at
  the home page when it was accepted, at the same form with the error when it was not.
\<close>

theorem submit_steps_refine:
  assumes "at_login m (ap_url a)" and "ap_submits a = []" and "trim (lp_username (ap_form a)) \<noteq> []"
    and "lp_password (ap_form a) \<noteq> []" and "\<not> lp_navigated (ap_form a)" and "q = handleSubmit apis (ap_form a)"
    and "answer = send (ss_jar (ap_session a)) ((case lp_mode (ap_form a) of LoginMode \<Rightarrow> fst apis | RegisterMode \<Rightarrow> snd apis)
           (trim (lp_username (ap_form a))) (lp_password (ap_form a)))"
    and "b = submit_end m 0 answer (submit_start a)"
  shows "ap_session b = lp_session q \<and> ap_submits b = [] \<and>
    (if lp_navigated q then ap_url b = js ''/index'' else ap_form b = q \<and> ap_url b = ap_url a)"
proof -
  let ?p = "(ap_form a)\<lparr>lp_loading := True, lp_error := []\<rparr>"
  obtain r s where rs: "sign_in (refused_text (lp_mode (ap_form a))) answer (ap_session a) = (r, s)" by fastforce
  have auth: "authenticate apis ?p = (r, s)"
    using rs assms(7) by (simp add: authenticate_def login_def register_def refused_text_def split: login_mode.splits)
  have start: "submit_start a = a\<lparr>ap_form := ?p, ap_submits :=
      [\<lparr>sb_form = ap_form_no a, sb_mode = lp_mode (ap_form a), sb_sent = request_interceptor (ss_jar (ap_session a))\<rparr>]\<rparr>"
    using assms(2-4) by (simp add: submit_start_def Let_def)
  show ?thesis
  proof (cases r)
    case (Inl e)
    with assms auth rs show ?thesis
      by (simp add: handleSubmit_def start submit_end_def set_session_def drop_nth_def Let_def)
  next
    case (Inr u)
    with assms auth rs show ?thesis
      by (simp add: handleSubmit_def start submit_end_def set_session_def drop_nth_def Let_def del: js_Cons)
  qed
qed

section \<open>Runs of the application\<close>

definition old_user :: login_data where
  "old_user = \<lparr>ud_uid = js ''u0'', ud_user_name = js ''old'', ud_token = js ''t0''\<rparr>"

text \<open>The application at the login page with the cookies of an earlier session, and the form filled in.\<close>

definition filled :: "jar \<Rightarrow> app" where
  "filled j = (app_boot j (js ''/login''))\<lparr>ap_form := setPassword (js ''pass'') (setUsername (js ''ann'') (ap_form (app_boot j (js ''/login''))))\<rparr>"

definition accepted :: "login_data \<Rightarrow> api_exn + login_data ApiResponse" where
  "accepted d = Inr \<lparr>res_code = 0, res_data = Some d, res_message = None\<rparr>"

definition signed_app :: "jar \<Rightarrow> app" where
  "signed_app j = submit_end sample_matcher 0 (accepted sample_user) (submit_start (filled j))"

lemma filled_run:
  assumes "jar_ok j"
  shows "app_run sample_matcher free [Revoked, Other, Other] (filled j)"
proof -
  let ?a = "app_boot j (js ''/login'')"
  let ?b = "?a\<lparr>ap_form := setUsername (js ''ann'') (ap_form ?a)\<rparr>"
  have login: "at_login sample_matcher (js ''/login'')"
    using redirect_routes(5) [OF sample_matcher_lawful] by (simp add: at_login_def)
  have url: "ap_url ?a = js ''/login''"
    by (simp add: app_boot_def split: prod.split)
  have "app_run sample_matcher free [Revoked] ?a"
    using assms by (rule app_run.start)
  moreover have "app_step sample_matcher free ?a Other ?b"
    using login url by (intro app_step.edited) auto
  moreover have "app_step sample_matcher free ?b Other (?b\<lparr>ap_form := setPassword (js ''pass'') (ap_form ?b)\<rparr>)"
    using login url by (intro app_step.edited) auto
  ultimately have "app_run sample_matcher free (([Revoked] @ [Other]) @ [Other]) (?b\<lparr>ap_form := setPassword (js ''pass'') (ap_form ?b)\<rparr>)"
    by (blast intro: app_run.step)
  then show ?thesis by (simp add: filled_def)
qed

lemma sample_user_lawful: "login_lawful (accepted sample_user)" "login_event (accepted sample_user) = Vouched (user_data.truncate sample_user)"
proof -
  have "encodeURIComponent (ud_user_name sample_user) \<noteq> None"
    by (simp add: sample_user_def encodeURIComponent_def low_sur_def high_sur_def)
  then show "login_lawful (accepted sample_user)" "login_event (accepted sample_user) = Vouched (user_data.truncate sample_user)"
    by (auto simp: login_lawful_def login_event_def accepted_def sample_user_def plain_def)
qed

lemma filled_submitted:
  "submit_start (filled j) = (filled j)\<lparr>ap_form := (ap_form (filled j))\<lparr>lp_loading := True, lp_error := []\<rparr>,
     ap_submits := [\<lparr>sb_form = 0, sb_mode = LoginMode, sb_sent = request_interceptor j\<rparr>]\<rparr>"
  by (simp add: submit_start_def filled_def login_step_defs app_boot_def login_initial_def checkAuth_start_def
      store_initial_def trim_def is_ws_def Let_def split: option.split)

lemma filled_facts:
  "ap_session (filled j) = ap_session (app_boot j (js ''/login''))" "ap_check (filled j) = ap_check (app_boot j (js ''/login''))"
  "ap_url (filled j) = js ''/login''" "ap_boundary (filled j) = boundary_initial"
  by (simp_all add: filled_def login_step_defs app_boot_def split: prod.split)

lemma signed_app_run:
  assumes "jar_ok j" and "request_interceptor j = Inr h" and "free \<or> ap_check (app_boot j (js ''/login'')) = None"
  shows "app_run sample_matcher free [Revoked, Other, Other, Other, Vouched (user_data.truncate sample_user)] (signed_app j)"
proof -
  have "at_login sample_matcher (js ''/login'')"
    using redirect_routes(5) [OF sample_matcher_lawful] by (simp add: at_login_def)
  then have "app_step sample_matcher free (filled j) Other (submit_start (filled j))"
    using assms(3) by (intro app_step.submitted) (simp_all add: filled_facts del: js_Cons)
  then have "app_run sample_matcher free ([Revoked, Other, Other] @ [Other]) (submit_start (filled j))"
    by (rule app_run.step [OF filled_run [OF assms(1)]])
  moreover have "app_step sample_matcher free (submit_start (filled j)) (login_event (accepted sample_user)) (signed_app j)"
    unfolding signed_app_def
    by (rule app_step.signed) (simp_all add: filled_submitted fits_def assms(2) sample_user_lawful)
  ultimately have "app_run sample_matcher free (([Revoked, Other, Other] @ [Other]) @ [login_event (accepted sample_user)]) (signed_app j)"
    by (rule app_run.step)
  then show ?thesis by (simp add: sample_user_lawful)
qed

lemma signed_app_facts:
  assumes "jar_ok j"
  shows "AppLayout (ap_session (signed_app j)) = Content" "ss_userName (ap_session (signed_app j)) = ud_user_name sample_user"
    "request_interceptor (ss_jar (ap_session (signed_app j))) =
       Inr \<lparr>h_uid = Some (js ''u1''), h_user_name = Some (ud_user_name sample_user), h_token = Some (js ''t0k'')\<rparr>"
    "jar_ok (ss_jar (ap_session (signed_app j)))"
proof -
  obtain n where n: "encodeURIComponent (ud_user_name sample_user) = Some n"
    by (simp add: sample_user_def encodeURIComponent_def low_sur_def high_sur_def)
  have u: "plain (ud_uid sample_user)" "37 \<notin> set (ud_uid sample_user)" "plain (ud_token sample_user)"
    "37 \<notin> set (ud_token sample_user)" "ud_user_name sample_user \<noteq> []" "list_all (\<lambda>u. u < 0x10000) (ud_user_name sample_user)"
    by (simp_all add: sample_user_def plain_def)
  have pn: "plain n" using plain_encoded [OF n u(6,5)] .
  have s: "ap_session (signed_app j) = (ap_session (filled j))\<lparr>ss_jar := signed_jar sample_user n j, ss_uid := ud_uid sample_user,
      ss_userName := ud_user_name sample_user, ss_isAuth := True, ss_loading := False\<rparr>"
    using sign_in_ok [OF accepted_def u(1,3) n pn]
    by (simp add: signed_app_def submit_end_frame filled_submitted filled_facts(1) boot_frame(1))
  show "AppLayout (ap_session (signed_app j)) = Content" "ss_userName (ap_session (signed_app j)) = ud_user_name sample_user"
    by (simp_all add: s AppLayout_def)
  show "request_interceptor (ss_jar (ap_session (signed_app j))) =
       Inr \<lparr>h_uid = Some (js ''u1''), h_user_name = Some (ud_user_name sample_user), h_token = Some (js ''t0k'')\<rparr>"
    using signed_jar_headers [OF assms u n] by (simp add: s sample_user_def)
  show "jar_ok (ss_jar (ap_session (signed_app j)))"
    using signed_jar_facts(1) [OF assms u(1,3) pn] by (simp add: s)
qed

lemma home_route: "route_for sample_matcher (js ''/index'') = Some (Inside HomePage)"
  using redirect_routes(3) [OF sample_matcher_lawful] .

lemma screen_home:
  assumes "ap_url a = js ''/index''" and "\<not> eb_hasError (ap_boundary a)"
  shows "screen_of sample_matcher a =
    (case AppLayout (ap_session a) of LoadingView \<Rightarrow> WaitScreen | NavigateLogin \<Rightarrow> Redirecting (js ''/login'')
     | Content \<Rightarrow> PageScreen HomePage (shown_user (ap_session a)))"
  using assms home_route by (simp add: screen_of_def layout_screen_def del: js_Cons split: layout_view.split)

lemma signed_app_home: "ap_url (signed_app j) = js ''/index''" "\<not> eb_hasError (ap_boundary (signed_app j))"
  "ap_check (signed_app j) = ap_check (app_boot j (js ''/login''))"
proof -
  obtain n where n: "encodeURIComponent (ud_user_name sample_user) = Some n"
    by (simp add: sample_user_def encodeURIComponent_def low_sur_def high_sur_def)
  then have ok: "fst (sign_in f (accepted sample_user) s) = Inr ()" for f s
    by (simp add: sign_in_def accepted_def Let_def)
  have "in_layout sample_matcher (js ''/index'')"
    using home_route by (simp add: in_layout_def)
  then show "ap_url (signed_app j) = js ''/index''" "\<not> eb_hasError (ap_boundary (signed_app j))"
    using ok by (auto simp: signed_app_def submit_end_def filled_submitted filled_facts set_session_def visit_def boundary_initial_def
        Let_def split: prod.split sum.split simp del: js_Cons) (metis fst_conv sum.distinct(1))+
  show "ap_check (signed_app j) = ap_check (app_boot j (js ''/login''))"
    by (simp add: signed_app_def submit_end_frame filled_facts)
qed

lemma signed_app_screen:
  assumes "jar_ok j"
  shows "screen_of sample_matcher (signed_app j) = PageScreen HomePage (ud_user_name sample_user)"
  using screen_home [OF signed_app_home(1,2)] signed_app_facts(1,2) [OF assms]
  by (simp add: shown_user_def or_str_def sample_user_def)

lemma fresh_boot: "ap_check (app_boot [] u) = None" "request_interceptor [] = Inr \<lparr>h_uid = None, h_user_name = None, h_token = None\<rparr>"
  by (simp_all add: app_boot_def checkAuth_start_def store_initial_def document_cookie_def cookie_match_def cookie_at_def
      starts_with_def request_interceptor_none Let_def)

lemmas fresh_run = signed_app_run [OF jar_ok_empty fresh_boot(2) disjI2 [OF fresh_boot(1)]]

theorem app_session_refined_witness:
  "\<exists>evs d. who evs = Some d \<and> session_user (ap_session (signed_app [])) = Some d \<and>
     ud_user_name sample_user = or_str (ud_user_name d) txt_user"
  using app_session_refined [OF fresh_run] signed_app_screen [OF jar_ok_empty] by auto

theorem app_settles_witness:
  "screen_of sample_matcher (app_effect sample_matcher (app_boot [] (js ''/index''))) =
     LoginScreen (Login (login_initial (ap_session (app_boot [] (js ''/index'')))))"
proof -
  have "ap_url (app_boot [] (js ''/index'')) = js ''/index''" "\<not> eb_hasError (ap_boundary (app_boot [] (js ''/index'')))"
    by (simp_all add: app_boot_def boundary_initial_def split: prod.split)
  moreover have "AppLayout (ap_session (app_boot [] (js ''/index''))) = NavigateLogin"
    using boot_frame(2,4) [of "[]" "js ''/index''"] fresh_boot(1) by (simp add: AppLayout_def)
  ultimately show ?thesis
    using app_settles [OF sample_matcher_lawful app_run.start [OF jar_ok_empty, of sample_matcher True "js ''/index''"]] home_route
    by (simp add: in_layout_def del: js_Cons)
qed

theorem submit_steps_refine_witness:
  "ap_session (submit_end sample_matcher 0 (send [] (sample_login (js ''ann'') (js ''pass''))) (submit_start (filled []))) =
     lp_session (handleSubmit (sample_login, sample_login) (ap_form (filled [])))"
proof -
  have form: "lp_username (ap_form (filled [])) = js ''ann''" "lp_password (ap_form (filled [])) = js ''pass''"
    "lp_mode (ap_form (filled [])) = LoginMode" "\<not> lp_navigated (ap_form (filled []))" "ap_submits (filled []) = []"
    "ss_jar (ap_session (filled [])) = []"
    by (simp_all add: filled_def login_step_defs app_boot_def login_initial_def checkAuth_start_def store_initial_def
        split: prod.split option.split)
  have "trim (js ''ann'') = js ''ann''" "js ''ann'' \<noteq> []" "js ''pass'' \<noteq> []" by (simp_all add: trim_def is_ws_def)
  moreover have "at_login sample_matcher (ap_url (filled []))"
    using redirect_routes(5) [OF sample_matcher_lawful] by (simp add: at_login_def filled_facts)
  ultimately show ?thesis
    using submit_steps_refine [of sample_matcher "filled []" _ "(sample_login, sample_login)", OF _ form(5) _ _ form(4) refl refl refl]
    by (simp add: form del: js_Cons)
qed


text \<open>The cookies of an earlier session: the check of the session is under way when the page is opened.\<close>

definition old_jar :: jar where
  "old_jar = signed_jar old_user (js ''old'') []"

lemma old_jar_facts:
  "jar_ok old_jar" "request_interceptor old_jar = Inr \<lparr>h_uid = Some (js ''u0''), h_user_name = Some (js ''old''), h_token = Some (js ''t0'')\<rparr>"
  "ap_check (app_boot old_jar u) = Some (request_interceptor old_jar)"
proof -
  have n: "encodeURIComponent (ud_user_name old_user) = Some (js ''old'')"
    by (simp add: old_user_def encodeURIComponent_def low_sur_def high_sur_def encode_point_def unreserved_def)
  have pl: "plain (ud_uid old_user)" "plain (ud_token old_user)" "plain (js ''old'')"
    by (simp_all add: old_user_def plain_def)
  note f = signed_jar_facts [OF jar_ok_empty pl]
  show "jar_ok old_jar" using f(1) by (simp add: old_jar_def)
  show "request_interceptor old_jar = Inr \<lparr>h_uid = Some (js ''u0''), h_user_name = Some (js ''old''), h_token = Some (js ''t0'')\<rparr>"
    using signed_jar_headers [OF jar_ok_empty pl(1) _ pl(2) _ _ _ n] by (simp add: old_jar_def old_user_def)
  have "cookie_match uid_cookie (document_cookie old_jar) = Some (ud_uid old_user)"
    using f(1,2) cookie_name_facts(4) by (simp add: cookie_match_cookie old_jar_def)
  then show "ap_check (app_boot old_jar u) = Some (request_interceptor old_jar)"
    by (simp add: app_boot_def checkAuth_start_def store_initial_def)
qed

definition check_ok :: "api_exn + user_data ApiResponse" where
  "check_ok = Inr \<lparr>res_code = 0, res_data = Some (user_data.truncate old_user), res_message = None\<rparr>"

text \<open>
  When the form is submitted before the check of an earlier session is answered, the late answer
  replaces the user of the store: the header names the old user while every request carries the new one.
\<close>

theorem late_check_other_user:
  "\<exists>evs a. app_run sample_matcher True evs a \<and> screen_of sample_matcher a = PageScreen HomePage (js ''old'') \<and>
    request_interceptor (ss_jar (ap_session a)) =
      Inr \<lparr>h_uid = Some (js ''u1''), h_user_name = Some (ud_user_name sample_user), h_token = Some (js ''t0k'')\<rparr>"
proof (intro exI conjI)
  let ?a = "check_answered check_ok (signed_app old_jar)"
  have run: "app_run sample_matcher True [Revoked, Other, Other, Other, Vouched (user_data.truncate sample_user)] (signed_app old_jar)"
    using signed_app_run [OF old_jar_facts(1,2)] by blast
  have "app_step sample_matcher True (signed_app old_jar) (check_event check_ok) ?a"
    by (rule app_step.checked) (auto simp: signed_app_home old_jar_facts(2,3) fits_def check_lawful_def check_event_def check_ok_def
        old_user_def user_data.truncate_def)
  with run show "app_run sample_matcher True ([Revoked, Other, Other, Other, Vouched (user_data.truncate sample_user)] @ [check_event check_ok]) ?a"
    by (rule app_run.step)
  show "screen_of sample_matcher ?a = PageScreen HomePage (js ''old'')"
    using screen_home [of ?a] signed_app_home [of old_jar]
    by (simp add: check_answered_def set_session_def checkAuth_end_def check_ok_def AppLayout_def shown_user_def or_str_def
        old_user_def user_data.truncate_def)
  show "request_interceptor (ss_jar (ap_session ?a)) =
      Inr \<lparr>h_uid = Some (js ''u1''), h_user_name = Some (ud_user_name sample_user), h_token = Some (js ''t0k'')\<rparr>"
    using signed_app_facts(3) [OF old_jar_facts(1)] by (simp add: jar_kept)
qed

text \<open>
  And when that check is refused, the user who has just signed in is sent back to the login
  page, with the cookies of the new session in place.
\<close>

theorem late_refusal_signs_out:
  "screen_of sample_matcher (check_answered (Inl e) (signed_app old_jar)) = Redirecting (js ''/login'') \<and>
   (\<exists>h. request_interceptor (ss_jar (ap_session (check_answered (Inl e) (signed_app old_jar)))) = Inr h \<and> h_uid h = Some (js ''u1''))"
  using screen_home [of "check_answered (Inl e) (signed_app old_jar)"] signed_app_home [of old_jar]
    signed_app_facts(3) [OF old_jar_facts(1)]
  by (simp add: check_answered_def set_session_def checkAuth_end_def AppLayout_def del: js_Cons)

end
