(* ===== verification/Task_Race.thy ===== *)
theory Task_Race
  imports Task_Views
begin

text \<open>
  The task list while its requests are under way (\<open>src/web/src/pages/TaskList.tsx\<close>): loads overlap, a submission waits
  for its creation and for the list, the page can be left at any time, and pollers run on. The handlers are cut at
  their requests. Main results: answered at once, the parts make up the handlers of \<open>Task_Pages\<close>; the page waits only
  while a load is under way; and no poller outlives the page unless the page is left during a submission.
\<close>

section \<open>Parts of the handlers\<close>

text \<open>\<open>loadTasks\<close> up to its requests, and from the answers on.\<close>

definition load_start :: "task_page \<Rightarrow> task_page" where
  "load_start p = p\<lparr>tp_loading := True, tp_error := []\<rparr>"

definition load_end :: "int \<times> (TaskListData, TaskListData) both \<Rightarrow> task_page \<Rightarrow> task_page" where
  "load_end run p =
     (case snd run of
        Inl e \<Rightarrow> p\<lparr>tp_error := err_text e msg_tasks_failed, tp_tasks := [], tp_total := 0, tp_loading := False\<rparr>
      | Inr (pageRes, statsRes) \<Rightarrow>
        (let p = (if res_code pageRes = 0
                  then p\<lparr>tp_tasks := opt_list tl_list (res_data pageRes),
                         tp_total := opt_int tl_total (res_data pageRes) 0,
                         tp_page := opt_int tl_page (res_data pageRes) (fst run)\<rparr>
                  else p);
             p = (if res_code statsRes = 0 then p\<lparr>tp_allTasks := opt_list tl_list (res_data statsRes)\<rparr> else p)
         in p\<lparr>tp_loading := False\<rparr>))"

lemma load_parts: "load_end run (load_start p) = loadTasks run p"
  by (auto simp: load_end_def load_start_def loadTasks_def Let_def split: sum.split)

section \<open>The page and what is under way\<close>

text \<open>
  A load with its page and keyword; a submission that waits for the creation or for the list; a poller, and whether
  it was aborted. \<open>tp_poller\<close> is the poller in \<open>pollerRef\<close>. Updates of a page that is no longer mounted have no effect,
  but navigations and pollers have.
\<close>

datatype submit_point = AtCreate | AtReload jstring

record list_host =
  lh_page :: task_page
  lh_mounted :: bool
  lh_loads :: "(int \<times> int \<times> jstring option) list"
  lh_submit :: "submit_point option"
  lh_pollers :: "(jstring \<times> bool) list"
  lh_left :: "jstring list"

definition update_page :: "(task_page \<Rightarrow> task_page) \<Rightarrow> list_host \<Rightarrow> list_host" where
  "update_page f h = (if lh_mounted h then h\<lparr>lh_page := f (lh_page h)\<rparr> else h)"

definition start_list_load :: "int \<Rightarrow> list_host \<Rightarrow> list_host" where
  "start_list_load n h = (update_page load_start h)\<lparr>lh_loads := lh_loads h @ [page_query n (lh_page h)]\<rparr>"

definition answer_list_load :: "nat \<Rightarrow> (TaskListData, TaskListData) both \<Rightarrow> list_host \<Rightarrow> list_host" where
  "answer_list_load i out h =
     (update_page (load_end (fst (lh_loads h ! i), out)) h)\<lparr>lh_loads := drop_nth i (lh_loads h)\<rparr>"

text \<open>\<open>submitCreate\<close>: the button, the answer to the creation, and the answer to the list that follows.\<close>

definition set_submitting :: "bool \<Rightarrow> task_page \<Rightarrow> task_page" where
  "set_submitting b p = p\<lparr>tp_fm := (tp_fm p)\<lparr>fm_submitting := b\<rparr>\<rparr>"

definition press_create :: "list_host \<Rightarrow> list_host" where
  "press_create h =
     (if fm_mode (tp_fm (lh_page h)) \<noteq> Oneshot \<or> \<not> form_canSubmit (tp_fm (lh_page h)) \<or>
         task_payload (tp_fm (lh_page h)) = None then h
      else (update_page (set_submitting True) h)\<lparr>lh_submit := Some AtCreate\<rparr>)"

definition create_answered :: "api_exn + jstring ApiResponse \<Rightarrow> list_host \<Rightarrow> list_host" where
  "create_answered answer h =
     (case created msg_create_failed answer of
        Inl e \<Rightarrow>
          (update_page (\<lambda>p. set_submitting False (p\<lparr>tp_alerts := tp_alerts p @ [alert_text e msg_create_failed]\<rparr>)) h)
            \<lparr>lh_submit := None\<rparr>
      | Inr tid \<Rightarrow>
          (update_page (\<lambda>p. load_start (p\<lparr>tp_showCreate := False, tp_fm := reset_form (tp_fm p)\<rparr>)) h)
            \<lparr>lh_submit := Some (AtReload tid)\<rparr>)"

definition reload_answered :: "jstring \<Rightarrow> (TaskListData, TaskListData) both \<Rightarrow> list_host \<Rightarrow> list_host" where
  "reload_answered tid out h =
     (let h' = (update_page (\<lambda>p. set_submitting False (load_end (1, out) p)) h)\<lparr>lh_submit := None\<rparr>
      in if tid = [] then h'
         else h'\<lparr>lh_page := (lh_page h')\<lparr>tp_nav := tp_nav (lh_page h') @ [result_url tid], tp_poller := Some tid\<rparr>,
                lh_pollers := lh_pollers h @ [(tid, False)]\<rparr>)"

text \<open>The effect of leaving the page aborts the poller in the reference.\<close>

definition unmount_list :: "list_host \<Rightarrow> list_host" where
  "unmount_list h =
     h\<lparr>lh_mounted := False,
       lh_pollers := map (\<lambda>(tid, ab). (tid, ab \<or> tp_poller (lh_page h) = Some tid)) (lh_pollers h)\<rparr>"

text \<open>A poller returns, and leads to the result, or fails. \<open>lh_left\<close> are the navigations of pollers.\<close>

definition poller_done :: "nat \<Rightarrow> list_host \<Rightarrow> list_host" where
  "poller_done i h =
     h\<lparr>lh_left := lh_left h @ [result_url (fst (lh_pollers h ! i))],
       lh_pollers := drop_nth i (lh_pollers h)\<rparr>"

definition poller_failed :: "nat \<Rightarrow> list_host \<Rightarrow> list_host" where
  "poller_failed i h = h\<lparr>lh_pollers := drop_nth i (lh_pollers h)\<rparr>"

definition set_list_search :: "jstring \<Rightarrow> task_page \<Rightarrow> task_page" where
  "set_list_search v p = p\<lparr>tp_search := v\<rparr>"

definition list_onKeyDown :: "jstring \<Rightarrow> list_host \<Rightarrow> list_host" where
  "list_onKeyDown key h = (if key = js ''Enter'' then start_list_load 1 h else h)"

definition open_create :: "task_page \<Rightarrow> task_page" where
  "open_create p = p\<lparr>tp_showCreate := True\<rparr>"

definition cancel_create :: "task_page \<Rightarrow> task_page" where
  "cancel_create p = p\<lparr>tp_showCreate := False\<rparr>"

definition mount_list :: "jstring option \<Rightarrow> list_host" where
  "mount_list viewParam =
     start_list_load 1
       \<lparr>lh_page = task_page_initial\<lparr>tp_activeView := view_of_param viewParam\<rparr>, lh_mounted = True, lh_loads = [], lh_submit = None,
        lh_pollers = [], lh_left = []\<rparr>"

text \<open>
  The steps. A page that has navigated to a result only waits to be replaced. Without \<open>free\<close> the page is left only
  when no submission is under way.
\<close>

inductive list_step :: "bool \<Rightarrow> list_host \<Rightarrow> list_host \<Rightarrow> bool" for free where
  edited: "lh_mounted h \<Longrightarrow> tp_nav (lh_page h) = [] \<Longrightarrow>
    f \<in> {set_list_search v, open_create, cancel_create, tasks_loadAgents answer, (\<lambda>p. p\<lparr>tp_fm := onChange g (tp_fm p)\<rparr>)} \<Longrightarrow>
    list_step free h (update_page f h)"
| reload: "lh_mounted h \<Longrightarrow> list_step free h (start_list_load n h)"
| loaded: "i < length (lh_loads h) \<Longrightarrow> list_step free h (answer_list_load i out h)"
| pressed: "lh_mounted h \<Longrightarrow> tp_nav (lh_page h) = [] \<Longrightarrow> list_step free h (press_create h)"
| created: "lh_submit h = Some AtCreate \<Longrightarrow> list_step free h (create_answered answer h)"
| reloaded: "lh_submit h = Some (AtReload tid) \<Longrightarrow> list_step free h (reload_answered tid out h)"
| left: "lh_mounted h \<Longrightarrow> free \<or> lh_submit h = None \<Longrightarrow> list_step free h (unmount_list h)"
| polled: "i < length (lh_pollers h) \<Longrightarrow> list_step free h (poller_done i h)"
| poll_failed: "i < length (lh_pollers h) \<Longrightarrow> list_step free h (poller_failed i h)"

definition list_reachable :: "bool \<Rightarrow> list_host \<Rightarrow> bool" where
  "list_reachable free h \<longleftrightarrow> (\<exists>viewParam. (list_step free)\<^sup>*\<^sup>* (mount_list viewParam) h)"

section \<open>Invariants\<close>

text \<open>One submission at a time, and the page waits only for a load or for the list of a submission.\<close>

definition wait_ok :: "list_host \<Rightarrow> bool" where
  "wait_ok h \<longleftrightarrow>
     (tp_loading (lh_page h) \<and> lh_mounted h \<longrightarrow> lh_loads h \<noteq> [] \<or> (\<exists>tid. lh_submit h = Some (AtReload tid))) \<and>
     (lh_mounted h \<longrightarrow> (fm_submitting (tp_fm (lh_page h)) \<longleftrightarrow> lh_submit h \<noteq> None))"

definition pollers_ok :: "list_host \<Rightarrow> bool" where
  "pollers_ok h \<longleftrightarrow>
     (if lh_mounted h
      then \<forall>pl \<in> set (lh_pollers h). tp_poller (lh_page h) = Some (fst pl)
      else lh_submit h = None \<and> (\<forall>pl \<in> set (lh_pollers h). snd pl)) \<and>
     (lh_mounted h \<and> tp_nav (lh_page h) = [] \<longrightarrow> lh_pollers h = []) \<and>
     (lh_mounted h \<and> lh_submit h \<noteq> None \<longrightarrow> tp_nav (lh_page h) = [])"

lemma load_end_frame [simp]:
  "tp_fm (load_end run p) = tp_fm p" "tp_nav (load_end run p) = tp_nav p" "tp_poller (load_end run p) = tp_poller p"
  "tp_loading (load_end run p) = False" "tp_alerts (load_end run p) = tp_alerts p" "tp_showCreate (load_end run p) = tp_showCreate p"
  by (auto simp: load_end_def Let_def split: sum.split)

lemma load_start_frame [simp]:
  "tp_fm (load_start p) = tp_fm p" "tp_nav (load_start p) = tp_nav p" "tp_poller (load_start p) = tp_poller p"
  "tp_loading (load_start p)"
  by (simp_all add: load_start_def)

lemma set_submitting_frame [simp]:
  "fm_submitting (tp_fm (set_submitting b p)) = b" "tp_nav (set_submitting b p) = tp_nav p"
  "tp_poller (set_submitting b p) = tp_poller p" "tp_loading (set_submitting b p) = tp_loading p"
  by (simp_all add: set_submitting_def)

lemma load_end_submitting: "set_submitting b (load_end run p) = load_end run (set_submitting b p)"
  by (auto simp: set_submitting_def load_end_def Let_def split: sum.split)

lemma load_start_submitting: "set_submitting b (load_start p) = load_start (set_submitting b p)"
  by (simp add: set_submitting_def load_start_def)

lemma reset_form_submitting: "reset_form (f\<lparr>fm_submitting := b\<rparr>) = (reset_form f)\<lparr>fm_submitting := b\<rparr>"
  by (simp add: reset_form_def onChange_def sync_continuous_def)

lemma form_submitting_frame [simp]:
  "fm_submitting (reset_form f) = fm_submitting f" "fm_submitting (onChange g f) = fm_submitting f"
  "fm_submitting (choose_agent agents f) = fm_submitting f"
  by (simp_all add: reset_form_def onChange_def sync_continuous_def choose_agent_def split: option.split)

text \<open>What an edit keeps.\<close>

lemma edit_frame:
  assumes "f \<in> {set_list_search v, open_create, cancel_create, tasks_loadAgents answer, (\<lambda>p. p\<lparr>tp_fm := onChange g (tp_fm p)\<rparr>)}"
  shows "tp_nav (f p) = tp_nav p" "tp_poller (f p) = tp_poller p" "tp_loading (f p) = tp_loading p"
    "fm_submitting (tp_fm (f p)) = fm_submitting (tp_fm p)"
  using assms
  by (auto simp: set_list_search_def open_create_def cancel_create_def tasks_loadAgents_def Let_def split: sum.splits)

lemmas list_parts_defs = update_page_def start_list_load_def answer_list_load_def press_create_def create_answered_def
  reload_answered_def unmount_list_def poller_done_def poller_failed_def

lemma list_step_wait: "list_step free h h' \<Longrightarrow> wait_ok h \<Longrightarrow> wait_ok h'"
proof (induction rule: list_step.induct)
  case (edited h f v answer g)
  then show ?case using edit_frame [OF edited(3)] by (simp add: wait_ok_def update_page_def)
qed (auto simp: wait_ok_def list_parts_defs form_canSubmit_def Let_def split: sum.splits)

lemma list_step_pollers: "list_step False h h' \<Longrightarrow> pollers_ok h \<Longrightarrow> pollers_ok h'"
proof (induction rule: list_step.induct)
  case (edited h f v answer g)
  then show ?case using edit_frame [OF edited(3)] by (simp add: pollers_ok_def update_page_def)
next
  case (polled i h)
  then show ?case using drop_nth_member [of _ i "lh_pollers h"] by (simp add: pollers_ok_def poller_done_def) fastforce
next
  case (poll_failed i h)
  then show ?case using drop_nth_member [of _ i "lh_pollers h"] by (simp add: pollers_ok_def poller_failed_def) fastforce
qed (auto simp: pollers_ok_def list_parts_defs Let_def split: sum.splits if_splits)

lemma mount_ok: "wait_ok (mount_list v)" "pollers_ok (mount_list v)"
  by (simp_all add: mount_list_def start_list_load_def update_page_def wait_ok_def pollers_ok_def task_page_initial_def
      form_initial_def)

interpretation list_waits: machine "\<lambda>h. \<exists>v. h = mount_list v" "list_step free" wait_ok for free
  by unfold_locales (auto intro: mount_ok list_step_wait)

interpretation list_pollers: machine "\<lambda>h. \<exists>v. h = mount_list v" "list_step False" pollers_ok
  by unfold_locales (auto intro: mount_ok list_step_pollers)

lemma list_reachable_wait: "list_reachable free h \<Longrightarrow> wait_ok h"
  unfolding list_reachable_def using list_waits.reachable by blast

lemma list_reachable_pollers: "list_reachable False h \<Longrightarrow> pollers_ok h"
  unfolding list_reachable_def using list_pollers.reachable by blast

section \<open>Properties\<close>

text \<open>
  C11: pressed and answered without anything in between, the parts of the submission make up
  \<open>submitCreate\<close>: they leave the same page, on every branch, and a poller for exactly the task that was created.
\<close>

theorem submit_parts_refine:
  assumes "lh_mounted h" and "fm_mode (tp_fm (lh_page h)) = Oneshot" and "form_canSubmit (tp_fm (lh_page h))"
    and "task_payload (tp_fm (lh_page h)) \<noteq> None" and "h1 = create_answered (fst outcome) (press_create h)"
    and "h2 = (case lh_submit h1 of Some (AtReload tid) \<Rightarrow> reload_answered tid (snd outcome) h1 | _ \<Rightarrow> h1)"
  shows "lh_page h2 = submitCreate outcome (lh_page h) \<and> lh_submit h2 = None \<and>
    lh_pollers h2 = lh_pollers h @ (case created msg_create_failed (fst outcome) of
      Inl e \<Rightarrow> [] | Inr tid \<Rightarrow> if tid = [] then [] else [(tid, False)])"
proof -
  obtain y where y: "task_payload (tp_fm (lh_page h)) = Some y" using assms(4) by blast
  have press: "press_create h = h\<lparr>lh_page := set_submitting True (lh_page h), lh_submit := Some AtCreate\<rparr>"
    using assms(1-3) y by (simp add: press_create_def update_page_def)
  show ?thesis
  proof (cases "created msg_create_failed (fst outcome)")
    case (Inl e)
    with assms(1,5,6) y show ?thesis
      by (simp add: press create_answered_def submitCreate_def update_page_def set_submitting_def)
  next
    case (Inr tid)
    let ?p = "(lh_page h)\<lparr>tp_showCreate := False, tp_fm := (reset_form (tp_fm (lh_page h)))\<lparr>fm_submitting := False\<rparr>\<rparr>"
    have "h1 = h\<lparr>lh_page := load_start (set_submitting True ?p), lh_submit := Some (AtReload tid)\<rparr>"
      using assms(1,5) Inr
      by (simp add: press create_answered_def update_page_def set_submitting_def reset_form_submitting)
    moreover have "set_submitting False (load_end run (load_start (set_submitting True ?p))) = loadTasks run ?p" for run
      unfolding load_parts [symmetric] load_end_submitting load_start_submitting
      by (simp add: set_submitting_def)
    ultimately show ?thesis
      using assms(1,6) Inr y by (simp add: reload_answered_def submitCreate_def update_page_def Let_def)
  qed
qed

text \<open>
  In every order of edits, reloads, submissions and answers the task list says that it is loading only
  while a load or the list of a submission is under way, and its dialog is disabled exactly while its one submission is.
\<close>

theorem list_waits_end:
  assumes "list_reachable free h" and "lh_mounted h"
  shows "(tp_loading (lh_page h) \<longrightarrow> lh_loads h \<noteq> [] \<or> (\<exists>tid. lh_submit h = Some (AtReload tid))) \<and>
    (fm_submitting (tp_fm (lh_page h)) \<longleftrightarrow> lh_submit h \<noteq> None)"
  using list_reachable_wait [OF assms(1)] assms(2) by (simp add: wait_ok_def)

text \<open>
  C15: as long as the page is not left while a submission is under way, leaving it aborts every poller it
  started: no poller of a page that is gone runs unaborted, and none is started any more. While the page is mounted,
  every poller that runs is the one its cleanup will abort.
\<close>

theorem list_pollers_stop:
  assumes "list_reachable False h"
  shows "(\<not> lh_mounted h \<longrightarrow> lh_submit h = None \<and> (\<forall>pl \<in> set (lh_pollers h). snd pl)) \<and>
    (lh_mounted h \<longrightarrow> (\<forall>pl \<in> set (lh_pollers h). tp_poller (lh_page h) = Some (fst pl)))"
  using list_reachable_pollers [OF assms] by (auto simp: pollers_ok_def)

section \<open>Runs\<close>

text \<open>A page with a form that can be submitted.\<close>

definition filled_list :: list_host where
  "filled_list = update_page (\<lambda>p. p\<lparr>tp_fm := onChange (\<lambda>_. fm_form sample_form) (tp_fm p)\<rparr>) (mount_list None)"

lemma filled_list_reachable: "list_reachable free filled_list"
proof -
  have "list_step free (mount_list None) filled_list"
    unfolding filled_list_def
    by (rule list_step.edited) (auto simp: mount_list_def start_list_load_def update_page_def task_page_initial_def load_start_def)
  then show ?thesis by (auto simp: list_reachable_def)
qed

lemma filled_list_form: "tp_fm (lh_page filled_list) = sample_form"
proof -
  have "onChange (\<lambda>_. fm_form sample_form) form_initial = sample_form"
    by (simp add: sample_form_def set_pid_def set_target_ip_def onChange_def sync_continuous_def)
  then show ?thesis
    by (simp add: filled_list_def mount_list_def start_list_load_def update_page_def task_page_initial_def load_start_def)
qed

lemma filled_list_ready:
  "lh_mounted filled_list" "fm_mode (tp_fm (lh_page filled_list)) = Oneshot" "form_canSubmit (tp_fm (lh_page filled_list))"
  "task_payload (tp_fm (lh_page filled_list)) \<noteq> None" "lh_pollers filled_list = []" "tp_nav (lh_page filled_list) = []"
  "lh_submit filled_list = None"
  unfolding filled_list_form using sample_form_submits
  by (simp_all add: filled_list_def mount_list_def start_list_load_def update_page_def task_page_initial_def load_start_def)

lemma list_reachable_step: "list_reachable free h \<Longrightarrow> list_step free h h' \<Longrightarrow> list_reachable free h'"
  by (auto simp: list_reachable_def intro: rtranclp.rtrancl_into_rtrancl)

abbreviation created_ok :: "api_exn + jstring ApiResponse" where
  "created_ok \<equiv> Inr \<lparr>res_code = 0, res_data = Some [55], res_message = None\<rparr>"

theorem submit_parts_refine_witness:
  "lh_page (reload_answered [55] (Inl (mk_error [])) (create_answered created_ok (press_create filled_list))) =
     submitCreate (created_ok, Inl (mk_error [])) (lh_page filled_list)"
proof -
  have "lh_submit (create_answered created_ok (press_create filled_list)) = Some (AtReload [55])"
    by (simp add: create_answered_def created_def opt_str_def)
  then show ?thesis
    using submit_parts_refine [OF filled_list_ready(1-4), of _ "(created_ok, Inl (mk_error []))", OF refl refl] by simp
qed

theorem list_waits_end_witness: "\<not> fm_submitting (tp_fm (lh_page filled_list))"
  using list_waits_end [OF filled_list_reachable filled_list_ready(1)] by (simp add: filled_list_ready(7))

lemma pressed_list:
  "lh_mounted (press_create filled_list)" "lh_submit (press_create filled_list) = Some AtCreate"
  "lh_pollers (press_create filled_list) = []" "lh_left (press_create filled_list) = []"
  "list_step free filled_list (press_create filled_list)"
proof -
  obtain y where "task_payload (tp_fm (lh_page filled_list)) = Some y" using filled_list_ready(4) by blast
  then show "lh_mounted (press_create filled_list)" "lh_submit (press_create filled_list) = Some AtCreate"
    "lh_pollers (press_create filled_list) = []" "lh_left (press_create filled_list) = []"
    using filled_list_ready
    by (simp_all add: press_create_def update_page_def filled_list_def mount_list_def start_list_load_def)
  show "list_step free filled_list (press_create filled_list)"
    using filled_list_ready by (intro list_step.pressed) simp_all
qed

text \<open>The page after a creation, and the steps that lead there: the answer to the request and the list loaded again.\<close>

definition created_list :: "list_host \<Rightarrow> list_host" where
  "created_list h = reload_answered [55] (Inl (mk_error [])) (create_answered created_ok h)"

lemma created_list_facts:
  assumes "lh_submit h = Some AtCreate" and "lh_pollers h = []"
  shows "lh_mounted (created_list h) = lh_mounted h" "lh_pollers (created_list h) = [([55], False)]"
    "lh_left (created_list h) = lh_left h" "lh_submit (created_list h) = None"
    "list_reachable free h \<Longrightarrow> list_reachable free (created_list h)"
proof -
  let ?c = "create_answered created_ok h"
  have c: "lh_mounted ?c = lh_mounted h" "lh_submit ?c = Some (AtReload [55])" "lh_pollers ?c = []" "lh_left ?c = lh_left h"
    using assms by (simp_all add: create_answered_def created_def opt_str_def update_page_def)
  then show "lh_mounted (created_list h) = lh_mounted h" "lh_pollers (created_list h) = [([55], False)]"
    "lh_left (created_list h) = lh_left h" "lh_submit (created_list h) = None"
    by (simp_all add: created_list_def reload_answered_def update_page_def Let_def)
  have "list_step free h ?c" using assms(1) by (rule list_step.created)
  moreover have "list_step free ?c (created_list h)" unfolding created_list_def using c(2) by (rule list_step.reloaded)
  moreover assume "list_reachable free h"
  ultimately show "list_reachable free (created_list h)" by (blast intro: list_reachable_step)
qed

theorem list_pollers_stop_witness:
  "lh_pollers (unmount_list (created_list (press_create filled_list))) = [([55], True)]"
proof -
  let ?h = "created_list (press_create filled_list)"
  note h = created_list_facts [OF pressed_list(2,3)]
  have "list_reachable False ?h"
    using h(5) list_reachable_step [OF filled_list_reachable pressed_list(5)] by blast
  moreover have "list_step False ?h (unmount_list ?h)"
    using h(1,4) pressed_list(1) by (intro list_step.left) simp_all
  ultimately have "list_reachable False (unmount_list ?h)" by (rule list_reachable_step)
  from list_pollers_stop [OF this] show ?thesis
    using h(2) by (simp add: unmount_list_def)
qed

text \<open>
  When the page is left while a creation is under way, the poller that its answer starts is never
  aborted, and it leads the user from wherever they are to the result of the task once it is done.
\<close>

theorem orphan_poller:
  "\<exists>h. list_reachable True h \<and> \<not> lh_mounted h \<and> lh_pollers h = [([55], False)] \<and>
    lh_left (poller_done 0 h) = [result_url [55]]"
proof -
  let ?b = "unmount_list (press_create filled_list)"
  have b: "\<not> lh_mounted ?b" "lh_submit ?b = Some AtCreate" "lh_pollers ?b = []" "lh_left ?b = []"
    using pressed_list by (simp_all add: unmount_list_def)
  have "list_step True (press_create filled_list) ?b" using pressed_list(1) by (intro list_step.left) simp_all
  then have "list_reachable True ?b"
    using filled_list_reachable pressed_list(5) by (blast intro: list_reachable_step)
  then show ?thesis
    using b(1,4) created_list_facts [OF b(2,3)] by (intro exI [of _ "created_list ?b"]) (simp add: poller_done_def)
qed

text \<open>
  The dialog promises that the page polls the new task and opens its result when the analysis
  is done. The submission opens the result at once, and leaving the page for it aborts the poller it has just started.
\<close>

theorem navigation_aborts_poller:
  assumes "lh_mounted h" and "lh_pollers h = []" and "tid \<noteq> []" and "h' = reload_answered tid out h"
  shows "tp_nav (lh_page h') = tp_nav (lh_page h) @ [result_url tid] \<and> lh_pollers (unmount_list h') = [(tid, True)]"
  using assms by (simp add: reload_answered_def unmount_list_def update_page_def set_submitting_def Let_def)

text \<open>
  A load clears the error when it starts, not when it ends. When an older load fails after a newer
  one was started, the rows of the newer one stand below the error of the older.
\<close>

theorem late_failure_stays:
  assumes "lh_mounted h" and "lh_loads h = []" and "res_code pageRes = 0"
    and "h' = answer_list_load 0 (Inr (pageRes, statsRes)) (answer_list_load 0 (Inl e) (start_list_load n (start_list_load m h)))"
  shows "tp_error (lh_page h') = err_text e msg_tasks_failed \<and> tp_tasks (lh_page h') = opt_list tl_list (res_data pageRes) \<and>
    \<not> tp_loading (lh_page h') \<and> lh_loads h' = []"
  using assms
  by (simp add: answer_list_load_def start_list_load_def update_page_def load_end_def load_start_def drop_nth_def Let_def)

text \<open>
  The answers of two searches are taken in the order they arrive. The rows of the first search stand
  below the text of the second when the second is answered first.
\<close>

theorem search_overtaken:
  assumes "lh_mounted h" and "lh_loads h = []" and "res_code (fst r1) = 0"
    and "h1 = start_list_load 1 (update_page (set_list_search v1) h)"
    and "h2 = start_list_load 1 (update_page (set_list_search v2) h1)"
    and "h3 = answer_list_load 0 (Inr r1) (answer_list_load 1 (Inr r2) h2)"
  shows "tp_search (lh_page h3) = v2 \<and> tp_tasks (lh_page h3) = opt_list tl_list (res_data (fst r1)) \<and> lh_loads h3 = [] \<and>
    map (snd \<circ> snd) (lh_loads h2) = [if v1 = [] then None else Some v1, if v2 = [] then None else Some v2]"
  using assms
  by (cases r1; cases r2)
    (simp add: answer_list_load_def start_list_load_def update_page_def set_list_search_def load_end_def load_start_def
      drop_nth_def page_query_def Let_def)

end
