(* ===== verification/Page_Frames.thy ===== *)
theory Page_Frames
  imports Modal_View Task_Race Admin_Views Flame_Chart Json
begin

text \<open>
  The pages as a whole: their headings, search fields, tabs and buttons around the parts of \<open>Task_Views\<close>,
  \<open>Modal_View\<close>, \<open>Admin_Views\<close> and \<open>Flame_Chart\<close> (\<open>src/web/src/pages/TaskList.tsx\<close>, \<open>Home.tsx\<close>, \<open>Agents.tsx\<close>,
  \<open>AgentDetail.tsx\<close>, \<open>Groups.tsx\<close>, \<open>Settings.tsx\<close>, \<open>FlameDiff.tsx\<close>). Main results: the settings page sends what it shows and
  prints the groups of the user so that they can be read back; a comparison draws the answer for the ids in its head
  until the answer changes; the style sheet of a chart is added once.
\<close>

section \<open>The task list\<close>

definition hd_tasks :: jstring where \<comment> \<open>task list\<close>
  [msg_defs]: "hd_tasks = [0x4EFB, 0x52A1, 0x5217, 0x8868]"
definition sub_tasks :: jstring where \<comment> \<open>manage and view all tasks\<close>
  [msg_defs]: "sub_tasks = [0x7BA1, 0x7406, 0x548C, 0x67E5, 0x770B, 0x6240, 0x6709, 0x6027, 0x80FD, 0x91C7, 0x96C6, 0x4EFB, 0x52A1]"
definition tab_tasks :: jstring where \<comment> \<open>tasks\<close>
  [msg_defs]: "tab_tasks = [0x91C7, 0x96C6, 0x4EFB, 0x52A1]"
definition tab_schedules :: jstring where \<comment> \<open>scheduled tasks\<close>
  [msg_defs]: "tab_schedules = [0x5B9A, 0x65F6, 0x4EFB, 0x52A1]"
definition ph_task_search :: jstring where \<comment> \<open>search by name or address\<close>
  [msg_defs]: "ph_task_search = [0x641C, 0x7D22, 0x4EFB, 0x52A1, 0x540D, 0x79F0, 0x6216, 32, 73, 80, 46, 46, 46]"
definition btn_search :: jstring where \<comment> \<open>search\<close>
  [msg_defs]: "btn_search = [0x641C, 0x7D22]"
definition btn_new_task :: jstring where \<comment> \<open>new task\<close>
  [msg_defs]: "btn_new_task = [43, 32, 0x65B0, 0x5EFA, 0x4EFB, 0x52A1]"
definition th_tid :: jstring where \<comment> \<open>task id\<close>
  [msg_defs]: "th_tid = [0x4EFB, 0x52A1, 73, 68]"
definition th_name :: jstring where \<comment> \<open>task name\<close>
  [msg_defs]: "th_name = [0x4EFB, 0x52A1, 0x540D, 0x79F0]"
definition th_ip :: jstring where \<comment> \<open>target address\<close>
  [msg_defs]: "th_ip = [0x76EE, 0x6807, 32, 73, 80]"
definition th_status :: jstring where \<comment> \<open>state\<close>
  [msg_defs]: "th_status = [0x72B6, 0x6001]"
definition th_analysis :: jstring where \<comment> \<open>state of the analysis\<close>
  [msg_defs]: "th_analysis = [0x5206, 0x6790, 0x72B6, 0x6001]"
definition th_duration :: jstring where \<comment> \<open>duration\<close>
  [msg_defs]: "th_duration = [0x65F6, 0x957F]"
definition th_created :: jstring where \<comment> \<open>time of creation\<close>
  [msg_defs]: "th_created = [0x521B, 0x5EFA, 0x65F6, 0x95F4]"
definition th_actions :: jstring where \<comment> \<open>actions\<close>
  [msg_defs]: "th_actions = [0x64CD, 0x4F5C]"

definition task_heads :: "jstring list" where
  "task_heads = [th_tid, th_name, th_ip, th_status, th_analysis, th_duration, th_created, th_actions]"

record search_bar =
  sb_placeholder :: jstring
  sb_value :: jstring
  sb_buttons :: "jstring list"

definition task_search_bar :: "task_page \<Rightarrow> search_bar" where
  "task_search_bar p =
     \<lparr>sb_placeholder = ph_task_search, sb_value = tp_search p, sb_buttons = [btn_search, btn_new_task]\<rparr>"

text \<open>The tabs with whether they are active, and the choice of one.\<close>

definition view_tabs :: "task_page \<Rightarrow> (task_view \<times> jstring \<times> bool) list" where
  "view_tabs p =
     map (\<lambda>(v, label). (v, label, tp_activeView p = v)) [(TasksView, tab_tasks), (SchedulesView, tab_schedules)]"

definition setActiveView :: "task_view \<Rightarrow> task_page \<Rightarrow> task_page" where
  "setActiveView v p = p\<lparr>tp_activeView := v\<rparr>"

definition task_dialog :: "task_page \<Rightarrow> modal_view option" where
  "task_dialog p = (if tp_showCreate p then Some (CreateTaskModal None (tp_agents p) (tp_fm p)) else None)"

datatype task_list_body =
    TasksBody search_bar "jstring list" "task_entry part list" "jstring \<times> jstring" "modal_view option"
  | SchedulesBody "jstring \<times> (jstring \<times> jstring) list \<times> jsval list part list"

definition task_list_body_of :: "date_env \<Rightarrow> schedule_panel \<Rightarrow> task_page \<Rightarrow> js_error + task_list_body" where
  "task_list_body_of env sp p =
     (case tp_activeView p of
        TasksView \<Rightarrow>
          and_then (task_table env p) (\<lambda>table.
            Inr (TasksBody (task_search_bar p) task_heads table (pager_text p) (task_dialog p)))
      | SchedulesView \<Rightarrow> and_then (schedule_view env (sp\<lparr>sc_agents := tp_agents p\<rparr>)) (\<lambda>v. Inr (SchedulesBody v)))"

definition TaskList ::
  "date_env \<Rightarrow> schedule_panel \<Rightarrow> task_page \<Rightarrow>
     js_error + (jstring \<times> jstring) \<times> (jstring \<times> jstring) list \<times> (task_view \<times> jstring \<times> bool) list \<times> task_list_body" where
  "TaskList env sp p =
     and_then (task_list_body_of env sp p) (\<lambda>body. Inr ((hd_tasks, sub_tasks), task_counters p, view_tabs p, body))"

section \<open>The home page\<close>

definition hd_hero :: jstring where \<comment> \<open>profiling and analysis\<close>
  [msg_defs]: "hd_hero = [0x6027, 0x80FD, 0x91C7, 0x96C6, 0x4E0E, 0x5206, 0x6790]"
definition sub_hero :: jstring where \<comment> \<open>what the platform does\<close>
  [msg_defs]: "sub_hero = [0x4E00, 0x952E, 0x91C7, 0x96C6, 32, 67, 80, 85, 47, 0x5185, 0x5B58, 47, 73, 79, 32, 0x6027, 0x80FD, 0x6570, 0x636E, 0xFF0C, 0x81EA, 0x52A8, 0x751F, 0x6210, 0x706B, 0x7130, 0x56FE, 0x548C, 0x70ED, 0x70B9, 0x5206, 0x6790, 0xFF0C, 65, 73, 32, 0x9A71, 0x52A8, 0x7684, 0x4F18, 0x5316, 0x5EFA, 0x8BAE, 0x3002]"
definition btn_new_sample :: jstring where \<comment> \<open>new sample\<close>
  [msg_defs]: "btn_new_sample = [43, 32, 0x65B0, 0x5EFA, 0x91C7, 0x6837]"
definition btn_view_tasks :: jstring where \<comment> \<open>view the tasks\<close>
  [msg_defs]: "btn_view_tasks = [0x67E5, 0x770B, 0x4EFB, 0x52A1]"
definition ft_flame :: jstring where \<comment> \<open>flame graphs\<close>
  [msg_defs]: "ft_flame = [0x706B, 0x7130, 0x56FE, 0x5206, 0x6790]"
definition ft_flame_text :: jstring where \<comment> \<open>hot stacks at a glance\<close>
  [msg_defs]: "ft_flame_text = [0x76F4, 0x89C2, 0x5C55, 0x793A, 0x8C03, 0x7528, 0x6808, 0x70ED, 0x70B9]"
definition ft_topn :: jstring where \<comment> \<open>hot functions\<close>
  [msg_defs]: "ft_topn = [84, 111, 112, 45, 78, 32, 0x70ED, 0x70B9, 0x51FD, 0x6570]"
definition ft_topn_text :: jstring where \<comment> \<open>functions by their share\<close>
  [msg_defs]: "ft_topn_text = [0x81EA, 0x52A8, 0x6392, 0x5E8F, 32, 67, 80, 85, 32, 0x6D88, 0x8017, 0x6700, 0x9AD8, 0x7684, 0x51FD, 0x6570]"
definition ft_ai :: jstring where \<comment> \<open>suggestions\<close>
  [msg_defs]: "ft_ai = [65, 73, 32, 0x4F18, 0x5316, 0x5EFA, 0x8BAE]"
definition ft_ai_text :: jstring where \<comment> \<open>directions from the analysis\<close>
  [msg_defs]: "ft_ai_text = [0x57FA, 0x4E8E, 0x5206, 0x6790, 0x7ED3, 0x679C, 0x7ED9, 0x51FA, 0x4F18, 0x5316, 0x65B9, 0x5411]"
definition hd_my_agents :: jstring where \<comment> \<open>my agents\<close>
  [msg_defs]: "hd_my_agents = [0x6211, 0x7684, 32, 65, 103, 101, 110, 116]"
definition hd_recent :: jstring where \<comment> \<open>recent tasks\<close>
  [msg_defs]: "hd_recent = [0x6700, 0x8FD1, 0x4EFB, 0x52A1]"
definition btn_view_all :: jstring where \<comment> \<open>view all\<close>
  [msg_defs]: "btn_view_all = [0x67E5, 0x770B, 0x5168, 0x90E8, 32, 0x2192]"
definition txt_new_sample_title :: jstring where \<comment> \<open>new sample\<close>
  [msg_defs]: "txt_new_sample_title = [0x65B0, 0x5EFA, 0x91C7, 0x6837]"

definition hero_buttons :: "(jstring \<times> jstring option) list" where
  "hero_buttons = [(btn_new_sample, None), (btn_view_tasks, Some (js ''/tasks''))]"

definition hero_features :: "(jstring \<times> jstring) list" where
  "hero_features = [(ft_flame, ft_flame_text), (ft_topn, ft_topn_text), (ft_ai, ft_ai_text)]"

definition home_open_create :: "home_page \<Rightarrow> home_page" where
  "home_open_create p = p\<lparr>hp_showCreate := True\<rparr>"

definition home_cancel_create :: "home_page \<Rightarrow> home_page" where
  "home_cancel_create p = p\<lparr>hp_showCreate := False\<rparr>"

definition home_dialog :: "home_page \<Rightarrow> modal_view option" where
  "home_dialog p =
     (if hp_showCreate p then Some (CreateTaskModal (Some txt_new_sample_title) (hp_agents p) (hp_fm p)) else None)"

text \<open>A section with its heading and the link of its button.\<close>

record 'r home_section =
  hs_heading :: jstring
  hs_link :: "jstring \<times> jstring"
  hs_parts :: "'r part list"

definition agents_section :: "date_env \<Rightarrow> home_page \<Rightarrow> agent_line home_section" where
  "agents_section env p =
     \<lparr>hs_heading = hd_my_agents, hs_link = (btn_view_all, js ''/agents''), hs_parts = home_agents env p\<rparr>"

definition recent_section :: "date_env \<Rightarrow> home_page \<Rightarrow> recent_line home_section" where
  "recent_section env p =
     \<lparr>hs_heading = hd_recent, hs_link = (btn_view_all, js ''/tasks''), hs_parts = home_recent env p\<rparr>"

record home_view =
  hv_hero :: "jstring \<times> jstring"
  hv_buttons :: "(jstring \<times> jstring option) list"
  hv_features :: "(jstring \<times> jstring) list"
  hv_agents :: "agent_line home_section"
  hv_recent :: "recent_line home_section"
  hv_dialog :: "modal_view option"

definition Home :: "date_env \<Rightarrow> home_page \<Rightarrow> home_view" where
  "Home env p =
     \<lparr>hv_hero = (hd_hero, sub_hero), hv_buttons = hero_buttons, hv_features = hero_features,
      hv_agents = agents_section env p, hv_recent = recent_section env p, hv_dialog = home_dialog p\<rparr>"

section \<open>The dialog's frame\<close>

definition txt_dialog_note :: jstring where \<comment> \<open>the new task is polled, its result is opened after the analysis\<close>
  [msg_defs]: "txt_dialog_note = [0x521B, 0x5EFA, 0x540E, 0x4F1A, 0x81EA, 0x52A8, 0x8F6E, 0x8BE2, 0x4EFB, 0x52A1, 0x72B6, 0x6001, 0xFF0C, 0x5E76, 0x5728, 0x5206, 0x6790, 0x5B8C, 0x6210, 0x540E, 0x8FDB, 0x5165, 0x7ED3, 0x679C, 0x9875, 0x3002]"
definition btn_cancel :: jstring where \<comment> \<open>cancel\<close>
  [msg_defs]: "btn_cancel = [0x53D6, 0x6D88]"

text \<open>The three ways to cancel: the area around the dialog, the cross and the button. A click inside does not.\<close>

datatype dialog_click = Backdrop | Cross | CancelButton | InsideDialog

fun dialog_cancels :: "dialog_click \<Rightarrow> bool" where
  "dialog_cancels Backdrop = True"
| "dialog_cancels Cross = True"
| "dialog_cancels CancelButton = True"
| "dialog_cancels InsideDialog = False"

definition dialog_footer :: "modal_view \<Rightarrow> jstring \<times> jstring \<times> jstring \<times> bool" where
  "dialog_footer v = (txt_dialog_note, btn_cancel, mv_submit v, mv_enabled v)"

section \<open>Agents and groups\<close>

definition hd_agents :: jstring where \<comment> \<open>agents\<close>
  [msg_defs]: "hd_agents = [65, 103, 101, 110, 116, 32, 0x7BA1, 0x7406]"
definition sub_agents :: jstring where \<comment> \<open>view and manage the agents\<close>
  [msg_defs]: "sub_agents = [0x67E5, 0x770B, 0x548C, 0x7BA1, 0x7406, 0x5DF2, 0x6CE8, 0x518C, 0x7684, 0x6027, 0x80FD, 0x91C7, 0x96C6, 0x4EE3, 0x7406]"
definition ph_agent_search :: jstring where \<comment> \<open>search by name or address\<close>
  [msg_defs]: "ph_agent_search = [0x641C, 0x7D22, 32, 65, 103, 101, 110, 116, 32, 0x540D, 0x79F0, 0x6216, 32, 73, 80, 46, 46, 46]"
definition btn_refresh :: jstring where \<comment> \<open>refresh\<close>
  [msg_defs]: "btn_refresh = [0x5237, 0x65B0]"
definition hd_agent :: jstring where \<comment> \<open>an agent\<close>
  [msg_defs]: "hd_agent = [65, 103, 101, 110, 116, 32, 0x8BE6, 0x60C5]"
definition hd_groups :: jstring where \<comment> \<open>user groups\<close>
  [msg_defs]: "hd_groups = [0x7528, 0x6237, 0x7EC4, 0x7BA1, 0x7406]"
definition sub_groups :: jstring where \<comment> \<open>members and sharing\<close>
  [msg_defs]: "sub_groups = [0x7BA1, 0x7406, 0x7EC4, 0x6210, 0x5458, 0x548C, 0x5171, 0x4EAB, 0x53EF, 0x89C1, 0x8303, 0x56F4]"
definition hd_create_group :: jstring where \<comment> \<open>create a group\<close>
  [msg_defs]: "hd_create_group = [0x521B, 0x5EFA, 0x7528, 0x6237, 0x7EC4]"
definition ph_group :: jstring where \<comment> \<open>name of the group\<close>
  [msg_defs]: "ph_group = [0x7528, 0x6237, 0x7EC4, 0x540D, 0x79F0]"
definition btn_create :: jstring where \<comment> \<open>create\<close>
  [msg_defs]: "btn_create = [0x521B, 0x5EFA]"
definition lbl_my_groups :: jstring where \<comment> \<open>my groups\<close>
  [msg_defs]: "lbl_my_groups = [0x6211, 0x7684, 0x7528, 0x6237, 0x7EC4]"

definition setAgentSearch :: "jstring \<Rightarrow> agents_page \<Rightarrow> agents_page" where
  "setAgentSearch v p = p\<lparr>ap_search := v\<rparr>"

definition agent_search_bar :: "agents_page \<Rightarrow> search_bar" where
  "agent_search_bar p = \<lparr>sb_placeholder = ph_agent_search, sb_value = ap_search p, sb_buttons = [btn_refresh]\<rparr>"

definition agents_header :: "jstring \<times> jstring" where
  "agents_header = (hd_agents, sub_agents)"

definition Agents ::
  "date_env \<Rightarrow> agents_page \<Rightarrow>
     (jstring \<times> jstring) \<times> (jstring \<times> jstring) list \<times> audit_line part list \<times> search_bar \<times> agent_entry part list" where
  "Agents env p = (agents_header, agent_counters p, audit_lines env p, agent_search_bar p, agent_cards env p)"

text \<open>The head of an agent's page: its button leads back to the list.\<close>

definition agent_header :: "jstring \<Rightarrow> jstring \<times> jstring \<times> jstring" where
  "agent_header ip = (hd_agent, or_str ip dash, js ''/agents'')"

definition AgentDetail :: "date_env \<Rightarrow> jstring \<Rightarrow> agent_page \<Rightarrow> (jstring \<times> jstring \<times> jstring) \<times> agent_panel" where
  "AgentDetail env ip p = (agent_header ip, agent_body env p)"

definition setGroupName :: "jstring \<Rightarrow> groups_page \<Rightarrow> groups_page" where
  "setGroupName v p = p\<lparr>gp_groupName := v\<rparr>"

definition group_onKeyDown :: "group_outcome \<Rightarrow> jstring \<Rightarrow> groups_page \<Rightarrow> groups_page" where
  "group_onKeyDown out key p = (if key = js ''Enter'' then submitGroup out p else p)"

definition press_group :: "group_outcome \<Rightarrow> groups_page \<Rightarrow> groups_page" where
  "press_group out p = (if fst (group_buttons p) then submitGroup out p else p)"

record group_form =
  gf_heading :: jstring
  gf_value :: jstring
  gf_placeholder :: jstring
  gf_button :: "jstring \<times> bool"
  gf_list :: "jstring \<times> jstring"

definition group_form_of :: "groups_page \<Rightarrow> group_form" where
  "group_form_of p =
     \<lparr>gf_heading = hd_create_group, gf_value = gp_groupName p, gf_placeholder = ph_group,
      gf_button = (btn_create, fst (group_buttons p)), gf_list = (lbl_my_groups, btn_refresh)\<rparr>"

definition groups_header :: "jstring \<times> jstring" where
  "groups_header = (hd_groups, sub_groups)"

definition Groups ::
  "date_env \<Rightarrow> groups_page \<Rightarrow>
     (jstring \<times> jstring) \<times> jstring option \<times> group_form \<times> (jstring \<times> jstring \<times> bool) part list \<times> group_panel" where
  "Groups env p =
     (groups_header, if groups_banner p = [] then None else Some (groups_banner p), group_form_of p, group_lines p, group_detail env p)"

section \<open>Settings\<close>

definition hd_settings :: jstring where \<comment> \<open>settings\<close>
  [msg_defs]: "hd_settings = [0x8BBE, 0x7F6E]"
definition sub_settings :: jstring where \<comment> \<open>configuration and user\<close>
  [msg_defs]: "sub_settings = [0x67E5, 0x770B, 0x5F53, 0x524D, 0x524D, 0x7AEF, 0x8FD0, 0x884C, 0x914D, 0x7F6E, 0x548C, 0x7528, 0x6237, 0x4E0A, 0x4E0B, 0x6587]"
definition hd_api :: jstring where \<comment> \<open>API\<close>
  [msg_defs]: "hd_api = [65, 80, 73, 32, 0x670D, 0x52A1]"
definition hd_user :: jstring where \<comment> \<open>current user\<close>
  [msg_defs]: "hd_user = [0x5F53, 0x524D, 0x7528, 0x6237]"
definition hd_llm :: jstring where \<comment> \<open>attribution\<close>
  [msg_defs]: "hd_llm = [76, 76, 77, 32, 0x5F52, 0x56E0]"
definition lbl_user_name :: jstring where \<comment> \<open>user name\<close>
  [msg_defs]: "lbl_user_name = [0x7528, 0x6237, 0x540D]"
definition lbl_user_groups :: jstring where \<comment> \<open>user groups\<close>
  [msg_defs]: "lbl_user_groups = [0x7528, 0x6237, 0x7EC4]"
definition btn_saving :: jstring where \<comment> \<open>saving\<close>
  [msg_defs]: "btn_saving = [0x4FDD, 0x5B58, 0x4E2D, 46, 46, 46]"
definition btn_save_llm :: jstring where \<comment> \<open>save the settings\<close>
  [msg_defs]: "btn_save_llm = [0x4FDD, 0x5B58, 32, 76, 76, 77, 32, 0x8BBE, 0x7F6E]"
definition btn_clear_token :: jstring where \<comment> \<open>clear the token\<close>
  [msg_defs]: "btn_clear_token = [0x6E05, 0x9664, 32, 84, 111, 107, 101, 110]"
definition btn_refresh_state :: jstring where \<comment> \<open>refresh\<close>
  [msg_defs]: "btn_refresh_state = [0x5237, 0x65B0, 0x72B6, 0x6001]"

text \<open>The user as the server describes it; any of it may be missing.\<close>

definition user_rows :: "settings_page \<Rightarrow> (jstring \<times> jsval) list" where
  "user_rows p =
     (let user = (case se_user p of None \<Rightarrow> Null | Some u \<Rightarrow> u); groups = opt_prop user (js ''groups'')
      in [(js ''UID'', val_or (opt_prop user (js ''uid'')) (JStr dash)),
          (lbl_user_name, val_or (opt_prop user (js ''name'')) (JStr dash)),
          (lbl_user_groups, JStr (if truthy groups then opt_str (json_stringify [] groups) else dash))])"

record llm_form =
  lf_base_url :: jstring
  lf_model :: jstring
  lf_token_label :: jstring
  lf_token :: jstring
  lf_token_hint :: jstring
  lf_save :: "jstring \<times> bool"
  lf_clear :: "jstring \<times> bool"

definition llm_form_of :: "settings_page \<Rightarrow> llm_form" where
  "llm_form_of p =
     \<lparr>lf_base_url = ls_base_url (se_llm p), lf_model = ls_model (se_llm p), lf_token_label = js ''Token '' @ token_label p,
      lf_token = se_llmTokenInput p, lf_token_hint = token_placeholder p,
      lf_save = (if se_savingLLM p then btn_saving else btn_save_llm, fst (settings_buttons p)),
      lf_clear = (btn_clear_token, snd (settings_buttons p))\<rparr>"

record settings_view =
  sw_header :: "jstring \<times> jstring"
  sw_error :: "jstring option"
  sw_api :: "jstring \<times> (jstring \<times> jstring) list"
  sw_user :: "jstring \<times> (jstring \<times> jsval) list"
  sw_llm :: "jstring \<times> llm_form"
  sw_refresh :: jstring

definition Settings :: "settings_page \<Rightarrow> settings_view" where
  "Settings p =
     \<lparr>sw_header = (hd_settings, sub_settings), sw_error = (if se_error p = [] then None else Some (se_error p)),
      sw_api = (hd_api, settings_rows p), sw_user = (hd_user, user_rows p), sw_llm = (hd_llm, llm_form_of p),
      sw_refresh = btn_refresh_state\<rparr>"

text \<open>The buttons of the form; a disabled button does nothing.\<close>

definition press_save :: "(llm_update \<Rightarrow> api_exn + LLMSettings ApiResponse) \<Rightarrow> settings_page \<Rightarrow> settings_page" where
  "press_save api p = (if snd (lf_save (llm_form_of p)) then saveLLM (api, False) p else p)"

definition press_clear :: "(llm_update \<Rightarrow> api_exn + LLMSettings ApiResponse) \<Rightarrow> settings_page \<Rightarrow> settings_page" where
  "press_clear api p = (if snd (lf_clear (llm_form_of p)) then saveLLM (api, True) p else p)"

section \<open>The comparison\<close>

definition hd_diff :: jstring where \<comment> \<open>comparison\<close>
  [msg_defs]: "hd_diff = [0x706B, 0x7130, 0x56FE, 0x5BF9, 0x6BD4]"
definition sub_diff :: jstring where \<comment> \<open>choose two tasks\<close>
  [msg_defs]: "sub_diff = [0x9009, 0x62E9, 0x4E24, 0x4E2A, 0x4EFB, 0x52A1, 0xFF0C, 0x5BF9, 0x6BD4, 0x70ED, 0x70B9, 0x51FD, 0x6570, 0x5DEE, 0x5F02]"
definition lbl_base :: jstring where \<comment> \<open>base task\<close>
  [msg_defs]: "lbl_base = [0x57FA, 0x51C6, 0x4EFB, 0x52A1, 32, 40, 66, 97, 115, 101, 41]"
definition ph_base :: jstring where \<comment> \<open>id of the base task\<close>
  [msg_defs]: "ph_base = [0x8F93, 0x5165, 0x57FA, 0x51C6, 0x4EFB, 0x52A1, 32, 73, 68]"
definition lbl_compare :: jstring where \<comment> \<open>task to compare\<close>
  [msg_defs]: "lbl_compare = [0x5BF9, 0x6BD4, 0x4EFB, 0x52A1, 32, 40, 67, 111, 109, 112, 97, 114, 101, 41]"
definition ph_compare :: jstring where \<comment> \<open>id of the task to compare\<close>
  [msg_defs]: "ph_compare = [0x8F93, 0x5165, 0x5BF9, 0x6BD4, 0x4EFB, 0x52A1, 32, 73, 68]"

definition diff_onKeyDown ::
  "(jstring \<Rightarrow> jstring \<Rightarrow> api_exn + FlameDiffResult ApiResponse) \<Rightarrow> jstring \<Rightarrow> diff_page \<Rightarrow> diff_page" where
  "diff_onKeyDown api key p = (if key = js ''Enter'' then doDiff api p else p)"

definition press_diff ::
  "(jstring \<Rightarrow> jstring \<Rightarrow> api_exn + FlameDiffResult ApiResponse) \<Rightarrow> diff_page \<Rightarrow> diff_page" where
  "press_diff api p = (if diff_canSubmit p then doDiff api p else p)"

record id_field =
  if_label :: jstring
  if_value :: jstring
  if_placeholder :: jstring
  if_offers :: "(jstring \<times> jstring) list"

definition diff_fields :: "diff_page \<Rightarrow> id_field \<times> id_field" where
  "diff_fields p =
     (\<lparr>if_label = lbl_base, if_value = df_tid1 p, if_placeholder = ph_base, if_offers = tid_helper (df_tid1 p) p\<rparr>,
      \<lparr>if_label = lbl_compare, if_value = df_tid2 p, if_placeholder = ph_compare, if_offers = tid_helper (df_tid2 p) p\<rparr>)"

definition FlameDiff :: "diff_page \<Rightarrow> (jstring \<times> jstring) \<times> (id_field \<times> id_field) \<times> (jstring \<times> bool) \<times> diff_part list" where
  "FlameDiff p = ((hd_diff, sub_diff), diff_fields p, (diff_button p, diff_canSubmit p), diff_parts p)"

text \<open>The effects of the panel, which are those of the chart machine with its sizes.\<close>

definition diff_handleResize :: "int \<Rightarrow> int \<Rightarrow> chart_node host \<Rightarrow> chart_node host" where
  "diff_handleResize = handleResize"

definition diff_resize_timeout :: "chart_node host \<Rightarrow> chart_node host" where
  "diff_resize_timeout = resize_timeout diff_config"

definition diff_handleFullscreenChange :: "bool \<Rightarrow> chart_node host \<Rightarrow> chart_node host" where
  "diff_handleFullscreenChange = handleFullscreenChange diff_config"

definition diff_setSearchTerm :: "jstring \<Rightarrow> chart_node host \<Rightarrow> chart_node host" where
  "diff_setSearchTerm = setSearchTerm diff_config"

definition diff_toggleFullscreen :: "chart_node host \<Rightarrow> fullscreen_request option" where
  "diff_toggleFullscreen = toggleFullscreen"

text \<open>The container of the panel in full screen and inline.\<close>

definition diff_container :: "chart_node host \<Rightarrow> jstring \<times> jstring" where
  "diff_container h = (if ho_full h then (js ''100vh'', js ''auto'') else (js ''auto'', js ''visible''))"

inductive panel_step :: "chart_node host \<Rightarrow> chart_node host \<Rightarrow> bool" where
  resize: "ho_mounted h \<Longrightarrow> panel_step h (diff_handleResize inner offset h)"
| timeout: "panel_step h (diff_resize_timeout h)"
| fullscreen: "ho_mounted h \<Longrightarrow> panel_step h (diff_handleFullscreenChange full h)"
| search: "has_container h \<Longrightarrow> panel_step h (diff_setSearchTerm s h)"

section \<open>The style sheet of a chart\<close>

text \<open>\<open>cssInjected\<close> and the styles in the head of the document.\<close>

record css_state =
  cs_injected :: bool
  cs_head :: "jstring list"

definition injectCSS :: "jstring \<Rightarrow> css_state \<Rightarrow> css_state" where
  "injectCSS css s = (if cs_injected s then s else s\<lparr>cs_injected := True, cs_head := cs_head s @ [css]\<rparr>)"

section \<open>Properties\<close>


definition sample_user_settings :: settings_page where
  "sample_user_settings =
     \<lparr>se_user = Some (JObj [(js ''uid'', JStr (js ''u1'')), (js ''groups'', JArr [JStr (js ''ops'')])]), se_apiHealthy = Ok, se_error = [],
      se_llm = \<lparr>ls_base_url = [], ls_model = js ''m'', ls_token = None, ls_token_configured = None, ls_token_masked = None\<rparr>,
      se_llmTokenInput = js ''t'', se_savingLLM = False\<rparr>"


text \<open>
  What the settings form sends is what it shows. The save button sends the address, the model (the
  default one when the field is empty) and the token that stand in the fields, the other button an empty token with
  the order to clear it and nothing when no token is configured; while a save is under way neither sends anything; and
  after a save that was accepted the token field is empty, so that no token is sent twice.
\<close>

theorem settings_send_shown:
  assumes "f = llm_form_of p"
    and "shown = \<lparr>lu_base_url = lf_base_url f, lu_model = or_str (lf_model f) (js ''gpt-4o-mini''), lu_token = lf_token f, lu_clear_token = False\<rparr>"
    and "cleared = shown\<lparr>lu_token := [], lu_clear_token := True\<rparr>"
  shows "press_save api p = (if se_savingLLM p then p else saveLLM (\<lambda>_. api shown, False) p) \<and>
    press_clear api p =
      (if se_savingLLM p \<or> ls_token_configured (se_llm p) \<noteq> Some True then p else saveLLM (\<lambda>_. api cleared, True) p) \<and>
    (\<forall>res. \<not> se_savingLLM p \<and> api shown = Inr res \<and> res_code res = 0 \<longrightarrow> lf_token (llm_form_of (press_save api p)) = [])"
proof -
  have "llm_payload False (p\<lparr>se_savingLLM := False, se_error := []\<rparr>) = shown"
    "llm_payload True (p\<lparr>se_savingLLM := False, se_error := []\<rparr>) = cleared"
    by (simp_all add: assms llm_payload_def llm_form_of_def)
  then show ?thesis
    by (simp add: press_save_def press_clear_def llm_form_of_def settings_buttons_def saveLLM_def Let_def del: js_Cons)
qed

theorem settings_send_shown_witness:
  "lf_token (llm_form_of (press_save (\<lambda>_. Inr \<lparr>res_code = 0, res_data = None, res_message = None\<rparr>) sample_user_settings)) = []"
proof -
  have "\<not> se_savingLLM sample_user_settings" by (simp add: sample_user_settings_def)
  then show ?thesis
    using settings_send_shown [OF refl refl refl, of "\<lambda>_. Inr \<lparr>res_code = 0, res_data = None, res_message = None\<rparr>" sample_user_settings,
        THEN conjunct2, THEN conjunct2] by simp
qed

text \<open>The steps of the panel are steps of the chart machine that keep its tree.\<close>

lemma panel_step_host: "panel_step h h' \<Longrightarrow> host_step diff_config h h'"
  by (induction rule: panel_step.induct)
    (auto simp only: diff_handleResize_def diff_resize_timeout_def diff_handleFullscreenChange_def diff_setSearchTerm_def
      intro: host_step.intros)

lemma panel_step_keeps: "panel_step h h' \<Longrightarrow> ho_data h' = ho_data h \<and> (ho_mounted h' \<longleftrightarrow> ho_mounted h)"
  by (induction rule: panel_step.induct)
    (simp_all add: diff_handleResize_def diff_resize_timeout_def diff_handleFullscreenChange_def diff_setSearchTerm_def
      host_defs split: option.split)

lemma panel_steps_host:
  "panel_step\<^sup>*\<^sup>* h h' \<Longrightarrow> (host_step diff_config)\<^sup>*\<^sup>* h h' \<and> ho_data h' = ho_data h \<and> (ho_mounted h' \<longleftrightarrow> ho_mounted h)"
proof (induction rule: rtranclp_induct)
  case (step h' h'')
  then show ?case using panel_step_host [of h' h''] panel_step_keeps [of h' h''] by (auto intro: rtranclp.rtrancl_into_rtrancl)
qed simp

text \<open>
  C21: the comparison page draws the answer to its request. When two ids are compared and the server answers
  with a tree, the page shows one part, with the ids of the answer in its head, and in every state its chart can reach
  by resizes, late redraws, full screen changes and searches the chart shows exactly the converted tree of that answer.
\<close>

theorem diff_draws_answer:
  assumes "trim (df_tid1 p) \<noteq> []" and "trim (df_tid2 p) \<noteq> []" and "trim (df_tid1 p) \<noteq> trim (df_tid2 p)"
    and "api (trim (df_tid1 p)) (trim (df_tid2 p)) = Inr \<lparr>res_code = 0, res_data = Some res, res_message = m\<rparr>"
    and "fr_tree res = Some t" and "panel_step\<^sup>*\<^sup>* (DiffFlamePanel res inner offset) h"
  shows "diff_parts (diff_onKeyDown api (js ''Enter'') p) = [DiffTree (fr_base_tid res) (fr_curr_tid res) t] \<and>
    dv_base (diff_panel_head res h) = fr_base_tid res \<and> dv_compare (diff_panel_head res h) = fr_curr_tid res \<and>
    ho_drawn h \<and> (\<exists>ch. ho_chart h = Some ch \<and> ch_data ch = transformNode t \<and> 480 \<le> ch_height ch)"
proof -
  have page: "diff_onKeyDown api (js ''Enter'') p = p\<lparr>df_error := [], df_result := Some res, df_loading := False\<rparr>"
    using assms(1-4) by (simp add: diff_onKeyDown_def doDiff_def doDiff_start_def doDiff_end_def del: js_Cons)
  have mounted: "ho_data (DiffFlamePanel res inner offset) = Some (transformNode t)" "ho_mounted (DiffFlamePanel res inner offset)"
    using assms(5) by (simp_all add: DiffFlamePanel_def mount_def host_defs)
  note steps = panel_steps_host [OF assms(6)]
  then have "host_reachable diff_config h"
    by (auto simp: host_reachable_def DiffFlamePanel_def)
  then have inv: "host_inv diff_config h" by (rule host_reachable_inv)
  have "has_container h" using steps mounted by (simp add: has_container_def)
  with inv have "ho_drawn h" "\<exists>ch. ho_chart h = Some ch \<and> ch_data ch = transformNode t \<and> 480 \<le> ch_height ch"
    using steps mounted by (auto simp: host_inv_def diff_config_def)
  moreover have "diff_parts (diff_onKeyDown api (js ''Enter'') p) = [DiffTree (fr_base_tid res) (fr_curr_tid res) t]"
    unfolding page using assms(5) by (simp add: diff_parts_def diff_result_part_def shown_if_def)
  ultimately show ?thesis by (simp add: diff_panel_head_def)
qed

definition sample_tree_result :: FlameDiffResult where
  "sample_tree_result = (sample_result [97] [98])\<lparr>fr_tree := Some (DiffTreeNode (js ''main'') (JNum (Fin 3)) Null Null None)\<rparr>"

theorem diff_draws_answer_witness:
  "\<exists>ch. ho_chart (DiffFlamePanel sample_tree_result 800 600) = Some ch \<and>
     ch_data ch = transformNode (DiffTreeNode (js ''main'') (JNum (Fin 3)) Null Null None)"
proof -
  have "trim [97] = [97]" "trim [98] = [98]" by (simp_all add: trim_def is_ws_def)
  then show ?thesis
    using diff_draws_answer [of "diff_initial (Some [97]) (Some [98])"
        "\<lambda>_ _. Inr \<lparr>res_code = 0, res_data = Some sample_tree_result, res_message = None\<rparr>" sample_tree_result None
        "DiffTreeNode (js ''main'') (JNum (Fin 3)) Null Null None" 800 600 "DiffFlamePanel sample_tree_result 800 600"]
    by (simp add: diff_initial_def opt_str_def sample_tree_result_def del: js_Cons transformNode.simps) blast
qed

text \<open>
  However many charts are mounted, the style sheet is in the head of the document once.
\<close>

theorem css_once:
  assumes "\<not> cs_injected s"
  shows "cs_head ((injectCSS css ^^ n) s) = cs_head s @ (if n = 0 then [] else [css])"
proof -
  have "cs_injected ((injectCSS css ^^ n) s) = (n \<noteq> 0) \<and> cs_head ((injectCSS css ^^ n) s) = cs_head s @ (if n = 0 then [] else [css])"
    using assms by (induction n) (auto simp: injectCSS_def)
  then show ?thesis by blast
qed

end
