(* ===== verification/Spec2Isabelle.thy ===== *)
theory Spec2Isabelle
  imports Polling Flame Timeline Session Api Task_Form Task_Pages Schedules Group_Page Diff
    Result_View Result_Load Attribution Result_Panels Admin_Pages Flame_Chart Router Task_Views Admin_Views
    Timeline_View Login_View Modal_View Result_Race App Page_Frames
begin

text \<open>
  \<^bold>\<open>The program.\<close> The repository is a profiling service: agents on the hosts run profilers, a server in Go keeps tasks and
  artifacts, a Python service analyses them, and a web client in TypeScript (\<open>src/web/src\<close>) creates tasks, follows
  them and shows their results. This development is about the web client, which talks to the rest through HTTP.
  Its parts, from below: the data types and formatting functions (\<open>domain.ts\<close>); the HTTP client with its
  interceptors (\<open>api/index.ts\<close>); the session store (\<open>store/useAuth.ts\<close>), which the login page fills and the layout
  reads; the task poller (\<open>taskPolling.ts\<close>), which the task list and the home page start after they created a task;
  the components with a form or a chart (\<open>CreateTaskModal\<close>, \<open>ScheduleTasksPanel\<close>, \<open>FlameGraph\<close>); and the pages,
  which the router puts inside the layout and the error boundary.

  \<^bold>\<open>How it is modelled.\<close> A component's state hooks are a record; a handler is a function from the answers it awaits and
  the state to the new state; what a component renders is a function from its state to the texts, rows and elements
  it puts on screen, without styles. An exception is the left value of a sum. Where answers can overlap with
  clicks, timers or each other (the application with its session, the timeline, the task list, the chart components, the
  loads of the result page and their Memray download), the component is a step relation with one rule per event, and a
  handler that awaits several answers is cut there. The uncut handler is kept as the specification of the
  steps: run without interruption they do what it does. Strings are lists of UTF-16 code units,
  numbers are rationals with the infinities and NaN, and data that arrives as JSON is an untyped value.

  \<^bold>\<open>Theories.\<close>
  \<^item> \<open>Prelude\<close>, \<open>Js_Number\<close>, \<open>Js_Value\<close>, \<open>Uri\<close>, \<open>Json\<close>: strings, numbers, untyped values, \<open>JSON.parse\<close>, \<open>parseInt\<close>,
    \<open>Number(...)\<close>, \<open>toFixed\<close>, the two URI component functions and \<open>JSON.stringify\<close>, as far as the sources use them, with the
    facts that decoding undoes encoding and parsing undoes printing. \<open>Prelude\<close> also has the interfaces:
    \<open>keyed_store\<close> (association lists as stores), \<open>guarded_handler\<close> (a handler behind a guard that
    never stays busy and reports an error exactly when it failed) and its extension \<open>list_handler\<close> (a list that
    shows one of a note, an error or its rows), and \<open>machine\<close> (an invariant that the initial states have and the steps
    keep, with what follows for runs and their length). They are interpreted on the handlers and step relations of the pages; \<open>stack_counter\<close>
    in \<open>Flame\<close> is the interface between the loop over the lines of a collapsed file and the tree it fills.
  \<^item> \<open>Domain\<close>: the interfaces of \<open>domain.ts\<close> as records, its tables and formatting functions.
  \<^item> \<open>Api\<close>, \<open>Session\<close>, \<open>Login_View\<close>: every API function as the request it sends; cookies, interceptors, the store,
    the login form with both ways to submit it, and the guard of the layout. Distinct calls send distinct requests;
    what login stores is what later requests send; logout forgets it; the login page is left only signed in.
  \<^item> \<open>App\<close>: the application as it runs: the address, the router's choice, the error boundary, the layout with its side bar,
    the store, the check of the session that is under way and the login forms that were submitted. It refines an
    abstract session, whose user is the one the last events vouched for; every redirect and wait ends; and when the server answers
    a check with the user whose cookies the request carried, the user in the header is the one of the requests, unless a
    form was submitted while a check was under way.
  \<^item> \<open>Polling\<close>: \<open>waitForTaskResult\<close> with its waits, its single analysis request and the abort signal: it ends after at
    most 120 rounds, returns the finished task if there is one within them, and returns nothing else.
  \<^item> \<open>Flame\<close>, \<open>Flame_Chart\<close>, \<open>Diff\<close>: the two tree builders of \<open>FlameGraph.tsx\<close> and the counts they keep; the
    comparison page with \<open>transformNode\<close>; and one machine for the two components that keep a chart in a container, with
    drawing, removal, delayed redraw, full screen and search. The container always holds the chart of the
    current tree, and resizes settle in one redraw.
  \<^item> \<open>Task_Form\<close>, \<open>Modal_View\<close>, \<open>Task_Pages\<close>, \<open>Task_Views\<close>, \<open>Task_Race\<close>, \<open>Schedules\<close>: the dialog with every field handler, the task
    list (also with overlapping loads, submissions and pollers), the home page and the schedule panel, and what they show. Whatever is typed and chosen, a submitted task
    has a valid target, duration and rate, namely the ones in the fields; what the lists show follows from the
    last load.
  \<^item> \<open>Group_Page\<close>, \<open>Admin_Pages\<close>, \<open>Admin_Views\<close>: groups and the cache of their members, agents, settings.
  \<^item> \<open>Page_Frames\<close>: whole pages, put together from the parts of the theories above: task list, home, agents, agent detail,
    groups, settings, comparison and the frame of the dialog. The groups a user reads on the settings
    page are the printed form of what the server sent, and the chart of the comparison page draws the last answer.
  \<^item> \<open>Result_View\<close>, \<open>Result_Load\<close>, \<open>Result_Steps\<close>, \<open>Result_Race\<close>, \<open>Attribution\<close>, \<open>Result_Panels\<close>: the result page: which tabs a task
    has, how its artifacts are loaded independently of each other, the same load cut at each of its requests, loads that
    overlap in any order of answers (they settle, the flag of the page ends with them, and the object URLs of the Memray
    report are the ones of the abstract owner), the parser of the attribution
    report (a round trip with its printer), and every tab. The tab bar shows exactly the visible
    tabs, and a tab says that data is missing exactly when it is.
  \<^item> \<open>Timeline\<close>, \<open>Timeline_View\<close>: the timeline of continuous profiling as a step relation over clicks, ticks and answers,
    and its view. Whatever is shown belongs to the selected window, in every order of events.
  \<^item> \<open>Router\<close>: the route table, the links of the pages and the ids read back from them, the side bar, the error
    boundary.
  \<^item> This theory: what the profiler recorded is what the result page and the timeline draw, and a task that is
    submitted is opened, followed and returned.

  \<^bold>\<open>Bounds and fuel.\<close> The poll loop runs over the 120 rounds of the source (\<open>MAX_POLL_COUNT\<close>). \<open>JSON.parse\<close> takes
  twice the length of the text plus two as fuel; more fuel gives the same result (\<open>Js_Value.parse_more_fuel\<close>), since
  every call that spends a unit either consumes a character or is followed by one that does. The loop of
  \<open>formatBytes\<close> is stated as the \<open>while\<close> of the source and proved to end; the definition that is evaluated counts the
  four units down. All other recursion is structural or has a termination proof.

  \<^bold>\<open>Parameters.\<close> The answers of the server; the calendar (\<open>new Date\<close>, \<open>toLocaleString\<close>, \<open>toISOString\<close>); the matching of
  react-router, with its documented behaviour as the hypothesis \<open>router_lawful\<close>, which a concrete matcher
  satisfies; the order in which a sort leaves rows whose comparator returns NaN.

  \<^bold>\<open>Not modelled.\<close> The API server, the agents, the analysis service and the scripts are other programs behind the HTTP
  interface. Inside the client: styles, icons and animations; what d3-flame-graph, antd, axios and react-router do inside; the
  order in which React renders and flushes state between two events, React keys, and the error React raises
  for an object in place of a text; rounding of double-precision numbers, which are rationals here.

  \<^bold>\<open>Next.\<close> Overlapping answers on the home, group and schedule pages, whose handlers are modelled one at a time; one
  machine for the application and the page it shows, so that the pollers of a page that was left meet the address.
\<close>

section \<open>Properties that span components\<close>


definition drawn_server :: result_server where
  "drawn_server =
     sample_result_server
       \<lparr>rs_files := Inr \<lparr>res_code = 0,
          res_data = Some [\<lparr>cf_key = Some (js ''t/collapsed.txt''), cf_name = None, cf_url = [], cf_size = None\<rparr>],
          res_message = None\<rparr>,
        rs_text := (\<lambda>_. Inr (JStr (collapsed_text [([js ''main'', js ''f''], 3)])))\<rparr>"



text \<open>A server whose windows all have the same two samples, and the page after its first load.\<close>

definition sampled_server :: server where
  "sampled_server = sample_server\<lparr>srv_text := (\<lambda>_ _. Inr (JStr (collapsed_text [([js ''main'', js ''f''], 3)])))\<rparr>"

definition drawn :: timeline where
  "drawn = artifact_answered sampled_server (opened_load\<lparr>ld_stage := AwaitCollapsed [107]\<rparr>)
     (flame_answered sampled_server opened_load opened)"

lemma drawn_loads:
  "flame_answered sampled_server opened_load opened = advance_load opened_load (AwaitCollapsed [107]) opened"
  "tm_loads (advance_load opened_load (AwaitCollapsed [107]) opened) = [opened_load\<lparr>ld_stage := AwaitCollapsed [107]\<rparr>]"
  using opened_fields(2,4)
  by (simp_all add: flame_answered_def advance_load_def sampled_server_def sample_server_def current_def opened_load_def
      opt_str_def Let_def)

lemma opened_sampled: "tm_reachable sampled_server sample_clock [77] opened"
proof -
  have "True \<in> set (tm_fetches (mounted sample_clock [77]))"
    by (simp add: sample_defs)
  from tm_step.windows [OF this, of sampled_server sample_clock two_windows]
  have "tm_step sampled_server sample_clock (mounted sample_clock [77]) opened"
    by (simp add: opened_def sample_defs)
  then show ?thesis
    using tm_reachable.start tm_reachable.step by blast
qed

lemma drawn_reachable: "tm_reachable sampled_server sample_clock [77] drawn"
proof -
  have "tm_step sampled_server sample_clock opened (flame_answered sampled_server opened_load opened)"
    using opened_fields(2) by (intro tm_step.flame) (simp_all add: opened_load_def)
  moreover have "tm_step sampled_server sample_clock (flame_answered sampled_server opened_load opened) drawn"
    unfolding drawn_def drawn_loads(1) by (intro tm_step.artifact) (simp_all add: drawn_loads(2))
  ultimately show ?thesis
    using opened_sampled tm_reachable.step by blast
qed

lemma drawn_panel:
  "tm_selected drawn = Some (sample_window 2 1)"
  "timeline_panel sample_time_env drawn =
     WindowPanel (window_title (sample_window 2 1)) [2]
       (full_time sample_time_env [] @ js '' ~ '' @ full_time sample_time_env [])
       (FlameElement (collapsed_text [([js ''main'', js ''f''], 3)]) [])"
proof -
  have nonempty: "collapsed_text [([js ''main'', js ''f''], 3)] \<noteq> []"
    by (simp add: collapsed_text_def collapsed_line_def)
  have fields: "tm_selected drawn = Some (sample_window 2 1)" "\<not> tm_loading drawn" "tm_topn drawn = []"
    "tm_collapsedText drawn = collapsed_text [([js ''main'', js ''f''], 3)]"
    by (simp_all add: drawn_def opened_def two_windows_def opened_load_def sampled_server_def sample_defs opt_str_def)
  then show "tm_selected drawn = Some (sample_window 2 1)" by simp
  show "timeline_panel sample_time_env drawn =
     WindowPanel (window_title (sample_window 2 1)) [2]
       (full_time sample_time_env [] @ js '' ~ '' @ full_time sample_time_env [])
       (FlameElement (collapsed_text [([js ''main'', js ''f''], 3)]) [])"
    using fields nonempty by (simp add: timeline_panel_def window_content_of_def sample_window_def)
qed




end
